(* ===== verification/Lingshu_Prelude.thy ===== *)
theory Lingshu_Prelude
  imports Main "HOL-Library.AList" "HOL-Library.Multiset" "HOL-Library.List_Lexorder"
    "HOL-Library.Char_ord" "HOL-Library.Product_Lexorder"
begin

section \<open>Shared vocabulary: Python dicts, computations with errors, list scans\<close>

text \<open>
  What every component theory of the development builds on:
  \<^item> Python's insertion-ordered dict as an association list (\<open>'v dict\<close>): assignment to a key is
    \<open>AList.update\<close>, which keeps the position of an existing key and appends a new one; reading
    is \<open>map_of\<close>; \<open>dupdate\<close> is \<open>d.update(e)\<close> and \<open>{**d, **e}\<close>;
  \<^item> a computation that reads and writes a state and may raise, \<open>('s, 'e, 'a) comp\<close>: the state is
    returned on the error path too, because the stores the code writes (graph, cache) keep what was
    written before an exception;
  \<^item> \<open>single\<close>, the first row of a query result, and facts about scanning lists of rows.
\<close>

named_theorems dict_simps \<open>reading a dict after an operation on it\<close>
named_theorems comp_simps \<open>running a composed computation\<close>
named_theorems query_simps \<open>what a query of a repository selects\<close>

subsection \<open>Dicts\<close>

type_synonym 'v dict = "(string \<times> 'v) list"

abbreviation dget :: "'v dict \<Rightarrow> string \<Rightarrow> 'v option" where
  "dget d k \<equiv> map_of d k"

abbreviation dput :: "string \<Rightarrow> 'v \<Rightarrow> 'v dict \<Rightarrow> 'v dict" where
  "dput k v d \<equiv> AList.update k v d"

definition dget_or :: "'v dict \<Rightarrow> string \<Rightarrow> 'v \<Rightarrow> 'v" where
  "dget_or d k x = (case map_of d k of None \<Rightarrow> x | Some v \<Rightarrow> v)"

definition dupdate :: "'v dict \<Rightarrow> 'v dict \<Rightarrow> 'v dict" where
  "dupdate d e = fold (\<lambda>(k, v) acc. AList.update k v acc) e d"

definition dfilter :: "(string \<Rightarrow> bool) \<Rightarrow> 'v dict \<Rightarrow> 'v dict" where
  "dfilter P d = filter (\<lambda>kv. P (fst kv)) d"

definition dict_ok :: "'v dict \<Rightarrow> bool" where
  "dict_ok d \<longleftrightarrow> distinct (map fst d)"

lemma dget_dput [dict_simps, simp]:
  "map_of (AList.update k v d) j = (if j = k then Some v else map_of d j)"
  by (simp add: update_conv')

lemma dget_delete [dict_simps, simp]:
  "map_of (AList.delete k d) j = (if j = k then None else map_of d j)"
  by (simp add: delete_conv')

lemma dupdate_Nil [dict_simps, simp]: "dupdate d [] = d"
  by (simp add: dupdate_def)

lemma dupdate_Cons [dict_simps, simp]:
  "dupdate d ((k, v) # e) = dupdate (AList.update k v d) e"
  by (simp add: dupdate_def)

lemma dupdate_append: "dupdate d (e @ f) = dupdate (dupdate d e) f"
  by (simp add: dupdate_def)

lemma dget_dupdate:
  "map_of (dupdate d e) k =
     (case map_of (rev e) k of Some v \<Rightarrow> Some v | None \<Rightarrow> map_of d k)"
proof (induction e arbitrary: d)
  case Nil
  then show ?case by simp
next
  case (Cons kv e)
  obtain k' v where kv: "kv = (k', v)" by (cases kv)
  show ?case
    by (simp add: kv Cons.IH map_add_def split: option.splits)
qed

lemma map_of_rev_ok: "dict_ok d \<Longrightarrow> map_of (rev d) = map_of d"
  by (simp add: dict_ok_def map_of_inject_set rev_map [symmetric])

lemma dget_dupdate_ok:
  assumes "dict_ok e"
  shows "map_of (dupdate d e) k = (case map_of e k of Some v \<Rightarrow> Some v | None \<Rightarrow> map_of d k)"
  by (simp add: dget_dupdate map_of_rev_ok [OF assms])

lemma dget_dfilter [dict_simps]:
  "map_of (dfilter P d) k = (if P k then map_of d k else None)"
  unfolding dfilter_def by (induction d) auto

lemma dict_ok_dput [simp]: "dict_ok d \<Longrightarrow> dict_ok (AList.update k v d)"
  by (simp add: dict_ok_def distinct_update)

lemma dict_ok_delete [simp]: "dict_ok d \<Longrightarrow> dict_ok (AList.delete k d)"
  by (simp add: dict_ok_def distinct_delete)

lemma dict_ok_dupdate: "dict_ok d \<Longrightarrow> dict_ok (dupdate d e)"
  by (induction e arbitrary: d) (auto simp: dupdate_def)

lemma dict_ok_Nil [simp]: "dict_ok []"
  by (simp add: dict_ok_def)

subsection \<open>Computations that may raise\<close>

type_synonym ('s, 'e, 'a) comp = "'s \<Rightarrow> ('e + 'a) \<times> 's"

definition retC :: "'a \<Rightarrow> ('s, 'e, 'a) comp" where
  "retC x s = (Inr x, s)"

definition raiseC :: "'e \<Rightarrow> ('s, 'e, 'a) comp" where
  "raiseC e s = (Inl e, s)"

definition bindC :: "('s, 'e, 'a) comp \<Rightarrow> ('a \<Rightarrow> ('s, 'e, 'b) comp) \<Rightarrow> ('s, 'e, 'b) comp" where
  "bindC m f s = (case m s of (Inl e, s') \<Rightarrow> (Inl e, s') | (Inr x, s') \<Rightarrow> f x s')"

definition thenC :: "('s, 'e, 'a) comp \<Rightarrow> ('s, 'e, 'b) comp \<Rightarrow> ('s, 'e, 'b) comp" where
  "thenC m n = bindC m (\<lambda>_. n)"

definition readC :: "('s \<Rightarrow> 'a) \<Rightarrow> ('s, 'e, 'a) comp" where
  "readC f s = (Inr (f s), s)"

definition modifyC :: "('s \<Rightarrow> 's) \<Rightarrow> ('s, 'e, unit) comp" where
  "modifyC f s = (Inr (), f s)"

definition liftC :: "'e + 'a \<Rightarrow> ('s, 'e, 'a) comp" where
  "liftC r s = (r, s)"

definition unlessC :: "bool \<Rightarrow> 'e \<Rightarrow> ('s, 'e, unit) comp" where
  "unlessC b e s = (if b then Inr () else Inl e, s)"

text \<open>Python's \<open>try: m finally: fin\<close>, for a \<open>fin\<close> that cannot raise.\<close>

definition finallyC :: "('s, 'e, 'a) comp \<Rightarrow> ('s \<Rightarrow> 's) \<Rightarrow> ('s, 'e, 'a) comp" where
  "finallyC m fin s = (case m s of (r, s') \<Rightarrow> (r, fin s'))"

fun forC :: "'a list \<Rightarrow> ('a \<Rightarrow> ('s, 'e, unit) comp) \<Rightarrow> ('s, 'e, unit) comp" where
  "forC [] f = retC ()"
| "forC (x # xs) f = bindC (f x) (\<lambda>_. forC xs f)"

text \<open>A list comprehension whose element may raise.\<close>

fun mapE :: "('a \<Rightarrow> 'e + 'b) \<Rightarrow> 'a list \<Rightarrow> 'e + 'b list" where
  "mapE f [] = Inr []"
| "mapE f (x # xs) =
     (case f x of
        Inl e \<Rightarrow> Inl e
      | Inr y \<Rightarrow> (case mapE f xs of Inl e \<Rightarrow> Inl e | Inr ys \<Rightarrow> Inr (y # ys)))"

lemma mapE_ok_iff:
  "mapE f xs = Inr ys \<longleftrightarrow> list_all2 (\<lambda>x y. f x = Inr y) xs ys"
proof (induction xs arbitrary: ys)
  case Nil
  show ?case by auto
next
  case (Cons x xs)
  have "mapE f (x # xs) = Inr ys \<longleftrightarrow>
      (\<exists>z zs. ys = z # zs \<and> f x = Inr z \<and> mapE f xs = Inr zs)"
    by (auto split: sum.splits)
  then show ?case by (simp only: Cons.IH list_all2_Cons1)
qed

lemma retC_run [comp_simps, simp]: "retC x s = (Inr x, s)"
  by (simp add: retC_def)

lemma raiseC_run [comp_simps, simp]: "raiseC e s = (Inl e, s)"
  by (simp add: raiseC_def)

lemma readC_run [comp_simps, simp]: "readC f s = (Inr (f s), s)"
  by (simp add: readC_def)

lemma modifyC_run [comp_simps, simp]: "modifyC f s = (Inr (), f s)"
  by (simp add: modifyC_def)

lemma liftC_run [comp_simps, simp]: "liftC r s = (r, s)"
  by (simp add: liftC_def)

lemma unlessC_run [comp_simps, simp]: "unlessC b e s = (if b then Inr () else Inl e, s)"
  by (simp add: unlessC_def)

lemma bindC_run [comp_simps]:
  "bindC m f s = (case fst (m s) of Inl e \<Rightarrow> (Inl e, snd (m s)) | Inr x \<Rightarrow> f x (snd (m s)))"
  by (simp add: bindC_def split: prod.splits sum.splits)

lemma bindC_ok_iff:
  "bindC m f s = (Inr y, t) \<longleftrightarrow> (\<exists>x s'. m s = (Inr x, s') \<and> f x s' = (Inr y, t))"
  by (auto simp: bindC_def split: prod.splits sum.splits)

lemma bindC_err_iff:
  "bindC m f s = (Inl e, t) \<longleftrightarrow>
     m s = (Inl e, t) \<or> (\<exists>x s'. m s = (Inr x, s') \<and> f x s' = (Inl e, t))"
  by (auto simp: bindC_def split: prod.splits sum.splits)

lemma bindC_okE:
  assumes "bindC m f s = (Inr y, t)"
  obtains x s' where "m s = (Inr x, s')" and "f x s' = (Inr y, t)"
  using assms by (auto simp: bindC_ok_iff)

lemma bindC_retC [simp]: "bindC (retC x) f = f x"
  by (rule ext) (simp add: bindC_def)

lemma bindC_assoc: "bindC (bindC m f) g = bindC m (\<lambda>x. bindC (f x) g)"
  by (rule ext) (simp add: bindC_def split: prod.splits sum.splits)

text \<open>
  A relation every step of a computation keeps: the tool for frame facts. It has to be
  reflexive and transitive.
\<close>

definition keeps :: "('s \<Rightarrow> 's \<Rightarrow> bool) \<Rightarrow> ('s, 'e, 'a) comp \<Rightarrow> bool" where
  "keeps R m \<longleftrightarrow> (\<forall>s. R s (snd (m s)))"

lemma keepsD: "keeps R m \<Longrightarrow> m s = (r, t) \<Longrightarrow> R s t"
  by (metis keeps_def snd_conv)

lemma keeps_bindC:
  assumes "transp R" and "keeps R m" and "\<And>x. keeps R (f x)"
  shows "keeps R (bindC m f)"
  unfolding keeps_def
proof
  fix s
  have m: "R s (snd (m s))" using assms(2) by (simp add: keeps_def)
  have f: "R (snd (m s)) (snd (f x (snd (m s))))" for x
    using assms(3) by (simp add: keeps_def)
  show "R s (snd (bindC m f s))"
    using m f assms(1) by (auto simp: bindC_run split: sum.splits dest: transpD)
qed

lemma keeps_forC:
  assumes "reflp R" and "transp R" and "\<And>x. x \<in> set xs \<Longrightarrow> keeps R (f x)"
  shows "keeps R (forC xs f)"
  using assms(3)
proof (induction xs)
  case Nil
  then show ?case using assms(1) by (simp add: keeps_def reflpD)
next
  case (Cons x xs)
  then show ?case using assms(2) by (simp add: keeps_bindC)
qed

lemma keeps_pure:
  assumes "reflp R"
  shows "keeps R (retC x)" and "keeps R (raiseC e)" and "keeps R (readC g)"
    and "keeps R (liftC r)" and "keeps R (unlessC b e)"
  using assms by (simp_all add: keeps_def reflpD)

lemma keeps_finallyC:
  assumes "transp R" and "keeps R m" and "\<And>s. R s (fin s)"
  shows "keeps R (finallyC m fin)"
  unfolding keeps_def
proof
  fix s
  have "R s (snd (m s))" using assms(2) by (simp add: keeps_def)
  then have "R s (fin (snd (m s)))" using assms(1,3) by (blast dest: transpD)
  then show "R s (snd (finallyC m fin s))" by (simp add: finallyC_def case_prod_beta)
qed

subsection \<open>Rows\<close>

text \<open>
  \<open>single()\<close> of the graph driver and \<open>scalar_one_or_none()\<close> on a unique key: the first row of a
  result, if there is one.
\<close>

definition single :: "'a list \<Rightarrow> 'a option" where
  "single xs = (case xs of [] \<Rightarrow> None | x # _ \<Rightarrow> Some x)"

lemma single_simps [simp]: "single [] = None" "single (x # xs) = Some x"
  by (simp_all add: single_def)

lemma single_None_iff [simp]: "single xs = None \<longleftrightarrow> xs = []"
  by (cases xs) auto

lemma single_in: "single xs = Some x \<Longrightarrow> x \<in> set xs"
  by (cases xs) auto

lemma single_filter_iff:
  assumes "\<And>x y. x \<in> set xs \<Longrightarrow> y \<in> set xs \<Longrightarrow> P x \<Longrightarrow> P y \<Longrightarrow> x = y"
  shows "single (filter P xs) = Some x \<longleftrightarrow> x \<in> set xs \<and> P x"
proof
  assume "single (filter P xs) = Some x"
  then show "x \<in> set xs \<and> P x" by (auto dest: single_in)
next
  assume x: "x \<in> set xs \<and> P x"
  then obtain y ys where y: "filter P xs = y # ys"
    by (metis filter_empty_conv list.exhaust)
  then have "y \<in> set (filter P xs)" by simp
  then have "y \<in> set xs \<and> P y" by simp
  with x assms have "x = y" by blast
  with y show "single (filter P xs) = Some x" by simp
qed

text \<open>A lookup that can match one row only does not depend on the order the rows are scanned in.\<close>

lemma single_filter_mset_eq:
  assumes "mset xs = mset ys"
    and "\<And>x y. x \<in> set xs \<Longrightarrow> y \<in> set xs \<Longrightarrow> P x \<Longrightarrow> P y \<Longrightarrow> x = y"
  shows "single (filter P xs) = single (filter P ys)"
proof -
  have s: "set xs = set ys" using assms(1) by (rule mset_eq_setD)
  show ?thesis
  proof (cases "single (filter P xs)")
    case None
    then have "filter P xs = []" by simp
    then have "filter P ys = []" using s by (simp add: filter_empty_conv)
    then show ?thesis using None by simp
  next
    case (Some x)
    then have "x \<in> set (filter P xs)" by (rule single_in)
    then have "x \<in> set ys \<and> P x" using s by simp
    moreover have "single (filter P ys) = Some x \<longleftrightarrow> x \<in> set ys \<and> P x"
      by (rule single_filter_iff) (rule assms(2) [unfolded s])
    ultimately show ?thesis using Some by simp
  qed
qed

definition page :: "nat \<Rightarrow> nat \<Rightarrow> 'a list \<Rightarrow> 'a list" where
  "page offset limit xs = take limit (drop offset xs)"

text \<open>A stable descending sort, \<open>ORDER BY key DESC\<close>.\<close>

definition sort_desc :: "('a \<Rightarrow> 'k::linorder) \<Rightarrow> 'a list \<Rightarrow> 'a list" where
  "sort_desc f xs = rev (sort_key f (rev xs))"

lemma mset_sort_desc [simp]: "mset (sort_desc f xs) = mset xs"
  by (simp add: sort_desc_def)

lemma set_sort_desc [simp]: "set (sort_desc f xs) = set xs"
  by (simp add: sort_desc_def)

lemma length_sort_desc [simp]: "length (sort_desc f xs) = length xs"
  by (simp add: sort_desc_def)

text \<open>Substring test, \<open>a in b\<close> and Cypher's \<open>CONTAINS\<close>.\<close>

fun is_prefix :: "'a list \<Rightarrow> 'a list \<Rightarrow> bool" where
  "is_prefix [] ys = True"
| "is_prefix (x # xs) [] = False"
| "is_prefix (x # xs) (y # ys) = (x = y \<and> is_prefix xs ys)"

fun contains :: "'a list \<Rightarrow> 'a list \<Rightarrow> bool" where
  "contains p [] = (p = [])"
| "contains p (y # ys) = (is_prefix p (y # ys) \<or> contains p ys)"

lemma is_prefix_iff: "is_prefix p s \<longleftrightarrow> (\<exists>t. s = p @ t)"
  by (induction p s rule: is_prefix.induct) auto

lemma contains_iff: "contains p s \<longleftrightarrow> (\<exists>a b. s = a @ p @ b)"
proof (induction p s rule: contains.induct)
  case (1 p)
  then show ?case by simp
next
  case (2 p y ys)
  show ?case
  proof
    assume "contains p (y # ys)"
    then show "\<exists>a b. y # ys = a @ p @ b"
      using 2 by (metis append_Cons append_Nil contains.simps(2) is_prefix_iff)
  next
    assume "\<exists>a b. y # ys = a @ p @ b"
    then obtain a b where e: "y # ys = a @ p @ b" by blast
    show "contains p (y # ys)"
    proof (cases a)
      case Nil
      then have "is_prefix p (y # ys)" using e is_prefix_iff by fastforce
      then show ?thesis by simp
    next
      case (Cons z zs)
      then have "ys = zs @ p @ b" using e by simp
      then show ?thesis using 2 by auto
    qed
  qed
qed

text \<open>\<open>s.lower()\<close>, for the ASCII letters: no other letter below 256 becomes one of them.\<close>

definition lower :: "string \<Rightarrow> string" where
  "lower s = map (\<lambda>c. let n = of_char c :: nat in if 65 \<le> n \<and> n \<le> 90 then char_of (n + 32) else c) s"

end
