(* ===== verification/Py_Json.thy ===== *)
theory Py_Json
  imports Lingshu_Prelude
begin

section \<open>Python values and the JSON text they are stored as\<close>

text \<open>
  The dynamic values that node properties, request bodies and error details carry, and the part of
  Python's \<open>json\<close> module the ontology service calls on them: \<open>json.dumps\<close> with its default
  separators and ASCII escapes, and \<open>json.loads\<close> as a recursive descent over the text.
  A \<open>string\<close> holds code points below 256. A float is kept as its literal, which is what is
  written back. The main fact is \<open>json_loads_dumps\<close>: reading what was written gives the value back.
\<close>

datatype pyval =
    PNone
  | PBool bool
  | PInt int
  | PFloat string
  | PStr string
  | PList "pyval list"
  | PDict "(string \<times> pyval) list"

text \<open>Truth testing: \<open>if v\<close>.\<close>

fun py_truthy :: "pyval \<Rightarrow> bool" where
  "py_truthy PNone = False"
| "py_truthy (PBool b) = b"
| "py_truthy (PInt i) = (i \<noteq> 0)"
| "py_truthy (PFloat s) =
     (\<exists>c \<in> set (takeWhile (\<lambda>c. c \<noteq> CHR ''e'' \<and> c \<noteq> CHR ''E'') s). c \<noteq> CHR ''0'' \<and> c \<noteq> CHR ''.'' \<and> c \<noteq> CHR ''-'')"
| "py_truthy (PStr s) = (s \<noteq> [])"
| "py_truthy (PList xs) = (xs \<noteq> [])"
| "py_truthy (PDict d) = (d \<noteq> [])"

text \<open>\<open>d.get(k)\<close> on a dict of values: None where the key is absent.\<close>

definition pget :: "pyval dict \<Rightarrow> string \<Rightarrow> pyval" where
  "pget d k = (case map_of d k of None \<Rightarrow> PNone | Some v \<Rightarrow> v)"

text \<open>\<open>d.get(k, '''')\<close> read as a string, for the keys that hold strings.\<close>

definition pget_str :: "pyval dict \<Rightarrow> string \<Rightarrow> string" where
  "pget_str d k = (case map_of d k of Some (PStr s) \<Rightarrow> s | _ \<Rightarrow> [])"

lemma pget_dput [dict_simps, simp]:
  "pget (AList.update k v d) j = (if j = k then v else pget d j)"
  by (simp add: pget_def)

text \<open>
  Python's \<open>==\<close>: \<open>True == 1\<close>, lists element by element, dicts by their items whatever the order
  the keys were inserted in.
\<close>

function py_eq :: "pyval \<Rightarrow> pyval \<Rightarrow> bool" where
  "py_eq PNone v = (v = PNone)"
| "py_eq (PBool b) v =
     (case v of PBool c \<Rightarrow> b = c | PInt j \<Rightarrow> j = (if b then 1 else 0) | _ \<Rightarrow> False)"
| "py_eq (PInt i) v =
     (case v of PBool c \<Rightarrow> i = (if c then 1 else 0) | PInt j \<Rightarrow> i = j | _ \<Rightarrow> False)"
| "py_eq (PFloat s) v = (v = PFloat s)"
| "py_eq (PStr s) v = (v = PStr s)"
| "py_eq (PList xs) v =
     (case v of PList ys \<Rightarrow>
        length xs = length ys \<and> list_all (\<lambda>(x, y). py_eq x y) (zip xs ys)
      | _ \<Rightarrow> False)"
| "py_eq (PDict d) v =
     (case v of PDict e \<Rightarrow>
        length d = length e \<and>
        list_all (\<lambda>(k, x). case map_of e k of Some y \<Rightarrow> py_eq x y | None \<Rightarrow> False) d
      | _ \<Rightarrow> False)"
  by pat_completeness auto
termination
proof (relation "measure (\<lambda>(v, w). size v)", goal_cases)
  case 1
  show ?case by simp
next
  case (2 xs v ys z x y)
  then have "x \<in> set xs" by (auto dest: set_zip_leftD)
  then have "size x < size (PList xs)" by (induction xs) auto
  then show ?case by simp
next
  case (3 d v e z k x y)
  then have "(k, x) \<in> set d" by simp
  then have "size x < size (PDict d)" by (induction d) auto
  then show ?case by simp
qed

subsection \<open>Writing: json.dumps\<close>

definition digit_char :: "nat \<Rightarrow> char" where
  "digit_char d = char_of (48 + d)"

fun nat_str :: "nat \<Rightarrow> string" where
  "nat_str n = (if n < 10 then [digit_char n] else nat_str (n div 10) @ [digit_char (n mod 10)])"

declare nat_str.simps [simp del]

definition int_str :: "int \<Rightarrow> string" where
  "int_str i = (if i < 0 then CHR ''-'' # nat_str (nat (- i)) else nat_str (nat i))"

definition hex_char :: "nat \<Rightarrow> char" where
  "hex_char d = (if d < 10 then char_of (48 + d) else char_of (87 + d))"

abbreviation quote :: char where "quote \<equiv> CHR 0x22"
abbreviation bslash :: char where "bslash \<equiv> CHR 0x5C"

definition json_esc :: "char \<Rightarrow> string" where
  "json_esc c =
     (let n = of_char c :: nat in
      if n = 34 then [bslash, quote]
      else if n = 92 then [bslash, bslash]
      else if n = 10 then [bslash, CHR ''n'']
      else if n = 13 then [bslash, CHR ''r'']
      else if n = 9 then [bslash, CHR ''t'']
      else if n = 12 then [bslash, CHR ''f'']
      else if n = 8 then [bslash, CHR ''b'']
      else if 32 \<le> n \<and> n < 127 then [c]
      else [bslash, CHR ''u'', CHR ''0'', CHR ''0'', hex_char (n div 16), hex_char (n mod 16)])"

definition json_str :: "string \<Rightarrow> string" where
  "json_str s = quote # concat (map json_esc s) @ [quote]"

fun join :: "string \<Rightarrow> string list \<Rightarrow> string" where
  "join sep [] = []"
| "join sep [x] = x"
| "join sep (x # y # ys) = x @ sep @ join sep (y # ys)"

fun json_dumps :: "pyval \<Rightarrow> string" where
  "json_dumps PNone = ''null''"
| "json_dumps (PBool b) = (if b then ''true'' else ''false'')"
| "json_dumps (PInt i) = int_str i"
| "json_dumps (PFloat s) = s"
| "json_dumps (PStr s) = json_str s"
| "json_dumps (PList xs) = ''['' @ join '', '' (map json_dumps xs) @ '']''"
| "json_dumps (PDict d) =
     ''{'' @ join '', '' (map (\<lambda>(k, v). json_str k @ '': '' @ json_dumps v) d) @ ''}''"

subsection \<open>Reading: json.loads\<close>

definition is_digit :: "char \<Rightarrow> bool" where
  "is_digit c \<longleftrightarrow> 48 \<le> (of_char c :: nat) \<and> (of_char c :: nat) \<le> 57"

definition digit_val :: "char \<Rightarrow> nat" where
  "digit_val c = of_char c - 48"

definition nat_of_digits :: "string \<Rightarrow> nat" where
  "nat_of_digits s = foldl (\<lambda>n c. n * 10 + digit_val c) 0 s"

definition hex_val :: "char \<Rightarrow> nat option" where
  "hex_val c =
     (let n = of_char c :: nat in
      if 48 \<le> n \<and> n \<le> 57 then Some (n - 48)
      else if 97 \<le> n \<and> n \<le> 102 then Some (n - 87)
      else if 65 \<le> n \<and> n \<le> 70 then Some (n - 55)
      else None)"

definition hex4 :: "char \<Rightarrow> char \<Rightarrow> char \<Rightarrow> char \<Rightarrow> nat option" where
  "hex4 a b c d =
     (case (hex_val a, hex_val b, hex_val c, hex_val d) of
        (Some w, Some x, Some y, Some z) \<Rightarrow> Some (((w * 16 + x) * 16 + y) * 16 + z)
      | _ \<Rightarrow> None)"

definition json_unesc :: "char \<Rightarrow> char option" where
  "json_unesc e =
     (if e = quote \<or> e = bslash \<or> e = CHR ''/'' then Some e
      else if e = CHR ''n'' then Some (CHR 0x0A)
      else if e = CHR ''r'' then Some (CHR 0x0D)
      else if e = CHR ''t'' then Some (CHR 0x09)
      else if e = CHR ''f'' then Some (CHR 0x0C)
      else if e = CHR ''b'' then Some (CHR 0x08)
      else None)"

text \<open>The rest of a string literal after its opening quote; control characters are refused.\<close>

fun jp_string :: "string \<Rightarrow> (string \<times> string) option" where
  "jp_string [] = None"
| "jp_string (c # s) =
     (if c = quote then Some ([], s)
      else if c = bslash then
        (case s of
           [] \<Rightarrow> None
         | e # t \<Rightarrow>
             if e = CHR ''u'' then
               (case t of
                  h1 # h2 # h3 # h4 # r \<Rightarrow>
                    (case hex4 h1 h2 h3 h4 of
                       Some n \<Rightarrow>
                         if n < 256
                         then map_option (\<lambda>(u, r'). (char_of n # u, r')) (jp_string r)
                         else None
                     | None \<Rightarrow> None)
                | _ \<Rightarrow> None)
             else
               (case json_unesc e of
                  Some x \<Rightarrow> map_option (\<lambda>(u, r'). (x # u, r')) (jp_string t)
                | None \<Rightarrow> None))
      else if (of_char c :: nat) < 32 then None
      else map_option (\<lambda>(u, r'). (c # u, r')) (jp_string s))"

definition is_ws :: "char \<Rightarrow> bool" where
  "is_ws c \<longleftrightarrow> c = CHR '' '' \<or> c = CHR 0x09 \<or> c = CHR 0x0A \<or> c = CHR 0x0D"

abbreviation skip_ws :: "string \<Rightarrow> string" where
  "skip_ws s \<equiv> dropWhile is_ws s"

text \<open>\<open>(-?(?:0|[1-9][0-9]*))(\.[0-9]+)?([eE][-+]?[0-9]+)?\<close>\<close>

definition num_frac :: "string \<Rightarrow> string \<times> string" where
  "num_frac s =
     (case s of
        c # t \<Rightarrow>
          (if c = CHR ''.'' \<and> takeWhile is_digit t \<noteq> []
           then (c # takeWhile is_digit t, dropWhile is_digit t) else ([], s))
      | [] \<Rightarrow> ([], s))"

definition num_exp :: "string \<Rightarrow> string \<times> string" where
  "num_exp s =
     (case s of
        c # t \<Rightarrow>
          (if c = CHR ''e'' \<or> c = CHR ''E'' then
             (case t of
                d # u \<Rightarrow>
                  (if (d = CHR ''+'' \<or> d = CHR ''-'') \<and> takeWhile is_digit u \<noteq> []
                   then (c # d # takeWhile is_digit u, dropWhile is_digit u)
                   else if takeWhile is_digit t \<noteq> []
                   then (c # takeWhile is_digit t, dropWhile is_digit t)
                   else ([], s))
              | [] \<Rightarrow> ([], s))
           else ([], s))
      | [] \<Rightarrow> ([], s))"

definition int_part :: "string \<Rightarrow> string" where
  "int_part t = (if t \<noteq> [] \<and> hd t = CHR ''0'' then [CHR ''0''] else takeWhile is_digit t)"

definition jp_number :: "string \<Rightarrow> (pyval \<times> string) option" where
  "jp_number s =
     (let neg = (s \<noteq> [] \<and> hd s = CHR ''-'');
          t = (if neg then tl s else s);
          ip = int_part t;
          r = drop (length ip) t;
          (fr, r1) = num_frac r;
          (ex, r2) = num_exp r1
      in if ip = [] then None
         else if fr = [] \<and> ex = [] then
           Some (PInt (if neg then - int (nat_of_digits ip) else int (nat_of_digits ip)), r2)
         else Some (PFloat ((if neg then ''-'' else []) @ ip @ fr @ ex), r2))"

definition jp_word :: "string \<Rightarrow> pyval \<Rightarrow> string \<Rightarrow> (pyval \<times> string) option" where
  "jp_word w v s = (if is_prefix w s then Some (v, drop (length w) s) else None)"

text \<open>
  Values, list elements and dict members, one unit of fuel per call. \<open>json_loads\<close> gives one unit
  per character of the text, and one more.
\<close>

fun jp_value :: "nat \<Rightarrow> string \<Rightarrow> (pyval \<times> string) option"
  and jp_elems :: "nat \<Rightarrow> string \<Rightarrow> (pyval list \<times> string) option"
  and jp_members :: "nat \<Rightarrow> string \<Rightarrow> ((string \<times> pyval) list \<times> string) option"
where
  "jp_value 0 s = None"
| "jp_value (Suc n) s =
     (case s of
        [] \<Rightarrow> None
      | c # t \<Rightarrow>
          if c = quote then map_option (\<lambda>(u, r). (PStr u, r)) (jp_string t)
          else if c = CHR ''['' then
            (case skip_ws t of
               [] \<Rightarrow> None
             | d # r \<Rightarrow>
                 if d = CHR '']'' then Some (PList [], r)
                 else map_option (\<lambda>(xs, r). (PList xs, r)) (jp_elems n (d # r)))
          else if c = CHR ''{'' then
            (case skip_ws t of
               [] \<Rightarrow> None
             | d # r \<Rightarrow>
                 if d = CHR ''}'' then Some (PDict [], r)
                 else map_option (\<lambda>(m, r). (PDict (dupdate [] m), r)) (jp_members n (d # r)))
          else if c = CHR ''n'' then jp_word ''null'' PNone s
          else if c = CHR ''t'' then jp_word ''true'' (PBool True) s
          else if c = CHR ''f'' then jp_word ''false'' (PBool False) s
          else if c = CHR ''N'' then jp_word ''NaN'' (PFloat ''NaN'') s
          else if c = CHR ''I'' then jp_word ''Infinity'' (PFloat ''Infinity'') s
          else if is_prefix ''-Infinity'' s then jp_word ''-Infinity'' (PFloat ''-Infinity'') s
          else jp_number s)"
| "jp_elems 0 s = None"
| "jp_elems (Suc n) s =
     (case jp_value n s of
        None \<Rightarrow> None
      | Some (v, r) \<Rightarrow>
          (case skip_ws r of
             [] \<Rightarrow> None
           | d # r' \<Rightarrow>
               if d = CHR '']'' then Some ([v], r')
               else if d = CHR '','' then
                 map_option (\<lambda>(vs, q). (v # vs, q)) (jp_elems n (skip_ws r'))
               else None))"
| "jp_members 0 s = None"
| "jp_members (Suc n) s =
     (case s of
        [] \<Rightarrow> None
      | c # t \<Rightarrow>
          if c \<noteq> quote then None
          else
            (case jp_string t of
               None \<Rightarrow> None
             | Some (k, r) \<Rightarrow>
                 (case skip_ws r of
                    [] \<Rightarrow> None
                  | d # r1 \<Rightarrow>
                      if d \<noteq> CHR '':'' then None
                      else
                        (case jp_value n (skip_ws r1) of
                           None \<Rightarrow> None
                         | Some (v, r2) \<Rightarrow>
                             (case skip_ws r2 of
                                [] \<Rightarrow> None
                              | e # r3 \<Rightarrow>
                                  if e = CHR ''}'' then Some ([(k, v)], r3)
                                  else if e = CHR '','' then
                                    map_option (\<lambda>(m, q). ((k, v) # m, q))
                                      (jp_members n (skip_ws r3))
                                  else None)))))"

text \<open>None is \<open>JSONDecodeError\<close>.\<close>

definition json_loads :: "string \<Rightarrow> pyval option" where
  "json_loads s =
     (case jp_value (Suc (length s)) (skip_ws s) of
        Some (v, r) \<Rightarrow> (if skip_ws r = [] then Some v else None)
      | None \<Rightarrow> None)"

subsection \<open>Reading what was written\<close>

lemma char_eqI: "(of_char c :: nat) = of_char d \<Longrightarrow> c = d"
  by simp

lemma of_char_digit_char [simp]: "d < 10 \<Longrightarrow> of_char (digit_char d) = 48 + d"
  by (simp add: digit_char_def)

lemma hex_val_hex_char [simp]: "d < 16 \<Longrightarrow> hex_val (hex_char d) = Some d"
  by (auto simp: hex_val_def hex_char_def)

lemma char_of_controls:
  "char_of (34::nat) = quote" "char_of (92::nat) = bslash" "char_of (10::nat) = CHR 0x0A"
  "char_of (13::nat) = CHR 0x0D" "char_of (9::nat) = CHR 0x09" "char_of (12::nat) = CHR 0x0C"
  "char_of (8::nat) = CHR 0x08"
  by (rule char_eqI, simp)+

lemma jp_string_esc:
  "jp_string (json_esc c @ t) = map_option (\<lambda>(u, r). (c # u, r)) (jp_string t)"
proof -
  define n :: nat where "n = of_char c"
  have c: "c = char_of n" by (simp add: n_def)
  have n: "n < 256" unfolding n_def by (cases c) (simp add: of_char_def)
  consider "n = 34" | "n = 92" | "n = 10" | "n = 13" | "n = 9" | "n = 12" | "n = 8"
    | "32 \<le> n \<and> n < 127 \<and> n \<noteq> 34 \<and> n \<noteq> 92"
    | "(n < 32 \<or> 127 \<le> n) \<and> n \<notin> {34, 92, 10, 13, 9, 12, 8}" by force
  then show ?thesis
  proof cases
    case 8
    then have "c \<noteq> quote" "c \<noteq> bslash" by (auto simp: n_def)
    with 8 show ?thesis by (simp add: json_esc_def n_def [symmetric])
  next
    case 9
    then have r: "\<not> (32 \<le> n \<and> n < 127)" by linarith
    have "json_esc c =
        [bslash, CHR ''u'', CHR ''0'', CHR ''0'', hex_char (n div 16), hex_char (n mod 16)]"
      unfolding json_esc_def n_def [symmetric] Let_def using 9 r by simp
    moreover have "n div 16 < 16" using n by simp
    moreover have "hex_val (CHR ''0'') = Some 0" by (simp add: hex_val_def)
    ultimately show ?thesis using n c by (simp add: hex4_def)
  qed (simp_all add: json_esc_def n_def [symmetric] c json_unesc_def char_of_controls)
qed

declare jp_string.simps(2) [simp del]

lemma jp_string_json_str: "jp_string (concat (map json_esc s) @ quote # t) = Some (s, t)"
  by (induction s) (simp_all add: jp_string_esc jp_string.simps(2))

lemma is_digit_digit_char [simp]: "d < 10 \<Longrightarrow> is_digit (digit_char d)"
  by (simp add: is_digit_def)

lemma nat_str_digits: "\<forall>c \<in> set (nat_str n). is_digit c"
proof (induction n rule: nat_str.induct)
  case (1 n)
  then show ?case by (subst nat_str.simps) auto
qed

lemma nat_str_nonempty [simp]: "nat_str n \<noteq> []"
  by (subst nat_str.simps) simp

lemma nat_of_digits_snoc: "nat_of_digits (s @ [c]) = nat_of_digits s * 10 + digit_val c"
  by (simp add: nat_of_digits_def)

lemma nat_of_digits_nat_str [simp]: "nat_of_digits (nat_str n) = n"
proof (induction n rule: nat_str.induct)
  case (1 n)
  show ?case
  proof (cases "n < 10")
    case True
    then show ?thesis by (subst nat_str.simps) (simp add: nat_of_digits_def digit_val_def)
  next
    case False
    then have "nat_of_digits (nat_str n) = (n div 10) * 10 + digit_val (digit_char (n mod 10))"
      by (subst nat_str.simps) (simp add: nat_of_digits_snoc 1)
    then show ?thesis by (simp add: digit_val_def)
  qed
qed

lemma nat_str_hd_zero: "hd (nat_str n) = CHR ''0'' \<Longrightarrow> n = 0"
proof (induction n rule: nat_str.induct)
  case (1 n)
  show ?case
  proof (cases "n < 10")
    case True
    with "1.prems" have "digit_char n = CHR ''0''" by (subst (asm) nat_str.simps) simp
    then have "of_char (digit_char n) = (48::nat)" by simp
    with True show ?thesis by simp
  next
    case False
    with "1.prems" have "hd (nat_str (n div 10)) = CHR ''0''"
      by (subst (asm) nat_str.simps) simp
    with False "1.IH" show ?thesis by simp
  qed
qed

lemma nat_str_0: "nat_str 0 = ''0''"
proof -
  have "digit_char 0 = CHR ''0''" by (rule char_eqI) simp
  then show ?thesis by (subst nat_str.simps) simp
qed

text \<open>What may follow a number so that it is not read on.\<close>

definition num_end :: "string \<Rightarrow> bool" where
  "num_end s \<longleftrightarrow> (s = [] \<or> hd s = CHR '','' \<or> hd s = CHR '']'' \<or> hd s = CHR ''}'')"

lemma num_end_simps [simp]:
  "num_end []" "num_end (CHR '','' # s)" "num_end (CHR '']'' # s)" "num_end (CHR ''}'' # s)"
  by (simp_all add: num_end_def)

lemma num_end_takeWhile: "num_end s \<Longrightarrow> takeWhile is_digit s = []"
  by (cases s) (auto simp: num_end_def is_digit_def)

lemma num_end_frac: "num_end s \<Longrightarrow> num_frac s = ([], s)"
  by (cases s) (auto simp: num_end_def num_frac_def)

lemma num_end_exp: "num_end s \<Longrightarrow> num_exp s = ([], s)"
  by (cases s) (auto simp: num_end_def num_exp_def)

lemma nat_str_scan:
  assumes "num_end s"
  shows "int_part (nat_str n @ s) = nat_str n"
proof (cases "hd (nat_str n) = CHR ''0''")
  case True
  then have "n = 0" by (rule nat_str_hd_zero)
  then show ?thesis by (simp add: nat_str_0 int_part_def)
next
  case False
  have "takeWhile is_digit (nat_str n @ s) = nat_str n @ takeWhile is_digit s"
    using nat_str_digits by (intro takeWhile_append2) blast
  with False assms show ?thesis by (simp add: num_end_takeWhile int_part_def)
qed

lemma jp_number_pos:
  assumes "num_end s"
  shows "jp_number (nat_str n @ s) = Some (PInt (int n), s)"
proof -
  have "hd (nat_str n) \<in> set (nat_str n)" by simp
  then have "is_digit (hd (nat_str n))" using nat_str_digits by blast
  then have "hd (nat_str n @ s) \<noteq> CHR ''-''" by (auto simp: is_digit_def)
  then show ?thesis
    using assms by (simp add: jp_number_def Let_def nat_str_scan [OF assms]
        num_end_frac num_end_exp)
qed

lemma jp_number_neg:
  assumes "num_end s"
  shows "jp_number (CHR ''-'' # nat_str n @ s) = Some (PInt (- int n), s)"
  using assms by (simp add: jp_number_def Let_def nat_str_scan [OF assms]
      num_end_frac num_end_exp)

lemma jp_number_int_str: "num_end s \<Longrightarrow> jp_number (int_str i @ s) = Some (PInt i, s)"
  by (simp add: int_str_def jp_number_neg jp_number_pos)

text \<open>
  Float-free values whose dicts have distinct keys, as Python's have: what the round trip covers.
\<close>

fun json_ok :: "pyval \<Rightarrow> bool" where
  "json_ok (PFloat s) = False"
| "json_ok (PList xs) = list_all json_ok xs"
| "json_ok (PDict d) = (distinct (map fst d) \<and> list_all (\<lambda>kv. json_ok (snd kv)) d)"
| "json_ok v = True"

text \<open>Fuel a value needs: one unit for each call on it and on its parts.\<close>

fun need :: "pyval \<Rightarrow> nat" where
  "need (PList xs) = Suc (sum_list (map (\<lambda>x. Suc (need x)) xs))"
| "need (PDict d) = Suc (sum_list (map (\<lambda>kv. Suc (need (snd kv))) d))"
| "need v = 1"

lemma dupdate_Nil_id: "distinct (map fst d) \<Longrightarrow> dupdate [] d = d"
proof -
  have "distinct (map fst (a @ d)) \<Longrightarrow> dupdate a d = a @ d" for a :: "'a dict"
  proof (induction d arbitrary: a)
    case Nil
    then show ?case by simp
  next
    case (Cons kv d)
    obtain k v where kv: "kv = (k, v)" by (cases kv)
    with Cons.prems have "k \<notin> set (map fst a)" by auto
    then have "AList.update k v a = a @ [(k, v)]" by (induction a) auto
    with Cons kv show ?case by simp
  qed
  then show "distinct (map fst d) \<Longrightarrow> dupdate [] d = d" by force
qed

lemma int_str_shape:
  obtains c t where "int_str i = c # t"
    and "is_digit c \<or> (c = CHR ''-'' \<and> (\<exists>d u. t = d # u \<and> is_digit d))"
proof -
  have shape: "\<exists>d u. nat_str n = d # u \<and> is_digit d" for n
    using nat_str_digits [of n] nat_str_nonempty [of n] by (cases "nat_str n") auto
  show thesis
  proof (cases "i < 0")
    case True
    then show thesis using shape that by (auto simp: int_str_def)
  next
    case False
    obtain d u where "nat_str (nat i) = d # u" "is_digit d" using shape by blast
    then show thesis using that False by (simp add: int_str_def)
  qed
qed

lemma digit_not_special:
  "is_digit c \<Longrightarrow> c \<notin> {quote, CHR ''['', CHR '']'', CHR ''{'', CHR ''}'', CHR ''n'', CHR ''t'', CHR ''f'',
     CHR ''N'', CHR ''I'', CHR ''-'', CHR '' '', CHR 0x09, CHR 0x0A, CHR 0x0D}"
  by (auto simp: is_digit_def)

lemma json_dumps_hd:
  assumes "json_ok v"
  obtains c t where "json_dumps v = c # t" and "\<not> is_ws c" and "c \<noteq> CHR '']''"
proof (cases v)
  case (PInt i)
  obtain c t where ct: "int_str i = c # t"
    and d: "is_digit c \<or> (c = CHR ''-'' \<and> (\<exists>d u. t = d # u \<and> is_digit d))"
    by (rule int_str_shape)
  from d have "\<not> is_ws c \<and> c \<noteq> CHR '']''"
  proof
    assume "is_digit c"
    then show ?thesis using digit_not_special [of c] by (simp add: is_ws_def)
  qed (simp add: is_ws_def)
  then show thesis using that PInt ct by simp
next
  case (PBool b)
  then show thesis using that by (cases b) (auto simp: is_ws_def)
qed (use assms that in \<open>auto simp: is_ws_def json_str_def\<close>)

lemma skip_ws_dumps: "json_ok v \<Longrightarrow> skip_ws (json_dumps v @ s) = json_dumps v @ s"
  by (rule json_dumps_hd [of v]) auto

lemma jp_value_digit: "is_digit c \<Longrightarrow> jp_value (Suc n) (c # t) = jp_number (c # t)"
  using digit_not_special [of c] by auto

lemma jp_value_minus:
  "is_digit d \<Longrightarrow> jp_value (Suc n) (CHR ''-'' # d # t) = jp_number (CHR ''-'' # d # t)"
  using digit_not_special [of d] by auto

lemma jp_value_int: "num_end s \<Longrightarrow> jp_value (Suc n) (int_str i @ s) = Some (PInt i, s)"
proof -
  assume s: "num_end s"
  obtain c t where ct: "int_str i = c # t"
    and d: "is_digit c \<or> (c = CHR ''-'' \<and> (\<exists>d u. t = d # u \<and> is_digit d))"
    by (rule int_str_shape)
  have "jp_value (Suc n) (c # t @ s) = jp_number (c # t @ s)"
    using d
  proof
    assume "is_digit c"
    then show ?thesis by (rule jp_value_digit)
  next
    assume "c = CHR ''-'' \<and> (\<exists>d u. t = d # u \<and> is_digit d)"
    then obtain d u where "c = CHR ''-''" "t = d # u" "is_digit d" by blast
    then show ?thesis using jp_value_minus [of d n "u @ s"] by (simp del: jp_value.simps)
  qed
  then show ?thesis using jp_number_int_str [OF s, of i] by (simp add: ct)
qed

definition reads_back :: "pyval \<Rightarrow> bool" where
  "reads_back v \<longleftrightarrow>
     (\<forall>n s. num_end s \<longrightarrow> need v \<le> n \<longrightarrow> jp_value n (json_dumps v @ s) = Some (v, s))"

lemma reads_backD:
  "reads_back v \<Longrightarrow> num_end s \<Longrightarrow> need v \<le> n \<Longrightarrow> jp_value n (json_dumps v @ s) = Some (v, s)"
  by (simp add: reads_back_def)

lemma need_pos: "0 < need v"
  by (cases v) auto

lemma jp_elems_dumps:
  assumes "xs \<noteq> []" and "\<And>x. x \<in> set xs \<Longrightarrow> json_ok x \<and> reads_back x"
    and "sum_list (map (\<lambda>x. Suc (need x)) xs) \<le> n"
  shows "jp_elems n (join '', '' (map json_dumps xs) @ CHR '']'' # s) = Some (xs, s)"
  using assms
proof (induction xs arbitrary: n)
  case Nil
  then show ?case by simp
next
  case (Cons v vs)
  note IH = Cons.IH and P = Cons.prems(2)
  from Cons.prems obtain m where m: "n = Suc m" "need v \<le> m"
    "sum_list (map (\<lambda>x. Suc (need x)) vs) \<le> m"
    by (cases n) auto
  have v: "reads_back v" using Cons.prems(2) by simp
  show ?case
  proof (cases vs)
    case Nil
    have "jp_value m (json_dumps v @ CHR '']'' # s) = Some (v, CHR '']'' # s)"
      using v m by (simp add: reads_backD)
    then show ?thesis by (simp add: m Nil is_ws_def)
  next
    case (Cons w ws)
    let ?r = "join '', '' (map json_dumps vs) @ CHR '']'' # s"
    have "jp_value m (json_dumps v @ CHR '','' # CHR '' '' # ?r)
        = Some (v, CHR '','' # CHR '' '' # ?r)"
      using v m by (simp add: reads_backD)
    moreover have "jp_elems m ?r = Some (vs, s)"
      by (rule IH) (use Cons P m in auto)
    moreover have "skip_ws (CHR '' '' # ?r) = ?r"
    proof -
      have "json_ok w" using P Cons by simp
      then obtain c t where "json_dumps w = c # t" "\<not> is_ws c" by (rule json_dumps_hd)
      then show ?thesis using Cons by (cases ws) (auto simp: is_ws_def)
    qed
    moreover have "json_dumps v @ CHR '','' # CHR '' '' # ?r
        = join '', '' (map json_dumps (v # vs)) @ CHR '']'' # s"
      using Cons by simp
    ultimately show ?thesis by (simp add: m is_ws_def)
  qed
qed

abbreviation json_item :: "string \<times> pyval \<Rightarrow> string" where
  "json_item \<equiv> \<lambda>(k, v). json_str k @ '': '' @ json_dumps v"

lemma jp_members_item:
  assumes "json_ok v" and "reads_back v" and "need v \<le> m" and "num_end (e # r)" and "\<not> is_ws e"
  shows "jp_members (Suc m) (json_item (k, v) @ e # r) =
    (if e = CHR ''}'' then Some ([(k, v)], r)
     else if e = CHR '','' then map_option (\<lambda>(d, q). ((k, v) # d, q)) (jp_members m (skip_ws r))
     else None)"
proof -
  have "jp_string (concat (map json_esc k) @ quote # CHR '':'' # CHR '' '' # json_dumps v @ e # r)
      = Some (k, CHR '':'' # CHR '' '' # json_dumps v @ e # r)"
    by (rule jp_string_json_str)
  moreover have "jp_value m (json_dumps v @ e # r) = Some (v, e # r)"
    using assms by (simp add: reads_backD)
  ultimately show ?thesis
    using assms by (simp add: json_str_def skip_ws_dumps is_ws_def)
qed

lemma jp_members_dumps:
  assumes "d \<noteq> []" and "\<And>kv. kv \<in> set d \<Longrightarrow> json_ok (snd kv) \<and> reads_back (snd kv)"
    and "sum_list (map (\<lambda>kv. Suc (need (snd kv))) d) \<le> n"
  shows "jp_members n (join '', '' (map json_item d) @ CHR ''}'' # s) = Some (d, s)"
  using assms
proof (induction d arbitrary: n)
  case Nil
  then show ?case by simp
next
  case (Cons kv e)
  note IH = Cons.IH and P = Cons.prems(2)
  obtain k v where kv: "kv = (k, v)" by (cases kv)
  from Cons.prems kv obtain m where m: "n = Suc m" "need v \<le> m"
    "sum_list (map (\<lambda>kv. Suc (need (snd kv))) e) \<le> m"
    by (cases n) auto
  have v: "json_ok v" "reads_back v" using P [of kv] kv by auto
  show ?case
  proof (cases e)
    case Nil
    then show ?thesis
      using v m kv jp_members_item [of v m "CHR ''}''" s k] by (simp add: is_ws_def)
  next
    case (Cons kw ws)
    let ?r = "join '', '' (map json_item e) @ CHR ''}'' # s"
    have r: "jp_members m ?r = Some (e, s)"
      by (rule IH) (use Cons P m in auto)
    have ws: "skip_ws (CHR '' '' # ?r) = ?r"
      using Cons by (cases kw; cases ws) (auto simp: is_ws_def json_str_def)
    have "jp_members (Suc m) (json_item (k, v) @ CHR '','' # CHR '' '' # ?r)
        = map_option (\<lambda>(d, q). ((k, v) # d, q)) (jp_members m (skip_ws (CHR '' '' # ?r)))"
      by (subst jp_members_item [OF v m(2)]) (simp_all add: is_ws_def)
    also have "\<dots> = Some (kv # e, s)" by (simp only: ws r) (simp add: kv)
    also have "json_item (k, v) @ CHR '','' # CHR '' '' # ?r
        = join '', '' (map json_item (kv # e)) @ CHR ''}'' # s"
      using Cons kv by simp
    finally show ?thesis by (simp add: m)
  qed
qed

lemma json_ok_reads_back: "json_ok v \<Longrightarrow> reads_back v"
proof (induction v)
  case (PInt i)
  show ?case unfolding reads_back_def using jp_value_int by (metis One_nat_def Suc_le_D json_dumps.simps(3) need.simps(5))
next
  case (PStr t)
  show ?case unfolding reads_back_def
  proof (intro allI impI)
    fix n s
    assume "need (PStr t) \<le> n"
    then obtain m where "n = Suc m" by (cases n) auto
    then show "jp_value n (json_dumps (PStr t) @ s) = Some (PStr t, s)"
      using jp_string_json_str [of t s] by (simp add: json_str_def)
  qed
next
  case (PList xs)
  then have xs: "\<And>x. x \<in> set xs \<Longrightarrow> json_ok x \<and> reads_back x" by (auto simp: list_all_iff)
  show ?case unfolding reads_back_def
  proof (intro allI impI)
    fix n s
    assume "need (PList xs) \<le> n"
    then obtain m where m: "n = Suc m" "sum_list (map (\<lambda>x. Suc (need x)) xs) \<le> m" by (cases n) auto
    show "jp_value n (json_dumps (PList xs) @ s) = Some (PList xs, s)"
    proof (cases xs)
      case Nil
      then show ?thesis using m by (simp add: is_ws_def)
    next
      case (Cons y ys)
      have "json_ok y" using xs Cons by simp
      then obtain c t where ct: "json_dumps y = c # t" "\<not> is_ws c" "c \<noteq> CHR '']''"
        by (rule json_dumps_hd)
      obtain u where u: "join '', '' (map json_dumps xs) @ CHR '']'' # s = c # u"
        using ct Cons by (cases ys) auto
      have "jp_elems m (c # u) = Some (xs, s)"
        using jp_elems_dumps [OF _ xs m(2), of s] Cons u by simp
      then show ?thesis using m ct u by simp
    qed
  qed
next
  case (PDict d)
  then have d: "\<And>kv. kv \<in> set d \<Longrightarrow> json_ok (snd kv) \<and> reads_back (snd kv)"
    by (auto simp: list_all_iff)
  have k: "dupdate [] d = d" using PDict.prems by (simp add: dupdate_Nil_id)
  show ?case unfolding reads_back_def
  proof (intro allI impI)
    fix n s
    assume "need (PDict d) \<le> n"
    then obtain m where m: "n = Suc m" "sum_list (map (\<lambda>kv. Suc (need (snd kv))) d) \<le> m"
      by (cases n) auto
    show "jp_value n (json_dumps (PDict d) @ s) = Some (PDict d, s)"
    proof (cases d)
      case Nil
      then show ?thesis using m by (simp add: is_ws_def)
    next
      case (Cons y ys)
      obtain u where u: "join '', '' (map json_item d) @ CHR ''}'' # s = quote # u"
        using Cons by (cases y; cases ys) (auto simp: json_str_def)
      have "jp_members m (quote # u) = Some (d, s)"
        using jp_members_dumps [OF _ d m(2), of s] Cons u by simp
      then show ?thesis using m u k by (simp add: is_ws_def)
    qed
  qed
qed (auto simp: reads_back_def jp_word_def elim: Suc_le_D [elim_format] split: if_splits)

subsection \<open>One unit of fuel per character is enough\<close>

lemma length_join: "xs \<noteq> [] \<Longrightarrow> length (join sep xs) + length sep
    = sum_list (map (\<lambda>x. length x + length sep) xs)"
  by (induction sep xs rule: join.induct) auto

lemma sum_list_le: "(\<And>x. x \<in> set xs \<Longrightarrow> f x \<le> (g x :: nat)) \<Longrightarrow> sum_list (map f xs) \<le> sum_list (map g xs)"
  by (rule sum_list_mono)

lemma sum_list_Suc_less:
  "xs \<noteq> [] \<Longrightarrow> Suc (\<Sum>x\<leftarrow>xs. Suc (f x)) \<le> (\<Sum>x\<leftarrow>xs. Suc (Suc (f x)))"
proof (induction xs)
  case (Cons x xs)
  then show ?case by (cases xs) auto
qed simp

lemma need_le_length: "json_ok v \<Longrightarrow> need v \<le> length (json_dumps v)"
proof (induction v)
  case (PInt i)
  obtain c t where "int_str i = c # t" by (rule int_str_shape)
  then show ?case by simp
next
  case (PBool b)
  then show ?case by (cases b) auto
next
  case (PList xs)
  have le: "(\<Sum>x\<leftarrow>xs. Suc (need x)) \<le> (\<Sum>x\<leftarrow>xs. Suc (length (json_dumps x)))"
    using PList by (intro sum_list_le) (force simp: list_all_iff)
  show ?case
  proof (cases "xs = []")
    case False
    then have "(\<Sum>x\<leftarrow>xs. Suc (Suc (length (json_dumps x))))
        = length (join '', '' (map json_dumps xs)) + 2"
      using length_join [of "map json_dumps xs" "'', ''"] by (simp add: comp_def)
    with le sum_list_Suc_less [OF False, of "\<lambda>x. length (json_dumps x)"] show ?thesis by simp
  qed simp
next
  case (PDict d)
  have item: "Suc (need (snd kv)) \<le> Suc (length (json_item kv))" if "kv \<in> set d" for kv
    using PDict.IH [of kv "snd kv"] PDict.prems that
    by (cases kv) (force simp: list_all_iff snds.simps)
  have le: "(\<Sum>kv\<leftarrow>d. Suc (need (snd kv))) \<le> (\<Sum>kv\<leftarrow>d. Suc (length (json_item kv)))"
    by (rule sum_list_le) (rule item)
  show ?case
  proof (cases "d = []")
    case False
    then have "(\<Sum>kv\<leftarrow>d. Suc (Suc (length (json_item kv))))
        = length (join '', '' (map json_item d)) + 2"
      using length_join [of "map json_item d" "'', ''"] by (simp add: comp_def)
    with le sum_list_Suc_less [OF False, of "\<lambda>kv. length (json_item kv)"] show ?thesis by simp
  qed simp
qed (auto simp: json_str_def)

theorem json_loads_dumps: "json_ok v \<Longrightarrow> json_loads (json_dumps v) = Some v"
proof -
  assume ok: "json_ok v"
  have "need v \<le> Suc (length (json_dumps v))" using need_le_length [OF ok] by simp
  then have "jp_value (Suc (length (json_dumps v))) (json_dumps v @ []) = Some (v, [])"
    using json_ok_reads_back [OF ok] by (intro reads_backD) auto
  moreover have "skip_ws (json_dumps v) = json_dumps v"
    using skip_ws_dumps [OF ok, of "[]"] by simp
  ultimately show ?thesis by (simp add: json_loads_def del: jp_value.simps)
qed

end
