(* ===== verification/Infra.thy ===== *)
theory Infra
  imports Py_Json
begin

section \<open>Infrastructure: errors, resource identifiers, request context, pagination\<close>

text \<open>
  The package \<open>infra\<close> that every capability uses: the error codes with their HTTP statuses and the
  exception handlers (\<open>errors.py\<close>), resource identifiers (\<open>rid.py\<close>), the request context
  (\<open>context.py\<close>) and the pagination models (\<open>models.py\<close>).
\<close>

subsection \<open>Error codes and exceptions\<close>

datatype (plugins only: code size) error_code =
    COMMON_UNAUTHORIZED
  | COMMON_FORBIDDEN
  | COMMON_NOT_FOUND
  | COMMON_INVALID_INPUT
  | COMMON_INTERNAL_ERROR
  | COMMON_CONFLICT
  | SETTING_AUTH_INVALID_CREDENTIALS
  | SETTING_AUTH_TOKEN_EXPIRED
  | SETTING_AUTH_TOKEN_REVOKED
  | SETTING_USER_NOT_FOUND
  | SETTING_USER_EMAIL_EXISTS
  | SETTING_PERMISSION_DENIED
  | ONTOLOGY_NOT_FOUND
  | ONTOLOGY_DEPENDENCY_CONFLICT
  | ONTOLOGY_VERSION_CONFLICT
  | ONTOLOGY_VALIDATION_FAILED
  | ONTOLOGY_LOCK_CONFLICT
  | ONTOLOGY_LOCK_REQUIRED
  | ONTOLOGY_CYCLE_DETECTED
  | ONTOLOGY_DUPLICATE_API_NAME
  | ONTOLOGY_IMMUTABLE_FIELD
  | ONTOLOGY_CONTRACT_VIOLATION
  | ONTOLOGY_STAGING_EMPTY
  | ONTOLOGY_UNCOMMITTED_CHANGES
  | ONTOLOGY_DRAFT_NOT_FOUND
  | ONTOLOGY_STAGING_NOT_FOUND
  | DATA_SOURCE_UNREACHABLE
  | DATA_SOURCE_NOT_FOUND
  | DATA_CONNECTION_IN_USE
  | DATA_QUERY_TIMEOUT
  | DATA_SCHEMA_MISMATCH
  | DATA_ASSET_NOT_FOUND
  | DATA_ASSET_NOT_MAPPED
  | DATA_MASKED_FIELD_NOT_SORTABLE
  | DATA_BRANCH_NOT_FOUND
  | DATA_BRANCH_CONFLICT
  | DATA_BRANCH_UNAVAILABLE
  | DATA_EDITLOG_WRITE_FAILED
  | DATA_ROW_LOCK_CONFLICT
  | FUNCTION_NOT_FOUND
  | FUNCTION_EXECUTION_FAILED
  | FUNCTION_TIMEOUT
  | FUNCTION_PARAM_INVALID
  | FUNCTION_PARAM_INSTANCE_NOT_FOUND
  | FUNCTION_INTERFACE_NOT_IMPLEMENTED
  | FUNCTION_WRITEBACK_DISABLED
  | FUNCTION_CONFIRMATION_EXPIRED
  | FUNCTION_IN_USE
  | COPILOT_SESSION_NOT_FOUND
  | COPILOT_SESSION_EXPIRED
  | COPILOT_TOOL_FAILED
  | COPILOT_TOOL_LIMIT_EXCEEDED
  | COPILOT_MODEL_UNAVAILABLE
  | COPILOT_MCP_CONNECTION_FAILED
  | COPILOT_MCP_DISCOVERY_FAILED

text \<open>A \<open>StrEnum\<close> member's value is its name.\<close>

primrec error_code_value :: "error_code \<Rightarrow> string" where
  "error_code_value COMMON_UNAUTHORIZED = ''COMMON_UNAUTHORIZED''"
| "error_code_value COMMON_FORBIDDEN = ''COMMON_FORBIDDEN''"
| "error_code_value COMMON_NOT_FOUND = ''COMMON_NOT_FOUND''"
| "error_code_value COMMON_INVALID_INPUT = ''COMMON_INVALID_INPUT''"
| "error_code_value COMMON_INTERNAL_ERROR = ''COMMON_INTERNAL_ERROR''"
| "error_code_value COMMON_CONFLICT = ''COMMON_CONFLICT''"
| "error_code_value SETTING_AUTH_INVALID_CREDENTIALS = ''SETTING_AUTH_INVALID_CREDENTIALS''"
| "error_code_value SETTING_AUTH_TOKEN_EXPIRED = ''SETTING_AUTH_TOKEN_EXPIRED''"
| "error_code_value SETTING_AUTH_TOKEN_REVOKED = ''SETTING_AUTH_TOKEN_REVOKED''"
| "error_code_value SETTING_USER_NOT_FOUND = ''SETTING_USER_NOT_FOUND''"
| "error_code_value SETTING_USER_EMAIL_EXISTS = ''SETTING_USER_EMAIL_EXISTS''"
| "error_code_value SETTING_PERMISSION_DENIED = ''SETTING_PERMISSION_DENIED''"
| "error_code_value ONTOLOGY_NOT_FOUND = ''ONTOLOGY_NOT_FOUND''"
| "error_code_value ONTOLOGY_DEPENDENCY_CONFLICT = ''ONTOLOGY_DEPENDENCY_CONFLICT''"
| "error_code_value ONTOLOGY_VERSION_CONFLICT = ''ONTOLOGY_VERSION_CONFLICT''"
| "error_code_value ONTOLOGY_VALIDATION_FAILED = ''ONTOLOGY_VALIDATION_FAILED''"
| "error_code_value ONTOLOGY_LOCK_CONFLICT = ''ONTOLOGY_LOCK_CONFLICT''"
| "error_code_value ONTOLOGY_LOCK_REQUIRED = ''ONTOLOGY_LOCK_REQUIRED''"
| "error_code_value ONTOLOGY_CYCLE_DETECTED = ''ONTOLOGY_CYCLE_DETECTED''"
| "error_code_value ONTOLOGY_DUPLICATE_API_NAME = ''ONTOLOGY_DUPLICATE_API_NAME''"
| "error_code_value ONTOLOGY_IMMUTABLE_FIELD = ''ONTOLOGY_IMMUTABLE_FIELD''"
| "error_code_value ONTOLOGY_CONTRACT_VIOLATION = ''ONTOLOGY_CONTRACT_VIOLATION''"
| "error_code_value ONTOLOGY_STAGING_EMPTY = ''ONTOLOGY_STAGING_EMPTY''"
| "error_code_value ONTOLOGY_UNCOMMITTED_CHANGES = ''ONTOLOGY_UNCOMMITTED_CHANGES''"
| "error_code_value ONTOLOGY_DRAFT_NOT_FOUND = ''ONTOLOGY_DRAFT_NOT_FOUND''"
| "error_code_value ONTOLOGY_STAGING_NOT_FOUND = ''ONTOLOGY_STAGING_NOT_FOUND''"
| "error_code_value DATA_SOURCE_UNREACHABLE = ''DATA_SOURCE_UNREACHABLE''"
| "error_code_value DATA_SOURCE_NOT_FOUND = ''DATA_SOURCE_NOT_FOUND''"
| "error_code_value DATA_CONNECTION_IN_USE = ''DATA_CONNECTION_IN_USE''"
| "error_code_value DATA_QUERY_TIMEOUT = ''DATA_QUERY_TIMEOUT''"
| "error_code_value DATA_SCHEMA_MISMATCH = ''DATA_SCHEMA_MISMATCH''"
| "error_code_value DATA_ASSET_NOT_FOUND = ''DATA_ASSET_NOT_FOUND''"
| "error_code_value DATA_ASSET_NOT_MAPPED = ''DATA_ASSET_NOT_MAPPED''"
| "error_code_value DATA_MASKED_FIELD_NOT_SORTABLE = ''DATA_MASKED_FIELD_NOT_SORTABLE''"
| "error_code_value DATA_BRANCH_NOT_FOUND = ''DATA_BRANCH_NOT_FOUND''"
| "error_code_value DATA_BRANCH_CONFLICT = ''DATA_BRANCH_CONFLICT''"
| "error_code_value DATA_BRANCH_UNAVAILABLE = ''DATA_BRANCH_UNAVAILABLE''"
| "error_code_value DATA_EDITLOG_WRITE_FAILED = ''DATA_EDITLOG_WRITE_FAILED''"
| "error_code_value DATA_ROW_LOCK_CONFLICT = ''DATA_ROW_LOCK_CONFLICT''"
| "error_code_value FUNCTION_NOT_FOUND = ''FUNCTION_NOT_FOUND''"
| "error_code_value FUNCTION_EXECUTION_FAILED = ''FUNCTION_EXECUTION_FAILED''"
| "error_code_value FUNCTION_TIMEOUT = ''FUNCTION_TIMEOUT''"
| "error_code_value FUNCTION_PARAM_INVALID = ''FUNCTION_PARAM_INVALID''"
| "error_code_value FUNCTION_PARAM_INSTANCE_NOT_FOUND = ''FUNCTION_PARAM_INSTANCE_NOT_FOUND''"
| "error_code_value FUNCTION_INTERFACE_NOT_IMPLEMENTED = ''FUNCTION_INTERFACE_NOT_IMPLEMENTED''"
| "error_code_value FUNCTION_WRITEBACK_DISABLED = ''FUNCTION_WRITEBACK_DISABLED''"
| "error_code_value FUNCTION_CONFIRMATION_EXPIRED = ''FUNCTION_CONFIRMATION_EXPIRED''"
| "error_code_value FUNCTION_IN_USE = ''FUNCTION_IN_USE''"
| "error_code_value COPILOT_SESSION_NOT_FOUND = ''COPILOT_SESSION_NOT_FOUND''"
| "error_code_value COPILOT_SESSION_EXPIRED = ''COPILOT_SESSION_EXPIRED''"
| "error_code_value COPILOT_TOOL_FAILED = ''COPILOT_TOOL_FAILED''"
| "error_code_value COPILOT_TOOL_LIMIT_EXCEEDED = ''COPILOT_TOOL_LIMIT_EXCEEDED''"
| "error_code_value COPILOT_MODEL_UNAVAILABLE = ''COPILOT_MODEL_UNAVAILABLE''"
| "error_code_value COPILOT_MCP_CONNECTION_FAILED = ''COPILOT_MCP_CONNECTION_FAILED''"
| "error_code_value COPILOT_MCP_DISCOVERY_FAILED = ''COPILOT_MCP_DISCOVERY_FAILED''"

definition ERROR_STATUS_MAP :: "(error_code \<times> nat) list" where
  "ERROR_STATUS_MAP =
    [(COMMON_UNAUTHORIZED, 401),
     (COMMON_FORBIDDEN, 403),
     (COMMON_NOT_FOUND, 404),
     (COMMON_INVALID_INPUT, 400),
     (COMMON_INTERNAL_ERROR, 500),
     (COMMON_CONFLICT, 409),
     (SETTING_AUTH_INVALID_CREDENTIALS, 401),
     (SETTING_AUTH_TOKEN_EXPIRED, 401),
     (SETTING_AUTH_TOKEN_REVOKED, 401),
     (SETTING_USER_NOT_FOUND, 404),
     (SETTING_USER_EMAIL_EXISTS, 409),
     (SETTING_PERMISSION_DENIED, 403),
     (ONTOLOGY_NOT_FOUND, 404),
     (ONTOLOGY_DEPENDENCY_CONFLICT, 409),
     (ONTOLOGY_VERSION_CONFLICT, 409),
     (ONTOLOGY_VALIDATION_FAILED, 422),
     (ONTOLOGY_LOCK_CONFLICT, 409),
     (ONTOLOGY_LOCK_REQUIRED, 403),
     (ONTOLOGY_CYCLE_DETECTED, 422),
     (ONTOLOGY_DUPLICATE_API_NAME, 409),
     (ONTOLOGY_IMMUTABLE_FIELD, 422),
     (ONTOLOGY_CONTRACT_VIOLATION, 422),
     (ONTOLOGY_STAGING_EMPTY, 400),
     (ONTOLOGY_UNCOMMITTED_CHANGES, 409),
     (ONTOLOGY_DRAFT_NOT_FOUND, 404),
     (ONTOLOGY_STAGING_NOT_FOUND, 404),
     (DATA_SOURCE_UNREACHABLE, 503),
     (DATA_SOURCE_NOT_FOUND, 404),
     (DATA_CONNECTION_IN_USE, 409),
     (DATA_QUERY_TIMEOUT, 504),
     (DATA_SCHEMA_MISMATCH, 422),
     (DATA_ASSET_NOT_FOUND, 404),
     (DATA_ASSET_NOT_MAPPED, 400),
     (DATA_MASKED_FIELD_NOT_SORTABLE, 400),
     (DATA_BRANCH_NOT_FOUND, 404),
     (DATA_BRANCH_CONFLICT, 409),
     (DATA_BRANCH_UNAVAILABLE, 503),
     (DATA_EDITLOG_WRITE_FAILED, 500),
     (DATA_ROW_LOCK_CONFLICT, 409),
     (FUNCTION_NOT_FOUND, 404),
     (FUNCTION_EXECUTION_FAILED, 500),
     (FUNCTION_TIMEOUT, 504),
     (FUNCTION_PARAM_INVALID, 400),
     (FUNCTION_PARAM_INSTANCE_NOT_FOUND, 404),
     (FUNCTION_INTERFACE_NOT_IMPLEMENTED, 422),
     (FUNCTION_WRITEBACK_DISABLED, 422),
     (FUNCTION_CONFIRMATION_EXPIRED, 410),
     (FUNCTION_IN_USE, 409),
     (COPILOT_SESSION_NOT_FOUND, 404),
     (COPILOT_SESSION_EXPIRED, 410),
     (COPILOT_TOOL_FAILED, 500),
     (COPILOT_TOOL_LIMIT_EXCEEDED, 429),
     (COPILOT_MODEL_UNAVAILABLE, 503),
     (COPILOT_MCP_CONNECTION_FAILED, 502),
     (COPILOT_MCP_DISCOVERY_FAILED, 502)]"

text \<open>
  The exceptions a handler can end with: the application's \<open>AppError(code, message, details)\<close>,
  the two built-in ones the code raises itself, and one named after its class for a fault reported
  by a store's driver.
\<close>

datatype exn =
    AppError error_code string "pyval dict"
  | ValueError string
  | RuntimeError string
  | DriverError string

type_synonym 'a res = "exn + 'a"

definition status_code :: "error_code \<Rightarrow> nat" where
  "status_code c = (case map_of ERROR_STATUS_MAP c of Some n \<Rightarrow> n | None \<Rightarrow> 500)"

definition build_error_response :: "string \<Rightarrow> error_code \<Rightarrow> string \<Rightarrow> pyval dict \<Rightarrow> pyval" where
  "build_error_response request_id code message details =
     (let err = [(''code'', PStr (error_code_value code)), (''message'', PStr message)];
          err' = (if details = [] then err else dput ''details'' (PDict details) err)
      in PDict [(''error'', PDict err'),
                (''metadata'', PDict [(''request_id'', PStr request_id)])])"

text \<open>The two handlers of \<open>register_exception_handlers\<close>: HTTP status and body.\<close>

fun handle_exception :: "string \<Rightarrow> exn \<Rightarrow> nat \<times> pyval" where
  "handle_exception req (AppError code message details) =
     (status_code code, build_error_response req code message details)"
| "handle_exception req _ =
     (500, build_error_response req COMMON_INTERNAL_ERROR ''Internal server error'' [])"

subsection \<open>Request context\<close>

record ctx =
  ctx_user_id :: "string option"
  ctx_tenant_id :: "string option"
  ctx_role :: "string option"
  ctx_request_id :: "string option"

definition get_user_id :: "ctx \<Rightarrow> string res" where
  "get_user_id c = (case ctx_user_id c of Some u \<Rightarrow> Inr u
     | None \<Rightarrow> Inl (RuntimeError ''user_id not set in request context''))"

definition get_tenant_id :: "ctx \<Rightarrow> string res" where
  "get_tenant_id c = (case ctx_tenant_id c of Some t \<Rightarrow> Inr t
     | None \<Rightarrow> Inl (RuntimeError ''tenant_id not set in request context''))"

definition get_role :: "ctx \<Rightarrow> string res" where
  "get_role c = (case ctx_role c of Some r \<Rightarrow> Inr r
     | None \<Rightarrow> Inl (RuntimeError ''role not set in request context''))"

definition get_request_id :: "ctx \<Rightarrow> string" where
  "get_request_id c = (case ctx_request_id c of Some r \<Rightarrow> r | None \<Rightarrow> ''unknown'')"

subsection \<open>Resource identifiers\<close>

definition VALID_RESOURCE_TYPES :: "string list" where
  "VALID_RESOURCE_TYPES =
    [''obj'', ''link'', ''iface'', ''action'', ''shprop'', ''prop'', ''snap'', ''conn'', ''func'', ''workflow'', ''session'', ''model'', ''skill'', ''mcp'', ''subagent'', ''user'', ''tenant'', ''role'']"

definition is_hex_lower :: "char \<Rightarrow> bool" where
  "is_hex_lower c \<longleftrightarrow> is_digit c \<or> (97 \<le> (of_char c :: nat) \<and> (of_char c :: nat) \<le> 102)"

definition is_lower :: "char \<Rightarrow> bool" where
  "is_lower c \<longleftrightarrow> 97 \<le> (of_char c :: nat) \<and> (of_char c :: nat) \<le> 122"

text \<open>
  \<open>[0-9a-f]{8}-[0-9a-f]{4}-[0-9a-f]{4}-[0-9a-f]{4}-[0-9a-f]{12}\<close>, and the rest of the text after
  it.
\<close>

definition take_hex :: "nat \<Rightarrow> string \<Rightarrow> string option" where
  "take_hex n s =
     (if length s \<ge> n \<and> list_all is_hex_lower (take n s) then Some (drop n s) else None)"

definition take_char :: "char \<Rightarrow> string \<Rightarrow> string option" where
  "take_char c s = (case s of [] \<Rightarrow> None | d # t \<Rightarrow> if d = c then Some t else None)"

definition match_uuid :: "string \<Rightarrow> string option" where
  "match_uuid s =
     Option.bind (take_hex 8 s) (\<lambda>s. Option.bind (take_char CHR ''-'' s) (\<lambda>s.
     Option.bind (take_hex 4 s) (\<lambda>s. Option.bind (take_char CHR ''-'' s) (\<lambda>s.
     Option.bind (take_hex 4 s) (\<lambda>s. Option.bind (take_char CHR ''-'' s) (\<lambda>s.
     Option.bind (take_hex 4 s) (\<lambda>s. Option.bind (take_char CHR ''-'' s) (\<lambda>s.
     take_hex 12 s))))))))"

text \<open>
  \<open>RID_PATTERN.match\<close>: the pattern is anchored by \<open>$\<close>, which in Python also matches before one
  final line feed. The resource type is the longest run of lower-case letters, and a dot follows.
\<close>

definition validate_rid :: "string \<Rightarrow> bool" where
  "validate_rid s =
     (is_prefix ''ri.'' s \<and>
      (let t = drop 3 s; ty = takeWhile is_lower t; u = dropWhile is_lower t in
       ty \<noteq> [] \<and>
       (case Option.bind (take_char CHR ''.'' u) match_uuid of
          Some r \<Rightarrow> r = [] \<or> r = [CHR 0x0A]
        | None \<Rightarrow> False)))"

text \<open>\<open>generate_rid\<close> draws its UUID from \<open>uuid.uuid4()\<close>; the model takes it as an argument.\<close>

definition generate_rid :: "string \<Rightarrow> string \<Rightarrow> string res" where
  "generate_rid uuid resource_type =
     (if resource_type \<notin> set VALID_RESOURCE_TYPES
      then Inl (ValueError (''Unknown resource type: '' @ resource_type @ ''. Valid types: ['' @
             join '', '' (map (\<lambda>t. CHR 0x27 # t @ [CHR 0x27]) (sort VALID_RESOURCE_TYPES)) @ '']''))
      else Inr (''ri.'' @ resource_type @ ''.'' @ uuid))"

text \<open>\<open>s.split(sep, k)\<close> for a one-character separator.\<close>

fun split_max :: "char \<Rightarrow> nat \<Rightarrow> string \<Rightarrow> string list" where
  "split_max c 0 s = [s]"
| "split_max c (Suc k) s =
     (if c \<in> set s
      then takeWhile (\<lambda>d. d \<noteq> c) s # split_max c k (tl (dropWhile (\<lambda>d. d \<noteq> c) s))
      else [s])"

definition parse_rid :: "string \<Rightarrow> (string \<times> string) res" where
  "parse_rid rid =
     (if \<not> validate_rid rid then Inl (ValueError (''Invalid RID format: '' @ rid))
      else (case split_max CHR ''.'' 2 rid of
              _ # a # b # _ \<Rightarrow> Inr (a, b)
            | _ \<Rightarrow> Inl (ValueError ''list index out of range'')))"

definition validate_rid_type :: "string \<Rightarrow> string \<Rightarrow> bool" where
  "validate_rid_type rid expected =
     (if \<not> validate_rid rid then False
      else (case parse_rid rid of Inr (ty, _) \<Rightarrow> ty = expected | Inl _ \<Rightarrow> False))"

subsection \<open>Filters, sorting and pages\<close>

datatype filter_operator = EQ | NEQ | GT | GTE | LT | LTE | CONTAINS | IN_OP

datatype sort_order = ASC | DESC

record filter_spec =
  flt_field :: string
  flt_operator :: filter_operator
  flt_value :: pyval

record sort_spec =
  srt_field :: string
  srt_order :: sort_order

record pagination =
  pg_page :: int
  pg_size :: int

text \<open>The field constraints of \<open>PaginationRequest\<close>: \<open>page >= 1\<close>, \<open>1 <= page_size <= 100\<close>.\<close>

definition pagination_valid :: "pagination \<Rightarrow> bool" where
  "pagination_valid p \<longleftrightarrow> 1 \<le> pg_page p \<and> 1 \<le> pg_size p \<and> pg_size p \<le> 100"

definition default_pagination :: pagination where
  "default_pagination = \<lparr>pg_page = 1, pg_size = 20\<rparr>"

text \<open>
  How every list route of the routers turns a page into an offset and says whether another page
  follows.
\<close>

definition page_offset :: "pagination \<Rightarrow> int" where
  "page_offset p = (pg_page p - 1) * pg_size p"

record pagination_response =
  pr_total :: int
  pr_page :: int
  pr_page_size :: int
  pr_has_next :: bool

definition paginate :: "pagination \<Rightarrow> int \<Rightarrow> pagination_response" where
  "paginate p tot =
     \<lparr>pr_total = tot, pr_page = pg_page p, pr_page_size = pg_size p,
      pr_has_next = (page_offset p + pg_size p < tot)\<rparr>"

subsection \<open>Errors reach the client as what they are\<close>

lemma status_codes_listed: "list_all (\<lambda>(_, n). 400 \<le> n \<and> n < 600) ERROR_STATUS_MAP"
  by (simp add: ERROR_STATUS_MAP_def)

lemma status_listed: "\<exists>n. (c, n) \<in> set ERROR_STATUS_MAP"
  by (cases c) (simp_all add: ERROR_STATUS_MAP_def)

lemma status_code_in: "(c, status_code c) \<in> set ERROR_STATUS_MAP"
proof -
  obtain n where "(c, n) \<in> set ERROR_STATUS_MAP" using status_listed by blast
  then have "map_of ERROR_STATUS_MAP c \<noteq> None" by (metis map_of_eq_None_iff fst_conv image_eqI)
  then show ?thesis by (auto simp: status_code_def dest: map_of_SomeD)
qed

text \<open>
Every error code has its own line in the status table, with a client or server error, and the
response to an application error carries that status, the code, the message and, when there are any,
the details; any other exception is answered with status 500 and nothing of its own text.
\<close>

theorem handled_errors:
  "(case handle_exception req e of (st, body) \<Rightarrow>
      400 \<le> st \<and> st < 600 \<and>
      (case e of
         AppError code message details \<Rightarrow>
           (code, st) \<in> set ERROR_STATUS_MAP \<and>
           (\<exists>err. body = PDict [(''error'', PDict err), (''metadata'', PDict [(''request_id'', PStr req)])] \<and>
              dget err ''code'' = Some (PStr (error_code_value code)) \<and>
              dget err ''message'' = Some (PStr message) \<and>
              dget err ''details'' = (if details = [] then None else Some (PDict details)))
       | _ \<Rightarrow> st = 500 \<and>
           body = PDict [(''error'', PDict [(''code'', PStr ''COMMON_INTERNAL_ERROR''),
                                           (''message'', PStr ''Internal server error'')]),
                         (''metadata'', PDict [(''request_id'', PStr req)])]))"
proof (cases e)
  case (AppError code message details)
  have "400 \<le> status_code code \<and> status_code code < 600"
    using status_codes_listed status_code_in [of code] by (auto simp: list_all_iff)
  then show ?thesis by (simp add: AppError build_error_response_def status_code_in)
qed (simp_all add: build_error_response_def)

subsection \<open>Identifiers\<close>

lemma valid_types_lower: "ty \<in> set VALID_RESOURCE_TYPES \<Longrightarrow> ty \<noteq> [] \<and> list_all is_lower ty \<and> CHR ''.'' \<notin> set ty"
  by (auto simp: VALID_RESOURCE_TYPES_def is_lower_def)

lemma takeWhile_all: "list_all P xs \<Longrightarrow> \<not> P y \<Longrightarrow> takeWhile P (xs @ y # ys) = xs \<and> dropWhile P (xs @ y # ys) = y # ys"
  by (induction xs) auto

lemma split_rid:
  assumes "CHR ''.'' \<notin> set ty"
  shows "split_max CHR ''.'' 2 (''ri.'' @ ty @ CHR ''.'' # rest) = [''ri'', ty, rest]"
proof -
  have "takeWhile (\<lambda>d. d \<noteq> CHR ''.'') (ty @ CHR ''.'' # rest) = ty \<and>
      dropWhile (\<lambda>d. d \<noteq> CHR ''.'') (ty @ CHR ''.'' # rest) = CHR ''.'' # rest"
    using assms by (induction ty) auto
  then show ?thesis by (simp add: numeral_2_eq_2)
qed

text \<open>
An identifier made by \<open>generate_rid\<close> from a UUID is valid, parses back to the resource type and the
UUID it was made from, and passes the type check for that type only.
\<close>

theorem rid_roundtrip:
  assumes "generate_rid uuid ty = Inr rid" and "match_uuid uuid = Some []"
  shows "validate_rid rid \<and> parse_rid rid = Inr (ty, uuid) \<and>
    validate_rid_type rid ty' = (ty' = ty)"
proof -
  have ty: "ty \<in> set VALID_RESOURCE_TYPES" and rid: "rid = ''ri.'' @ ty @ CHR ''.'' # uuid"
    using assms(1) by (auto simp: generate_rid_def split: if_splits)
  have tw: "takeWhile is_lower (ty @ CHR ''.'' # uuid) = ty \<and> dropWhile is_lower (ty @ CHR ''.'' # uuid) = CHR ''.'' # uuid"
    using valid_types_lower [OF ty] by (intro takeWhile_all) (auto simp: is_lower_def)
  have v: "validate_rid rid"
    using tw valid_types_lower [OF ty] assms(2)
    by (simp add: validate_rid_def rid take_char_def)
  then have "parse_rid rid = Inr (ty, uuid)"
    using valid_types_lower [OF ty] split_rid [of ty uuid] by (simp add: parse_rid_def rid)
  with v show ?thesis by (auto simp: validate_rid_type_def)
qed

definition demo_uuid :: string where
  "demo_uuid = ''00000000-0000-4000-8000-000000000000''"

lemma demo_uuid_matches: "match_uuid demo_uuid = Some []"
  by code_simp

lemma rid_roundtrip_witness:
  "parse_rid (''ri.obj.'' @ demo_uuid) = Inr (''obj'', demo_uuid)"
proof -
  have "generate_rid demo_uuid ''obj'' = Inr (''ri.obj.'' @ demo_uuid)"
    by (simp add: generate_rid_def VALID_RESOURCE_TYPES_def)
  from rid_roundtrip [OF this demo_uuid_matches] show ?thesis by simp
qed

end
