(* ===== verification/Redis_Store.thy ===== *)
theory Redis_Store
  imports Infra
begin

section \<open>The key-value server, as the code uses it\<close>

text \<open>
  Redis is a service: its operations are a record of functions that every definition using it takes
  as an argument, over a state of unknown type. The locale \<open>redis\<close> states the documented behaviour
  the code relies on: \<open>SET NX EX\<close> succeeds only on an absent key, \<open>EXPIRE\<close> renews a lease without
  touching the value, time only ever removes keys, and a \<open>SCAN\<close> iteration ends. What the two lock
  managers of the program need is proved once inside it. \<open>ttl_redis\<close>, a keyspace with deadlines
  and a clock, satisfies the laws.
\<close>

record 'r redis_ops =
  rd_set_nx :: "'r \<Rightarrow> string \<Rightarrow> string \<Rightarrow> nat \<Rightarrow> bool \<times> 'r"
  rd_setex :: "'r \<Rightarrow> string \<Rightarrow> nat \<Rightarrow> string \<Rightarrow> 'r"
  rd_get :: "'r \<Rightarrow> string \<Rightarrow> string option"
  rd_expire :: "'r \<Rightarrow> string \<Rightarrow> nat \<Rightarrow> 'r"
  rd_ttl :: "'r \<Rightarrow> string \<Rightarrow> int"
  rd_delete :: "'r \<Rightarrow> string \<Rightarrow> 'r"
  rd_scan :: "'r \<Rightarrow> nat \<Rightarrow> string \<Rightarrow> nat \<times> string list"
  rd_publish :: "'r \<Rightarrow> string \<Rightarrow> string \<Rightarrow> 'r"
  rd_tick :: "'r \<Rightarrow> nat \<Rightarrow> 'r"

text \<open>\<open>rd_tick s d\<close> is the server after \<open>d\<close> seconds in which nobody sends it a command.\<close>

text \<open>
  The loop \<open>while True: cursor, keys = SCAN cursor; DEL keys; if cursor == 0: break\<close>. None is a loop
  that never sees cursor 0.
\<close>

partial_function (option) scan_delete ::
  "'r redis_ops \<Rightarrow> 'r \<Rightarrow> nat \<Rightarrow> string \<Rightarrow> 'r option" where
  "scan_delete R s cursor pat =
     (let (cursor', ks) = rd_scan R s cursor pat;
          s' = fold (\<lambda>k st. rd_delete R st k) ks s
      in if cursor' = 0 then Some s' else scan_delete R s' cursor' pat)"

declare scan_delete.simps [code]

locale redis =
  fixes R :: "'r redis_ops"
    and rank :: "'r \<Rightarrow> nat \<Rightarrow> nat"
  assumes set_nx_free:
      "rd_get R s k = None \<Longrightarrow> 0 < t \<Longrightarrow>
         fst (rd_set_nx R s k v t) \<and> rd_get R (snd (rd_set_nx R s k v t)) k = Some v
         \<and> rd_ttl R (snd (rd_set_nx R s k v t)) k = int t"
    and set_nx_taken: "rd_get R s k = Some w \<Longrightarrow> rd_set_nx R s k v t = (False, s)"
    and set_nx_other:
      "j \<noteq> k \<Longrightarrow> rd_get R (snd (rd_set_nx R s k v t)) j = rd_get R s j
                \<and> rd_ttl R (snd (rd_set_nx R s k v t)) j = rd_ttl R s j"
    and setex_get:
      "0 < t \<Longrightarrow> rd_get R (rd_setex R s k t v) j = (if j = k then Some v else rd_get R s j)"
    and setex_ttl: "0 < t \<Longrightarrow> rd_ttl R (rd_setex R s k t v) k = int t"
    and expire_get: "0 < t \<Longrightarrow> rd_get R (rd_expire R s k t) j = rd_get R s j"
    and expire_ttl:
      "0 < t \<Longrightarrow> rd_get R s k \<noteq> None \<Longrightarrow> rd_ttl R (rd_expire R s k t) k = int t"
    and expire_other: "j \<noteq> k \<Longrightarrow> rd_ttl R (rd_expire R s k t) j = rd_ttl R s j"
    and delete_get: "rd_get R (rd_delete R s k) j = (if j = k then None else rd_get R s j)"
    and delete_other: "j \<noteq> k \<Longrightarrow> rd_ttl R (rd_delete R s k) j = rd_ttl R s j"
    and tick_gone: "rd_get R s k = None \<Longrightarrow> rd_get R (rd_tick R s d) k = None"
    and tick_live:
      "rd_get R s k = Some v \<Longrightarrow> int d < rd_ttl R s k \<Longrightarrow>
         rd_get R (rd_tick R s d) k = Some v \<and> rd_ttl R (rd_tick R s d) k = rd_ttl R s k - int d"
    and tick_dead:
      "rd_get R s k = Some v \<Longrightarrow> 0 \<le> rd_ttl R s k \<Longrightarrow> rd_ttl R s k \<le> int d \<Longrightarrow>
         rd_get R (rd_tick R s d) k = None"
    and publish_get: "rd_get R (rd_publish R s ch m) k = rd_get R s k"
    and scan_progress:
      "rd_scan R s c pat = (c', ks) \<Longrightarrow> c' \<noteq> 0 \<Longrightarrow>
         rank (fold (\<lambda>k st. rd_delete R st k) ks s) c' < rank s c"
    and scan_sound:
      "rd_scan R s c pat = (c', ks) \<Longrightarrow> k \<in> set ks \<Longrightarrow> is_prefix (butlast pat) k"
begin

lemma delete_all_get:
  "rd_get R (fold (\<lambda>k st. rd_delete R st k) ks s) j = (if j \<in> set ks then None else rd_get R s j)"
  by (induction ks arbitrary: s) (auto simp: delete_get)

lemma scan_delete_returns: "\<exists>s'. scan_delete R s c pat = Some s'"
proof (induction "rank s c" arbitrary: s c rule: less_induct)
  case less
  obtain c' ks where sc: "rd_scan R s c pat = (c', ks)" by (cases "rd_scan R s c pat")
  show ?case
  proof (cases "c' = 0")
    case True
    then show ?thesis by (subst scan_delete.simps) (simp add: sc)
  next
    case False
    then obtain s' where "scan_delete R (fold (\<lambda>k st. rd_delete R st k) ks s) c' pat = Some s'"
      using less scan_progress [OF sc] by blast
    then show ?thesis using False by (subst scan_delete.simps) (simp add: sc Let_def)
  qed
qed

lemma scan_delete_frame:
  assumes "scan_delete R s c pat = Some s'" and "\<not> is_prefix (butlast pat) k"
  shows "rd_get R s' k = rd_get R s k"
  using assms(1)
proof (induction "rank s c" arbitrary: s c rule: less_induct)
  case less
  obtain c' ks where sc: "rd_scan R s c pat = (c', ks)" by (cases "rd_scan R s c pat")
  let ?t = "fold (\<lambda>k st. rd_delete R st k) ks s"
  have t: "rd_get R ?t k = rd_get R s k"
    using scan_sound [OF sc] assms(2) by (auto simp: delete_all_get)
  show ?case
  proof (cases "c' = 0")
    case True
    then show ?thesis using less(2) t by (subst (asm) scan_delete.simps) (simp add: sc)
  next
    case False
    then have "scan_delete R ?t c' pat = Some s'"
      using less(2) by (subst (asm) scan_delete.simps) (simp add: sc Let_def)
    then show ?thesis using less(1) scan_progress [OF sc False] t by metis
  qed
qed

text \<open>
  A lease is a key that holds its owner. Three moves on it, as both lock managers make them:
  \<open>SET NX EX\<close>, and renewal when the caller is the owner already.
\<close>

lemma set_nx_outcome:
  assumes "0 < t"
  shows "rd_get R (snd (rd_set_nx R s k v t)) k = Some (case rd_get R s k of None \<Rightarrow> v | Some w \<Rightarrow> w)"
    and "fst (rd_set_nx R s k v t) \<longleftrightarrow> rd_get R s k = None"
  using assms set_nx_free [of s k t v] set_nx_taken [of s k _ v t]
  by (cases "rd_get R s k"; simp)+

end

subsection \<open>Leases\<close>

text \<open>
  The abstract specification both lock managers implement: what a client \<open>w\<close> may do to the key \<open>k\<close>
  of a lease. It may try to take it, and only as the owner renew or drop it.
\<close>

inductive lease_step :: "'r redis_ops \<Rightarrow> string \<Rightarrow> string \<Rightarrow> 'r \<Rightarrow> 'r \<Rightarrow> bool"
  for R k w where
  take: "0 < t \<Longrightarrow> lease_step R k w s (snd (rd_set_nx R s k w t))"
| renew: "rd_get R s k = Some w \<Longrightarrow> 0 < t \<Longrightarrow> lease_step R k w s (rd_expire R s k t)"
| drop: "rd_get R s k = Some w \<Longrightarrow> lease_step R k w s (rd_delete R s k)"

abbreviation lease_steps :: "'r redis_ops \<Rightarrow> string \<Rightarrow> string \<Rightarrow> 'r \<Rightarrow> 'r \<Rightarrow> bool" where
  "lease_steps R k w \<equiv> (lease_step R k w)\<^sup>*\<^sup>*"

text \<open>A run of many clients, with time passing in between.\<close>

datatype lease_event = Client string string | Wait nat

inductive lease_run :: "'r redis_ops \<Rightarrow> 'r \<Rightarrow> lease_event list \<Rightarrow> 'r \<Rightarrow> bool" for R where
  stop: "lease_run R s [] s"
| client: "lease_steps R k w s t \<Longrightarrow> lease_run R t es u \<Longrightarrow> lease_run R s (Client k w # es) u"
| wait: "lease_run R (rd_tick R s d) es u \<Longrightarrow> lease_run R s (Wait d # es) u"

inductive_cases lease_run_NilE: "lease_run R s [] u"
inductive_cases lease_run_ClientE: "lease_run R s (Client k w # es) u"
inductive_cases lease_run_WaitE: "lease_run R s (Wait d # es) u"

fun waited :: "lease_event list \<Rightarrow> nat" where
  "waited [] = 0"
| "waited (Wait d # es) = d + waited es"
| "waited (Client k w # es) = waited es"

context redis
begin

lemma lease_step_foreign:
  assumes "lease_step R k w s t" and "rd_get R s k = Some u" and "u \<noteq> w"
  shows "t = s"
  using assms
proof cases
  case (take d)
  then show ?thesis using assms(2) by (simp add: set_nx_taken)
qed simp_all

lemma lease_step_elsewhere:
  assumes "lease_step R k w s t" and "j \<noteq> k"
  shows "rd_get R t j = rd_get R s j \<and> rd_ttl R t j = rd_ttl R s j"
  using assms(1)
proof cases
  case (take d)
  then show ?thesis using assms(2) by (simp add: set_nx_other)
next
  case (renew d)
  then show ?thesis using assms(2) by (simp add: expire_get expire_other)
next
  case drop
  then show ?thesis using assms(2) by (simp add: delete_get delete_other)
qed

lemma lease_steps_foreign:
  "lease_steps R k w s t \<Longrightarrow> rd_get R s k = Some u \<Longrightarrow> u \<noteq> w \<Longrightarrow> t = s"
  by (induction rule: rtranclp_induct) (auto dest: lease_step_foreign)

lemma lease_steps_elsewhere:
  "lease_steps R k w s t \<Longrightarrow> j \<noteq> k \<Longrightarrow>
     rd_get R t j = rd_get R s j \<and> rd_ttl R t j = rd_ttl R s j"
  by (induction rule: rtranclp_induct) (auto dest: lease_step_elsewhere)

text \<open>
  Nobody else's moves, on this lease or another, take a lease away before its time is up.
\<close>

lemma lease_held:
  assumes "lease_run R s es t" and "rd_get R s k = Some u" and "int (waited es) < rd_ttl R s k"
    and "Client k u \<notin> set es"
  shows "rd_get R t k = Some u \<and> rd_ttl R t k = rd_ttl R s k - int (waited es)"
  using assms
proof (induction rule: lease_run.induct)
  case (client k' w s t' es t)
  then have t': "rd_get R t' k = Some u \<and> rd_ttl R t' k = rd_ttl R s k"
    using lease_steps_elsewhere [of k' w s t' k]
    by (cases "k' = k") (auto dest: lease_steps_foreign)
  with client show ?case by simp
next
  case (wait s d es t)
  then have "int d < rd_ttl R s k" by simp
  with wait tick_live [of s k u d] show ?case by simp
qed simp

end

subsection \<open>A keyspace with deadlines\<close>

record ttl_state =
  ts_data :: "(string \<times> nat option) dict"
  ts_clock :: nat
  ts_published :: "(string \<times> string) list"

definition ttl_live :: "ttl_state \<Rightarrow> string \<Rightarrow> (string \<times> nat option) option" where
  "ttl_live s k =
     (case map_of (ts_data s) k of
        None \<Rightarrow> None
      | Some (v, None) \<Rightarrow> Some (v, None)
      | Some (v, Some d) \<Rightarrow> (if ts_clock s < d then Some (v, Some d) else None))"

definition ttl_get :: "ttl_state \<Rightarrow> string \<Rightarrow> string option" where
  "ttl_get s k = map_option fst (ttl_live s k)"

definition ttl_ttl :: "ttl_state \<Rightarrow> string \<Rightarrow> int" where
  "ttl_ttl s k =
     (case ttl_live s k of
        None \<Rightarrow> -2
      | Some (v, None) \<Rightarrow> -1
      | Some (v, Some d) \<Rightarrow> int d - int (ts_clock s))"

definition ttl_setex :: "ttl_state \<Rightarrow> string \<Rightarrow> nat \<Rightarrow> string \<Rightarrow> ttl_state" where
  "ttl_setex s k t v = s\<lparr>ts_data := dput k (v, Some (ts_clock s + t)) (ts_data s)\<rparr>"

definition ttl_set_nx :: "ttl_state \<Rightarrow> string \<Rightarrow> string \<Rightarrow> nat \<Rightarrow> bool \<times> ttl_state" where
  "ttl_set_nx s k v t = (if ttl_get s k = None then (True, ttl_setex s k t v) else (False, s))"

definition ttl_delete :: "ttl_state \<Rightarrow> string \<Rightarrow> ttl_state" where
  "ttl_delete s k = s\<lparr>ts_data := AList.delete k (ts_data s)\<rparr>"

definition ttl_expire :: "ttl_state \<Rightarrow> string \<Rightarrow> nat \<Rightarrow> ttl_state" where
  "ttl_expire s k t =
     (case ttl_live s k of
        None \<Rightarrow> s
      | Some (v, _) \<Rightarrow> (if t = 0 then ttl_delete s k else ttl_setex s k t v))"

definition ttl_scan :: "ttl_state \<Rightarrow> nat \<Rightarrow> string \<Rightarrow> nat \<times> string list" where
  "ttl_scan s c pat =
     (0, filter (\<lambda>k. is_prefix (butlast pat) k \<and> ttl_get s k \<noteq> None) (map fst (ts_data s)))"

definition ttl_publish :: "ttl_state \<Rightarrow> string \<Rightarrow> string \<Rightarrow> ttl_state" where
  "ttl_publish s ch m = s\<lparr>ts_published := ts_published s @ [(ch, m)]\<rparr>"

definition ttl_tick :: "ttl_state \<Rightarrow> nat \<Rightarrow> ttl_state" where
  "ttl_tick s d = s\<lparr>ts_clock := ts_clock s + d\<rparr>"

definition ttl_redis :: "ttl_state redis_ops" where
  "ttl_redis =
     \<lparr>rd_set_nx = ttl_set_nx, rd_setex = ttl_setex, rd_get = ttl_get, rd_expire = ttl_expire,
      rd_ttl = ttl_ttl, rd_delete = ttl_delete, rd_scan = ttl_scan, rd_publish = ttl_publish,
      rd_tick = ttl_tick\<rparr>"

definition ttl_empty :: ttl_state where
  "ttl_empty = \<lparr>ts_data = [], ts_clock = 0, ts_published = []\<rparr>"

lemmas ttl_defs = ttl_get_def ttl_ttl_def ttl_live_def ttl_setex_def ttl_set_nx_def ttl_delete_def
  ttl_expire_def ttl_scan_def ttl_publish_def ttl_tick_def

interpretation ttl: redis ttl_redis "\<lambda>s c. 0"
proof (unfold_locales, goal_cases)
  case 15
  then show ?case by (simp add: ttl_redis_def ttl_defs)
next
  case 16
  then show ?case by (auto simp: ttl_redis_def ttl_scan_def)
qed (auto simp: ttl_redis_def ttl_defs split: option.splits prod.splits if_splits)

end
