(* ===== verification/Ontology_Locks.thy ===== *)
theory Ontology_Locks
  imports Redis_Store
begin

section \<open>Edit locks of the ontology, row locks of the data write-back\<close>

text \<open>
  Two lock managers over the key-value server. \<open>OntologyServiceImpl\<close> (\<open>ontology/service.py\<close>, lock
  management) guards the editing of an entity by the lease \<open>ontology:lock:{rid}\<close>; \<open>RowLock\<close>
  (\<open>data/writeback/lock.py\<close>) guards one row by \<open>row_lock:{tenant}:{type}:{hash}\<close>. Every
  operation is shown to make lease moves of its caller only, so the facts of the locale \<open>redis\<close>
  apply to both.
\<close>

subsection \<open>Edit locks\<close>

definition LOCK_TTL_SECONDS :: nat where "LOCK_TTL_SECONDS = 1800"
definition COMMIT_LOCK_TTL_SECONDS :: nat where "COMMIT_LOCK_TTL_SECONDS = 60"

definition lock_key :: "string \<Rightarrow> string" where
  "lock_key rid = ''ontology:lock:'' @ rid"

record lock_status =
  ls_rid :: string
  ls_locked :: bool
  ls_locked_by :: "string option"
  ls_expires_in :: "int option"

text \<open>\<open>str(owner) if owner else None\<close>\<close>

definition owner_str :: "string option \<Rightarrow> string option" where
  "owner_str ow = (case ow of Some w \<Rightarrow> if w = [] then None else Some w | None \<Rightarrow> None)"

definition py_opt_str :: "string option \<Rightarrow> pyval" where
  "py_opt_str x = (case x of Some s \<Rightarrow> PStr s | None \<Rightarrow> PNone)"

definition acquire_lock :: "'r redis_ops \<Rightarrow> ctx \<Rightarrow> string \<Rightarrow> ('r, exn, lock_status) comp" where
  "acquire_lock R c rid =
     bindC (liftC (get_user_id c)) (\<lambda>user s.
       let key = lock_key rid;
           (acquired, s1) = rd_set_nx R s key user LOCK_TTL_SECONDS;
           held = \<lparr>ls_rid = rid, ls_locked = True, ls_locked_by = Some user,
                   ls_expires_in = Some (int LOCK_TTL_SECONDS)\<rparr>
       in if \<not> acquired then
            (let ow = owner_str (rd_get R s1 key) in
             if ow = Some user
             then (Inr held, rd_expire R s1 key LOCK_TTL_SECONDS)
             else (Inl (AppError ONTOLOGY_LOCK_CONFLICT
                          (''Entity '' @ rid @ '' is locked by another user'')
                          [(''locked_by'', py_opt_str ow)]), s1))
          else (Inr held, s1))"

definition release_lock :: "'r redis_ops \<Rightarrow> ctx \<Rightarrow> string \<Rightarrow> ('r, exn, lock_status) comp" where
  "release_lock R c rid =
     bindC (liftC (get_user_id c)) (\<lambda>user s.
       let key = lock_key rid; ow = owner_str (rd_get R s key)
       in (Inr \<lparr>ls_rid = rid, ls_locked = False, ls_locked_by = None, ls_expires_in = None\<rparr>,
           if ow = Some user then rd_delete R s key else s))"

definition refresh_lock :: "'r redis_ops \<Rightarrow> ctx \<Rightarrow> string \<Rightarrow> ('r, exn, lock_status) comp" where
  "refresh_lock R c rid =
     bindC (liftC (get_user_id c)) (\<lambda>user s.
       let key = lock_key rid; ow = owner_str (rd_get R s key)
       in if ow \<noteq> Some user
          then (Inl (AppError ONTOLOGY_LOCK_CONFLICT (''You don'' @ CHR 0x27 # ''t own the lock on '' @ rid) []), s)
          else (let s1 = rd_expire R s key LOCK_TTL_SECONDS
                in (Inr \<lparr>ls_rid = rid, ls_locked = True, ls_locked_by = Some user,
                        ls_expires_in = Some (rd_ttl R s1 key)\<rparr>, s1)))"

definition require_lock :: "'r redis_ops \<Rightarrow> string \<Rightarrow> string \<Rightarrow> ('r, exn, unit) comp" where
  "require_lock R rid user s =
     (if owner_str (rd_get R s (lock_key rid)) \<noteq> Some user
      then (Inl (AppError ONTOLOGY_LOCK_REQUIRED
                   (''Lock required on '' @ rid @ ''. Acquire lock first.'') []), s)
      else (Inr (), s))"

lemma owner_str_Some_iff [simp]: "owner_str ow = Some u \<longleftrightarrow> ow = Some u \<and> u \<noteq> []"
  by (auto simp: owner_str_def split: option.splits)

lemma lock_key_inj [simp]: "lock_key a = lock_key b \<longleftrightarrow> a = b"
  by (simp add: lock_key_def)

lemma lock_ttl_pos [simp]: "0 < LOCK_TTL_SECONDS" "0 < COMMIT_LOCK_TTL_SECONDS"
  by (simp_all add: LOCK_TTL_SECONDS_def COMMIT_LOCK_TTL_SECONDS_def)

lemma require_lock_ok_iff:
  "require_lock R rid u s = (Inr x, t) \<longleftrightarrow> t = s \<and> rd_get R s (lock_key rid) = Some u \<and> u \<noteq> []"
  by (auto simp: require_lock_def)

lemma require_lock_state [simp]: "snd (require_lock R rid u s) = s"
  by (simp add: require_lock_def)

text \<open>Each operation is a sequence of lease moves of its caller on the entity's key.\<close>

lemma acquire_lock_lease:
  assumes "get_user_id c = Inr w"
  shows "lease_steps R (lock_key rid) w s (snd (acquire_lock R c rid s))"
proof -
  obtain b s1 where nx: "rd_set_nx R s (lock_key rid) w LOCK_TTL_SECONDS = (b, s1)"
    by (cases "rd_set_nx R s (lock_key rid) w LOCK_TTL_SECONDS")
  have 1: "lease_step R (lock_key rid) w s s1"
    using lease_step.take [of LOCK_TTL_SECONDS R "lock_key rid" w s] nx by simp
  have "rd_get R s1 (lock_key rid) = Some w \<Longrightarrow>
      lease_step R (lock_key rid) w s1 (rd_expire R s1 (lock_key rid) LOCK_TTL_SECONDS)"
    by (rule lease_step.renew) simp_all
  with 1 show ?thesis
    by (auto simp: acquire_lock_def bindC_run assms nx Let_def intro: rtranclp.rtrancl_into_rtrancl)
qed

lemma release_lock_lease:
  assumes "get_user_id c = Inr w"
  shows "lease_steps R (lock_key rid) w s (snd (release_lock R c rid s))"
  using assms lease_step.drop [of R s "lock_key rid" w]
  by (auto simp: release_lock_def bindC_run Let_def)

lemma refresh_lock_lease:
  assumes "get_user_id c = Inr w"
  shows "lease_steps R (lock_key rid) w s (snd (refresh_lock R c rid s))"
  using assms lease_step.renew [of R s "lock_key rid" w LOCK_TTL_SECONDS]
  by (auto simp: refresh_lock_def bindC_run Let_def)

subsection \<open>Row locks\<close>

text \<open>
  \<open>json.dumps(primary_key, sort_keys=True)\<close> hashed by SHA-256, of which 16 hex digits are kept: the
  digest is an argument.
\<close>

fun sort_keys :: "pyval \<Rightarrow> pyval" where
  "sort_keys (PList xs) = PList (map sort_keys xs)"
| "sort_keys (PDict d) = PDict (sort_key fst (map (\<lambda>(k, v). (k, sort_keys v)) d))"
| "sort_keys v = v"

definition row_lock_key ::
  "(string \<Rightarrow> string) \<Rightarrow> string \<Rightarrow> string \<Rightarrow> pyval dict \<Rightarrow> string" where
  "row_lock_key sha256 tenant_id type_rid primary_key =
     ''row_lock:'' @ tenant_id @ '':'' @ type_rid @ '':'' @
       take 16 (sha256 (json_dumps (sort_keys (PDict primary_key))))"

definition row_acquire ::
  "'r redis_ops \<Rightarrow> string \<Rightarrow> string \<Rightarrow> nat \<Rightarrow> 'r \<Rightarrow> bool \<times> 'r" where
  "row_acquire R key user_id ttl s =
     (let (acquired, s1) = rd_set_nx R s key user_id ttl in
      if acquired then (True, s1)
      else if rd_get R s1 key = Some user_id then (True, rd_expire R s1 key ttl)
      else (False, s1))"

definition row_release :: "'r redis_ops \<Rightarrow> string \<Rightarrow> string \<Rightarrow> 'r \<Rightarrow> bool \<times> 'r" where
  "row_release R key user_id s =
     (if rd_get R s key \<noteq> Some user_id then (False, s) else (True, rd_delete R s key))"

definition row_is_locked :: "'r redis_ops \<Rightarrow> string \<Rightarrow> 'r \<Rightarrow> bool \<times> string option" where
  "row_is_locked R key s =
     (case rd_get R s key of None \<Rightarrow> (False, None) | Some h \<Rightarrow> (True, Some h))"

lemma row_acquire_lease:
  assumes "0 < ttl"
  shows "lease_steps R key w s (snd (row_acquire R key w ttl s))"
proof -
  obtain b s1 where nx: "rd_set_nx R s key w ttl = (b, s1)" by (cases "rd_set_nx R s key w ttl")
  have 1: "lease_step R key w s s1"
    using lease_step.take [OF assms, of R key w s] nx by simp
  have "rd_get R s1 key = Some w \<Longrightarrow> lease_step R key w s1 (rd_expire R s1 key ttl)"
    using assms by (simp add: lease_step.renew)
  with 1 show ?thesis
    by (auto simp: row_acquire_def nx intro: rtranclp.rtrancl_into_rtrancl)
qed

lemma row_release_lease: "lease_steps R key w s (snd (row_release R key w s))"
  using lease_step.drop [of R s key w] by (auto simp: row_release_def)

text \<open>The operations of both managers as one run, on any number of keys.\<close>

datatype lock_event =
    Acquire string string
  | Release string string
  | Refresh string string
  | RowAcquire string string nat
  | RowRelease string string
  | Pass nat

definition user_ctx :: "string \<Rightarrow> ctx" where
  "user_ctx u = \<lparr>ctx_user_id = Some u, ctx_tenant_id = None, ctx_role = None, ctx_request_id = None\<rparr>"

fun lock_step :: "'r redis_ops \<Rightarrow> lock_event \<Rightarrow> 'r \<Rightarrow> 'r" where
  "lock_step R (Acquire u rid) s = snd (acquire_lock R (user_ctx u) rid s)"
| "lock_step R (Release u rid) s = snd (release_lock R (user_ctx u) rid s)"
| "lock_step R (Refresh u rid) s = snd (refresh_lock R (user_ctx u) rid s)"
| "lock_step R (RowAcquire u key ttl) s = snd (row_acquire R key u (Suc ttl) s)"
| "lock_step R (RowRelease u key) s = snd (row_release R key u s)"
| "lock_step R (Pass d) s = rd_tick R s d"

fun lock_run :: "'r redis_ops \<Rightarrow> lock_event list \<Rightarrow> 'r \<Rightarrow> 'r" where
  "lock_run R [] s = s"
| "lock_run R (e # es) s = lock_run R es (lock_step R e s)"

fun lease_of :: "lock_event \<Rightarrow> lease_event" where
  "lease_of (Acquire u rid) = Client (lock_key rid) u"
| "lease_of (Release u rid) = Client (lock_key rid) u"
| "lease_of (Refresh u rid) = Client (lock_key rid) u"
| "lease_of (RowAcquire u key ttl) = Client key u"
| "lease_of (RowRelease u key) = Client key u"
| "lease_of (Pass d) = Wait d"

lemma get_user_id_user_ctx [simp]: "get_user_id (user_ctx u) = Inr u"
  by (simp add: get_user_id_def user_ctx_def)

lemma lock_run_refines: "lease_run R s (map lease_of es) (lock_run R es s)"
proof (induction es arbitrary: s)
  case Nil
  show ?case by (simp add: lease_run.stop)
next
  case (Cons e es)
  show ?case
  proof (cases "lease_of e")
    case (Client k w)
    have "lease_steps R k w s (lock_step R e s)"
      using Client
      by (cases e) (auto intro: acquire_lock_lease release_lock_lease refresh_lock_lease
          row_acquire_lease row_release_lease)
    then show ?thesis using Client Cons by (auto intro: lease_run.client)
  next
    case (Wait d)
    then have "e = Pass d" by (cases e) auto
    then show ?thesis using Wait Cons by (auto intro: lease_run.wait)
  qed
qed

end
