(* ===== verification/Graph_Repo.thy ===== *)
theory Graph_Repo
  imports Infra
begin

section \<open>The graph repository of the ontology\<close>

text \<open>
  \<open>ontology/repository/graph_repo.py\<close>. A labelled property graph holds every version of every
  entity as a node: a Draft has \<open>is_draft\<close> set and an owner, a Staging version \<open>is_staging\<close>, the
  published one is neither and has \<open>is_active\<close>; a historical version is none of the three.
  Each method of \<open>GraphRepository\<close> sends a Cypher text, and each definition below is that text read
  clause by clause over the graph: \<open>MATCH\<close> scans the nodes in the order of the list, \<open>single()\<close> takes
  the first row, \<open>SET n += $props\<close> overlays the properties (a null removes one), \<open>DETACH DELETE\<close>
  removes the node and its edges. Comparing with null, or a missing property, never matches.
  Properties can hold neither maps nor nested lists: a write of one is refused by the driver.
\<close>

record gnode =
  nid :: nat
  nlabel :: string
  nprops :: "pyval dict"

record gedge =
  esrc :: nat
  etype :: string
  edst :: nat
  eprops :: "pyval dict"

record graph =
  gnodes :: "gnode list"
  gedges :: "gedge list"
  gnext :: nat

definition empty_graph :: graph where
  "empty_graph = \<lparr>gnodes = [], gedges = [], gnext = 0\<rparr>"

subsection \<open>Property values, matching, overlaying\<close>

fun prim_kind :: "pyval \<Rightarrow> nat" where
  "prim_kind (PBool b) = 1"
| "prim_kind (PInt i) = (if - (2 ^ 63) \<le> i \<and> i < 2 ^ 63 then 2 else 0)"
| "prim_kind (PFloat s) = 3"
| "prim_kind (PStr s) = 4"
| "prim_kind v = 0"

text \<open>What a property can hold: null, a primitive, or a list of primitives of one kind.\<close>

definition storable :: "pyval \<Rightarrow> bool" where
  "storable v =
     (case v of
        PNone \<Rightarrow> True
      | PList xs \<Rightarrow> (\<exists>k \<in> {1, 2, 3, 4}. list_all (\<lambda>x. prim_kind x = k) xs)
      | _ \<Rightarrow> prim_kind v \<noteq> 0)"

definition all_storable :: "pyval dict \<Rightarrow> bool" where
  "all_storable props = list_all (\<lambda>kv. storable (snd kv)) props"

definition node_is :: "gnode \<Rightarrow> string \<Rightarrow> pyval \<Rightarrow> bool" where
  "node_is n k v \<longleftrightarrow> v \<noteq> PNone \<and> map_of (nprops n) k = Some v"

definition node_all :: "gnode \<Rightarrow> pyval dict \<Rightarrow> bool" where
  "node_all n conds = list_all (\<lambda>kv. node_is n (fst kv) (snd kv)) conds"

definition set_props :: "pyval dict \<Rightarrow> pyval dict \<Rightarrow> pyval dict" where
  "set_props d props =
     fold (\<lambda>(k, v) acc. if v = PNone then AList.delete k acc else AList.update k v acc) props d"

definition match_nodes :: "graph \<Rightarrow> string \<Rightarrow> pyval dict \<Rightarrow> gnode list" where
  "match_nodes g label conds = filter (\<lambda>n. nlabel n = label \<and> node_all n conds) (gnodes g)"

definition tenant_is :: "gnode \<Rightarrow> string \<Rightarrow> bool" where
  "tenant_is n t = node_is n ''tenant_id'' (PStr t)"

definition is_draft :: "gnode \<Rightarrow> bool" where
  "is_draft n = node_is n ''is_draft'' (PBool True)"

definition is_staging :: "gnode \<Rightarrow> bool" where
  "is_staging n = node_is n ''is_staging'' (PBool True)"

definition is_active_version :: "gnode \<Rightarrow> bool" where
  "is_active_version n =
     (node_is n ''is_draft'' (PBool False) \<and> node_is n ''is_staging'' (PBool False)
      \<and> node_is n ''is_active'' (PBool True))"

definition update_where :: "(gnode \<Rightarrow> bool) \<Rightarrow> pyval dict \<Rightarrow> graph \<Rightarrow> graph" where
  "update_where P props g =
     g\<lparr>gnodes := map (\<lambda>n. if P n then n\<lparr>nprops := set_props (nprops n) props\<rparr> else n) (gnodes g)\<rparr>"

definition detach_delete_where :: "(gnode \<Rightarrow> bool) \<Rightarrow> graph \<Rightarrow> graph" where
  "detach_delete_where P g =
     (let gone = map nid (filter P (gnodes g)) in
      g\<lparr>gnodes := filter (\<lambda>n. \<not> P n) (gnodes g),
        gedges := filter (\<lambda>e. esrc e \<notin> set gone \<and> edst e \<notin> set gone) (gedges g)\<rparr>)"

subsection \<open>Node CRUD\<close>

definition create_node ::
  "string \<Rightarrow> pyval dict \<Rightarrow> (graph, exn, pyval dict) comp" where
  "create_node label props g =
     (if \<not> all_storable props then (Inl (DriverError ''CypherTypeError''), g)
      else
        (let n = \<lparr>nid = gnext g, nlabel = label, nprops = set_props [] props\<rparr>
         in (Inr (nprops n), g\<lparr>gnodes := gnodes g @ [n], gnext := Suc (gnext g)\<rparr>)))"

definition identity_conds :: "string \<Rightarrow> string \<Rightarrow> pyval dict" where
  "identity_conds rid tenant_id = [(''rid'', PStr rid), (''tenant_id'', PStr tenant_id)]"

definition get_node :: "string \<Rightarrow> string \<Rightarrow> string \<Rightarrow> graph \<Rightarrow> pyval dict option" where
  "get_node label rid tenant_id g =
     map_option nprops (single (match_nodes g label (identity_conds rid tenant_id)))"

definition get_active_node :: "string \<Rightarrow> string \<Rightarrow> string \<Rightarrow> graph \<Rightarrow> pyval dict option" where
  "get_active_node label rid tenant_id g =
     map_option nprops (single (match_nodes g label
       (identity_conds rid tenant_id @
        [(''is_draft'', PBool False), (''is_staging'', PBool False), (''is_active'', PBool True)])))"

definition get_draft_node ::
  "string \<Rightarrow> string \<Rightarrow> string \<Rightarrow> string \<Rightarrow> graph \<Rightarrow> pyval dict option" where
  "get_draft_node label rid tenant_id user_id g =
     map_option nprops (single (match_nodes g label
       (identity_conds rid tenant_id @
        [(''is_draft'', PBool True), (''draft_owner'', PStr user_id)])))"

definition get_staging_node :: "string \<Rightarrow> string \<Rightarrow> string \<Rightarrow> graph \<Rightarrow> pyval dict option" where
  "get_staging_node label rid tenant_id g =
     map_option nprops (single (match_nodes g label
       (identity_conds rid tenant_id @ [(''is_staging'', PBool True)])))"

definition get_effective_node ::
  "string \<Rightarrow> string \<Rightarrow> string \<Rightarrow> string \<Rightarrow> graph \<Rightarrow> pyval dict option" where
  "get_effective_node label rid tenant_id user_id g =
     (case get_draft_node label rid tenant_id user_id g of
        Some node \<Rightarrow> Some node
      | None \<Rightarrow>
          (case get_staging_node label rid tenant_id g of
             Some node \<Rightarrow> Some node
           | None \<Rightarrow> get_active_node label rid tenant_id g))"

text \<open>The optional parts of a match pattern: a keyword argument that is None adds nothing.\<close>

definition opt_bool_cond :: "string \<Rightarrow> bool option \<Rightarrow> pyval dict" where
  "opt_bool_cond k b = (case b of None \<Rightarrow> [] | Some x \<Rightarrow> [(k, PBool x)])"

definition opt_str_cond :: "string \<Rightarrow> string option \<Rightarrow> pyval dict" where
  "opt_str_cond k b = (case b of None \<Rightarrow> [] | Some x \<Rightarrow> [(k, PStr x)])"

definition update_node ::
  "string \<Rightarrow> string \<Rightarrow> string \<Rightarrow> pyval dict \<Rightarrow> bool option \<Rightarrow> string option \<Rightarrow>
   (graph, exn, pyval dict option) comp" where
  "update_node label rid tenant_id props draft owner g =
     (let conds = identity_conds rid tenant_id @ opt_bool_cond ''is_draft'' draft
                    @ opt_str_cond ''draft_owner'' owner;
          found = match_nodes g label conds
      in if found \<noteq> [] \<and> \<not> all_storable props
         then (Inl (DriverError ''CypherTypeError''), g)
         else (Inr (map_option (\<lambda>n. set_props (nprops n) props) (single found)),
               update_where (\<lambda>n. nlabel n = label \<and> node_all n conds) props g))"

definition delete_node ::
  "string \<Rightarrow> string \<Rightarrow> string \<Rightarrow> bool option \<Rightarrow> bool option \<Rightarrow> string option \<Rightarrow>
   graph \<Rightarrow> bool \<times> graph" where
  "delete_node label rid tenant_id draft staging owner g =
     (let conds = identity_conds rid tenant_id @ opt_bool_cond ''is_draft'' draft
                    @ opt_bool_cond ''is_staging'' staging @ opt_str_cond ''draft_owner'' owner
      in (match_nodes g label conds \<noteq> [],
          detach_delete_where (\<lambda>n. nlabel n = label \<and> node_all n conds) g))"

subsection \<open>Listing\<close>

definition prop_contains :: "gnode \<Rightarrow> string \<Rightarrow> string \<Rightarrow> bool" where
  "prop_contains n k s = (case map_of (nprops n) k of Some (PStr x) \<Rightarrow> contains s x | _ \<Rightarrow> False)"

definition search_hits :: "string \<Rightarrow> gnode \<Rightarrow> bool" where
  "search_hits s n =
     (prop_contains n ''api_name'' s \<or> prop_contains n ''display_name'' s
      \<or> prop_contains n ''description'' s)"

text \<open>\<open>if search:\<close> and \<open>if filters:\<close>: None and the empty value add no condition.\<close>

definition list_matches :: "pyval dict option \<Rightarrow> string option \<Rightarrow> gnode \<Rightarrow> bool" where
  "list_matches filters search n =
     ((case filters of None \<Rightarrow> True | Some f \<Rightarrow> node_all n f) \<and>
      (case search of None \<Rightarrow> True | Some s \<Rightarrow> s = [] \<or> search_hits s n))"

text \<open>\<open>ORDER BY n.created_at DESC\<close>: a missing value sorts as the largest.\<close>

definition created_key :: "gnode \<Rightarrow> bool \<times> string" where
  "created_key n =
     (case map_of (nprops n) ''created_at'' of Some (PStr s) \<Rightarrow> (False, s) | _ \<Rightarrow> (True, []))"

definition list_where ::
  "(gnode \<Rightarrow> bool) \<Rightarrow> nat \<Rightarrow> nat \<Rightarrow> graph \<Rightarrow> pyval dict list \<times> nat" where
  "list_where P offset limit g =
     (let found = filter P (gnodes g)
      in (map nprops (page offset limit (sort_desc created_key found)), length found))"

definition list_active_nodes ::
  "string \<Rightarrow> string \<Rightarrow> nat \<Rightarrow> nat \<Rightarrow> pyval dict option \<Rightarrow> string option \<Rightarrow> graph \<Rightarrow>
   pyval dict list \<times> nat" where
  "list_active_nodes label tenant_id offset limit filters search g =
     list_where (\<lambda>n. nlabel n = label \<and> tenant_is n tenant_id \<and> is_active_version n
                     \<and> list_matches filters search n) offset limit g"

definition list_nodes ::
  "string \<Rightarrow> string \<Rightarrow> nat \<Rightarrow> nat \<Rightarrow> pyval dict option \<Rightarrow> string option \<Rightarrow> graph \<Rightarrow>
   pyval dict list \<times> nat" where
  "list_nodes label tenant_id offset limit filters search g =
     list_where (\<lambda>n. nlabel n = label \<and> tenant_is n tenant_id \<and> list_matches filters search n)
       offset limit g"

subsection \<open>Relationships\<close>

datatype direction = Outgoing | Incoming | Both

fun edge_links :: "direction \<Rightarrow> gedge \<Rightarrow> nat \<Rightarrow> nat \<Rightarrow> bool" where
  "edge_links Outgoing e i j = (esrc e = i \<and> edst e = j)"
| "edge_links Incoming e i j = (edst e = i \<and> esrc e = j)"
| "edge_links Both e i j = ((esrc e = i \<and> edst e = j) \<or> (edst e = i \<and> esrc e = j))"

fun edge_touches :: "direction \<Rightarrow> gedge \<Rightarrow> nat \<Rightarrow> bool" where
  "edge_touches Outgoing e i = (esrc e = i)"
| "edge_touches Incoming e i = (edst e = i)"
| "edge_touches Both e i = (esrc e = i \<or> edst e = i)"

definition rel_type_is :: "string option \<Rightarrow> gedge \<Rightarrow> bool" where
  "rel_type_is r e = (case r of None \<Rightarrow> True | Some t \<Rightarrow> t = [] \<or> etype e = t)"

definition create_relationship ::
  "string \<Rightarrow> string \<Rightarrow> string \<Rightarrow> string \<Rightarrow> string \<Rightarrow> string \<Rightarrow> pyval dict \<Rightarrow> graph \<Rightarrow> bool \<times> graph" where
  "create_relationship from_label from_rid to_label to_rid rel_type tenant_id props g =
     (let as = match_nodes g from_label (identity_conds from_rid tenant_id);
          bs = match_nodes g to_label (identity_conds to_rid tenant_id);
          new = concat (map (\<lambda>a. map (\<lambda>b.
                  \<lparr>esrc = nid a, etype = rel_type, edst = nid b, eprops = set_props [] props\<rparr>) bs) as)
      in (new \<noteq> [], g\<lparr>gedges := gedges g @ new\<rparr>))"

definition delete_relationships ::
  "string \<Rightarrow> string \<Rightarrow> string \<Rightarrow> string option \<Rightarrow> direction \<Rightarrow> graph \<Rightarrow> nat \<times> graph" where
  "delete_relationships label rid tenant_id rel dir g =
     (let ns = match_nodes g label (identity_conds rid tenant_id);
          rows = concat (map (\<lambda>n. filter (\<lambda>e. rel_type_is rel e \<and> edge_touches dir e (nid n)) (gedges g)) ns)
      in (length rows,
          g\<lparr>gedges := filter (\<lambda>e. \<not> (rel_type_is rel e \<and> (\<exists>n \<in> set ns. edge_touches dir e (nid n))))
                        (gedges g)\<rparr>))"

text \<open>
  The relationship type is spliced into the pattern \<open>-[:TYPE]-\<close>, which has to name one: with an empty
  name the text is not Cypher.
\<close>

definition related :: "direction \<Rightarrow> string \<Rightarrow> gnode \<Rightarrow> graph \<Rightarrow> gnode list" where
  "related dir rel n g =
     concat (map (\<lambda>e. filter (\<lambda>m. edge_links dir e (nid n) (nid m)) (gnodes g))
       (filter (\<lambda>e. etype e = rel) (gedges g)))"

definition get_related_nodes ::
  "string \<Rightarrow> string \<Rightarrow> string \<Rightarrow> string \<Rightarrow> direction \<Rightarrow> graph \<Rightarrow> pyval dict list res" where
  "get_related_nodes label rid tenant_id rel dir g =
     (if rel = [] then Inl (DriverError ''CypherSyntaxError'')
      else Inr (concat (map (\<lambda>n. map nprops (related dir rel n g))
             (match_nodes g label (identity_conds rid tenant_id)))))"

definition incoming_edges ::
  "string \<Rightarrow> string \<Rightarrow> string \<Rightarrow> string option \<Rightarrow> graph \<Rightarrow> gedge list" where
  "incoming_edges label rid tenant_id rel g =
     concat (map (\<lambda>n. filter (\<lambda>e. rel_type_is rel e \<and> edst e = nid n) (gedges g))
       (match_nodes g label (identity_conds rid tenant_id)))"

definition count_incoming_references ::
  "string \<Rightarrow> string \<Rightarrow> string \<Rightarrow> string option \<Rightarrow> graph \<Rightarrow> nat" where
  "count_incoming_references label rid tenant_id rel g =
     length (incoming_edges label rid tenant_id rel g)"

definition get_incoming_referencing_rids ::
  "string \<Rightarrow> string \<Rightarrow> string \<Rightarrow> string option \<Rightarrow> graph \<Rightarrow> pyval list" where
  "get_incoming_referencing_rids label rid tenant_id rel g =
     concat (map (\<lambda>e. map (\<lambda>m. pget (nprops m) ''rid'') (filter (\<lambda>m. nid m = esrc e) (gnodes g)))
       (incoming_edges label rid tenant_id rel g))"

subsection \<open>Topology and search\<close>

definition topology_node :: "gnode \<Rightarrow> pyval dict" where
  "topology_node n =
     [(''rid'', pget (nprops n) ''rid''), (''label'', PStr (nlabel n)),
      (''api_name'', pget (nprops n) ''api_name''),
      (''display_name'', pget (nprops n) ''display_name'')]"

definition get_topology :: "string \<Rightarrow> graph \<Rightarrow> pyval dict list \<times> pyval dict list" where
  "get_topology tenant_id g =
     (map topology_node (filter (\<lambda>n. tenant_is n tenant_id \<and> is_active_version n) (gnodes g)),
      concat (map (\<lambda>e. concat (map (\<lambda>a. map (\<lambda>b.
          [(''source'', pget (nprops a) ''rid''), (''target'', pget (nprops b) ''rid''),
           (''rel_type'', PStr (etype e))])
          (filter (\<lambda>b. nid b = edst e \<and> is_active_version b) (gnodes g)))
        (filter (\<lambda>a. nid a = esrc e \<and> tenant_is a tenant_id \<and> is_active_version a) (gnodes g))))
        (gedges g)))"

definition search_nodes ::
  "string \<Rightarrow> string \<Rightarrow> string list option \<Rightarrow> nat \<Rightarrow> graph \<Rightarrow> pyval dict list" where
  "search_nodes tenant_id q labels limit g =
     map (\<lambda>n. dput ''_entity_type'' (PStr (nlabel n)) (nprops n))
       (take limit (filter (\<lambda>n. tenant_is n tenant_id \<and> is_active_version n
          \<and> (case labels of None \<Rightarrow> True | Some ls \<Rightarrow> ls = [] \<or> nlabel n \<in> set ls)
          \<and> search_hits q n) (gnodes g)))"

subsection \<open>Staging and Draft summaries\<close>

definition count_by_label :: "gnode list \<Rightarrow> nat dict" where
  "count_by_label ns =
     fold (\<lambda>n d. dput (nlabel n) (Suc (dget_or d (nlabel n) 0)) d) ns []"

definition get_staging_summary :: "string \<Rightarrow> graph \<Rightarrow> nat dict" where
  "get_staging_summary tenant_id g =
     count_by_label (filter (\<lambda>n. tenant_is n tenant_id \<and> is_staging n) (gnodes g))"

definition get_staging_nodes :: "string \<Rightarrow> graph \<Rightarrow> pyval dict list" where
  "get_staging_nodes tenant_id g =
     map (\<lambda>n. dput ''_label'' (PStr (nlabel n)) (nprops n))
       (filter (\<lambda>n. tenant_is n tenant_id \<and> is_staging n) (gnodes g))"

definition get_drafts_summary :: "string \<Rightarrow> string \<Rightarrow> graph \<Rightarrow> nat dict" where
  "get_drafts_summary tenant_id user_id g =
     count_by_label (filter (\<lambda>n. tenant_is n tenant_id \<and> is_draft n
       \<and> node_is n ''draft_owner'' (PStr user_id)) (gnodes g))"

subsection \<open>Staging to Active, and back\<close>

text \<open>
  The three statements of \<open>promote_staging_to_active\<close>, each its own auto-committed query.
\<close>

definition staging_rids :: "string \<Rightarrow> graph \<Rightarrow> pyval list" where
  "staging_rids tenant_id g =
     map (\<lambda>n. pget (nprops n) ''rid'')
       (filter (\<lambda>n. tenant_is n tenant_id \<and> is_staging n \<and> pget (nprops n) ''rid'' \<noteq> PNone) (gnodes g))"

definition deactivate_query :: "string \<Rightarrow> graph \<Rightarrow> graph" where
  "deactivate_query tenant_id g =
     update_where (\<lambda>n. tenant_is n tenant_id \<and> is_active_version n
         \<and> pget (nprops n) ''rid'' \<in> set (staging_rids tenant_id g))
       [(''is_active'', PBool False)] g"

definition promote_query :: "string \<Rightarrow> string \<Rightarrow> graph \<Rightarrow> graph" where
  "promote_query tenant_id snapshot_id g =
     update_where (\<lambda>n. tenant_is n tenant_id \<and> is_staging n)
       [(''is_staging'', PBool False), (''snapshot_id'', PStr snapshot_id)] g"

definition cleanup_query :: "string \<Rightarrow> string \<Rightarrow> graph \<Rightarrow> graph" where
  "cleanup_query tenant_id snapshot_id g =
     detach_delete_where (\<lambda>n. tenant_is n tenant_id \<and> node_is n ''snapshot_id'' (PStr snapshot_id)
       \<and> node_is n ''is_active'' (PBool False)) g"

definition promote_staging_to_active :: "string \<Rightarrow> string \<Rightarrow> graph \<Rightarrow> nat \<times> graph" where
  "promote_staging_to_active tenant_id snapshot_id g =
     (let g1 = deactivate_query tenant_id g;
          promoted = length (filter (\<lambda>n. tenant_is n tenant_id \<and> is_staging n) (gnodes g1));
          g2 = promote_query tenant_id snapshot_id g1
      in (promoted, cleanup_query tenant_id snapshot_id g2))"

definition rollback_to_snapshot :: "string \<Rightarrow> string \<Rightarrow> string \<Rightarrow> graph \<Rightarrow> nat \<times> graph" where
  "rollback_to_snapshot tenant_id target_id current_id g =
     (let g1 = update_where (\<lambda>n. tenant_is n tenant_id \<and> node_is n ''snapshot_id'' (PStr current_id)
                  \<and> node_is n ''is_active'' (PBool True)) [(''is_active'', PBool False)] g;
          P = (\<lambda>n. tenant_is n tenant_id \<and> node_is n ''snapshot_id'' (PStr target_id))
      in (length (filter P (gnodes g1)), update_where P [(''is_active'', PBool True)] g1))"

definition check_api_name_unique ::
  "string \<Rightarrow> string \<Rightarrow> string \<Rightarrow> string option \<Rightarrow> graph \<Rightarrow> bool" where
  "check_api_name_unique label api_name tenant_id exclude_rid g =
     (filter (\<lambda>n. nlabel n = label \<and> tenant_is n tenant_id \<and> node_is n ''api_name'' (PStr api_name)
        \<and> is_active_version n
        \<and> (case exclude_rid of None \<Rightarrow> True
           | Some r \<Rightarrow> r = [] \<or> (pget (nprops n) ''rid'' \<noteq> PNone \<and> pget (nprops n) ''rid'' \<noteq> PStr r)))
        (gnodes g) = [])"

definition has_uncommitted_changes :: "string \<Rightarrow> graph \<Rightarrow> bool" where
  "has_uncommitted_changes tenant_id g =
     (filter (\<lambda>n. tenant_is n tenant_id \<and> (is_draft n \<or> is_staging n)) (gnodes g) \<noteq> [])"

end
