(* ===== verification/Graph_Publish.thy ===== *)
theory Graph_Publish
  imports Graph_Repo
begin

section \<open>What a publication does to the graph\<close>

text \<open>
  Facts about the bulk statements of \<open>GraphRepository\<close>: the three statements of
  \<open>promote_staging_to_active\<close> are shown to implement a one-pass specification of publishing, and
  from it follow what is published afterwards, that nothing of another tenant is touched, that
  repeating the statements after a fault changes nothing more, and when \<open>rollback_to_snapshot\<close>
  brings the previous state back.
\<close>

subsection \<open>Properties after an overlay\<close>

lemma set_props_Nil [query_simps, simp]: "set_props d [] = d"
  by (simp add: set_props_def)

lemma set_props_Cons [query_simps, simp]:
  "set_props d ((k, v) # ps) = set_props (if v = PNone then AList.delete k d else AList.update k v d) ps"
  by (simp add: set_props_def)

lemma node_is_update [query_simps, simp]:
  "node_is (n\<lparr>nprops := AList.update k v d\<rparr>) j x =
     (if j = k then x \<noteq> PNone \<and> v = x else node_is (n\<lparr>nprops := d\<rparr>) j x)"
  by (auto simp: node_is_def)

lemma node_is_delete [query_simps, simp]:
  "node_is (n\<lparr>nprops := AList.delete k d\<rparr>) j x = (j \<noteq> k \<and> node_is (n\<lparr>nprops := d\<rparr>) j x)"
  by (auto simp: node_is_def)

lemma node_is_same [query_simps, simp]: "node_is (n\<lparr>nprops := nprops n\<rparr>) j x = node_is n j x"
  by simp

lemma gnodes_update_where [query_simps]:
  "gnodes (update_where P ps g) =
     map (\<lambda>n. if P n then n\<lparr>nprops := set_props (nprops n) ps\<rparr> else n) (gnodes g)"
  by (simp add: update_where_def)

lemma gnodes_detach_delete_where [query_simps]:
  "gnodes (detach_delete_where P g) = filter (\<lambda>n. \<not> P n) (gnodes g)"
  by (simp add: detach_delete_where_def Let_def)

lemma gedges_update_where [query_simps, simp]: "gedges (update_where P ps g) = gedges g"
  by (simp add: update_where_def)

lemmas version_defs = is_draft_def is_staging_def is_active_version_def tenant_is_def

text \<open>A property holds one value.\<close>

lemma node_is_unique: "node_is n k v \<Longrightarrow> node_is n k w \<Longrightarrow> v = w"
  by (simp add: node_is_def)

lemma staging_not_active: "is_staging n \<Longrightarrow> \<not> is_active_version n"
  by (auto simp: version_defs dest: node_is_unique)

lemma draft_not_active: "is_draft n \<Longrightarrow> \<not> is_active_version n"
  by (auto simp: version_defs dest: node_is_unique)

subsection \<open>Publishing as one pass\<close>

text \<open>
  The specification: what becomes of one version, given the identifiers that are staged. A staged
  deletion marker disappears, any other staged version is published under the new snapshot, a
  published version of a staged entity becomes historical, and everything else stays.
\<close>

definition staged_deletion :: "gnode \<Rightarrow> bool" where
  "staged_deletion n \<longleftrightarrow> is_staging n \<and> node_is n ''is_active'' (PBool False)"

text \<open>What a staged version becomes under snapshot \<open>s\<close>.\<close>

definition as_published :: "string \<Rightarrow> gnode \<Rightarrow> gnode" where
  "as_published s n =
     n\<lparr>nprops := set_props (nprops n) [(''is_staging'', PBool False), (''snapshot_id'', PStr s)]\<rparr>"

definition publish_node :: "string \<Rightarrow> string \<Rightarrow> pyval list \<Rightarrow> gnode \<Rightarrow> gnode option" where
  "publish_node t s rids n =
     (if \<not> tenant_is n t then Some n
      else if is_staging n then
        (if staged_deletion n then None
         else Some (as_published s n))
      else if is_active_version n \<and> pget (nprops n) ''rid'' \<in> set rids
        then Some (n\<lparr>nprops := set_props (nprops n) [(''is_active'', PBool False)]\<rparr>)
      else Some n)"

text \<open>No version of the tenant carries the identifier of the snapshot to be made.\<close>

definition fresh_snapshot :: "string \<Rightarrow> string \<Rightarrow> graph \<Rightarrow> bool" where
  "fresh_snapshot t s g \<longleftrightarrow>
     (\<forall>n \<in> set (gnodes g). tenant_is n t \<longrightarrow> \<not> node_is n ''snapshot_id'' (PStr s))"

definition retired :: "string \<Rightarrow> pyval list \<Rightarrow> gnode \<Rightarrow> gnode" where
  "retired t rids n =
     (if tenant_is n t \<and> is_active_version n \<and> pget (nprops n) ''rid'' \<in> set rids
      then n\<lparr>nprops := set_props (nprops n) [(''is_active'', PBool False)]\<rparr> else n)"

definition promoted_node :: "string \<Rightarrow> string \<Rightarrow> gnode \<Rightarrow> gnode" where
  "promoted_node t s n =
     (if tenant_is n t \<and> is_staging n
      then n\<lparr>nprops := set_props (nprops n) [(''is_staging'', PBool False), (''snapshot_id'', PStr s)]\<rparr>
      else n)"

definition swept :: "string \<Rightarrow> string \<Rightarrow> gnode \<Rightarrow> bool" where
  "swept t s n \<longleftrightarrow> tenant_is n t \<and> node_is n ''snapshot_id'' (PStr s) \<and> node_is n ''is_active'' (PBool False)"

lemma gnodes_deactivate: "gnodes (deactivate_query t g) = map (retired t (staging_rids t g)) (gnodes g)"
  by (simp add: deactivate_query_def gnodes_update_where retired_def [abs_def])

lemma gnodes_promote: "gnodes (promote_query t s g) = map (promoted_node t s) (gnodes g)"
  by (simp add: promote_query_def gnodes_update_where promoted_node_def [abs_def])

lemma gnodes_cleanup: "gnodes (cleanup_query t s g) = filter (\<lambda>n. \<not> swept t s n) (gnodes g)"
  by (simp add: cleanup_query_def gnodes_detach_delete_where swept_def)

lemma gnodes_promote_staging:
  "gnodes (snd (promote_staging_to_active t s g)) =
     filter (\<lambda>n. \<not> swept t s n) (map (promoted_node t s \<circ> retired t (staging_rids t g)) (gnodes g))"
  by (simp add: promote_staging_to_active_def gnodes_deactivate gnodes_promote gnodes_cleanup Let_def)

lemma publish_node_steps:
  assumes "\<not> (tenant_is n t \<and> node_is n ''snapshot_id'' (PStr s))"
  shows "publish_node t s rids n =
    (let m = promoted_node t s (retired t rids n) in if swept t s m then None else Some m)"
  using assms staging_not_active [of n]
  by (auto simp: publish_node_def promoted_node_def retired_def swept_def staged_deletion_def Let_def
      as_published_def version_defs)

lemma map_filter_steps:
  assumes "\<And>x. x \<in> set xs \<Longrightarrow> p x = (let m = f x in if b m then None else Some m)"
  shows "List.map_filter p xs = filter (\<lambda>m. \<not> b m) (map f xs)"
  using assms by (induction xs) (auto simp: List.map_filter_def Let_def)

lemma promote_steps:
  assumes "fresh_snapshot t s g"
  shows "gnodes (snd (promote_staging_to_active t s g)) =
           List.map_filter (publish_node t s (staging_rids t g)) (gnodes g)"
proof -
  have "List.map_filter (publish_node t s (staging_rids t g)) (gnodes g) =
      filter (\<lambda>m. \<not> swept t s m) (map (promoted_node t s \<circ> retired t (staging_rids t g)) (gnodes g))"
    using assms by (intro map_filter_steps) (auto simp: fresh_snapshot_def publish_node_steps)
  then show ?thesis by (simp add: gnodes_promote_staging)
qed

text \<open>
C1. \<open>GraphRepository.promote_staging_to_active\<close> (three Cypher statements, run one after the other)
implements the one-pass specification of publishing, for a snapshot identifier no version of the
tenant carries yet.
\<close>

theorem promote_refines_publish:
  assumes "fresh_snapshot t s g"
  shows "gnodes (snd (promote_staging_to_active t s g)) =
           List.map_filter (publish_node t s (staging_rids t g)) (gnodes g)"
  by (rule promote_steps [OF assms])

text \<open>A graph with one entity published and edited: the new version is staged.\<close>

definition demo_version :: "nat \<Rightarrow> string \<Rightarrow> bool \<Rightarrow> bool \<Rightarrow> string \<Rightarrow> gnode" where
  "demo_version i r staging active sid =
     \<lparr>nid = i, nlabel = ''ObjectType'',
      nprops = [(''rid'', PStr r), (''tenant_id'', PStr ''t''), (''is_draft'', PBool False),
                (''is_staging'', PBool staging), (''is_active'', PBool active),
                (''snapshot_id'', PStr sid)]\<rparr>"

definition demo_graph :: graph where
  "demo_graph =
     \<lparr>gnodes = [demo_version 0 ''a'' False True ''s1'', demo_version 1 ''a'' True True ''s1'',
                demo_version 2 ''b'' False True ''s1'', demo_version 3 ''b'' True False ''s1''],
      gedges = [], gnext = 4\<rparr>"

lemmas demo_eval = demo_graph_def demo_version_def version_defs node_is_def

lemma promote_refines_publish_witness:
  "gnodes (snd (promote_staging_to_active ''t'' ''s2'' demo_graph)) =
     [demo_version 0 ''a'' False False ''s1'', demo_version 1 ''a'' False True ''s2'',
      demo_version 2 ''b'' False False ''s1'']"
proof -
  have "fresh_snapshot ''t'' ''s2'' demo_graph"
    by (simp add: fresh_snapshot_def demo_eval)
  from promote_refines_publish [OF this] show ?thesis
    by (simp add: List.map_filter_def publish_node_def staged_deletion_def staging_rids_def
        as_published_def pget_def demo_eval)
qed

subsection \<open>What is published afterwards\<close>

definition version_of :: "string \<Rightarrow> string \<Rightarrow> gnode \<Rightarrow> bool" where
  "version_of t r n \<longleftrightarrow> tenant_is n t \<and> node_is n ''rid'' (PStr r)"

definition published :: "string \<Rightarrow> string \<Rightarrow> graph \<Rightarrow> gnode list" where
  "published t r g = filter (\<lambda>n. version_of t r n \<and> is_active_version n) (gnodes g)"

definition staged :: "string \<Rightarrow> string \<Rightarrow> graph \<Rightarrow> gnode list" where
  "staged t r g = filter (\<lambda>n. version_of t r n \<and> is_staging n) (gnodes g)"

text \<open>A staged version that is meant to be published.\<close>

definition publishable :: "gnode \<Rightarrow> bool" where
  "publishable n \<longleftrightarrow> is_staging n \<and> node_is n ''is_draft'' (PBool False) \<and> node_is n ''is_active'' (PBool True)"

lemma staging_rids_iff: "PStr r \<in> set (staging_rids t g) \<longleftrightarrow> staged t r g \<noteq> []"
proof
  assume "PStr r \<in> set (staging_rids t g)"
  then obtain n where n: "n \<in> set (gnodes g)" "tenant_is n t" "is_staging n"
    and r: "pget (nprops n) ''rid'' = PStr r"
    by (auto simp: staging_rids_def)
  then have "version_of t r n"
    by (auto simp: version_of_def node_is_def pget_def split: option.splits)
  with n show "staged t r g \<noteq> []" by (auto simp: staged_def filter_empty_conv)
next
  assume "staged t r g \<noteq> []"
  then obtain n where n: "n \<in> set (gnodes g)" "is_staging n" "version_of t r n"
    by (auto simp: staged_def filter_empty_conv)
  then have "pget (nprops n) ''rid'' = PStr r" by (simp add: version_of_def node_is_def pget_def)
  with n show "PStr r \<in> set (staging_rids t g)"
    by (force simp: staging_rids_def version_of_def)
qed

lemma as_published_simps [simp]:
  "tenant_is (as_published s n) t = tenant_is n t"
  "version_of t r (as_published s n) = version_of t r n"
  "is_staging (as_published s n) = False"
  "is_draft (as_published s n) = is_draft n"
  "is_active_version (as_published s n) =
     (node_is n ''is_draft'' (PBool False) \<and> node_is n ''is_active'' (PBool True))"
  by (simp_all add: as_published_def version_of_def version_defs)

lemma version_of_retire:
  "version_of t r (n\<lparr>nprops := AList.update ''is_active'' v (nprops n)\<rparr>) = version_of t r n"
  by (simp add: version_of_def version_defs)

lemma concat_map_filter: "concat (map (\<lambda>n. if P n then [f n] else []) xs) = map f (filter P xs)"
  by (induction xs) auto

lemma filter_map_filter:
  "filter Q (List.map_filter p xs) =
     concat (map (\<lambda>n. case p n of None \<Rightarrow> [] | Some m \<Rightarrow> if Q m then [m] else []) xs)"
  by (induction xs) (auto simp: List.map_filter_def split: option.splits)

text \<open>The published version, if any, that one version leaves behind.\<close>

lemma publish_node_published:
  "(case publish_node t s rids n of None \<Rightarrow> []
    | Some m \<Rightarrow> if version_of t r m \<and> is_active_version m then [m] else []) =
   (if version_of t r n \<and> publishable n then [as_published s n]
    else if version_of t r n \<and> is_active_version n \<and> PStr r \<notin> set rids then [n] else [])"
proof (cases "version_of t r n")
  case False
  then show ?thesis by (auto simp: publish_node_def version_of_retire)
next
  case True
  then have t: "tenant_is n t" and r: "pget (nprops n) ''rid'' = PStr r"
    by (auto simp: version_of_def node_is_def pget_def)
  show ?thesis
  proof (cases "is_staging n")
    case st: True
    then have "\<not> is_active_version n" by (rule staging_not_active)
    moreover have "publishable n \<Longrightarrow> \<not> staged_deletion n"
      by (auto simp: publishable_def staged_deletion_def dest: node_is_unique)
    ultimately show ?thesis using True t st
      by (auto simp: publish_node_def publishable_def)
  next
    case False
    have "\<not> is_active_version (n\<lparr>nprops := AList.update ''is_active'' (PBool False) (nprops n)\<rparr>)"
      by (simp add: version_defs)
    then show ?thesis using True t r False by (auto simp: publish_node_def publishable_def)
  qed
qed

lemma published_promote:
  assumes "fresh_snapshot t s g"
  shows "published t r (snd (promote_staging_to_active t s g)) =
           (if staged t r g = [] then published t r g
            else map (as_published s) (filter publishable (staged t r g)))"
proof -
  let ?after = "published t r (snd (promote_staging_to_active t s g))"
  have all: "?after = concat (map (\<lambda>n. if version_of t r n \<and> publishable n then [as_published s n]
      else if version_of t r n \<and> is_active_version n \<and> PStr r \<notin> set (staging_rids t g) then [n]
      else []) (gnodes g))"
    by (simp add: published_def promote_steps [OF assms] filter_map_filter publish_node_published)
  show ?thesis
  proof (cases "staged t r g = []")
    case True
    then have none: "\<And>n. n \<in> set (gnodes g) \<Longrightarrow> \<not> (version_of t r n \<and> publishable n)"
      by (auto simp: staged_def filter_empty_conv publishable_def)
    have "?after = concat (map (\<lambda>n. if version_of t r n \<and> is_active_version n then [id n] else []) (gnodes g))"
      unfolding all using none True
      by (intro arg_cong [where f = concat] map_cong refl) (auto simp: staging_rids_iff)
    then show ?thesis using True by (simp only: concat_map_filter) (simp add: published_def)
  next
    case False
    have "?after = concat (map (\<lambda>n. if version_of t r n \<and> publishable n then [as_published s n] else []) (gnodes g))"
      unfolding all using False
      by (intro arg_cong [where f = concat] map_cong refl) (auto simp: staging_rids_iff)
    moreover have "filter (\<lambda>n. version_of t r n \<and> publishable n) (gnodes g) =
        filter publishable (staged t r g)"
      by (auto simp: staged_def publishable_def intro: filter_cong)
    ultimately show ?thesis using False by (simp only: concat_map_filter) simp
  qed
qed

text \<open>
After a publication the published versions of an entity are its staged ones, the deletion
markers left out, under the new snapshot; an entity that had nothing staged keeps exactly the
published versions it had.
\<close>

theorem published_after_promote:
  assumes "fresh_snapshot t s g"
  shows "published t r (snd (promote_staging_to_active t s g)) =
           (if staged t r g = [] then published t r g
            else map (as_published s) (filter publishable (staged t r g)))"
  by (rule published_promote [OF assms])

lemma published_after_promote_witness:
  "published ''t'' ''a'' (snd (promote_staging_to_active ''t'' ''s2'' demo_graph)) =
     [demo_version 1 ''a'' False True ''s2''] \<and>
   published ''t'' ''b'' (snd (promote_staging_to_active ''t'' ''s2'' demo_graph)) = []"
proof -
  have f: "fresh_snapshot ''t'' ''s2'' demo_graph" by (simp add: fresh_snapshot_def demo_eval)
  show ?thesis
    unfolding published_after_promote [OF f]
    by (simp add: staged_def version_of_def publishable_def as_published_def demo_eval)
qed

text \<open>
If no entity is staged twice, publishing keeps the invariant that every entity of the tenant has
at most one published version.
\<close>

theorem promote_keeps_one_published:
  assumes "fresh_snapshot t s g"
    and "length (staged t r g) \<le> 1" and "length (published t r g) \<le> 1"
  shows "length (published t r (snd (promote_staging_to_active t s g))) \<le> 1"
  using assms(2,3) order_trans [OF length_filter_le assms(2), of publishable]
  by (simp add: published_promote [OF assms(1)])

lemma promote_keeps_one_published_witness:
  "length (published ''t'' ''a'' (snd (promote_staging_to_active ''t'' ''s2'' demo_graph))) \<le> 1"
  by (rule promote_keeps_one_published)
    (simp_all add: fresh_snapshot_def published_def staged_def version_of_def demo_eval)

subsection \<open>What a publication leaves alone\<close>

lemma filter_map_keep:
  assumes "\<And>n. n \<in> set xs \<Longrightarrow> P n \<Longrightarrow> f n = n" and "\<And>n. P (f n) = P n"
  shows "filter P (map f xs) = filter P xs"
  using assms by (induction xs) auto

lemma tenant_is_steps [simp]:
  "tenant_is (retired u rids n) t = tenant_is n t"
  "tenant_is (promoted_node u s n) t = tenant_is n t"
  by (simp_all add: retired_def promoted_node_def version_defs)

text \<open>
Publishing removes every staged version of the tenant, and leaves the versions of all other
tenants exactly as they were.
\<close>

theorem promote_staging_isolated:
  "get_staging_nodes t (snd (promote_staging_to_active t s g)) = [] \<and>
   filter (\<lambda>n. \<not> tenant_is n t) (gnodes (snd (promote_staging_to_active t s g))) =
     filter (\<lambda>n. \<not> tenant_is n t) (gnodes g)"
proof
  let ?f = "promoted_node t s \<circ> retired t (staging_rids t g)"
  have "\<not> is_staging (promoted_node t s n)" if "tenant_is n t" for n
    using that by (auto simp: promoted_node_def version_defs)
  then show "get_staging_nodes t (snd (promote_staging_to_active t s g)) = []"
    by (auto simp: get_staging_nodes_def gnodes_promote_staging filter_empty_conv)
  have "filter (\<lambda>n. \<not> tenant_is n t) (filter (\<lambda>n. \<not> swept t s n) (map ?f (gnodes g))) =
      filter (\<lambda>n. \<not> tenant_is n t) (map ?f (gnodes g))"
    by (simp add: filter_filter) (rule filter_cong, auto simp: swept_def)
  also have "\<dots> = filter (\<lambda>n. \<not> tenant_is n t) (gnodes g)"
    by (rule filter_map_keep) (auto simp: promoted_node_def retired_def, auto simp: version_defs)
  finally show "filter (\<lambda>n. \<not> tenant_is n t) (gnodes (snd (promote_staging_to_active t s g))) =
     filter (\<lambda>n. \<not> tenant_is n t) (gnodes g)"
    by (simp add: gnodes_promote_staging)
qed

subsection \<open>Repeating the statements\<close>

definition promote_all :: "string \<Rightarrow> string \<Rightarrow> graph \<Rightarrow> graph" where
  "promote_all t s g = cleanup_query t s (promote_query t s (deactivate_query t g))"

lemma snd_promote_staging [simp]: "snd (promote_staging_to_active t s g) = promote_all t s g"
  by (simp add: promote_staging_to_active_def promote_all_def Let_def)

lemma update_where_id: "(\<And>n. n \<in> set (gnodes g) \<Longrightarrow> \<not> P n) \<Longrightarrow> update_where P ps g = g"
  by (simp add: update_where_def cong: map_cong)

lemma detach_delete_where_id:
  "(\<And>n. n \<in> set (gnodes g) \<Longrightarrow> \<not> P n) \<Longrightarrow> detach_delete_where P g = g"
  by (simp add: detach_delete_where_def Let_def filter_empty_conv cong: filter_cong)

lemma staging_rids_deactivate: "staging_rids t (deactivate_query u g) = staging_rids t g"
proof -
  have "is_staging (retired u R n) = is_staging n" "pget (nprops (retired u R n)) ''rid'' = pget (nprops n) ''rid''"
    for R n by (simp_all add: retired_def version_defs)
  then show ?thesis
    by (simp add: staging_rids_def gnodes_deactivate filter_map comp_def)
qed

lemma deactivate_again: "deactivate_query t (deactivate_query t g) = deactivate_query t g"
proof -
  have "\<not> (tenant_is n t \<and> is_active_version n \<and> pget (nprops n) ''rid'' \<in> set (staging_rids t g))"
    if "n \<in> set (gnodes (deactivate_query t g))" for n
    using that by (auto simp: gnodes_deactivate retired_def version_defs split: if_splits)
  then show ?thesis
    by (subst deactivate_query_def) (simp add: staging_rids_deactivate update_where_id)
qed

definition no_staging :: "string \<Rightarrow> graph \<Rightarrow> bool" where
  "no_staging t g \<longleftrightarrow> (\<forall>n \<in> set (gnodes g). \<not> (tenant_is n t \<and> is_staging n))"

lemma no_staging_promote: "no_staging t (promote_query t s g)"
  by (auto simp: no_staging_def gnodes_promote promoted_node_def version_defs)

lemma no_staging_cleanup: "no_staging t g \<Longrightarrow> no_staging t (cleanup_query t s g)"
  by (auto simp: no_staging_def gnodes_cleanup)

lemma no_staging_deactivate: "no_staging t g \<Longrightarrow> deactivate_query t g = g"
proof -
  assume "no_staging t g"
  then have "staging_rids t g = []"
    by (auto simp: staging_rids_def no_staging_def filter_empty_conv)
  then show ?thesis by (simp add: deactivate_query_def update_where_id)
qed

lemma no_staging_promote_id: "no_staging t g \<Longrightarrow> promote_query t s g = g"
  by (auto simp: promote_query_def no_staging_def intro!: update_where_id)

lemma cleanup_again: "cleanup_query t s (cleanup_query t s g) = cleanup_query t s g"
  by (subst (1) cleanup_query_def) (auto intro!: detach_delete_where_id simp: gnodes_cleanup swept_def)

lemma promote_restart:
  "promote_all t s (deactivate_query t g) = promote_all t s g"
  "promote_all t s (promote_query t s (deactivate_query t g)) = promote_all t s g"
  "promote_all t s (promote_all t s g) = promote_all t s g"
  by (simp_all add: promote_all_def deactivate_again no_staging_promote no_staging_cleanup
      no_staging_deactivate no_staging_promote_id cleanup_again)

subsection \<open>Rolling back\<close>

definition rolled_back :: "string \<Rightarrow> string \<Rightarrow> string \<Rightarrow> gnode \<Rightarrow> gnode" where
  "rolled_back t target cur n =
     (if tenant_is n t \<and> node_is n ''snapshot_id'' (PStr target)
      then n\<lparr>nprops := set_props (nprops n) [(''is_active'', PBool True)]\<rparr>
      else if tenant_is n t \<and> node_is n ''snapshot_id'' (PStr cur) \<and> node_is n ''is_active'' (PBool True)
      then n\<lparr>nprops := set_props (nprops n) [(''is_active'', PBool False)]\<rparr>
      else n)"

lemma gnodes_rollback:
  assumes "target \<noteq> cur"
  shows "gnodes (snd (rollback_to_snapshot t target cur g)) = map (rolled_back t target cur) (gnodes g)"
  using assms
  by (auto simp: rollback_to_snapshot_def gnodes_update_where rolled_back_def version_defs Let_def
      dest: node_is_unique)

text \<open>
  The versions the code can bring back: what the staged versions are about to retire was published
  by the snapshot \<open>s1\<close>, and every version that \<open>s1\<close> published is published still.
\<close>

definition covered_by :: "string \<Rightarrow> string \<Rightarrow> graph \<Rightarrow> bool" where
  "covered_by t s1 g \<longleftrightarrow>
     (\<forall>n \<in> set (gnodes g). tenant_is n t \<longrightarrow>
        (is_active_version n \<and> pget (nprops n) ''rid'' \<in> set (staging_rids t g)
           \<longrightarrow> node_is n ''snapshot_id'' (PStr s1)) \<and>
        (\<not> is_staging n \<and> node_is n ''snapshot_id'' (PStr s1) \<longrightarrow> is_active_version n))"

lemma update_same: "map_of d k = Some v \<Longrightarrow> AList.update k v d = d"
  by (induction d) auto

lemma node_update_same: "node_is n k v \<Longrightarrow> n\<lparr>nprops := AList.update k v (nprops n)\<rparr> = n"
  by (simp add: node_is_def update_same)

lemma rolled_back_published:
  assumes "\<not> (tenant_is n t \<and> node_is n ''snapshot_id'' (PStr s2))" and "s1 \<noteq> s2"
    and "tenant_is n t \<Longrightarrow> is_active_version n \<Longrightarrow> pget (nprops n) ''rid'' \<in> set rids \<Longrightarrow>
      node_is n ''snapshot_id'' (PStr s1)"
    and "tenant_is n t \<Longrightarrow> \<not> is_staging n \<Longrightarrow> node_is n ''snapshot_id'' (PStr s1) \<Longrightarrow>
      is_active_version n"
  shows "(case publish_node t s2 rids n of None \<Rightarrow> []
      | Some m \<Rightarrow> let m' = rolled_back t s1 s2 m in
          if version_of t r m' \<and> is_active_version m' then [m'] else []) =
    (if version_of t r n \<and> is_active_version n then [n] else [])"
proof (cases "tenant_is n t")
  case False
  then show ?thesis by (simp add: publish_node_def rolled_back_def)
next
  case t: True
  consider (staging) "is_staging n"
    | (retire) "\<not> is_staging n" "is_active_version n" "pget (nprops n) ''rid'' \<in> set rids"
    | (keep) "\<not> is_staging n" "\<not> (is_active_version n \<and> pget (nprops n) ''rid'' \<in> set rids)"
    by blast
  then show ?thesis
  proof cases
    case staging
    then have "\<not> is_active_version n" by (rule staging_not_active)
    moreover have "\<not> is_active_version (rolled_back t s1 s2 (as_published s2 n))"
      using assms(2) t by (simp add: rolled_back_def as_published_def version_defs)
    ultimately show ?thesis using t staging by (simp add: publish_node_def Let_def)
  next
    case retire
    then have a: "node_is n ''is_active'' (PBool True)" by (simp add: is_active_version_def)
    have "rolled_back t s1 s2 (n\<lparr>nprops := AList.update ''is_active'' (PBool False) (nprops n)\<rparr>) = n"
      using t assms(3) retire by (simp add: rolled_back_def version_defs node_update_same [OF a])
    then show ?thesis using t retire by (simp add: publish_node_def Let_def)
  next
    case keep
    have "rolled_back t s1 s2 n = n"
      using assms(1,4) t keep
      by (auto simp: rolled_back_def is_active_version_def intro: node_update_same)
    then show ?thesis using t keep by (auto simp: publish_node_def Let_def)
  qed
qed

text \<open>
C3. Rolling back from a publication to the snapshot before it gives every entity of the tenant the
published versions it had before, unchanged, when everything the publication retired had been
published by that snapshot and all that it published is still in force.
\<close>

theorem rollback_undoes_promote:
  assumes "fresh_snapshot t s2 g" and "s1 \<noteq> s2" and "covered_by t s1 g"
  shows "published t r (snd (rollback_to_snapshot t s1 s2 (snd (promote_staging_to_active t s2 g)))) =
           published t r g"
proof -
  let ?Q = "\<lambda>n. version_of t r n \<and> is_active_version n"
  let ?p = "publish_node t s2 (staging_rids t g)"
  have pieces: "filter ?Q (map h (List.map_filter p xs)) = concat (map (\<lambda>n. case p n of None \<Rightarrow> []
      | Some m \<Rightarrow> let m' = h m in if ?Q m' then [m'] else []) xs)" for h p xs
    by (induction xs) (auto simp: List.map_filter_def Let_def split: option.splits)
  have nodes: "gnodes (promote_all t s2 g) = List.map_filter ?p (gnodes g)"
    using promote_steps [OF assms(1)] by simp
  have "published t r (snd (rollback_to_snapshot t s1 s2 (promote_all t s2 g))) =
      concat (map (\<lambda>n. case ?p n of None \<Rightarrow> []
        | Some m \<Rightarrow> let m' = rolled_back t s1 s2 m in if ?Q m' then [m'] else []) (gnodes g))"
    by (simp add: published_def gnodes_rollback [OF assms(2)] nodes pieces)
  also have "\<dots> = concat (map (\<lambda>n. if ?Q n then [id n] else []) (gnodes g))"
    using assms unfolding fresh_snapshot_def covered_by_def
    by (intro arg_cong [where f = concat] map_cong refl, simp only: id_apply)
      (rule rolled_back_published, blast+)
  also have "\<dots> = published t r g" by (simp only: concat_map_filter) (simp add: published_def)
  finally show ?thesis by simp
qed

lemma rollback_undoes_promote_witness:
  "published ''t'' ''a'' (snd (rollback_to_snapshot ''t'' ''s1'' ''s2''
      (snd (promote_staging_to_active ''t'' ''s2'' demo_graph)))) = [demo_version 0 ''a'' False True ''s1'']"
proof -
  have "covered_by ''t'' ''s1'' demo_graph" "fresh_snapshot ''t'' ''s2'' demo_graph"
    by (simp_all add: covered_by_def fresh_snapshot_def demo_eval)
  then have "published ''t'' ''a'' (snd (rollback_to_snapshot ''t'' ''s1'' ''s2''
      (snd (promote_staging_to_active ''t'' ''s2'' demo_graph)))) = published ''t'' ''a'' demo_graph"
    by (intro rollback_undoes_promote) auto
  then show ?thesis by (simp only:) (simp add: published_def version_of_def demo_eval)
qed

text \<open>
  Without that condition an entity can be lost. Snapshot \<open>s1\<close> published \<open>a\<close>, \<open>s2\<close> published \<open>b\<close>, and
  \<open>s3\<close> a new version of \<open>a\<close>: going back to \<open>s2\<close> withdraws that version and brings back what \<open>s2\<close>
  published, which \<open>a\<close> is not part of.
\<close>

definition lost_graph :: graph where
  "lost_graph =
     \<lparr>gnodes = [demo_version 0 ''a'' False False ''s1'', demo_version 1 ''b'' False True ''s2'',
                demo_version 2 ''a'' False True ''s3''], gedges = [], gnext = 3\<rparr>"

text \<open>
A rollback across an entity that the target snapshot did not publish itself leaves that entity
with no published version at all, although it had one when the target snapshot was made.
\<close>

theorem rollback_can_lose_entity:
  "published ''t'' ''a'' lost_graph \<noteq> [] \<and>
   published ''t'' ''a'' (snd (rollback_to_snapshot ''t'' ''s2'' ''s3'' lost_graph)) = []"
  by (simp add: published_def version_of_def rollback_to_snapshot_def update_where_def Let_def
      lost_graph_def demo_version_def version_defs node_is_def)

end
