(* ===== verification/Ontology_Validators.thy ===== *)
theory Ontology_Validators
  imports Graph_Repo
begin

section \<open>Validators of the ontology\<close>

text \<open>
  \<open>ontology/validators/\<close>: identity fields cannot be edited (\<open>immutable.py\<close>), referenced entities
  cannot be deleted (\<open>dependency.py\<close>), the EXTENDS graph of interfaces stays acyclic
  (\<open>cycle_detection.py\<close>), implementors satisfy what their interface requires (\<open>contract.py\<close>), and
  edits of a shared property reach the properties that inherit it (\<open>cascade.py\<close>); and the retry
  wrapper for transient faults of the graph server (\<open>ontology/retry.py\<close>).
\<close>

subsection \<open>Immutable fields\<close>

definition IMMUTABLE_FIELDS :: "string list" where
  "IMMUTABLE_FIELDS = [''rid'', ''api_name'', ''tenant_id'', ''created_at'']"

definition ENTITY_IMMUTABLE_FIELDS :: "(string \<times> string list) list" where
  "ENTITY_IMMUTABLE_FIELDS =
     [(''LinkType'', [''source_object_type_rid'', ''target_object_type_rid'']),
      (''InterfaceType'', [''category'']),
      (''SharedPropertyType'', [''data_type''])]"

definition immutable_for :: "string \<Rightarrow> string list" where
  "immutable_for label = IMMUTABLE_FIELDS @ dget_or ENTITY_IMMUTABLE_FIELDS label []"

definition check_immutable_fields :: "string \<Rightarrow> pyval dict \<Rightarrow> unit res" where
  "check_immutable_fields label updates =
     (let violated = filter (\<lambda>f. f \<in> set (immutable_for label)) (map fst updates)
      in if violated \<noteq> []
         then Inl (AppError ONTOLOGY_IMMUTABLE_FIELD
                (''Cannot modify immutable field(s): '' @ join '', '' (sort violated))
                [(''fields'', PList (map PStr (sort violated))), (''entity_type'', PStr label)])
         else Inr ())"

subsection \<open>Dependencies before a deletion\<close>

definition DEPENDENCY_RULES :: "(string \<times> (string \<times> string) list) list" where
  "DEPENDENCY_RULES =
     [(''SharedPropertyType'', [(''PropertyType'', ''BASED_ON''), (''InterfaceType'', ''REQUIRES'')]),
      (''InterfaceType'', [(''ObjectType'', ''IMPLEMENTS''), (''LinkType'', ''IMPLEMENTS''),
                           (''InterfaceType'', ''EXTENDS'')]),
      (''ObjectType'', [(''LinkType'', ''CONNECTS''), (''ActionType'', ''OPERATES_ON'')]),
      (''LinkType'', [(''ActionType'', ''OPERATES_ON'')]),
      (''ActionType'', []),
      (''PropertyType'', [])]"

definition check_delete_dependencies ::
  "string \<Rightarrow> string \<Rightarrow> string \<Rightarrow> graph \<Rightarrow> unit res" where
  "check_delete_dependencies label rid tenant_id g =
     (let rules = dget_or DEPENDENCY_RULES label [];
          referencing = concat (map (\<lambda>(dep_label, rel).
             get_incoming_referencing_rids label rid tenant_id (Some rel) g) rules)
      in if referencing \<noteq> []
         then Inl (AppError ONTOLOGY_DEPENDENCY_CONFLICT
                (''Cannot delete '' @ label @ '' '' @ rid @ '': referenced by '' @
                   nat_str (length referencing) @ '' entities'')
                [(''referencing_rids'', PList (take 10 referencing))])
         else Inr ())"

subsection \<open>Cycles of EXTENDS\<close>

definition extends_children :: "graph \<Rightarrow> string \<Rightarrow> string \<Rightarrow> string list" where
  "extends_children g tenant_id current =
     (case get_related_nodes ''InterfaceType'' current tenant_id ''EXTENDS'' Outgoing g of
        Inr children \<Rightarrow> map (\<lambda>child. pget_str child ''rid'') children
      | Inl _ \<Rightarrow> [])"

text \<open>
  The search \<open>can_reach\<close> with its set \<open>visited\<close>, shared by the calls, as a state that is passed on:
  the list is what the loop over the children of one call still has to look at.
\<close>

definition rid_universe :: "graph \<Rightarrow> string set" where
  "rid_universe g = {r. \<exists>n \<in> set (gnodes g). map_of (nprops n) ''rid'' = Some (PStr r)}"

lemma finite_rid_universe [simp]: "finite (rid_universe g)"
proof -
  have "rid_universe g \<subseteq> (\<lambda>n. pget_str (nprops n) ''rid'') ` set (gnodes g)"
    by (force simp: rid_universe_def pget_str_def)
  then show ?thesis by (rule finite_subset) simp
qed

lemma extends_children_outside: "x \<notin> rid_universe g \<Longrightarrow> extends_children g t x = []"
proof -
  assume "x \<notin> rid_universe g"
  then have "match_nodes g ''InterfaceType'' (identity_conds x t) = []"
    by (auto simp: match_nodes_def filter_empty_conv node_all_def identity_conds_def node_is_def
        rid_universe_def)
  then show ?thesis by (simp add: extends_children_def get_related_nodes_def)
qed

function reach_any :: "graph \<Rightarrow> string \<Rightarrow> string \<Rightarrow> string list \<Rightarrow> string list \<Rightarrow> bool \<times> string list"
where
  "reach_any g t target [] visited = (False, visited)"
| "reach_any g t target (current # rest) visited =
     (if current = target then (True, visited)
      else if current \<in> set visited then reach_any g t target rest visited
      else (case reach_any g t target (extends_children g t current) (current # visited) of
              (True, visited') \<Rightarrow> (True, visited')
            | (False, visited') \<Rightarrow> reach_any g t target rest visited'))"
  by pat_completeness auto

lemma reach_any_visited:
  "reach_any_dom (g, t, target, xs, visited) \<Longrightarrow>
     set visited \<subseteq> set (snd (reach_any g t target xs visited))"
proof (induction rule: reach_any.pinduct)
  case (1 g t target visited)
  then show ?case by (simp add: reach_any.psimps)
next
  case (2 g t target current rest visited)
  obtain b v where r: "reach_any g t target (extends_children g t current) (current # visited) = (b, v)"
    by (cases "reach_any g t target (extends_children g t current) (current # visited)")
  show ?case
  proof (cases "current = target \<or> current \<in> set visited")
    case True
    then show ?thesis using 2 by (auto simp: reach_any.psimps)
  next
    case False
    then have v: "set visited \<subseteq> set v" using 2(3) r by auto
    have "\<not> b \<Longrightarrow> set v \<subseteq> set (snd (reach_any g t target rest v))"
      using 2(4) False r by auto
    then show ?thesis using 2(1) False r v
      by (cases b) (auto simp: reach_any.psimps)
  qed
qed

termination reach_any
proof (relation "inv_image (finite_psubset <*lex*> less_than)
    (\<lambda>(g, t, target, xs, visited). (rid_universe g - set visited, length xs))", goal_cases)
  case 1
  show ?case by auto
next
  case (2 g t target current rest visited)
  then show ?case by (simp add: finite_psubset_def)
next
  case (3 g t target current rest visited)
  show ?case
  proof (cases "current \<in> rid_universe g")
    case True
    then have "rid_universe g - set (current # visited) \<subset> rid_universe g - set visited"
      using 3 by auto
    then show ?thesis by (simp add: finite_psubset_def)
  next
    case False
    then have "rid_universe g - set (current # visited) = rid_universe g - set visited" by auto
    then show ?thesis using False by (simp add: extends_children_outside)
  qed
next
  case (4 g t target current rest visited r visited')
  then have "reach_any g t target (extends_children g t current) (current # visited) = (False, visited')"
    and "reach_any_dom (g, t, target, extends_children g t current, current # visited)"
    by auto
  then have "set visited \<subseteq> set visited'" using reach_any_visited by fastforce
  then have "rid_universe g - set visited' \<subseteq> rid_universe g - set visited" by auto
  then show ?case by (auto simp: finite_psubset_def)
qed

definition can_reach :: "graph \<Rightarrow> string \<Rightarrow> string \<Rightarrow> string \<Rightarrow> bool" where
  "can_reach g t current target = fst (reach_any g t target [current] [])"

fun check_extends :: "graph \<Rightarrow> string \<Rightarrow> string \<Rightarrow> string list \<Rightarrow> unit res" where
  "check_extends g t interface_rid [] = Inr ()"
| "check_extends g t interface_rid (parent_rid # rest) =
     (if can_reach g t parent_rid interface_rid
      then Inl (AppError ONTOLOGY_CYCLE_DETECTED
             (''Circular dependency: '' @ interface_rid @ '' extending '' @ parent_rid @
              '' creates a cycle'')
             [(''interface_rid'', PStr interface_rid), (''parent_rid'', PStr parent_rid)])
      else check_extends g t interface_rid rest)"

definition check_interface_cycle ::
  "string \<Rightarrow> string list \<Rightarrow> string \<Rightarrow> graph \<Rightarrow> unit res" where
  "check_interface_cycle interface_rid extends_rids tenant_id g =
     (if extends_rids = [] then Inr ()
      else check_extends g tenant_id interface_rid extends_rids)"

subsection \<open>Contracts of interfaces\<close>

definition detect_entity_label :: "pyval dict \<Rightarrow> string" where
  "detect_entity_label node =
     (let label = pget_str node ''_label''; rid = pget_str node ''rid'' in
      if label \<noteq> [] then label
      else if is_prefix ''ri.obj.'' rid then ''ObjectType''
      else if is_prefix ''ri.link.'' rid then ''LinkType''
      else ''ObjectType'')"

definition covered_shared_rids :: "pyval dict list \<Rightarrow> string list" where
  "covered_shared_rids prop_nodes =
     filter (\<lambda>r. r \<noteq> []) (map (\<lambda>p. pget_str p ''inherit_from_shared_property_type_rid'') prop_nodes)"

definition missing_shared_rids ::
  "string list \<Rightarrow> string \<Rightarrow> graph \<Rightarrow> pyval dict \<Rightarrow> string list res" where
  "missing_shared_rids required tenant_id g implementor =
     (case get_related_nodes (detect_entity_label implementor) (pget_str implementor ''rid'')
             tenant_id ''BELONGS_TO'' Incoming g of
        Inl e \<Rightarrow> Inl e
      | Inr prop_nodes \<Rightarrow>
          Inr (filter (\<lambda>r. r \<notin> set (covered_shared_rids prop_nodes)) required))"

definition check_contract_satisfaction ::
  "string \<Rightarrow> string \<Rightarrow> string list \<Rightarrow> graph \<Rightarrow> unit res" where
  "check_contract_satisfaction interface_rid tenant_id required g =
     (if required = [] then Inr ()
      else
        (case get_related_nodes ''InterfaceType'' interface_rid tenant_id ''IMPLEMENTS'' Incoming g of
           Inl e \<Rightarrow> Inl e
         | Inr implementors \<Rightarrow>
             (case mapE (missing_shared_rids required tenant_id g) implementors of
                Inl e \<Rightarrow> Inl e
              | Inr missing \<Rightarrow>
                  (let violations =
                     map (\<lambda>(i, m). PDict [(''entity_rid'', PStr (pget_str i ''rid'')),
                                          (''missing_shared_property_type_rids'', PList (map PStr m))])
                       (filter (\<lambda>(i, m). m \<noteq> []) (zip implementors missing))
                   in if violations \<noteq> []
                      then Inl (AppError ONTOLOGY_CONTRACT_VIOLATION
                             (''InterfaceType '' @ interface_rid @ '' contract violated by '' @
                              nat_str (length violations) @ '' implementor(s)'')
                             [(''violations'', PList violations)])
                      else Inr ()))))"

subsection \<open>Cascade of a shared property\<close>

definition CASCADE_FIELDS :: "string list" where
  "CASCADE_FIELDS = [''display_name'', ''description'', ''widget'', ''validation'', ''compliance'']"

text \<open>The updates one inheriting property receives.\<close>

definition cascade_updates ::
  "pyval dict \<Rightarrow> pyval dict option \<Rightarrow> pyval dict \<Rightarrow> pyval dict" where
  "cascade_updates cascadable old_values prop_node =
     filter (\<lambda>(field, new_value).
       case old_values of
         Some olds \<Rightarrow> py_eq (pget prop_node field) (pget olds field)
       | None \<Rightarrow> pget prop_node (''_override_'' @ field) \<noteq> PBool True) cascadable"

fun cascade_loop ::
  "pyval dict \<Rightarrow> pyval dict option \<Rightarrow> string \<Rightarrow> pyval dict list \<Rightarrow> (graph, exn, string list) comp" where
  "cascade_loop cascadable old_values tenant_id [] = retC []"
| "cascade_loop cascadable old_values tenant_id (prop_node # rest) =
     (let prop_rid = pget_str prop_node ''rid'';
          updates = cascade_updates cascadable old_values prop_node
      in if updates = [] then cascade_loop cascadable old_values tenant_id rest
         else bindC (update_node ''PropertyType'' prop_rid tenant_id updates None None) (\<lambda>_.
              bindC (cascade_loop cascadable old_values tenant_id rest) (\<lambda>affected.
              retC (prop_rid # affected))))"

definition cascade_shared_property_update ::
  "string \<Rightarrow> string \<Rightarrow> pyval dict \<Rightarrow> pyval dict option \<Rightarrow> (graph, exn, string list) comp" where
  "cascade_shared_property_update shared_rid tenant_id updated_fields old_values =
     (let cascadable = dfilter (\<lambda>k. k \<in> set CASCADE_FIELDS) updated_fields in
      if cascadable = [] then retC []
      else bindC (\<lambda>g. (get_related_nodes ''SharedPropertyType'' shared_rid tenant_id ''BASED_ON'' Incoming g, g))
             (\<lambda>inheritors. cascade_loop cascadable old_values tenant_id inheritors))"

subsection \<open>Retrying transient faults\<close>

definition retryable :: "exn \<Rightarrow> bool" where
  "retryable e =
     (e \<in> {DriverError ''ServiceUnavailable'', DriverError ''SessionExpired'', DriverError ''TransientError''})"

definition DEFAULT_MAX_RETRIES :: nat where "DEFAULT_MAX_RETRIES = 3"

text \<open>Delays in milliseconds.\<close>

definition backoff_delay :: "nat \<Rightarrow> nat \<Rightarrow> nat \<Rightarrow> nat" where
  "backoff_delay base_delay max_delay attempt = min (base_delay * 2 ^ attempt) max_delay"

fun retry_from :: "nat \<Rightarrow> ('s, exn, 'a) comp \<Rightarrow> exn \<Rightarrow> ('s, exn, 'a) comp" where
  "retry_from 0 operation prev s = (Inl prev, s)"
| "retry_from (Suc left) operation prev s =
     (case operation s of
        (Inr x, s') \<Rightarrow> (Inr x, s')
      | (Inl e, s') \<Rightarrow> if retryable e then retry_from left operation e s' else (Inl e, s'))"

definition retry_neo4j_operation :: "nat \<Rightarrow> ('s, exn, 'a) comp \<Rightarrow> ('s, exn, 'a) comp" where
  "retry_neo4j_operation max_retries operation =
     retry_from (Suc max_retries) operation (RuntimeError ''exceptions must derive from BaseException'')"

subsection \<open>What the validators decide\<close>

text \<open>
\<open>check_immutable_fields\<close> accepts an update exactly when it names no identity field of the entity
type, and a rejection lists the offending fields.
\<close>

theorem check_immutable_fields_iff:
  "check_immutable_fields label updates =
     (if set (map fst updates) \<inter> set (immutable_for label) = {} then Inr ()
      else (let bad = sort (filter (\<lambda>f. f \<in> set (immutable_for label)) (map fst updates)) in
        Inl (AppError ONTOLOGY_IMMUTABLE_FIELD
          (''Cannot modify immutable field(s): '' @ join '', '' bad)
          [(''fields'', PList (map PStr bad)), (''entity_type'', PStr label)])))"
proof -
  have "filter (\<lambda>f. f \<in> set (immutable_for label)) (map fst updates) = [] \<longleftrightarrow>
      set (map fst updates) \<inter> set (immutable_for label) = {}"
    by (auto simp: filter_empty_conv)
  then show ?thesis by (simp add: check_immutable_fields_def Let_def)
qed

text \<open>The edges of one kind that point at a version of an entity, from whatever version of another.\<close>

definition referenced_by :: "graph \<Rightarrow> string \<Rightarrow> string \<Rightarrow> string \<Rightarrow> string \<Rightarrow> bool" where
  "referenced_by g label rid tenant_id rel \<longleftrightarrow>
     (\<exists>e \<in> set (gedges g). \<exists>n \<in> set (gnodes g). \<exists>m \<in> set (gnodes g).
        rel_type_is (Some rel) e \<and> edst e = nid n \<and> esrc e = nid m \<and>
        nlabel n = label \<and> node_all n (identity_conds rid tenant_id))"

lemma referencing_rids_empty_iff:
  "get_incoming_referencing_rids label rid t (Some rel) g = [] \<longleftrightarrow> \<not> referenced_by g label rid t rel"
  by (auto simp: get_incoming_referencing_rids_def incoming_edges_def match_nodes_def
      referenced_by_def filter_empty_conv) metis+

text \<open>
\<open>check_delete_dependencies\<close> lets an entity be deleted exactly when no edge of a kind that the rules
of its type name points at one of its versions.
\<close>

theorem check_delete_dependencies_iff:
  "check_delete_dependencies label rid t g = Inr () \<longleftrightarrow>
     list_all (\<lambda>(dep, rel). \<not> referenced_by g label rid t rel) (dget_or DEPENDENCY_RULES label [])"
  by (simp add: check_delete_dependencies_def Let_def case_prod_beta' list_all_iff
      referencing_rids_empty_iff)

subsection \<open>The search for cycles\<close>

definition extends_edge :: "graph \<Rightarrow> string \<Rightarrow> (string \<times> string) set" where
  "extends_edge g t = {(x, y). y \<in> set (extends_children g t x)}"

lemma reach_any_sound:
  "reach_any g t target xs visited = (True, visited') \<Longrightarrow>
     \<exists>x \<in> set xs. (x, target) \<in> (extends_edge g t)\<^sup>*"
proof (induction g t target xs visited arbitrary: visited' rule: reach_any.induct)
  case (1 g t target visited)
  then show ?case by simp
next
  case (2 g t target current rest visited)
  obtain b v where r: "reach_any g t target (extends_children g t current) (current # visited) = (b, v)"
    by (cases "reach_any g t target (extends_children g t current) (current # visited)")
  show ?case
  proof (cases "current = target")
    case True
    then show ?thesis by auto
  next
    case ne: False
    show ?thesis
    proof (cases "current \<in> set visited")
      case True
      then show ?thesis using 2 ne by auto
    next
      case False
      show ?thesis
      proof (cases b)
        case True
        then obtain y where "y \<in> set (extends_children g t current)" "(y, target) \<in> (extends_edge g t)\<^sup>*"
          using 2(2) [OF ne False] r by auto
        then have "(current, target) \<in> (extends_edge g t)\<^sup>*"
          by (auto simp: extends_edge_def intro: converse_rtrancl_into_rtrancl)
        then show ?thesis by auto
      next
        case nb: False
        then show ?thesis using 2(3) [OF ne False r [symmetric]] 2(4) ne False r by auto
      qed
    qed
  qed
qed

text \<open>
  A search without success has visited all it was given, never the target, and with a rid it has
  visited its children.
\<close>

definition explored :: "graph \<Rightarrow> string \<Rightarrow> string \<Rightarrow> string list \<Rightarrow> string list \<Rightarrow> bool" where
  "explored g t target visited visited' \<longleftrightarrow>
     set visited \<subseteq> set visited' \<and>
     (\<forall>v \<in> set visited' - set visited. v \<noteq> target \<and> set (extends_children g t v) \<subseteq> set visited')"

lemma explored_step:
  assumes "current \<noteq> target" and "set (extends_children g t current) \<subseteq> set v"
    and "explored g t target (current # visited) v" and "explored g t target v visited'"
  shows "explored g t target visited visited'"
  unfolding explored_def
proof (intro conjI ballI)
  have sub: "set v \<subseteq> set visited'" using assms(4) by (simp add: explored_def)
  then show "set visited \<subseteq> set visited'" using assms(3) by (auto simp: explored_def)
  fix w
  assume w: "w \<in> set visited' - set visited"
  have "w \<noteq> target \<and> set (extends_children g t w) \<subseteq> set visited'"
  proof (cases "w \<in> set v")
    case True
    then have "w = current \<or> w \<in> set v - set (current # visited)" using w by auto
    then show ?thesis using assms(1,2,3) sub unfolding explored_def by blast
  next
    case False
    then show ?thesis using assms(4) w unfolding explored_def by blast
  qed
  then show "w \<noteq> target" and "set (extends_children g t w) \<subseteq> set visited'" by auto
qed

lemma reach_any_explored:
  "reach_any g t target xs visited = (False, visited') \<Longrightarrow>
     set xs \<subseteq> set visited' \<and> explored g t target visited visited'"
proof (induction g t target xs visited arbitrary: visited' rule: reach_any.induct)
  case (1 g t target visited)
  then show ?case by (simp add: explored_def)
next
  case (2 g t target current rest visited)
  obtain b v where r: "reach_any g t target (extends_children g t current) (current # visited) = (b, v)"
    by (cases "reach_any g t target (extends_children g t current) (current # visited)")
  have ne: "current \<noteq> target" using 2(4) by auto
  show ?case
  proof (cases "current \<in> set visited")
    case True
    then show ?thesis using 2 ne by (auto simp: explored_def)
  next
    case False
    then have nb: "\<not> b" using 2(4) ne r by (cases b) auto
    then have rest: "reach_any g t target rest v = (False, visited')"
      using 2(4) ne False r by auto
    have kids: "set (extends_children g t current) \<subseteq> set v" "explored g t target (current # visited) v"
      using 2(2) [OF ne False] r nb by auto
    have "set rest \<subseteq> set visited'" "explored g t target v visited'"
      using 2(3) [OF ne False r [symmetric]] nb rest by auto
    then show ?thesis using kids ne explored_step [of current target g t v visited visited'] 
      by (auto simp: explored_def)
  qed
qed

lemma can_reach_iff: "can_reach g t x target \<longleftrightarrow> (x, target) \<in> (extends_edge g t)\<^sup>*"
proof
  assume "can_reach g t x target"
  then show "(x, target) \<in> (extends_edge g t)\<^sup>*"
    using reach_any_sound [of g t target "[x]" "[]"]
    by (auto simp: can_reach_def fst_def split: prod.splits)
next
  assume path: "(x, target) \<in> (extends_edge g t)\<^sup>*"
  show "can_reach g t x target"
  proof (rule ccontr)
    assume "\<not> can_reach g t x target"
    then obtain v where "reach_any g t target [x] [] = (False, v)"
      by (cases "reach_any g t target [x] []") (auto simp: can_reach_def)
    then have e: "x \<in> set v" "explored g t target [] v" using reach_any_explored by fastforce+
    have "y \<in> set v" if "(x, y) \<in> (extends_edge g t)\<^sup>*" for y
      using that by induction (use e in \<open>auto simp: explored_def extends_edge_def\<close>)
    then show False using path e by (auto simp: explored_def)
  qed
qed

lemma check_extends_iff:
  "check_extends g t rid ps =
     (case find (\<lambda>p. (p, rid) \<in> (extends_edge g t)\<^sup>*) ps of
        None \<Rightarrow> Inr ()
      | Some p \<Rightarrow> Inl (AppError ONTOLOGY_CYCLE_DETECTED
             (''Circular dependency: '' @ rid @ '' extending '' @ p @ '' creates a cycle'')
             [(''interface_rid'', PStr rid), (''parent_rid'', PStr p)]))"
  by (induction ps) (simp_all add: can_reach_iff)

text \<open>
C4. \<open>check_interface_cycle\<close>, a depth-first search with a shared set of visited interfaces, rejects exactly
the first parent from which the interface can be reached along EXTENDS edges, and accepts when there
is none.
\<close>

theorem check_interface_cycle_correct:
  "check_interface_cycle rid parents t g =
     (case find (\<lambda>p. (p, rid) \<in> (extends_edge g t)\<^sup>*) parents of
        None \<Rightarrow> Inr ()
      | Some p \<Rightarrow> Inl (AppError ONTOLOGY_CYCLE_DETECTED
             (''Circular dependency: '' @ rid @ '' extending '' @ p @ '' creates a cycle'')
             [(''interface_rid'', PStr rid), (''parent_rid'', PStr p)]))"
  by (cases parents) (simp_all add: check_interface_cycle_def check_extends_iff)

lemma acyclic_extend:
  assumes "acyclic r" and "\<And>p. p \<in> P \<Longrightarrow> (p, x) \<notin> r\<^sup>*"
  shows "acyclic (r \<union> {x} \<times> P)"
proof (rule ccontr)
  assume "\<not> acyclic (r \<union> {x} \<times> P)"
  then obtain a where "(a, a) \<in> (r \<union> {x} \<times> P)\<^sup>+" by (auto simp: acyclic_def)
  moreover have "(a, b) \<in> r\<^sup>+ \<or> ((a, x) \<in> r\<^sup>* \<and> (\<exists>p \<in> P. (p, b) \<in> r\<^sup>*))"
    if "(a, b) \<in> (r \<union> {x} \<times> P)\<^sup>+" for a b
    using that
  proof induction
    case (base b)
    then show ?case by auto
  next
    case (step b c)
    then show ?case
      by (auto intro: trancl_into_trancl rtrancl_into_rtrancl dest: trancl_into_rtrancl)
  qed
  ultimately have "(a, x) \<in> r\<^sup>*" "\<exists>p \<in> P. (p, a) \<in> r\<^sup>*"
    using assms(1) by (auto simp: acyclic_def)
  then show False using assms(2) by (meson rtrancl_trans)
qed

text \<open>
When the check accepts the parents of an interface, recording them keeps the EXTENDS relation free
of cycles.
\<close>

theorem check_interface_cycle_safe:
  assumes "acyclic (extends_edge g t)" and "check_interface_cycle rid parents t g = Inr ()"
  shows "acyclic (extends_edge g t \<union> {rid} \<times> set parents)"
proof (rule acyclic_extend [OF assms(1)])
  fix p
  assume p: "p \<in> set parents"
  have "check_extends g t rid parents = Inr ()"
    using assms(2) p by (cases parents) (auto simp: check_interface_cycle_def)
  then show "(p, rid) \<notin> (extends_edge g t)\<^sup>*"
    using p by (auto simp: check_extends_iff find_None_iff split: option.splits)
qed

text \<open>Three interfaces, of which \<open>b\<close> extends \<open>a\<close>.\<close>

definition iface_node :: "nat \<Rightarrow> string \<Rightarrow> gnode" where
  "iface_node i r = \<lparr>nid = i, nlabel = ''InterfaceType'',
      nprops = [(''rid'', PStr r), (''tenant_id'', PStr ''t'')]\<rparr>"

definition iface_graph :: graph where
  "iface_graph =
     \<lparr>gnodes = [iface_node 0 ''a'', iface_node 1 ''b'', iface_node 2 ''c''],
      gedges = [\<lparr>esrc = 1, etype = ''EXTENDS'', edst = 0, eprops = []\<rparr>], gnext = 3\<rparr>"

lemma iface_children:
  "extends_children iface_graph ''t'' x = (if x = ''b'' then [''a''] else [])"
  by (auto simp: extends_children_def get_related_nodes_def match_nodes_def iface_graph_def
      iface_node_def identity_conds_def node_all_def node_is_def related_def pget_str_def)

lemma check_interface_cycle_safe_witness:
  "acyclic (extends_edge iface_graph ''t'' \<union> {''c''} \<times> set [''b'', ''a''])"
proof (rule check_interface_cycle_safe)
  have "extends_edge iface_graph ''t'' = {(''b'', ''a'')}"
    by (auto simp: extends_edge_def iface_children split: if_splits)
  then show "acyclic (extends_edge iface_graph ''t'')" by (simp add: acyclic_insert) (simp add: acyclic_def)
  show "check_interface_cycle ''c'' [''b'', ''a''] ''t'' iface_graph = Inr ()"
    by (simp add: check_interface_cycle_def can_reach_def iface_children)
qed

subsection \<open>Contracts, cascades, retries\<close>

definition related_props ::
  "string \<Rightarrow> string \<Rightarrow> string \<Rightarrow> string \<Rightarrow> direction \<Rightarrow> graph \<Rightarrow> pyval dict list" where
  "related_props label rid tenant_id rel dir g =
     concat (map (\<lambda>n. map nprops (related dir rel n g)) (match_nodes g label (identity_conds rid tenant_id)))"

lemma get_related_nodes_named:
  "rel \<noteq> [] \<Longrightarrow> get_related_nodes label rid t rel dir g = Inr (related_props label rid t rel dir g)"
  by (simp add: get_related_nodes_def related_props_def)

text \<open>The shared properties an implementor has, as properties of its own that inherit from them.\<close>

definition implements_shared :: "graph \<Rightarrow> string \<Rightarrow> pyval dict \<Rightarrow> string list" where
  "implements_shared g t i =
     covered_shared_rids (related_props (detect_entity_label i) (pget_str i ''rid'') t ''BELONGS_TO'' Incoming g)"

lemma missing_shared_rids_eq:
  "missing_shared_rids required t g i = Inr (filter (\<lambda>r. r \<notin> set (implements_shared g t i)) required)"
  by (simp add: missing_shared_rids_def get_related_nodes_named implements_shared_def)

lemma mapE_Inr [simp]: "mapE (\<lambda>x. Inr (f x)) xs = Inr (map f xs)"
  by (induction xs) auto

text \<open>
C5. \<open>check_contract_satisfaction\<close> accepts the requirements of an interface exactly when every entity
that implements it has, for each required shared property, a property that inherits from it.
\<close>

theorem check_contract_satisfaction_iff:
  "check_contract_satisfaction iface t required g = Inr () \<longleftrightarrow>
     list_all (\<lambda>i. set required \<subseteq> set (implements_shared g t i))
       (related_props ''InterfaceType'' iface t ''IMPLEMENTS'' Incoming g)"
proof (cases "required = []")
  case True
  then show ?thesis by (simp add: check_contract_satisfaction_def list_all_iff)
next
  case False
  have "filter (\<lambda>(i, m). m \<noteq> []) (zip xs (map (\<lambda>i. filter (\<lambda>r. r \<notin> C i) required) xs)) = [] \<longleftrightarrow>
      list_all (\<lambda>i. set required \<subseteq> C i) xs" for xs :: "pyval dict list" and C
    by (induction xs) (auto simp: filter_empty_conv)
  then show ?thesis using False
    by (simp add: check_contract_satisfaction_def get_related_nodes_named
        missing_shared_rids_eq [abs_def] Let_def)
qed

lemma map_of_set_props_other: "k \<notin> fst ` set ps \<Longrightarrow> map_of (set_props d ps) k = map_of d k"
  by (induction ps arbitrary: d) (auto simp: set_props_def)

text \<open>The versions of a property that keep what they have in a field.\<close>

definition field_kept :: "string \<Rightarrow> string \<Rightarrow> string \<Rightarrow> gnode \<Rightarrow> gnode \<Rightarrow> bool" where
  "field_kept t r f n n' \<longleftrightarrow>
     nlabel n' = nlabel n \<and> (nlabel n \<noteq> ''PropertyType'' \<longrightarrow> n' = n) \<and>
     node_all n' (identity_conds r t) = node_all n (identity_conds r t) \<and>
     (node_all n (identity_conds r t) \<longrightarrow> map_of (nprops n') f = map_of (nprops n) f)"

definition fields_kept :: "string \<Rightarrow> string \<Rightarrow> string \<Rightarrow> graph \<Rightarrow> graph \<Rightarrow> bool" where
  "fields_kept t r f g g' \<longleftrightarrow> list_all2 (field_kept t r f) (gnodes g) (gnodes g') \<and> gedges g' = gedges g"

lemma fields_kept_reflp: "reflp (fields_kept t r f)"
  by (auto simp: reflp_def fields_kept_def field_kept_def intro: list.rel_refl)

lemma fields_kept_transp: "transp (fields_kept t r f)"
proof (rule transpI)
  fix x y z
  assume "fields_kept t r f x y" "fields_kept t r f y z"
  moreover have "field_kept t r f a c" if "field_kept t r f a b" "field_kept t r f b c" for a b c
    using that by (auto simp: field_kept_def)
  ultimately show "fields_kept t r f x z"
    by (auto simp: fields_kept_def intro: list_all2_trans)
qed

lemma update_property_keeps:
  assumes "fst ` set ups \<subseteq> set CASCADE_FIELDS" and "p = r \<Longrightarrow> f \<notin> fst ` set ups"
  shows "keeps (fields_kept t r f) (update_node ''PropertyType'' p t ups None None)"
  unfolding keeps_def
proof
  fix g
  have kept: "k \<notin> fst ` set ups" if "k \<in> {''rid'', ''tenant_id''}" for k
    using that assms(1) by (auto simp: CASCADE_FIELDS_def)
  have ids: "node_all (n\<lparr>nprops := set_props (nprops n) ups\<rparr>) (identity_conds a b) =
      node_all n (identity_conds a b)" for n a b
    by (simp add: node_all_def identity_conds_def node_is_def map_of_set_props_other kept)
  have one: "field_kept t r f n
      (if nlabel n = ''PropertyType'' \<and> node_all n (identity_conds p t)
       then n\<lparr>nprops := set_props (nprops n) ups\<rparr> else n)" for n
  proof -
    have "p = r" if "node_all n (identity_conds p t)" "node_all n (identity_conds r t)"
      using that by (simp add: node_all_def identity_conds_def node_is_def)
    then show ?thesis using assms(2) by (auto simp: field_kept_def ids map_of_set_props_other)
  qed
  show "fields_kept t r f g (snd (update_node ''PropertyType'' p t ups None None g))"
    using one reflpD [OF fields_kept_reflp, of t r f g]
    by (auto simp: update_node_def opt_bool_cond_def opt_str_cond_def update_where_def
        fields_kept_def list_all2_map2 list_all2_same Let_def)
qed

lemma cascade_updates_fields:
  "fst ` set (cascade_updates (dfilter (\<lambda>k. k \<in> set CASCADE_FIELDS) edits) olds p) \<subseteq> set CASCADE_FIELDS"
  by (auto simp: cascade_updates_def dfilter_def)

lemma cascade_loop_keeps:
  assumes "\<And>p. p \<in> set props \<Longrightarrow> pget_str p ''rid'' = r \<Longrightarrow> f \<notin> fst ` set (cascade_updates cs olds p)"
    and "\<And>p. fst ` set (cascade_updates cs olds p) \<subseteq> set CASCADE_FIELDS"
  shows "keeps (fields_kept t r f) (cascade_loop cs olds t props)"
  using assms(1)
proof (induction props)
  case Nil
  show ?case unfolding cascade_loop.simps by (rule keeps_pure(1) [OF fields_kept_reflp])
next
  case (Cons p props)
  then show ?case
    by (auto simp: Let_def intro!: keeps_bindC fields_kept_transp update_property_keeps assms(2)
        keeps_pure fields_kept_reflp)
qed

text \<open>
A cascade from a shared property changes nothing but versions of property types, and a field it
does not cascade to in any version of a property keeps its value in all of them: with the old values
given, that is a field whose current value differs from the old shared value, a local override.
\<close>

theorem cascade_keeps_overrides:
  assumes "list_all (\<lambda>p. pget_str p ''rid'' = r \<longrightarrow> \<not> py_eq (pget p f) (pget olds f))
      (related_props ''SharedPropertyType'' shared t ''BASED_ON'' Incoming g)"
  shows "list_all2 (field_kept t r f) (gnodes g)
           (gnodes (snd (cascade_shared_property_update shared t edits (Some olds) g))) \<and>
         gedges (snd (cascade_shared_property_update shared t edits (Some olds) g)) = gedges g"
proof -
  let ?g' = "snd (cascade_shared_property_update shared t edits (Some olds) g)"
  let ?cs = "dfilter (\<lambda>k. k \<in> set CASCADE_FIELDS) edits"
  let ?ps = "related_props ''SharedPropertyType'' shared t ''BASED_ON'' Incoming g"
  have "f \<notin> fst ` set (cascade_updates ?cs (Some olds) p)"
    if "p \<in> set ?ps" "pget_str p ''rid'' = r" for p
    using assms(1) that by (auto simp: cascade_updates_def list_all_iff)
  then have "keeps (fields_kept t r f) (cascade_loop ?cs (Some olds) t ?ps)"
    by (intro cascade_loop_keeps cascade_updates_fields)
  then have "fields_kept t r f g (snd (cascade_loop ?cs (Some olds) t ?ps g))"
    by (simp add: keeps_def)
  moreover have "fields_kept t r f g g" using fields_kept_reflp by (rule reflpD)
  moreover have "?g' = (if ?cs = [] then g else snd (cascade_loop ?cs (Some olds) t ?ps g))"
    by (simp add: cascade_shared_property_update_def bindC_run get_related_nodes_named Let_def)
  ultimately show ?thesis by (simp add: fields_kept_def split: if_splits)
qed

text \<open>A shared property and two that inherit its name, one with a name of its own.\<close>

definition shared_graph :: graph where
  "shared_graph =
     \<lparr>gnodes =
        [\<lparr>nid = 0, nlabel = ''SharedPropertyType'',
          nprops = [(''rid'', PStr ''s''), (''tenant_id'', PStr ''t''), (''display_name'', PStr ''Old'')]\<rparr>,
         \<lparr>nid = 1, nlabel = ''PropertyType'',
          nprops = [(''rid'', PStr ''p''), (''tenant_id'', PStr ''t''), (''display_name'', PStr ''Old'')]\<rparr>,
         \<lparr>nid = 2, nlabel = ''PropertyType'',
          nprops = [(''rid'', PStr ''q''), (''tenant_id'', PStr ''t''), (''display_name'', PStr ''Mine'')]\<rparr>],
      gedges = [\<lparr>esrc = 1, etype = ''BASED_ON'', edst = 0, eprops = []\<rparr>,
                \<lparr>esrc = 2, etype = ''BASED_ON'', edst = 0, eprops = []\<rparr>],
      gnext = 3\<rparr>"

lemma cascade_keeps_overrides_witness:
  "list_all2 (field_kept ''t'' ''q'' ''display_name'') (gnodes shared_graph)
     (gnodes (snd (cascade_shared_property_update ''s'' ''t'' [(''display_name'', PStr ''New'')]
        (Some [(''display_name'', PStr ''Old'')]) shared_graph)))"
  using cascade_keeps_overrides [of "''q''" "''display_name''" "[(''display_name'', PStr ''Old'')]"
      "''s''" "''t''" shared_graph "[(''display_name'', PStr ''New'')]"]
  by (simp add: related_props_def related_def match_nodes_def node_all_def identity_conds_def
      node_is_def shared_graph_def pget_str_def pget_def)

text \<open>The state in which the \<open>i\<close>-th attempt of a retried operation starts.\<close>

definition attempt :: "('s, exn, 'a) comp \<Rightarrow> 's \<Rightarrow> nat \<Rightarrow> 's" where
  "attempt operation s i = ((\<lambda>s. snd (operation s)) ^^ i) s"

definition transient :: "(exn + 'a) \<times> 's \<Rightarrow> bool" where
  "transient rs \<longleftrightarrow> (case fst rs of Inl e \<Rightarrow> retryable e | Inr _ \<Rightarrow> False)"

lemma attempt_Suc: "attempt operation s (Suc i) = attempt operation (snd (operation s)) i"
  by (simp add: attempt_def funpow_Suc_right del: funpow.simps)

lemma retry_from_attempts:
  "\<exists>j \<le> n. retry_from (Suc n) operation prev s = operation (attempt operation s j) \<and>
     (\<forall>i < j. transient (operation (attempt operation s i))) \<and>
     (j = n \<or> \<not> transient (operation (attempt operation s j)))"
proof (induction n arbitrary: prev s)
  case 0
  show ?case by (cases "operation s") (auto simp: attempt_def transient_def split: sum.splits)
next
  case (Suc n)
  show ?case
  proof (cases "transient (operation s)")
    case False
    then have "retry_from (Suc (Suc n)) operation prev s = operation s"
      by (cases "operation s") (auto simp: transient_def split: sum.splits)
    then show ?thesis using False by (intro exI [of _ 0]) (simp add: attempt_def)
  next
    case True
    then obtain e where e: "operation s = (Inl e, snd (operation s))" "retryable e"
      by (cases "operation s") (auto simp: transient_def split: sum.splits)
    obtain j where j: "j \<le> n"
      "retry_from (Suc n) operation e (snd (operation s)) = operation (attempt operation (snd (operation s)) j)"
      "\<forall>i < j. transient (operation (attempt operation (snd (operation s)) i))"
      "j = n \<or> \<not> transient (operation (attempt operation (snd (operation s)) j))"
      using Suc.IH by blast
    have "retry_from (Suc (Suc n)) operation prev s = retry_from (Suc n) operation e (snd (operation s))"
      by (subst retry_from.simps(2), subst e(1)) (simp add: e(2) del: retry_from.simps)
    moreover have "\<forall>i < Suc j. transient (operation (attempt operation s i))"
      using j(3) True by (auto simp: less_Suc_eq_0_disj attempt_Suc) (simp add: attempt_def)
    ultimately show ?thesis using j by (intro exI [of _ "Suc j"]) (auto simp: attempt_Suc)
  qed
qed

text \<open>
\<open>retry_neo4j_operation\<close> makes at most \<open>max_retries + 1\<close> attempts, each from the state the one
before left behind, and ends with the first outcome that is not a transient fault, or with the last
attempt's.
\<close>

theorem retry_neo4j_operation_correct:
  "\<exists>j \<le> max_retries.
     retry_neo4j_operation max_retries operation s = operation (attempt operation s j) \<and>
     (\<forall>i < j. transient (operation (attempt operation s i))) \<and>
     (j = max_retries \<or> \<not> transient (operation (attempt operation s j)))"
  unfolding retry_neo4j_operation_def by (rule retry_from_attempts)

text \<open>An operation that succeeds from its third attempt on.\<close>

definition flaky :: "(nat, exn, string) comp" where
  "flaky n = (if n < 2 then (Inl (DriverError ''SessionExpired''), Suc n) else (Inr ''done'', n))"

lemma retry_neo4j_operation_correct_witness:
  "retry_neo4j_operation DEFAULT_MAX_RETRIES flaky 0 = (Inr ''done'', 2)"
proof -
  obtain j where j: "j \<le> 3" "retry_neo4j_operation 3 flaky 0 = flaky (attempt flaky 0 j)"
    "\<forall>i < j. transient (flaky (attempt flaky 0 i))"
    "j = 3 \<or> \<not> transient (flaky (attempt flaky 0 j))"
    using retry_neo4j_operation_correct [of 3 flaky 0] by blast
  have ev: "attempt flaky 0 0 = 0" "attempt flaky 0 1 = 1" "attempt flaky 0 2 = 2"
    by (simp_all add: attempt_def flaky_def numeral_2_eq_2)
  have tr: "transient (flaky 0)" "transient (flaky 1)" "\<not> transient (flaky 2)"
    by (simp_all add: transient_def flaky_def retryable_def)
  have "\<not> 2 < j" using j(3) ev tr by metis
  moreover have "j \<noteq> 0"
  proof
    assume "j = 0"
    then show False using j(4) ev tr by simp
  qed
  moreover have "j \<noteq> 1"
  proof
    assume "j = 1"
    then show False using j(4) ev tr by simp
  qed
  ultimately have "j = 2" by simp
  then show ?thesis using j(2) ev by (simp add: DEFAULT_MAX_RETRIES_def flaky_def)
qed

end
