(* ===== verification/Snapshot_Repo.thy ===== *)
theory Snapshot_Repo
  imports Infra
begin

section \<open>Snapshots and the pointer to the active one\<close>

text \<open>
  \<open>ontology/repository/snapshot_repo.py\<close> over the two tables of \<open>ontology/models.py\<close>. A table is
  the list of its rows in the order they were inserted; a primary key that is there already is
  refused by the database. \<open>now()\<close> of the server is an argument. The main facts say that the
  field-level difference of two snapshots leads from one to the other, and that it is empty only
  when they agree.
\<close>

record snapshot =
  sn_id :: string
  sn_parent :: "string option"
  sn_tenant :: string
  sn_message :: "string option"
  sn_author :: string
  sn_changes :: "pyval dict"
  sn_data :: "pyval dict dict option"
  sn_created :: string

record active_pointer =
  ap_tenant :: string
  ap_snapshot :: string
  ap_updated :: string

record snapdb =
  sd_snapshots :: "snapshot list"
  sd_pointers :: "active_pointer list"

definition snap_create :: "snapshot \<Rightarrow> (snapdb, exn, snapshot) comp" where
  "snap_create snap db =
     (if \<exists>s \<in> set (sd_snapshots db). sn_id s = sn_id snap
      then (Inl (DriverError ''IntegrityError''), db)
      else (Inr snap, db\<lparr>sd_snapshots := sd_snapshots db @ [snap]\<rparr>))"

definition snap_get_by_id :: "string \<Rightarrow> snapdb \<Rightarrow> snapshot option" where
  "snap_get_by_id snapshot_id db = single (filter (\<lambda>s. sn_id s = snapshot_id) (sd_snapshots db))"

definition snap_list_by_tenant ::
  "string \<Rightarrow> nat \<Rightarrow> nat \<Rightarrow> snapdb \<Rightarrow> snapshot list \<times> nat" where
  "snap_list_by_tenant tenant_id offset limit db =
     (let base = filter (\<lambda>s. sn_tenant s = tenant_id) (sd_snapshots db)
      in (page offset limit (sort_desc sn_created base), length base))"

definition get_active_pointer :: "string \<Rightarrow> snapdb \<Rightarrow> active_pointer option" where
  "get_active_pointer tenant_id db =
     single (filter (\<lambda>p. ap_tenant p = tenant_id) (sd_pointers db))"

definition set_active_pointer :: "string \<Rightarrow> string \<Rightarrow> string \<Rightarrow> snapdb \<Rightarrow> snapdb" where
  "set_active_pointer now tenant_id snapshot_id db =
     (case get_active_pointer tenant_id db of
        Some _ \<Rightarrow>
          db\<lparr>sd_pointers := map (\<lambda>p. if ap_tenant p = tenant_id
                then p\<lparr>ap_snapshot := snapshot_id, ap_updated := now\<rparr> else p) (sd_pointers db)\<rparr>
      | None \<Rightarrow>
          db\<lparr>sd_pointers := sd_pointers db
               @ [\<lparr>ap_tenant = tenant_id, ap_snapshot = snapshot_id, ap_updated = now\<rparr>]\<rparr>)"

definition get_diff :: "string \<Rightarrow> string option \<Rightarrow> snapdb \<Rightarrow> pyval dict" where
  "get_diff snapshot_id current_snapshot_id db =
     (case snap_get_by_id snapshot_id db of
        None \<Rightarrow> [(''changes'', PDict [])]
      | Some snap \<Rightarrow>
          (let current_changes =
             (case current_snapshot_id of
                None \<Rightarrow> []
              | Some c \<Rightarrow> if c = [] then []
                  else (case snap_get_by_id c db of None \<Rightarrow> [] | Some cur \<Rightarrow> sn_changes cur))
           in [(''snapshot_changes'', PDict (sn_changes snap)),
               (''current_changes'', PDict current_changes)]))"

subsection \<open>Field-level differences\<close>

record field_diff =
  fd_added :: "pyval dict"
  fd_removed :: "pyval dict"
  fd_changed :: "(pyval \<times> pyval) dict"

text \<open>The keys of both dicts; Python goes through them as a set, in no particular order.\<close>

definition all_keys :: "'a dict \<Rightarrow> 'b dict \<Rightarrow> string list" where
  "all_keys a b = remdups (map fst a @ map fst b)"

definition compute_field_diff :: "pyval dict \<Rightarrow> pyval dict \<Rightarrow> field_diff" where
  "compute_field_diff fields_a fields_b =
     fold (\<lambda>key d.
        case (map_of fields_a key, map_of fields_b key) of
          (None, Some v) \<Rightarrow> d\<lparr>fd_added := dput key v (fd_added d)\<rparr>
        | (Some v, None) \<Rightarrow> d\<lparr>fd_removed := dput key v (fd_removed d)\<rparr>
        | (Some v, Some w) \<Rightarrow> (if \<not> py_eq v w then d\<lparr>fd_changed := dput key (v, w) (fd_changed d)\<rparr> else d)
        | (None, None) \<Rightarrow> d)
       (all_keys fields_a fields_b) \<lparr>fd_added = [], fd_removed = [], fd_changed = []\<rparr>"

definition diff_empty :: "field_diff \<Rightarrow> bool" where
  "diff_empty d \<longleftrightarrow> fd_added d = [] \<and> fd_removed d = [] \<and> fd_changed d = []"

definition snap_data :: "string \<Rightarrow> snapdb \<Rightarrow> pyval dict dict" where
  "snap_data sid db =
     (case snap_get_by_id sid db of
        None \<Rightarrow> []
      | Some s \<Rightarrow> (case sn_data s of None \<Rightarrow> [] | Some d \<Rightarrow> d))"

definition get_field_diff :: "string \<Rightarrow> string \<Rightarrow> snapdb \<Rightarrow> field_diff dict" where
  "get_field_diff sid_a sid_b db =
     (let data_a = snap_data sid_a db; data_b = snap_data sid_b db in
      fold (\<lambda>rid result.
          let diff = compute_field_diff (dget_or data_a rid []) (dget_or data_b rid []) in
          if \<not> diff_empty diff then dput rid diff result else result)
        (all_keys data_a data_b) [])"

subsection \<open>What a difference says\<close>

lemma set_all_keys [simp]: "set (all_keys a b) = dom (map_of a) \<union> dom (map_of b)"
  by (auto simp: all_keys_def dom_map_of_conv_image_fst)

lemma distinct_all_keys [simp]: "distinct (all_keys a b)"
  by (simp add: all_keys_def)

text \<open>What the loop has recorded after the keys \<open>ks\<close>.\<close>

definition diff_at :: "pyval dict \<Rightarrow> pyval dict \<Rightarrow> string list \<Rightarrow> field_diff \<Rightarrow> bool" where
  "diff_at a b ks d \<longleftrightarrow>
     (\<forall>k. map_of (fd_added d) k = (if k \<in> set ks \<and> map_of a k = None then map_of b k else None)) \<and>
     (\<forall>k. map_of (fd_removed d) k = (if k \<in> set ks \<and> map_of b k = None then map_of a k else None)) \<and>
     (\<forall>k. map_of (fd_changed d) k =
        (if k \<in> set ks then
           (case (map_of a k, map_of b k) of
              (Some v, Some w) \<Rightarrow> if py_eq v w then None else Some (v, w)
            | _ \<Rightarrow> None)
         else None))"

lemma diff_fold:
  "diff_at a b ks d \<Longrightarrow> diff_at a b (ks @ js)
     (fold (\<lambda>key d.
        case (map_of a key, map_of b key) of
          (None, Some v) \<Rightarrow> d\<lparr>fd_added := dput key v (fd_added d)\<rparr>
        | (Some v, None) \<Rightarrow> d\<lparr>fd_removed := dput key v (fd_removed d)\<rparr>
        | (Some v, Some w) \<Rightarrow> (if \<not> py_eq v w then d\<lparr>fd_changed := dput key (v, w) (fd_changed d)\<rparr> else d)
        | (None, None) \<Rightarrow> d) js d)"
proof (induction js arbitrary: ks d)
  case Nil
  then show ?case by simp
next
  case (Cons j js)
  let ?d = "case (map_of a j, map_of b j) of
          (None, Some v) \<Rightarrow> d\<lparr>fd_added := dput j v (fd_added d)\<rparr>
        | (Some v, None) \<Rightarrow> d\<lparr>fd_removed := dput j v (fd_removed d)\<rparr>
        | (Some v, Some w) \<Rightarrow> (if \<not> py_eq v w then d\<lparr>fd_changed := dput j (v, w) (fd_changed d)\<rparr> else d)
        | (None, None) \<Rightarrow> d"
  have "diff_at a b (ks @ [j]) ?d"
    using Cons.prems
    by (cases "map_of a j"; cases "map_of b j") (auto simp: diff_at_def)
  from Cons.IH [OF this] show ?case by simp
qed

lemma compute_field_diff_at: "diff_at a b (all_keys a b) (compute_field_diff a b)"
  using diff_fold [of a b "[]" "\<lparr>fd_added = [], fd_removed = [], fd_changed = []\<rparr>" "all_keys a b"]
  by (simp add: compute_field_diff_def diff_at_def)

lemma field_diff_simps [dict_simps]:
  "map_of (fd_added (compute_field_diff a b)) k = (if map_of a k = None then map_of b k else None)"
  "map_of (fd_removed (compute_field_diff a b)) k = (if map_of b k = None then map_of a k else None)"
  "map_of (fd_changed (compute_field_diff a b)) k =
     (case (map_of a k, map_of b k) of
        (Some v, Some w) \<Rightarrow> if py_eq v w then None else Some (v, w)
      | _ \<Rightarrow> None)"
  using compute_field_diff_at [of a b]
  by (auto simp: diff_at_def split: option.splits)

text \<open>A field after the changes of a difference are carried out.\<close>

definition patched :: "pyval dict \<Rightarrow> field_diff \<Rightarrow> string \<Rightarrow> pyval option" where
  "patched old d k =
     (case map_of (fd_changed d) k of
        Some (v, w) \<Rightarrow> Some w
      | None \<Rightarrow>
          (case map_of (fd_added d) k of
             Some v \<Rightarrow> Some v
           | None \<Rightarrow> if map_of (fd_removed d) k = None then map_of old k else None))"

definition same_value :: "pyval \<Rightarrow> pyval \<Rightarrow> bool" where
  "same_value v w \<longleftrightarrow> v = w \<or> py_eq v w"

text \<open>
Carrying out the field-level difference from one version of an entity to another on the first
gives the second: the same fields with the same values.
\<close>

theorem field_diff_patches:
  "rel_option same_value (patched a (compute_field_diff a b) k) (map_of b k)"
  by (cases "map_of a k"; cases "map_of b k")
    (auto simp: patched_def field_diff_simps same_value_def)

lemma map_of_empty_iff: "(\<forall>k. map_of d k = None) \<longleftrightarrow> d = []"
  by (cases d) (auto split: if_splits)

lemma diff_empty_iff:
  "diff_empty (compute_field_diff a b) \<longleftrightarrow> (\<forall>k. rel_option py_eq (map_of a k) (map_of b k))"
proof -
  let ?d = "compute_field_diff a b"
  have "diff_empty ?d \<longleftrightarrow> (\<forall>k. map_of (fd_added ?d) k = None \<and> map_of (fd_removed ?d) k = None
      \<and> map_of (fd_changed ?d) k = None)"
    by (auto simp: diff_empty_def map_of_empty_iff [symmetric])
  also have "\<dots> \<longleftrightarrow> (\<forall>k. rel_option py_eq (map_of a k) (map_of b k))"
  proof (rule iff_allI)
    fix k
    show "(map_of (fd_added ?d) k = None \<and> map_of (fd_removed ?d) k = None
        \<and> map_of (fd_changed ?d) k = None) \<longleftrightarrow> rel_option py_eq (map_of a k) (map_of b k)"
      by (cases "map_of a k"; cases "map_of b k") (auto simp: field_diff_simps)
  qed
  finally show ?thesis .
qed

lemma diff_loop:
  "map_of (fold (\<lambda>rid result. let d = D rid in if \<not> P d then dput rid d result else result) rids acc) r =
     (if r \<in> set rids \<and> \<not> P (D r) then Some (D r) else map_of acc r)"
  by (induction rids arbitrary: acc) (auto simp: Let_def)

text \<open>
\<open>get_field_diff\<close> lists an entity exactly when some field differs between the two snapshots, and
then with the difference of its two versions; an entity or field that a snapshot does not have
counts as absent.
\<close>

theorem get_field_diff_correct:
  "map_of (get_field_diff sid_a sid_b db) rid =
     (let a = dget_or (snap_data sid_a db) rid []; b = dget_or (snap_data sid_b db) rid []
      in if \<forall>k. rel_option py_eq (map_of a k) (map_of b k) then None
         else Some (compute_field_diff a b))"
proof -
  have "rid \<notin> set (all_keys (snap_data sid_a db) (snap_data sid_b db)) \<Longrightarrow>
      dget_or (snap_data sid_a db) rid [] = [] \<and> dget_or (snap_data sid_b db) rid [] = []"
    by (auto simp: dget_or_def split: option.splits)
  moreover have "map_of (get_field_diff sid_a sid_b db) rid =
      (let d = compute_field_diff (dget_or (snap_data sid_a db) rid []) (dget_or (snap_data sid_b db) rid [])
       in if rid \<in> set (all_keys (snap_data sid_a db) (snap_data sid_b db)) \<and> \<not> diff_empty d
          then Some d else None)"
    using diff_loop [of "\<lambda>rid. compute_field_diff (dget_or (snap_data sid_a db) rid [])
        (dget_or (snap_data sid_b db) rid [])" diff_empty
        "all_keys (snap_data sid_a db) (snap_data sid_b db)" "[]" rid]
    by (simp only: get_field_diff_def Let_def) simp
  ultimately show ?thesis by (auto simp: Let_def diff_empty_iff)
qed

lemma set_pointer_get:
  "get_active_pointer u (set_active_pointer now t sid db) =
     (if u = t then Some \<lparr>ap_tenant = t, ap_snapshot = sid, ap_updated = now\<rparr>
      else get_active_pointer u db) \<and>
   sd_snapshots (set_active_pointer now t sid db) = sd_snapshots db"
proof -
  let ?f = "\<lambda>p. if ap_tenant p = t then p\<lparr>ap_snapshot := sid, ap_updated := now\<rparr> else p"
  have upd: "single (filter (\<lambda>p. ap_tenant p = u) (map ?f ps)) =
      map_option ?f (single (filter (\<lambda>p. ap_tenant p = u) ps))" for ps
    by (induction ps) simp_all
  have app: "single (filter P (ps @ [x])) = (case single (filter P ps) of Some y \<Rightarrow> Some y
      | None \<Rightarrow> if P x then Some x else None)" for P ps and x :: active_pointer
    by (cases "filter P ps") simp_all
  have own: "get_active_pointer u db = Some p \<Longrightarrow> ap_tenant p = u" for p
    by (auto simp: get_active_pointer_def dest: single_in)
  show ?thesis
  proof (cases "get_active_pointer t db")
    case None
    then have "get_active_pointer u (set_active_pointer now t sid db) =
        (case get_active_pointer u db of Some y \<Rightarrow> Some y
         | None \<Rightarrow> if t = u then Some \<lparr>ap_tenant = t, ap_snapshot = sid, ap_updated = now\<rparr> else None)"
      by (simp add: set_active_pointer_def get_active_pointer_def app del: filter_append)
    then show ?thesis using None by (auto simp: set_active_pointer_def split: option.splits)
  next
    case (Some p)
    have "get_active_pointer u (set_active_pointer now t sid db) = map_option ?f (get_active_pointer u db)"
      using Some upd by (simp add: set_active_pointer_def get_active_pointer_def)
    then show ?thesis using Some own
      by (cases "get_active_pointer u db") (auto simp: set_active_pointer_def)
  qed
qed


text \<open>
The active pointer of a tenant is what was set last, and setting it leaves the pointers of other
tenants and all snapshots alone.
\<close>

theorem set_active_pointer_correct:
  "get_active_pointer u (set_active_pointer now t sid db) =
     (if u = t then Some \<lparr>ap_tenant = t, ap_snapshot = sid, ap_updated = now\<rparr>
      else get_active_pointer u db) \<and>
   sd_snapshots (set_active_pointer now t sid db) = sd_snapshots db"
  by (rule set_pointer_get)

end
