(* ===== verification/Ontology_Entities.thy ===== *)
theory Ontology_Entities
  imports Ontology_Locks Ontology_Validators Snapshot_Repo
begin

section \<open>The ontology service: entities and their versions\<close>

text \<open>
  \<open>ontology/service.py\<close>, entity CRUD: the state a request works on (graph, key-value server, the
  database with the request's transaction), the translation between node properties and response
  objects (\<open>schemas/responses.py\<close>), and the operations that create, edit, delete and read the
  versions of an entity. Clock and UUID source are arguments: the \<open>n\<close>-th reading of each is a
  function of \<open>n\<close>.
\<close>

subsection \<open>What a request works on\<close>

text \<open>
  Faults of single graph statements: the statement did not reach the server, or it was applied and
  its acknowledgement was lost. A fault carries the class of the driver's exception.
\<close>

datatype fault = NoFault | FailBefore string | FailAfter string

record 'r world =
  w_graph :: graph
  w_redis :: 'r
  w_db :: snapdb
  w_tx :: snapdb
  w_draws :: nat
  w_ticks :: nat
  w_faults :: "fault list"

record env =
  env_uuid :: "nat \<Rightarrow> string"
  env_now :: "nat \<Rightarrow> string"

definition on_graph :: "(graph, exn, 'a) comp \<Rightarrow> ('r world, exn, 'a) comp" where
  "on_graph m w = (case m (w_graph w) of (r, g) \<Rightarrow> (r, w\<lparr>w_graph := g\<rparr>))"

definition on_redis :: "('r, exn, 'a) comp \<Rightarrow> ('r world, exn, 'a) comp" where
  "on_redis m w = (case m (w_redis w) of (r, s) \<Rightarrow> (r, w\<lparr>w_redis := s\<rparr>))"

definition on_tx :: "(snapdb, exn, 'a) comp \<Rightarrow> ('r world, exn, 'a) comp" where
  "on_tx m w = (case m (w_tx w) of (r, d) \<Rightarrow> (r, w\<lparr>w_tx := d\<rparr>))"

definition ask_graph :: "(graph \<Rightarrow> 'a) \<Rightarrow> ('r world, exn, 'a) comp" where
  "ask_graph f w = (Inr (f (w_graph w)), w)"

definition check_graph :: "(graph \<Rightarrow> 'a res) \<Rightarrow> ('r world, exn, 'a) comp" where
  "check_graph f w = (f (w_graph w), w)"

definition ask_tx :: "(snapdb \<Rightarrow> 'a) \<Rightarrow> ('r world, exn, 'a) comp" where
  "ask_tx f w = (Inr (f (w_tx w)), w)"

definition draw_uuid :: "env \<Rightarrow> ('r world, exn, string) comp" where
  "draw_uuid E w = (Inr (env_uuid E (w_draws w)), w\<lparr>w_draws := Suc (w_draws w)\<rparr>)"

definition utcnow :: "env \<Rightarrow> ('r world, exn, string) comp" where
  "utcnow E w = (Inr (env_now E (w_ticks w)), w\<lparr>w_ticks := Suc (w_ticks w)\<rparr>)"

definition not_found :: "string \<Rightarrow> string \<Rightarrow> exn" where
  "not_found label rid = AppError ONTOLOGY_NOT_FOUND (label @ '' '' @ rid @ '' not found'') []"

lemmas world_simps [comp_simps] = on_graph_def on_redis_def on_tx_def ask_graph_def check_graph_def
  ask_tx_def draw_uuid_def utcnow_def

subsection \<open>Stored and served fields\<close>

definition ENTITY_RID_TYPES :: "string dict" where
  "ENTITY_RID_TYPES =
     [(''ObjectType'', ''obj''), (''LinkType'', ''link''), (''InterfaceType'', ''iface''),
      (''SharedPropertyType'', ''shprop''), (''ActionType'', ''action''), (''PropertyType'', ''prop'')]"

definition ENTITY_LABELS :: "string dict" where
  "ENTITY_LABELS =
     [(''object_type'', ''ObjectType''), (''link_type'', ''LinkType''),
      (''interface_type'', ''InterfaceType''), (''shared_property_type'', ''SharedPropertyType''),
      (''property_type'', ''PropertyType''), (''action_type'', ''ActionType'')]"

definition JSON_STORE_FIELDS :: "string list" where
  "JSON_STORE_FIELDS =
     [''widget'', ''validation'', ''compliance'', ''parameters'', ''execution'', ''side_effects'',
      ''link_requirements'', ''object_constraint'', ''asset_mapping'', ''entity_validation'']"

definition serialize_for_neo4j :: "pyval dict \<Rightarrow> pyval dict" where
  "serialize_for_neo4j props =
     map (\<lambda>(k, v). (k, if k \<in> set JSON_STORE_FIELDS \<and> v \<noteq> PNone then PStr (json_dumps v) else v)) props"

definition deserialize_from_neo4j :: "pyval dict \<Rightarrow> pyval dict" where
  "deserialize_from_neo4j props =
     map (\<lambda>(k, v). (k,
        if k \<in> set JSON_STORE_FIELDS
        then (case v of
                PStr s \<Rightarrow> (case json_loads s of Some x \<Rightarrow> x | None \<Rightarrow> v)
              | _ \<Rightarrow> v)
        else v)) props"

subsection \<open>Response objects\<close>

text \<open>
  A response class is the list of its fields, each with the type its values are validated against
  and the default, or None where the field is required.
\<close>

datatype ftype = TStr | TBool | TOptStr | TStrList | TOptDict | TDictList | TPropList

fun pd_list_all :: "(pyval \<Rightarrow> bool) \<Rightarrow> pyval \<Rightarrow> bool" where
  "pd_list_all P (PList xs) = list_all P xs"
| "pd_list_all P _ = False"

definition coerce_bool :: "pyval \<Rightarrow> pyval option" where
  "coerce_bool v =
     (case v of
        PBool b \<Rightarrow> Some (PBool b)
      | PInt i \<Rightarrow> (if i = 0 then Some (PBool False) else if i = 1 then Some (PBool True) else None)
      | PFloat s \<Rightarrow> (if s \<in> {''0.0'', ''-0.0''} then Some (PBool False)
                     else if s = ''1.0'' then Some (PBool True) else None)
      | PStr s \<Rightarrow> (if lower s \<in> {''0'', ''off'', ''f'', ''false'', ''n'', ''no''} then Some (PBool False)
                   else if lower s \<in> {''1'', ''on'', ''t'', ''true'', ''y'', ''yes''} then Some (PBool True)
                   else None)
      | _ \<Rightarrow> None)"

definition is_pstr :: "pyval \<Rightarrow> bool" where
  "is_pstr v = (case v of PStr _ \<Rightarrow> True | _ \<Rightarrow> False)"

definition is_pdict :: "pyval \<Rightarrow> bool" where
  "is_pdict v = (case v of PDict _ \<Rightarrow> True | _ \<Rightarrow> False)"

fun coerce :: "ftype \<Rightarrow> pyval \<Rightarrow> pyval option" where
  "coerce TStr v = (if is_pstr v then Some v else None)"
| "coerce TBool v = coerce_bool v"
| "coerce TOptStr v = (if v = PNone \<or> is_pstr v then Some v else None)"
| "coerce TStrList v = (if pd_list_all is_pstr v then Some v else None)"
| "coerce TOptDict v = (if v = PNone \<or> is_pdict v then Some v else None)"
| "coerce TDictList v = (if pd_list_all is_pdict v then Some v else None)"
| "coerce TPropList v = (if v = PList [] then Some v else None)"

type_synonym schema = "(string \<times> ftype \<times> pyval option) list"

definition validation_error :: exn where
  "validation_error = DriverError ''ValidationError''"

definition build_field :: "pyval dict \<Rightarrow> string \<times> ftype \<times> pyval option \<Rightarrow> (string \<times> pyval) res" where
  "build_field data f =
     (case f of (name, ty, dflt) \<Rightarrow>
        (case map_of data name of
           Some v \<Rightarrow> (case coerce ty v of Some x \<Rightarrow> Inr (name, x) | None \<Rightarrow> Inl validation_error)
         | None \<Rightarrow> (case dflt of Some x \<Rightarrow> Inr (name, x) | None \<Rightarrow> Inl validation_error)))"

definition build_response :: "schema \<Rightarrow> pyval dict \<Rightarrow> pyval dict res" where
  "build_response sch data = mapE (build_field data) sch"

definition EntityResponse :: schema where
  "EntityResponse =
     [(''rid'', TStr, None), (''api_name'', TStr, None), (''display_name'', TStr, None),
      (''description'', TOptStr, Some PNone), (''lifecycle_status'', TStr, Some (PStr ''ACTIVE'')),
      (''version_status'', TOptStr, Some PNone), (''is_active'', TBool, Some (PBool True)),
      (''created_at'', TOptStr, Some PNone), (''updated_at'', TOptStr, Some PNone)]"

definition ObjectTypeResponse :: schema where
  "ObjectTypeResponse = EntityResponse @
     [(''implements_interface_type_rids'', TStrList, Some (PList [])),
      (''primary_key_property_type_rids'', TStrList, Some (PList [])),
      (''property_types'', TPropList, Some (PList [])),
      (''validation'', TOptDict, Some PNone), (''asset_mapping'', TOptDict, Some PNone)]"

definition LinkTypeResponse :: schema where
  "LinkTypeResponse = EntityResponse @
     [(''source_object_type_rid'', TOptStr, Some PNone),
      (''source_interface_type_rid'', TOptStr, Some PNone),
      (''target_object_type_rid'', TOptStr, Some PNone),
      (''target_interface_type_rid'', TOptStr, Some PNone),
      (''cardinality'', TStr, Some (PStr ''ONE_TO_MANY'')),
      (''implements_interface_type_rids'', TStrList, Some (PList [])),
      (''primary_key_property_type_rids'', TStrList, Some (PList [])),
      (''property_types'', TPropList, Some (PList [])),
      (''validation'', TOptDict, Some PNone), (''asset_mapping'', TOptDict, Some PNone)]"

definition InterfaceTypeResponse :: schema where
  "InterfaceTypeResponse = EntityResponse @
     [(''category'', TStr, Some (PStr ''OBJECT_INTERFACE'')),
      (''extends_interface_type_rids'', TStrList, Some (PList [])),
      (''required_shared_property_type_rids'', TStrList, Some (PList [])),
      (''link_requirements'', TDictList, Some (PList [])),
      (''object_constraint'', TOptDict, Some PNone)]"

definition SharedPropertyTypeResponse :: schema where
  "SharedPropertyTypeResponse = EntityResponse @
     [(''data_type'', TStr, Some (PStr ''DT_STRING'')), (''widget'', TOptDict, Some PNone),
      (''validation'', TOptDict, Some PNone), (''compliance'', TOptDict, Some PNone)]"

definition ActionTypeResponse :: schema where
  "ActionTypeResponse = EntityResponse @
     [(''parameters'', TDictList, Some (PList [])), (''execution'', TOptDict, Some PNone),
      (''safety_level'', TStr, Some (PStr ''SAFETY_READ_ONLY'')),
      (''side_effects'', TDictList, Some (PList []))]"

definition PropertyTypeResponse :: schema where
  "PropertyTypeResponse =
     [(''rid'', TStr, None), (''api_name'', TStr, None), (''display_name'', TStr, None),
      (''description'', TOptStr, Some PNone), (''data_type'', TStr, Some (PStr ''DT_STRING'')),
      (''inherit_from_shared_property_type_rid'', TOptStr, Some PNone),
      (''physical_column'', TOptStr, Some PNone), (''virtual_expression'', TOptStr, Some PNone),
      (''widget'', TOptDict, Some PNone), (''validation'', TOptDict, Some PNone),
      (''compliance'', TOptDict, Some PNone)]"

definition ENTITY_RESPONSE_MAP :: "schema dict" where
  "ENTITY_RESPONSE_MAP =
     [(''ObjectType'', ObjectTypeResponse), (''LinkType'', LinkTypeResponse),
      (''InterfaceType'', InterfaceTypeResponse),
      (''SharedPropertyType'', SharedPropertyTypeResponse),
      (''ActionType'', ActionTypeResponse)]"

definition version_status :: "pyval dict \<Rightarrow> string" where
  "version_status data =
     (if py_truthy (pget data ''is_draft'') then ''draft''
      else if py_truthy (pget data ''is_staging'') then ''staging''
      else ''active'')"

definition node_to_response :: "pyval dict \<Rightarrow> string \<Rightarrow> pyval dict res" where
  "node_to_response node label =
     (let data = deserialize_from_neo4j node;
          response_cls = dget_or ENTITY_RESPONSE_MAP label EntityResponse;
          data = dput ''version_status'' (PStr (version_status data)) data;
          filtered = dfilter (\<lambda>k. k \<in> set (map fst response_cls)) data
      in build_response response_cls filtered)"

definition node_to_property_response :: "pyval dict \<Rightarrow> pyval dict res" where
  "node_to_property_response node =
     (let data = deserialize_from_neo4j node;
          filtered = dfilter (\<lambda>k. k \<in> set (map fst PropertyTypeResponse)) data
      in build_response PropertyTypeResponse filtered)"

end
