(* ===== verification/Ontology_Edit.thy ===== *)
theory Ontology_Edit
  imports Ontology_Entities
begin

section \<open>The ontology service: creating, editing, deleting and reading entities\<close>

text \<open>
  The entity operations of \<open>OntologyServiceImpl\<close> (\<open>ontology/service.py\<close>). Every definition takes the
  request context, and the operations that read the clock, draw an identifier or look at a lock
  take the environment and the key-value server too. Nothing here changes the version a reader of
  the published schema sees: edits make or change Drafts.
\<close>

subsection \<open>Generic operations\<close>

definition create_entity :: "env \<Rightarrow> ctx \<Rightarrow> string \<Rightarrow> pyval dict \<Rightarrow> ('r world, exn, pyval dict) comp" where
  "create_entity E c label props =
     bindC (liftC (get_tenant_id c)) (\<lambda>tenant_id.
     bindC (liftC (get_user_id c)) (\<lambda>user_id.
     let api_name = pget_str props ''api_name'' in
     bindC (ask_graph (check_api_name_unique label api_name tenant_id None)) (\<lambda>is_unique.
     if \<not> is_unique
     then raiseC (AppError ONTOLOGY_DUPLICATE_API_NAME
            (''api_name '' @ CHR 0x27 # api_name @ CHR 0x27 # '' already exists for '' @ label) [])
     else
     bindC (liftC (case map_of ENTITY_RID_TYPES label of
                     Some ty \<Rightarrow> Inr ty | None \<Rightarrow> Inl (DriverError ''KeyError''))) (\<lambda>ty.
     bindC (draw_uuid E) (\<lambda>uuid.
     bindC (liftC (generate_rid uuid ty)) (\<lambda>rid.
     bindC (utcnow E) (\<lambda>now.
     let node_props = serialize_for_neo4j (dupdate props
           [(''rid'', PStr rid), (''tenant_id'', PStr tenant_id), (''is_draft'', PBool True),
            (''is_staging'', PBool False), (''is_active'', PBool True), (''snapshot_id'', PNone),
            (''parent_snapshot_id'', PNone), (''draft_owner'', PStr user_id),
            (''created_at'', PStr now), (''updated_at'', PStr now)]) in
     bindC (on_graph (create_node label node_props)) (\<lambda>node.
     liftC (node_to_response node label)))))))))"

definition with_property_types ::
  "string \<Rightarrow> string \<Rightarrow> pyval dict \<Rightarrow> graph \<Rightarrow> string \<Rightarrow> pyval dict res" where
  "with_property_types label rid response g tenant_id =
     (if label \<in> {''ObjectType'', ''LinkType''} then
        (case get_related_nodes label rid tenant_id ''BELONGS_TO'' Incoming g of
           Inl e \<Rightarrow> Inl e
         | Inr pt_nodes \<Rightarrow>
             (case mapE node_to_property_response pt_nodes of
                Inl e \<Rightarrow> Inl e
              | Inr prop_responses \<Rightarrow>
                  Inr (dput ''property_types'' (PList (map PDict prop_responses)) response)))
      else Inr response)"

definition get_entity :: "ctx \<Rightarrow> string \<Rightarrow> string \<Rightarrow> ('r world, exn, pyval dict) comp" where
  "get_entity c label rid =
     bindC (liftC (get_tenant_id c)) (\<lambda>tenant_id.
     bindC (ask_graph (get_active_node label rid tenant_id)) (\<lambda>node.
     (case node of
        None \<Rightarrow> raiseC (not_found label rid)
      | Some node \<Rightarrow>
          bindC (liftC (node_to_response node label)) (\<lambda>response.
          check_graph (\<lambda>g. with_property_types label rid response g tenant_id)))))"

definition get_entity_draft :: "ctx \<Rightarrow> string \<Rightarrow> string \<Rightarrow> ('r world, exn, pyval dict) comp" where
  "get_entity_draft c label rid =
     bindC (liftC (get_tenant_id c)) (\<lambda>tenant_id.
     bindC (liftC (get_user_id c)) (\<lambda>user_id.
     bindC (ask_graph (get_effective_node label rid tenant_id user_id)) (\<lambda>node.
     (case node of
        None \<Rightarrow> raiseC (not_found label rid)
      | Some node \<Rightarrow> liftC (node_to_response node label)))))"

text \<open>The properties of the Draft cloned from a Staging or Active version.\<close>

definition clone_draft_props ::
  "pyval dict \<Rightarrow> string \<Rightarrow> pyval dict \<Rightarrow> string \<Rightarrow> pyval dict" where
  "clone_draft_props source user_id updates now =
     dput ''updated_at'' (PStr now)
       (dupdate
         (dput ''parent_snapshot_id'' (pget source ''snapshot_id'')
           (dput ''draft_owner'' (PStr user_id)
             (dput ''is_staging'' (PBool False)
               (dput ''is_draft'' (PBool True) source))))
         (serialize_for_neo4j updates))"

definition clone_source :: "string \<Rightarrow> string \<Rightarrow> string \<Rightarrow> graph \<Rightarrow> pyval dict option" where
  "clone_source label rid tenant_id g =
     (case get_staging_node label rid tenant_id g of
        Some s \<Rightarrow> Some s
      | None \<Rightarrow> get_active_node label rid tenant_id g)"

definition update_entity ::
  "'r redis_ops \<Rightarrow> env \<Rightarrow> ctx \<Rightarrow> string \<Rightarrow> string \<Rightarrow> pyval dict \<Rightarrow> ('r world, exn, pyval dict) comp"
where
  "update_entity R E c label rid updates =
     bindC (liftC (get_tenant_id c)) (\<lambda>tenant_id.
     bindC (liftC (get_user_id c)) (\<lambda>user_id.
     bindC (on_redis (require_lock R rid user_id)) (\<lambda>_.
     bindC (liftC (check_immutable_fields label updates)) (\<lambda>_.
     bindC (ask_graph (get_draft_node label rid tenant_id user_id)) (\<lambda>draft.
     (case draft of
        None \<Rightarrow>
          bindC (ask_graph (clone_source label rid tenant_id)) (\<lambda>source.
          (case source of
             None \<Rightarrow> raiseC (not_found label rid)
           | Some source \<Rightarrow>
               bindC (utcnow E) (\<lambda>now.
               bindC (on_graph (create_node label (clone_draft_props source user_id updates now))) (\<lambda>node.
               liftC (node_to_response node label)))))
      | Some _ \<Rightarrow>
          bindC (utcnow E) (\<lambda>now.
          bindC (on_graph (update_node label rid tenant_id
                   (dput ''updated_at'' (PStr now) (serialize_for_neo4j updates))
                   (Some True) (Some user_id))) (\<lambda>updated.
          (case updated of
             None \<Rightarrow> raiseC (AppError ONTOLOGY_NOT_FOUND (''Draft for '' @ label @ '' '' @ rid @ '' not found'') [])
           | Some node \<Rightarrow> liftC (node_to_response node label))))))))))"

definition deletion_marker_props :: "pyval dict \<Rightarrow> string \<Rightarrow> string \<Rightarrow> pyval dict" where
  "deletion_marker_props active user_id now =
     dput ''updated_at'' (PStr now)
       (dput ''parent_snapshot_id'' (pget active ''snapshot_id'')
         (dput ''draft_owner'' (PStr user_id)
           (dput ''is_active'' (PBool False)
             (dput ''is_staging'' (PBool False)
               (dput ''is_draft'' (PBool True) active)))))"

definition graph_delete ::
  "string \<Rightarrow> string \<Rightarrow> string \<Rightarrow> bool option \<Rightarrow> bool option \<Rightarrow> string option \<Rightarrow>
   ('r world, exn, bool) comp" where
  "graph_delete label rid tenant_id draft staging owner =
     on_graph (\<lambda>g. case delete_node label rid tenant_id draft staging owner g of (b, g') \<Rightarrow> (Inr b, g'))"

definition delete_entity ::
  "'r redis_ops \<Rightarrow> env \<Rightarrow> ctx \<Rightarrow> string \<Rightarrow> string \<Rightarrow> ('r world, exn, unit) comp" where
  "delete_entity R E c label rid =
     bindC (liftC (get_tenant_id c)) (\<lambda>tenant_id.
     bindC (liftC (get_user_id c)) (\<lambda>user_id.
     bindC (check_graph (check_delete_dependencies label rid tenant_id)) (\<lambda>_.
     bindC (on_redis (require_lock R rid user_id)) (\<lambda>_.
     bindC (ask_graph (get_active_node label rid tenant_id)) (\<lambda>active.
     (case active of
        Some active \<Rightarrow>
          bindC (utcnow E) (\<lambda>now.
          bindC (on_graph (create_node label (deletion_marker_props active user_id now))) (\<lambda>_.
          retC ()))
      | None \<Rightarrow>
          bindC (graph_delete label rid tenant_id (Some True) None (Some user_id)) (\<lambda>deleted.
          if \<not> deleted
          then bindC (graph_delete label rid tenant_id None (Some True) None) (\<lambda>_. retC ())
          else retC ())))))))"

definition query_entities ::
  "ctx \<Rightarrow> string \<Rightarrow> string option \<Rightarrow> string option \<Rightarrow> nat \<Rightarrow> nat \<Rightarrow>
   ('r world, exn, pyval dict list \<times> nat) comp" where
  "query_entities c label search lifecycle_status offset limit =
     bindC (liftC (get_tenant_id c)) (\<lambda>tenant_id.
     let filters = (case lifecycle_status of
                      None \<Rightarrow> None
                    | Some l \<Rightarrow> if l = [] then None else Some [(''lifecycle_status'', PStr l)]) in
     bindC (ask_graph (list_nodes label tenant_id offset limit filters search)) (\<lambda>(nodes, total_count).
     bindC (liftC (mapE (\<lambda>n. node_to_response n label) nodes)) (\<lambda>responses.
     bindC (check_graph (\<lambda>g. mapE (\<lambda>resp. with_property_types label (pget_str resp ''rid'') resp g tenant_id)
              responses)) (\<lambda>responses.
     retC (responses, total_count)))))"

subsection \<open>Operations of each entity type\<close>

definition create_object_type :: "env \<Rightarrow> ctx \<Rightarrow> pyval dict \<Rightarrow> ('r world, exn, pyval dict) comp" where
  "create_object_type E c props = create_entity E c ''ObjectType'' props"

definition create_link_type :: "env \<Rightarrow> ctx \<Rightarrow> pyval dict \<Rightarrow> ('r world, exn, pyval dict) comp" where
  "create_link_type E c props = create_entity E c ''LinkType'' props"

text \<open>A list of identifiers in a request body.\<close>

definition str_list :: "pyval \<Rightarrow> string list" where
  "str_list v = (case v of PList xs \<Rightarrow> map (\<lambda>x. case x of PStr s \<Rightarrow> s | _ \<Rightarrow> []) xs | _ \<Rightarrow> [])"

definition create_interface_type :: "env \<Rightarrow> ctx \<Rightarrow> pyval dict \<Rightarrow> ('r world, exn, pyval dict) comp" where
  "create_interface_type E c props =
     (let extends_rids = str_list (pget props ''extends_interface_type_rids'') in
      bindC (if extends_rids \<noteq> []
             then bindC (liftC (get_tenant_id c)) (\<lambda>tenant_id.
                  let rid = (case map_of props ''rid'' of Some (PStr r) \<Rightarrow> r | _ \<Rightarrow> ''new'') in
                  check_graph (check_interface_cycle rid extends_rids tenant_id))
             else retC ()) (\<lambda>_.
      create_entity E c ''InterfaceType'' props))"

definition create_shared_property_type :: "env \<Rightarrow> ctx \<Rightarrow> pyval dict \<Rightarrow> ('r world, exn, pyval dict) comp" where
  "create_shared_property_type E c props = create_entity E c ''SharedPropertyType'' props"

definition create_action_type :: "env \<Rightarrow> ctx \<Rightarrow> pyval dict \<Rightarrow> ('r world, exn, pyval dict) comp" where
  "create_action_type E c props = create_entity E c ''ActionType'' props"

text \<open>\<open>tenant_id or get_tenant_id()\<close>\<close>

definition tenant_or :: "ctx \<Rightarrow> string option \<Rightarrow> string res" where
  "tenant_or c tenant = (case tenant of
     Some t \<Rightarrow> if t \<noteq> [] then Inr t else get_tenant_id c | None \<Rightarrow> get_tenant_id c)"

definition get_object_type :: "ctx \<Rightarrow> string \<Rightarrow> string option \<Rightarrow> ('r world, exn, pyval dict option) comp" where
  "get_object_type c rid tenant =
     bindC (liftC (tenant_or c tenant)) (\<lambda>tid. ask_graph (get_active_node ''ObjectType'' rid tid))"

definition get_link_type :: "ctx \<Rightarrow> string \<Rightarrow> string option \<Rightarrow> ('r world, exn, pyval dict option) comp" where
  "get_link_type c rid tenant =
     bindC (liftC (tenant_or c tenant)) (\<lambda>tid. ask_graph (get_active_node ''LinkType'' rid tid))"

definition update_object_type ::
  "'r redis_ops \<Rightarrow> env \<Rightarrow> ctx \<Rightarrow> string \<Rightarrow> pyval dict \<Rightarrow> ('r world, exn, pyval dict) comp" where
  "update_object_type R E c rid updates = update_entity R E c ''ObjectType'' rid updates"

definition update_link_type ::
  "'r redis_ops \<Rightarrow> env \<Rightarrow> ctx \<Rightarrow> string \<Rightarrow> pyval dict \<Rightarrow> ('r world, exn, pyval dict) comp" where
  "update_link_type R E c rid updates = update_entity R E c ''LinkType'' rid updates"

definition update_interface_type ::
  "'r redis_ops \<Rightarrow> env \<Rightarrow> ctx \<Rightarrow> string \<Rightarrow> pyval dict \<Rightarrow> ('r world, exn, pyval dict) comp" where
  "update_interface_type R E c rid updates =
     bindC (liftC (get_tenant_id c)) (\<lambda>tenant_id.
     let extends_rids = str_list (pget updates ''extends_interface_type_rids'') in
     bindC (if extends_rids \<noteq> [] then check_graph (check_interface_cycle rid extends_rids tenant_id)
            else retC ()) (\<lambda>_.
     bindC (if pget updates ''required_shared_property_type_rids'' \<noteq> PNone
            then check_graph (check_contract_satisfaction rid tenant_id
                   (str_list (pget updates ''required_shared_property_type_rids'')))
            else retC ()) (\<lambda>_.
     update_entity R E c ''InterfaceType'' rid updates)))"

definition update_shared_property_type ::
  "'r redis_ops \<Rightarrow> env \<Rightarrow> ctx \<Rightarrow> string \<Rightarrow> pyval dict \<Rightarrow> ('r world, exn, pyval dict) comp" where
  "update_shared_property_type R E c rid updates =
     bindC (liftC (get_tenant_id c)) (\<lambda>tenant_id.
     bindC (ask_graph (get_active_node ''SharedPropertyType'' rid tenant_id)) (\<lambda>old_node.
     let old_values = (case old_node of Some n \<Rightarrow> deserialize_from_neo4j n | None \<Rightarrow> []) in
     bindC (update_entity R E c ''SharedPropertyType'' rid updates) (\<lambda>result.
     bindC (on_graph (cascade_shared_property_update rid tenant_id updates (Some old_values))) (\<lambda>_.
     retC result))))"

definition update_action_type ::
  "'r redis_ops \<Rightarrow> env \<Rightarrow> ctx \<Rightarrow> string \<Rightarrow> pyval dict \<Rightarrow> ('r world, exn, pyval dict) comp" where
  "update_action_type R E c rid updates = update_entity R E c ''ActionType'' rid updates"

definition delete_object_type :: "'r redis_ops \<Rightarrow> env \<Rightarrow> ctx \<Rightarrow> string \<Rightarrow> ('r world, exn, unit) comp" where
  "delete_object_type R E c rid = delete_entity R E c ''ObjectType'' rid"

definition delete_link_type :: "'r redis_ops \<Rightarrow> env \<Rightarrow> ctx \<Rightarrow> string \<Rightarrow> ('r world, exn, unit) comp" where
  "delete_link_type R E c rid = delete_entity R E c ''LinkType'' rid"

definition delete_interface_type :: "'r redis_ops \<Rightarrow> env \<Rightarrow> ctx \<Rightarrow> string \<Rightarrow> ('r world, exn, unit) comp" where
  "delete_interface_type R E c rid = delete_entity R E c ''InterfaceType'' rid"

definition delete_shared_property_type :: "'r redis_ops \<Rightarrow> env \<Rightarrow> ctx \<Rightarrow> string \<Rightarrow> ('r world, exn, unit) comp" where
  "delete_shared_property_type R E c rid = delete_entity R E c ''SharedPropertyType'' rid"

definition delete_action_type :: "'r redis_ops \<Rightarrow> env \<Rightarrow> ctx \<Rightarrow> string \<Rightarrow> ('r world, exn, unit) comp" where
  "delete_action_type R E c rid = delete_entity R E c ''ActionType'' rid"

definition query_action_types ::
  "string \<Rightarrow> nat \<Rightarrow> nat \<Rightarrow> ('r world, exn, pyval dict list \<times> nat) comp" where
  "query_action_types tenant_id offset limit =
     ask_graph (list_active_nodes ''ActionType'' tenant_id offset limit None None)"

subsection \<open>Property types and asset mappings\<close>

definition graph_relate ::
  "string \<Rightarrow> string \<Rightarrow> string \<Rightarrow> string \<Rightarrow> string \<Rightarrow> string \<Rightarrow> ('r world, exn, unit) comp" where
  "graph_relate from_label from_rid to_label to_rid rel tenant_id =
     on_graph (\<lambda>g. (Inr (), snd (create_relationship from_label from_rid to_label to_rid rel tenant_id [] g)))"

definition create_property_type ::
  "'r redis_ops \<Rightarrow> env \<Rightarrow> ctx \<Rightarrow> string \<Rightarrow> string \<Rightarrow> pyval dict \<Rightarrow> ('r world, exn, pyval dict) comp" where
  "create_property_type R E c parent_rid parent_label props =
     bindC (liftC (get_tenant_id c)) (\<lambda>tenant_id.
     bindC (liftC (get_user_id c)) (\<lambda>user_id.
     bindC (on_redis (require_lock R parent_rid user_id)) (\<lambda>_.
     let api_name = dget_or props ''api_name'' (PStr []) in
     bindC (check_graph (get_related_nodes parent_label parent_rid tenant_id ''BELONGS_TO'' Incoming)) (\<lambda>existing_pts.
     bindC (unlessC (\<not> (\<exists>pt \<in> set existing_pts. py_eq (pget pt ''api_name'') api_name))
              (AppError ONTOLOGY_DUPLICATE_API_NAME
                (''PropertyType '' @ CHR 0x27 # pget_str props ''api_name'' @ CHR 0x27 # '' already exists on ''
                   @ parent_label @ '' '' @ parent_rid) [])) (\<lambda>_.
     bindC (draw_uuid E) (\<lambda>uuid.
     bindC (liftC (generate_rid uuid ''prop'')) (\<lambda>rid.
     bindC (utcnow E) (\<lambda>now.
     let node_props = serialize_for_neo4j (dupdate props
           [(''rid'', PStr rid), (''tenant_id'', PStr tenant_id), (''is_draft'', PBool True),
            (''is_staging'', PBool False), (''is_active'', PBool True),
            (''draft_owner'', PStr user_id), (''created_at'', PStr now), (''updated_at'', PStr now)]) in
     bindC (on_graph (create_node ''PropertyType'' node_props)) (\<lambda>node.
     bindC (graph_relate ''PropertyType'' rid parent_label parent_rid ''BELONGS_TO'' tenant_id) (\<lambda>_.
     bindC (if py_truthy (pget props ''inherit_from_shared_property_type_rid'')
            then graph_relate ''PropertyType'' rid ''SharedPropertyType''
                   (pget_str props ''inherit_from_shared_property_type_rid'') ''BASED_ON'' tenant_id
            else retC ()) (\<lambda>_.
     liftC (node_to_property_response node))))))))))))"

definition get_property_types_for_entity ::
  "ctx \<Rightarrow> string \<Rightarrow> string option \<Rightarrow> ('r world, exn, pyval dict list) comp" where
  "get_property_types_for_entity c entity_rid tenant =
     bindC (liftC (tenant_or c tenant)) (\<lambda>tid.
     bindC (check_graph (get_related_nodes ''ObjectType'' entity_rid tid ''BELONGS_TO'' Incoming)) (\<lambda>nodes.
     bindC (if nodes = []
            then check_graph (get_related_nodes ''LinkType'' entity_rid tid ''BELONGS_TO'' Incoming)
            else retC nodes) (\<lambda>nodes.
     retC (map deserialize_from_neo4j nodes))))"

text \<open>\<open>get_active_node\<close> for an ObjectType, or else for a LinkType.\<close>

definition active_object_or_link :: "string \<Rightarrow> string \<Rightarrow> graph \<Rightarrow> pyval dict option" where
  "active_object_or_link entity_rid tid g =
     (case get_active_node ''ObjectType'' entity_rid tid g of
        Some n \<Rightarrow> Some n
      | None \<Rightarrow> get_active_node ''LinkType'' entity_rid tid g)"

definition get_asset_mapping :: "ctx \<Rightarrow> string \<Rightarrow> string option \<Rightarrow> ('r world, exn, pyval) comp" where
  "get_asset_mapping c entity_rid tenant =
     bindC (liftC (tenant_or c tenant)) (\<lambda>tid.
     ask_graph (\<lambda>g. case active_object_or_link entity_rid tid g of
                      None \<Rightarrow> PNone
                    | Some node \<Rightarrow> pget (deserialize_from_neo4j node) ''asset_mapping''))"

definition query_asset_mapping_references ::
  "ctx \<Rightarrow> string \<Rightarrow> ('r world, exn, pyval dict list) comp" where
  "query_asset_mapping_references c entity_rid =
     bindC (liftC (get_tenant_id c)) (\<lambda>tenant_id.
     bindC (ask_graph (active_object_or_link entity_rid tenant_id)) (\<lambda>node.
     if node = None then raiseC (not_found ''Entity'' entity_rid)
     else
     bindC (check_graph (get_related_nodes
              (if is_prefix ''ri.obj.'' entity_rid then ''ObjectType'' else ''LinkType'')
              entity_rid tenant_id ''BELONGS_TO'' Incoming)) (\<lambda>pt_nodes.
     retC (concat (map (\<lambda>pt.
        let pt_data = deserialize_from_neo4j pt in
        if py_truthy (pget pt_data ''physical_column'')
        then [[(''rid'', dget_or pt_data ''rid'' (PStr [])),
               (''api_name'', dget_or pt_data ''api_name'' (PStr [])),
               (''physical_column'', pget pt_data ''physical_column''),
               (''entity_rid'', PStr entity_rid)]]
        else []) pt_nodes)))))"

definition query_all_property_types ::
  "ctx \<Rightarrow> string option \<Rightarrow> nat \<Rightarrow> nat \<Rightarrow> ('r world, exn, pyval dict list \<times> nat) comp" where
  "query_all_property_types c search offset limit =
     bindC (liftC (get_tenant_id c)) (\<lambda>tenant_id.
     bindC (ask_graph (list_active_nodes ''PropertyType'' tenant_id offset limit None search)) (\<lambda>(nodes, total_count).
     bindC (liftC (mapE node_to_property_response nodes)) (\<lambda>responses.
     retC (responses, total_count))))"

definition mapping_row :: "pyval dict \<Rightarrow> pyval dict list" where
  "mapping_row node =
     (let data = deserialize_from_neo4j node in
      if py_truthy (pget data ''asset_mapping'')
      then [[(''rid'', dget_or data ''rid'' (PStr [])), (''api_name'', dget_or data ''api_name'' (PStr [])),
             (''display_name'', dget_or data ''display_name'' (PStr [])),
             (''asset_mapping'', pget data ''asset_mapping''),
             (''entity_type'', PStr (if is_prefix ''ri.obj.'' (pget_str data ''rid'') then ''ObjectType''
                                     else ''LinkType''))]]
      else [])"

definition query_all_asset_mappings ::
  "ctx \<Rightarrow> string option \<Rightarrow> nat \<Rightarrow> nat \<Rightarrow> ('r world, exn, pyval dict list \<times> nat) comp" where
  "query_all_asset_mappings c search offset limit =
     bindC (liftC (get_tenant_id c)) (\<lambda>tenant_id.
     bindC (ask_graph (list_active_nodes ''ObjectType'' tenant_id 0 1000 None search)) (\<lambda>(obj_nodes, _).
     bindC (ask_graph (list_active_nodes ''LinkType'' tenant_id 0 1000 None search)) (\<lambda>(link_nodes, _).
     let results = concat (map mapping_row (obj_nodes @ link_nodes))
     in retC (page offset limit results, length results))))"

subsection \<open>Topology, search, related entities\<close>

definition topology :: "ctx \<Rightarrow> ('r world, exn, pyval dict list \<times> pyval dict list) comp" where
  "topology c = bindC (liftC (get_tenant_id c)) (\<lambda>tenant_id. ask_graph (get_topology tenant_id))"

definition SearchResultResponse :: schema where
  "SearchResultResponse =
     [(''rid'', TStr, Some (PStr [])), (''api_name'', TStr, Some (PStr [])),
      (''display_name'', TStr, Some (PStr [])), (''description'', TOptStr, Some PNone),
      (''entity_type'', TStr, Some (PStr []))]"

definition search_entities ::
  "ctx \<Rightarrow> string \<Rightarrow> string list option \<Rightarrow> nat \<Rightarrow> ('r world, exn, pyval dict list) comp" where
  "search_entities c q types limit =
     bindC (liftC (get_tenant_id c)) (\<lambda>tenant_id.
     let labels = (case types of
                     None \<Rightarrow> None
                   | Some ts \<Rightarrow> if ts = [] then None else Some (map (\<lambda>t. dget_or ENTITY_LABELS t t) ts)) in
     bindC (ask_graph (search_nodes tenant_id q labels limit)) (\<lambda>nodes.
     liftC (mapE (\<lambda>n. build_response SearchResultResponse
        (dput ''entity_type'' (dget_or n ''_entity_type'' (PStr []))
           (dfilter (\<lambda>k. k \<in> {''rid'', ''api_name'', ''display_name'', ''description''}) n))) nodes)))"

definition get_related :: "ctx \<Rightarrow> string \<Rightarrow> string \<Rightarrow> ('r world, exn, pyval dict list) comp" where
  "get_related c label rid =
     bindC (liftC (get_tenant_id c)) (\<lambda>tenant_id.
     bindC (check_graph (get_related_nodes label rid tenant_id [] Both)) (\<lambda>outgoing.
     retC (map deserialize_from_neo4j outgoing)))"

end
