(* ===== verification/Ontology_Publish.thy ===== *)
theory Ontology_Publish
  imports Ontology_Edit
begin

section \<open>The ontology service: Draft to Staging to Active\<close>

text \<open>
  The version management of \<open>OntologyServiceImpl\<close> (\<open>ontology/service.py\<close>): submitting and
  discarding, publishing everything staged as one snapshot, and going back to an earlier one. The
  three statements of a publication meet the faults of \<open>w_faults\<close> one by one and run under the retry
  of \<open>ontology/retry.py\<close>. \<open>commit_staging\<close> ends in a loop over the cache keys of the tenant, and is
  None only if that loop does not end.
\<close>

subsection \<open>Submit and discard\<close>

definition redis_delete :: "'r redis_ops \<Rightarrow> string \<Rightarrow> ('r world, exn, unit) comp" where
  "redis_delete R key = modifyC (\<lambda>w. w\<lparr>w_redis := rd_delete R (w_redis w) key\<rparr>)"

definition submit_props :: "string \<Rightarrow> pyval dict" where
  "submit_props now =
     [(''is_draft'', PBool False), (''is_staging'', PBool True), (''draft_owner'', PNone),
      (''updated_at'', PStr now)]"

definition submit_to_staging ::
  "'r redis_ops \<Rightarrow> env \<Rightarrow> ctx \<Rightarrow> string \<Rightarrow> string \<Rightarrow> ('r world, exn, pyval dict) comp" where
  "submit_to_staging R E c label rid =
     bindC (liftC (get_tenant_id c)) (\<lambda>tenant_id.
     bindC (liftC (get_user_id c)) (\<lambda>user_id.
     bindC (ask_graph (get_draft_node label rid tenant_id user_id)) (\<lambda>draft.
     if draft = None
     then raiseC (AppError ONTOLOGY_DRAFT_NOT_FOUND (''No Draft found for '' @ label @ '' '' @ rid) [])
     else
     bindC (utcnow E) (\<lambda>now.
     bindC (on_graph (update_node label rid tenant_id (submit_props now) (Some True) (Some user_id))) (\<lambda>node.
     (case node of
        None \<Rightarrow> raiseC (AppError ONTOLOGY_DRAFT_NOT_FOUND (''Failed to promote Draft for '' @ label @ '' '' @ rid) [])
      | Some node \<Rightarrow>
          bindC (redis_delete R (lock_key rid)) (\<lambda>_.
          liftC (node_to_response node label))))))))"

definition discard_draft ::
  "'r redis_ops \<Rightarrow> ctx \<Rightarrow> string \<Rightarrow> string \<Rightarrow> ('r world, exn, unit) comp" where
  "discard_draft R c label rid =
     bindC (liftC (get_tenant_id c)) (\<lambda>tenant_id.
     bindC (liftC (get_user_id c)) (\<lambda>user_id.
     bindC (graph_delete label rid tenant_id (Some True) None (Some user_id)) (\<lambda>deleted.
     if \<not> deleted
     then raiseC (AppError ONTOLOGY_DRAFT_NOT_FOUND (''No Draft found for '' @ label @ '' '' @ rid) [])
     else redis_delete R (lock_key rid))))"

definition staging_not_found :: "string \<Rightarrow> string \<Rightarrow> exn" where
  "staging_not_found label rid =
     AppError ONTOLOGY_STAGING_NOT_FOUND (''No Staging found for '' @ label @ '' '' @ rid) []"

definition unstage_props :: "string \<Rightarrow> pyval dict" where
  "unstage_props user_id =
     [(''is_staging'', PBool False), (''is_draft'', PBool True), (''draft_owner'', PStr user_id)]"

definition discard_staging :: "ctx \<Rightarrow> string \<Rightarrow> string \<Rightarrow> ('r world, exn, unit) comp" where
  "discard_staging c label rid =
     bindC (liftC (get_tenant_id c)) (\<lambda>tenant_id.
     bindC (ask_graph (get_active_node label rid tenant_id)) (\<lambda>active.
     if active \<noteq> None then
       bindC (graph_delete label rid tenant_id None (Some True) None) (\<lambda>deleted.
       if \<not> deleted then raiseC (staging_not_found label rid) else retC ())
     else
       bindC (ask_graph (get_staging_node label rid tenant_id)) (\<lambda>staging.
       if staging = None then raiseC (staging_not_found label rid)
       else
         bindC (liftC (get_user_id c)) (\<lambda>user_id.
         bindC (on_graph (update_node label rid tenant_id (unstage_props user_id) None None)) (\<lambda>_.
         retC ())))))"

text \<open>Counts by type, and their sum.\<close>

definition summary :: "nat dict \<Rightarrow> nat dict \<times> nat" where
  "summary counts = (counts, sum_list (map snd counts))"

definition staging_summary :: "ctx \<Rightarrow> ('r world, exn, nat dict \<times> nat) comp" where
  "staging_summary c =
     bindC (liftC (get_tenant_id c)) (\<lambda>tenant_id. ask_graph (\<lambda>g. summary (get_staging_summary tenant_id g)))"

definition drafts_summary :: "ctx \<Rightarrow> ('r world, exn, nat dict \<times> nat) comp" where
  "drafts_summary c =
     bindC (liftC (get_tenant_id c)) (\<lambda>tenant_id.
     bindC (liftC (get_user_id c)) (\<lambda>user_id.
     ask_graph (\<lambda>g. summary (get_drafts_summary tenant_id user_id g))))"

fun discard_nodes :: "string \<Rightarrow> pyval dict list \<Rightarrow> graph \<Rightarrow> nat \<times> graph" where
  "discard_nodes tenant_id [] g = (0, g)"
| "discard_nodes tenant_id (node # nodes) g =
     (let label = pget_str node ''_label''; rid = pget_str node ''rid'' in
      if label \<noteq> [] \<and> rid \<noteq> [] then
        (case discard_nodes tenant_id nodes (snd (delete_node label rid tenant_id None (Some True) None g)) of
           (k, g') \<Rightarrow> (Suc k, g'))
      else discard_nodes tenant_id nodes g)"

definition discard_all_staging :: "ctx \<Rightarrow> ('r world, exn, nat) comp" where
  "discard_all_staging c =
     bindC (liftC (get_tenant_id c)) (\<lambda>tenant_id.
     bindC (ask_graph (get_staging_nodes tenant_id)) (\<lambda>staging_nodes.
     on_graph (\<lambda>g. case discard_nodes tenant_id staging_nodes g of (k, g') \<Rightarrow> (Inr k, g'))))"

subsection \<open>Sessions of the database\<close>

definition session_commit :: "'r world \<Rightarrow> 'r world" where
  "session_commit w = w\<lparr>w_db := w_tx w\<rparr>"

definition session_rollback :: "'r world \<Rightarrow> 'r world" where
  "session_rollback w = w\<lparr>w_tx := w_db w\<rparr>"

text \<open>The end of the request: \<open>get_session\<close> commits after a normal return and rolls back after a raise.\<close>

definition end_session :: "(exn + 'a) \<times> 'r world \<Rightarrow> (exn + 'a) \<times> 'r world" where
  "end_session rw = (case rw of
      (Inr x, w) \<Rightarrow> (Inr x, session_commit w)
    | (Inl e, w) \<Rightarrow> (Inl e, session_rollback w))"

subsection \<open>Publishing\<close>

definition stmt :: "(graph \<Rightarrow> graph) \<Rightarrow> ('r world, exn, unit) comp" where
  "stmt f w =
     (case w_faults w of
        [] \<Rightarrow> (Inr (), w\<lparr>w_graph := f (w_graph w)\<rparr>)
      | NoFault # fs \<Rightarrow> (Inr (), w\<lparr>w_graph := f (w_graph w), w_faults := fs\<rparr>)
      | FailBefore e # fs \<Rightarrow> (Inl (DriverError e), w\<lparr>w_faults := fs\<rparr>)
      | FailAfter e # fs \<Rightarrow> (Inl (DriverError e), w\<lparr>w_graph := f (w_graph w), w_faults := fs\<rparr>))"

definition promote_statements :: "string \<Rightarrow> string \<Rightarrow> ('r world, exn, nat) comp" where
  "promote_statements tenant_id snapshot_id =
     bindC (stmt (deactivate_query tenant_id)) (\<lambda>_.
     bindC (ask_graph (\<lambda>g. length (filter (\<lambda>n. tenant_is n tenant_id \<and> is_staging n) (gnodes g)))) (\<lambda>promoted.
     bindC (stmt (promote_query tenant_id snapshot_id)) (\<lambda>_.
     bindC (stmt (cleanup_query tenant_id snapshot_id)) (\<lambda>_.
     retC promoted))))"

definition entity_changes_of :: "string \<Rightarrow> pyval dict list \<Rightarrow> graph \<Rightarrow> pyval dict" where
  "entity_changes_of tenant_id nodes g =
     fold (\<lambda>node changes.
        let rid = pget_str node ''rid'' in
        dput rid
          (PStr (if py_truthy (pget node ''is_active'') then
                   (if get_active_node (pget_str node ''_label'') rid tenant_id g \<noteq> None
                    then ''update'' else ''create'')
                 else ''delete'')) changes) nodes []"

definition entity_data_of :: "pyval dict list \<Rightarrow> pyval dict dict" where
  "entity_data_of nodes =
     fold (\<lambda>node data.
        let rid = pget_str node ''rid'' in
        if rid \<noteq> []
        then dput rid (dfilter (\<lambda>k. \<not> is_prefix ''_'' k) (deserialize_from_neo4j node)) data
        else data) nodes []"

definition commit_lock_key :: "string \<Rightarrow> string" where
  "commit_lock_key tenant_id = ''ontology:commit_lock:'' @ tenant_id"

record snapshot_response =
  sr_id :: string
  sr_parent :: "string option"
  sr_tenant :: string
  sr_message :: "string option"
  sr_author :: string
  sr_changes :: "pyval dict"
  sr_created :: "string option"

definition to_response :: "snapshot \<Rightarrow> string \<Rightarrow> snapshot_response" where
  "to_response s created =
     \<lparr>sr_id = sn_id s, sr_parent = sn_parent s, sr_tenant = sn_tenant s, sr_message = sn_message s,
      sr_author = sn_author s, sr_changes = sn_changes s, sr_created = Some created\<rparr>"

text \<open>The body of the \<open>try\<close> up to \<open>session.commit()\<close>.\<close>

definition publish_staged ::
  "env \<Rightarrow> string option \<Rightarrow> string \<Rightarrow> string \<Rightarrow> ('r world, exn, snapshot) comp" where
  "publish_staged E commit_message tenant_id user_id =
     bindC (ask_graph (get_staging_nodes tenant_id)) (\<lambda>staging_nodes.
     if staging_nodes = []
     then raiseC (AppError ONTOLOGY_STAGING_EMPTY ''No entities in Staging to publish'' [])
     else
     bindC (ask_graph (entity_changes_of tenant_id staging_nodes)) (\<lambda>entity_changes.
     bindC (draw_uuid E) (\<lambda>uuid.
     bindC (liftC (generate_rid uuid ''snap'')) (\<lambda>snapshot_id.
     bindC (ask_tx (get_active_pointer tenant_id)) (\<lambda>pointer.
     bindC (utcnow E) (\<lambda>created.
     bindC (on_tx (snap_create
        \<lparr>sn_id = snapshot_id, sn_parent = map_option ap_snapshot pointer, sn_tenant = tenant_id,
         sn_message = commit_message, sn_author = user_id, sn_changes = entity_changes,
         sn_data = Some (entity_data_of staging_nodes), sn_created = created\<rparr>)) (\<lambda>snap.
     bindC (retry_neo4j_operation DEFAULT_MAX_RETRIES (promote_statements tenant_id snapshot_id)) (\<lambda>_.
     bindC (utcnow E) (\<lambda>now.
     bindC (modifyC (\<lambda>w. session_commit
              (w\<lparr>w_tx := set_active_pointer now tenant_id snapshot_id (w_tx w)\<rparr>))) (\<lambda>_.
     retC snap))))))))))"

definition on_schema_published :: "'r redis_ops \<Rightarrow> string \<Rightarrow> string \<Rightarrow> 'r \<Rightarrow> 'r option" where
  "on_schema_published R tenant_id snapshot_id s =
     map_option (\<lambda>s'. rd_publish R s' (''ontology:schema_published:'' @ tenant_id)
         (json_dumps (PDict [(''tenant_id'', PStr tenant_id), (''snapshot_id'', PStr snapshot_id),
                             (''event'', PStr ''schema_published'')])))
       (scan_delete R s 0 (''ontology:cache:'' @ tenant_id @ '':*''))"

definition commit_staging ::
  "'r redis_ops \<Rightarrow> env \<Rightarrow> ctx \<Rightarrow> string option \<Rightarrow> 'r world \<Rightarrow>
   ((exn + snapshot_response) \<times> 'r world) option" where
  "commit_staging R E c commit_message w =
     (case get_tenant_id c of
        Inl e \<Rightarrow> Some (Inl e, w)
      | Inr tenant_id \<Rightarrow>
     (case get_user_id c of
        Inl e \<Rightarrow> Some (Inl e, w)
      | Inr user_id \<Rightarrow>
        (let key = commit_lock_key tenant_id;
             (acquired, s1) = rd_set_nx R (w_redis w) key user_id COMMIT_LOCK_TTL_SECONDS;
             w1 = w\<lparr>w_redis := s1\<rparr>;
             finally_do = (\<lambda>v. v\<lparr>w_redis := rd_delete R (w_redis v) key\<rparr>)
         in if \<not> acquired
            then Some (Inl (AppError ONTOLOGY_LOCK_CONFLICT ''Another commit is in progress'' []), w1)
            else
              (case publish_staged E commit_message tenant_id user_id w1 of
                 (Inl e, w2) \<Rightarrow> Some (Inl e, finally_do w2)
               | (Inr snap, w2) \<Rightarrow>
                   (case on_schema_published R tenant_id (sn_id snap) (w_redis w2) of
                      None \<Rightarrow> None
                    | Some s3 \<Rightarrow>
                        (case utcnow E (w2\<lparr>w_redis := s3\<rparr>) of
                           (Inl e, w4) \<Rightarrow> Some (Inl e, finally_do w4)
                         | (Inr created, w4) \<Rightarrow> Some (Inr (to_response snap created), finally_do w4)))))))"

subsection \<open>Snapshots and rollback\<close>

definition query_snapshots ::
  "ctx \<Rightarrow> nat \<Rightarrow> nat \<Rightarrow> ('r world, exn, snapshot_response list \<times> nat) comp" where
  "query_snapshots c offset limit =
     bindC (liftC (get_tenant_id c)) (\<lambda>tenant_id.
     bindC (ask_tx (snap_list_by_tenant tenant_id offset limit)) (\<lambda>(snapshots, total_count).
     retC (map (\<lambda>s. to_response s (sn_created s)) snapshots, total_count)))"

definition get_snapshot :: "string \<Rightarrow> ('r world, exn, snapshot_response) comp" where
  "get_snapshot snapshot_id =
     bindC (ask_tx (snap_get_by_id snapshot_id)) (\<lambda>snap.
     (case snap of
        None \<Rightarrow> raiseC (not_found ''Snapshot'' snapshot_id)
      | Some s \<Rightarrow> retC (to_response s (sn_created s))))"

definition get_snapshot_diff :: "ctx \<Rightarrow> string \<Rightarrow> ('r world, exn, pyval dict) comp" where
  "get_snapshot_diff c snapshot_id =
     bindC (liftC (get_tenant_id c)) (\<lambda>tenant_id.
     bindC (ask_tx (get_active_pointer tenant_id)) (\<lambda>pointer.
     bindC (ask_tx (get_diff snapshot_id (map_option ap_snapshot pointer))) (\<lambda>diff.
     retC [(''snapshot_changes'', dget_or diff ''snapshot_changes'' (PDict [])),
           (''current_changes'', dget_or diff ''current_changes'' (PDict []))])))"

definition rollback_to :: "env \<Rightarrow> ctx \<Rightarrow> string \<Rightarrow> ('r world, exn, snapshot_response) comp" where
  "rollback_to E c snapshot_id =
     bindC (liftC (get_tenant_id c)) (\<lambda>tenant_id.
     bindC (ask_graph (has_uncommitted_changes tenant_id)) (\<lambda>has_changes.
     if has_changes
     then raiseC (AppError ONTOLOGY_UNCOMMITTED_CHANGES
            ''Cannot rollback with uncommitted Draft/Staging changes'' [])
     else
     bindC (ask_tx (snap_get_by_id snapshot_id)) (\<lambda>snap.
     (case snap of
        None \<Rightarrow> raiseC (not_found ''Snapshot'' snapshot_id)
      | Some snap \<Rightarrow>
          bindC (ask_tx (get_active_pointer tenant_id)) (\<lambda>pointer.
          let current_id = (case pointer of Some p \<Rightarrow> ap_snapshot p | None \<Rightarrow> []) in
          bindC (on_graph (\<lambda>g. case rollback_to_snapshot tenant_id snapshot_id current_id g of
                                 (k, g') \<Rightarrow> (Inr k, g'))) (\<lambda>_.
          bindC (utcnow E) (\<lambda>now.
          bindC (modifyC (\<lambda>w. session_commit
                   (w\<lparr>w_tx := set_active_pointer now tenant_id snapshot_id (w_tx w)\<rparr>))) (\<lambda>_.
          retC (to_response snap (sn_created snap))))))))))"

end
