(* ===== verification/Ontology_Moves.thy ===== *)
theory Ontology_Moves
  imports Graph_Publish Ontology_Publish
begin

section \<open>Moves on the version graph\<close>

text \<open>
  The abstract specification of the ontology service: which changes of the graph a request of user
  \<open>u\<close> in tenant \<open>t\<close> may make. An edit move adds a Draft of \<open>u\<close>, changes or drops Drafts of \<open>u\<close>, moves
  Drafts to Staging and back, or relates a property type to its parent; a publication move is one
  of the bulk statements or the cascade of a shared property. The theory shows once for each move
  what it preserves: the shape of every version, the integrity of edges, other tenants, and, for
  edit moves, all that is published. The service operations are shown to make such moves only in
  \<open>Ontology_Machine\<close>.
\<close>

subsection \<open>Overlays, once more\<close>

lemma map_of_set_props:
  "map_of (set_props d ps) k =
     (case map_of (rev ps) k of
        None \<Rightarrow> map_of d k
      | Some v \<Rightarrow> if v = PNone then None else Some v)"
proof (induction ps arbitrary: d)
  case Nil
  show ?case by simp
next
  case (Cons kv ps)
  obtain j v where "kv = (j, v)" by (cases kv)
  then show ?case by (simp add: Cons.IH map_add_def split: option.splits)
qed

lemma map_of_set_props_ok:
  assumes "dict_ok ps"
  shows "map_of (set_props d ps) k =
     (case map_of ps k of None \<Rightarrow> map_of d k | Some v \<Rightarrow> if v = PNone then None else Some v)"
  by (simp add: map_of_set_props map_of_rev_ok [OF assms])

lemma dict_ok_set_props: "dict_ok d \<Longrightarrow> dict_ok (set_props d ps)"
  by (induction ps arbitrary: d) (auto simp: set_props_def)

subsection \<open>Well-formed versions\<close>

text \<open>
  Every version has its identity, is at most one of Draft and Staging, says whether it stands for
  a deletion, and belongs to a user exactly while it is a Draft.
\<close>

definition is_str :: "pyval option \<Rightarrow> bool" where
  "is_str v = (case v of Some (PStr s) \<Rightarrow> True | _ \<Rightarrow> False)"

lemma is_str_PStr [simp]: "is_str (Some (PStr s))"
  by (simp add: is_str_def)

lemma is_strD: "is_str v \<Longrightarrow> \<exists>s. v = Some (PStr s)"
  by (auto simp: is_str_def split: option.splits pyval.splits)

definition as_bool :: "pyval option \<Rightarrow> bool option" where
  "as_bool v = (case v of Some (PBool b) \<Rightarrow> Some b | _ \<Rightarrow> None)"

lemma as_bool_iff [simp]: "as_bool v = Some b \<longleftrightarrow> v = Some (PBool b)"
  by (auto simp: as_bool_def split: option.splits pyval.splits)

definition shape_ok ::
  "pyval option \<Rightarrow> pyval option \<Rightarrow> pyval option \<Rightarrow> pyval option \<Rightarrow> pyval option \<Rightarrow> pyval option \<Rightarrow> bool" where
  "shape_ok rid tenant draft staging active owner =
     (is_str rid \<and> is_str tenant \<and>
      (case (as_bool draft, as_bool staging, as_bool active) of
         (Some d, Some s, Some a) \<Rightarrow>
           \<not> (d \<and> s) \<and> (if d then is_str owner else owner = None)
       | _ \<Rightarrow> False))"

definition version_ok :: "gnode \<Rightarrow> bool" where
  "version_ok n \<longleftrightarrow>
     dict_ok (nprops n) \<and>
     shape_ok (map_of (nprops n) ''rid'') (map_of (nprops n) ''tenant_id'') (map_of (nprops n) ''is_draft'')
       (map_of (nprops n) ''is_staging'') (map_of (nprops n) ''is_active'') (map_of (nprops n) ''draft_owner'')"

lemma shape_ok_changes:
  assumes "shape_ok r t d s a ow"
  shows "shape_ok r t (Some (PBool False)) (Some (PBool True)) a None"
    and "shape_ok r t (Some (PBool True)) (Some (PBool False)) a (Some (PStr u))"
    and "shape_ok r t d s (Some (PBool b)) ow"
    and "s = Some (PBool True) \<Longrightarrow> shape_ok r t d (Some (PBool False)) a ow"
proof -
  obtain bd bs ba where "d = Some (PBool bd)" "s = Some (PBool bs)" "a = Some (PBool ba)"
    using assms by (auto simp: shape_ok_def split: option.splits)
  moreover have "is_str (Some (PStr u))" by (simp add: is_str_def)
  ultimately show "shape_ok r t (Some (PBool False)) (Some (PBool True)) a None"
    and "shape_ok r t (Some (PBool True)) (Some (PBool False)) a (Some (PStr u))"
    and "shape_ok r t d s (Some (PBool b)) ow"
    and "s = Some (PBool True) \<Longrightarrow> shape_ok r t d (Some (PBool False)) a ow"
    using assms by (auto simp: shape_ok_def as_bool_def split: if_splits)
qed

text \<open>Node identifiers are used once, and an edge joins two nodes of the graph.\<close>

definition graph_ok :: "graph \<Rightarrow> bool" where
  "graph_ok g \<longleftrightarrow>
     list_all version_ok (gnodes g) \<and>
     distinct (map nid (gnodes g)) \<and> list_all (\<lambda>n. nid n < gnext g) (gnodes g) \<and>
     list_all (\<lambda>e. {esrc e, edst e} \<subseteq> nid ` set (gnodes g) \<and> etype e \<in> {''BELONGS_TO'', ''BASED_ON''})
       (gedges g)"

subsection \<open>The moves\<close>

definition VERSION_KEYS :: "string list" where
  "VERSION_KEYS = [''rid'', ''tenant_id'', ''is_draft'', ''is_staging'', ''is_active'', ''draft_owner'',
                   ''snapshot_id'', ''parent_snapshot_id'']"

definition edits_only :: "pyval dict \<Rightarrow> bool" where
  "edits_only ps \<longleftrightarrow> set (map fst ps) \<inter> set VERSION_KEYS = {}"

definition draft_like :: "string \<Rightarrow> string \<Rightarrow> pyval dict \<Rightarrow> bool" where
  "draft_like t u ps \<longleftrightarrow>
     dict_ok ps \<and> is_str (map_of ps ''rid'') \<and> map_of ps ''tenant_id'' = Some (PStr t) \<and>
     map_of ps ''is_draft'' = Some (PBool True) \<and> map_of ps ''is_staging'' = Some (PBool False) \<and>
     map_of ps ''is_active'' \<in> {Some (PBool False), Some (PBool True)} \<and>
     map_of ps ''draft_owner'' = Some (PStr u)"

inductive edit_move :: "string \<Rightarrow> string \<Rightarrow> graph \<Rightarrow> graph \<Rightarrow> bool" for t u where
  add_draft: "draft_like t u ps \<Longrightarrow> edit_move t u g (snd (create_node label ps g))"
| edit_draft: "edits_only ps \<Longrightarrow>
    edit_move t u g (snd (update_node label rid t ps (Some True) (Some u) g))"
| submit: "edit_move t u g (snd (update_node label rid t (submit_props now) (Some True) (Some u) g))"
| drop_draft: "edit_move t u g (snd (delete_node label rid t (Some True) None (Some u) g))"
| drop_staging: "edit_move t u g (snd (delete_node label rid t None (Some True) None g))"
| unstage: "get_active_node label rid t g = None \<Longrightarrow>
    edit_move t u g (snd (update_node label rid t (unstage_props u) None None g))"
| relate: "rel \<in> {''BELONGS_TO'', ''BASED_ON''} \<Longrightarrow>
    edit_move t u g (snd (create_relationship from_label from_rid to_label to_rid rel t [] g))"

inductive publish_move :: "string \<Rightarrow> graph \<Rightarrow> graph \<Rightarrow> bool" for t where
  deactivate: "publish_move t g (deactivate_query t g)"
| promote: "publish_move t g (promote_query t s g)"
| cleanup: "publish_move t g (cleanup_query t s g)"
| rollback: "publish_move t g (snd (rollback_to_snapshot t target cur g))"
| cascade: "edits_only ps \<Longrightarrow> publish_move t g (snd (update_node label rid t ps None None g))"

inductive_cases edit_moveE: "edit_move t u g g'"
inductive_cases publish_moveE: "publish_move t g g'"

subsection \<open>Shapes of the moves\<close>

text \<open>Every move is an overlay on some versions, the removal of some, one new node, or new edges.\<close>

lemma update_node_state:
  "snd (update_node label rid t ps dr ow g) =
     (let P = (\<lambda>n. nlabel n = label \<and> node_all n (identity_conds rid t @ opt_bool_cond ''is_draft'' dr
                 @ opt_str_cond ''draft_owner'' ow))
      in if match_nodes g label (identity_conds rid t @ opt_bool_cond ''is_draft'' dr
                 @ opt_str_cond ''draft_owner'' ow) \<noteq> [] \<and> \<not> all_storable ps
         then g else update_where P ps g)"
  by (simp add: update_node_def Let_def)

lemma graph_ok_update_where:
  assumes "graph_ok g"
    and "\<And>n. n \<in> set (gnodes g) \<Longrightarrow> P n \<Longrightarrow> version_ok n \<Longrightarrow>
      version_ok (n\<lparr>nprops := set_props (nprops n) ps\<rparr>)"
  shows "graph_ok (update_where P ps g)"
proof -
  let ?g = "update_where P ps g"
  have nodes: "gnodes ?g = map (\<lambda>n. if P n then n\<lparr>nprops := set_props (nprops n) ps\<rparr> else n) (gnodes g)"
    and nx: "gnext ?g = gnext g" by (simp_all add: update_where_def)
  have ids: "map nid (gnodes ?g) = map nid (gnodes g)" by (simp add: nodes)
  then have set_ids: "nid ` set (gnodes ?g) = nid ` set (gnodes g)" by (metis list.set_map)
  have "list_all version_ok (gnodes ?g)"
    using assms by (auto simp: nodes graph_ok_def list_all_iff)
  moreover have "list_all (\<lambda>n. nid n < gnext ?g) (gnodes ?g)"
    using assms(1) by (auto simp: nodes nx graph_ok_def list_all_iff)
  ultimately show ?thesis
    using assms(1) unfolding graph_ok_def by (simp only: ids set_ids gedges_update_where)
qed

lemma graph_ok_detach_delete:
  assumes "graph_ok g"
  shows "graph_ok (detach_delete_where P g)"
proof -
  have left: "x \<in> nid ` set (filter (\<lambda>n. \<not> P n) (gnodes g))"
    if "x \<in> nid ` set (gnodes g)" "x \<notin> set (map nid (filter P (gnodes g)))" for x
    using that by auto
  have "list_all (\<lambda>e. {esrc e, edst e} \<subseteq> nid ` set (filter (\<lambda>n. \<not> P n) (gnodes g))
      \<and> etype e \<in> {''BELONGS_TO'', ''BASED_ON''})
    (filter (\<lambda>e. esrc e \<notin> set (map nid (filter P (gnodes g)))
      \<and> edst e \<notin> set (map nid (filter P (gnodes g)))) (gedges g))"
    using assms left unfolding graph_ok_def list_all_iff set_filter by blast
  moreover have "distinct (map nid (filter (\<lambda>n. \<not> P n) (gnodes g)))"
    using assms by (simp add: graph_ok_def distinct_map_filter)
  moreover have "list_all version_ok (filter (\<lambda>n. \<not> P n) (gnodes g))"
    "list_all (\<lambda>n. nid n < gnext g) (filter (\<lambda>n. \<not> P n) (gnodes g))"
    using assms by (simp_all add: graph_ok_def list_all_iff)
  ultimately show ?thesis by (simp add: graph_ok_def detach_delete_where_def Let_def)
qed

lemma graph_ok_create:
  assumes "graph_ok g" and "version_ok \<lparr>nid = gnext g, nlabel = label, nprops = set_props [] ps\<rparr>"
  shows "graph_ok (snd (create_node label ps g))"
  using assms
  by (auto simp: graph_ok_def create_node_def Let_def list_all_iff less_Suc_eq)

lemma graph_ok_relate:
  assumes "graph_ok g" and "rel \<in> {''BELONGS_TO'', ''BASED_ON''}"
  shows "graph_ok (snd (create_relationship la ra lb rb rel t ps g))"
  using assms
  by (auto simp: graph_ok_def create_relationship_def Let_def list_all_iff match_nodes_def)

subsection \<open>Moves keep versions well formed\<close>

lemma node_all_conds [query_simps]:
  "node_all n (identity_conds rid t @ opt_bool_cond ''is_draft'' dr @ opt_str_cond ''draft_owner'' ow) \<longleftrightarrow>
     node_is n ''rid'' (PStr rid) \<and> tenant_is n t \<and>
     (case dr of None \<Rightarrow> True | Some b \<Rightarrow> node_is n ''is_draft'' (PBool b)) \<and>
     (case ow of None \<Rightarrow> True | Some u \<Rightarrow> node_is n ''draft_owner'' (PStr u))"
  by (auto simp: node_all_def identity_conds_def opt_bool_cond_def opt_str_cond_def tenant_is_def
      split: option.splits)

lemma version_ok_edit:
  assumes "version_ok n" and "edits_only ps"
  shows "version_ok (n\<lparr>nprops := set_props (nprops n) ps\<rparr>)"
proof -
  have "map_of (set_props (nprops n) ps) k = map_of (nprops n) k" if "k \<in> set VERSION_KEYS" for k
    using assms(2) that by (intro map_of_set_props_other) (auto simp: edits_only_def)
  then show ?thesis
    using assms(1) by (simp add: version_ok_def VERSION_KEYS_def dict_ok_set_props)
qed

lemma version_ok_submit:
  "version_ok n \<Longrightarrow> version_ok (n\<lparr>nprops := set_props (nprops n) (submit_props now)\<rparr>)"
  by (auto simp: version_ok_def submit_props_def intro: shape_ok_changes(1))

lemma version_ok_unstage:
  "version_ok n \<Longrightarrow> version_ok (n\<lparr>nprops := set_props (nprops n) (unstage_props u)\<rparr>)"
  by (auto simp: version_ok_def unstage_props_def intro: shape_ok_changes(2))

lemma version_ok_active:
  "version_ok n \<Longrightarrow> version_ok (n\<lparr>nprops := set_props (nprops n) [(''is_active'', PBool b)]\<rparr>)"
  by (auto simp: version_ok_def intro: shape_ok_changes(3))

lemma version_ok_promote:
  assumes "version_ok n" and "is_staging n"
  shows "version_ok (n\<lparr>nprops := set_props (nprops n) [(''is_staging'', PBool False), (''snapshot_id'', PStr s)]\<rparr>)"
  using assms shape_ok_changes(4) by (simp add: version_ok_def is_staging_def node_is_def)

lemma draft_like_version_ok:
  "draft_like t u ps \<Longrightarrow> version_ok \<lparr>nid = i, nlabel = l, nprops = set_props [] ps\<rparr>"
  by (auto simp: draft_like_def version_ok_def shape_ok_def as_bool_def map_of_set_props_ok
      dict_ok_set_props dest!: is_strD)

lemma graph_ok_update_node:
  assumes "graph_ok g"
    and "\<And>n. version_ok n \<Longrightarrow> version_ok (n\<lparr>nprops := set_props (nprops n) ps\<rparr>)"
  shows "graph_ok (snd (update_node label rid t ps dr ow g))"
  using assms by (auto simp: update_node_state Let_def intro!: graph_ok_update_where)

lemma edit_move_graph_ok: "edit_move t u g g' \<Longrightarrow> graph_ok g \<Longrightarrow> graph_ok g'"
proof (induction rule: edit_move.induct)
  case (add_draft ps g label)
  then show ?case by (intro graph_ok_create draft_like_version_ok)
next
  case (relate rel g fl fr la lr)
  then show ?case by (intro graph_ok_relate)
qed (auto simp: delete_node_def Let_def intro!: graph_ok_update_node graph_ok_detach_delete
      version_ok_edit version_ok_submit version_ok_unstage)

lemma publish_move_graph_ok: "publish_move t g g' \<Longrightarrow> graph_ok g \<Longrightarrow> graph_ok g'"
proof (induction rule: publish_move.induct)
  case (rollback target cur g)
  then show ?case
    by (auto simp: rollback_to_snapshot_def Let_def intro!: graph_ok_update_where version_ok_active)
qed (auto simp: deactivate_query_def promote_query_def cleanup_query_def
      intro!: graph_ok_update_node graph_ok_update_where graph_ok_detach_delete version_ok_edit
        version_ok_active version_ok_promote)

subsection \<open>Moves stay in their tenant, edits stay unpublished\<close>

definition others :: "string \<Rightarrow> graph \<Rightarrow> gnode list" where
  "others t g = filter (\<lambda>n. \<not> tenant_is n t) (gnodes g)"

definition live :: "graph \<Rightarrow> gnode list" where
  "live g = filter is_active_version (gnodes g)"

lemma filter_update_where:
  assumes "\<And>n. n \<in> set (gnodes g) \<Longrightarrow> P n \<Longrightarrow> \<not> Q n \<and> \<not> Q (n\<lparr>nprops := set_props (nprops n) ps\<rparr>)"
  shows "filter Q (gnodes (update_where P ps g)) = filter Q (gnodes g)"
proof -
  have "filter Q (map (\<lambda>n. if P n then n\<lparr>nprops := set_props (nprops n) ps\<rparr> else n) xs) = filter Q xs"
    if "\<And>n. n \<in> set xs \<Longrightarrow> P n \<Longrightarrow> \<not> Q n \<and> \<not> Q (n\<lparr>nprops := set_props (nprops n) ps\<rparr>)" for xs
    using that by (induction xs) auto
  then show ?thesis using assms by (simp add: gnodes_update_where)
qed

lemma filter_detach_delete:
  assumes "\<And>n. P n \<Longrightarrow> \<not> Q n"
  shows "filter Q (gnodes (detach_delete_where P g)) = filter Q (gnodes g)"
  using assms by (auto simp: gnodes_detach_delete_where intro: filter_cong)

lemma filter_update_node:
  assumes "\<And>n. n \<in> set (gnodes g) \<Longrightarrow> nlabel n = label \<Longrightarrow> node_is n ''rid'' (PStr rid) \<Longrightarrow> tenant_is n t \<Longrightarrow>
      (case dr of None \<Rightarrow> True | Some b \<Rightarrow> node_is n ''is_draft'' (PBool b)) \<Longrightarrow>
      \<not> Q n \<and> \<not> Q (n\<lparr>nprops := set_props (nprops n) ps\<rparr>)"
  shows "filter Q (gnodes (snd (update_node label rid t ps dr ow g))) = filter Q (gnodes g)"
  using assms by (auto simp: update_node_state Let_def node_all_conds intro!: filter_update_where)

lemma gnodes_create:
  "gnodes (snd (create_node label ps g)) =
     gnodes g @ (if all_storable ps then [\<lparr>nid = gnext g, nlabel = label, nprops = set_props [] ps\<rparr>] else [])"
  by (simp add: create_node_def Let_def)

lemma gnodes_relate [simp]: "gnodes (snd (create_relationship la ra lb rb rel t ps g)) = gnodes g"
  by (simp add: create_relationship_def Let_def)

lemma draft_like_node:
  assumes "draft_like t u ps"
  shows "tenant_is \<lparr>nid = i, nlabel = l, nprops = set_props [] ps\<rparr> t"
    and "is_draft \<lparr>nid = i, nlabel = l, nprops = set_props [] ps\<rparr>"
  using assms by (auto simp: draft_like_def version_defs node_is_def map_of_set_props_ok)

lemma tenant_overlay:
  "map_of ps ''tenant_id'' = None \<Longrightarrow>
     tenant_is (n\<lparr>nprops := set_props (nprops n) ps\<rparr>) t = tenant_is n t"
  by (simp add: tenant_is_def node_is_def map_of_set_props_other map_of_eq_None_iff)

lemma edits_only_keys: "edits_only ps \<Longrightarrow> k \<in> set VERSION_KEYS \<Longrightarrow> map_of ps k = None"
  by (auto simp: edits_only_def map_of_eq_None_iff)

lemma flags_overlay:
  assumes "edits_only ps"
  shows "is_active_version (n\<lparr>nprops := set_props (nprops n) ps\<rparr>) = is_active_version n"
    and "is_draft (n\<lparr>nprops := set_props (nprops n) ps\<rparr>) = is_draft n"
    and "tenant_is (n\<lparr>nprops := set_props (nprops n) ps\<rparr>) t = tenant_is n t"
proof -
  have "map_of (set_props (nprops n) ps) k = map_of (nprops n) k" if "k \<in> set VERSION_KEYS" for k
    using assms that by (intro map_of_set_props_other) (auto simp: edits_only_def)
  then show "is_active_version (n\<lparr>nprops := set_props (nprops n) ps\<rparr>) = is_active_version n"
    and "is_draft (n\<lparr>nprops := set_props (nprops n) ps\<rparr>) = is_draft n"
    and "tenant_is (n\<lparr>nprops := set_props (nprops n) ps\<rparr>) t = tenant_is n t"
    by (simp_all add: version_defs node_is_def VERSION_KEYS_def)
qed

lemma edit_move_others: "edit_move t u g g' \<Longrightarrow> others t g' = others t g"
proof (induction rule: edit_move.induct)
  case (add_draft ps g label)
  then show ?case by (simp add: others_def gnodes_create draft_like_node)
next
  case (edit_draft ps g label rid)
  then show ?case by (auto simp: others_def flags_overlay intro!: filter_update_node)
qed (auto simp: others_def delete_node_def Let_def flags_overlay tenant_overlay submit_props_def
      unstage_props_def node_all_def identity_conds_def tenant_is_def
      intro!: filter_update_node filter_detach_delete)

lemma edit_move_live: "edit_move t u g g' \<Longrightarrow> live g' = live g"
proof (induction rule: edit_move.induct)
  case (add_draft ps g label)
  then show ?case by (simp add: live_def gnodes_create draft_like_node draft_not_active)
next
  case (edit_draft ps g label rid)
  then show ?case
    by (auto simp: live_def flags_overlay draft_not_active is_draft_def intro!: filter_update_node)
next
  case (submit g label rid now)
  then show ?case
    by (auto simp: live_def draft_not_active is_draft_def submit_props_def is_active_version_def
        dest: node_is_unique intro!: filter_update_node)
next
  case (unstage label rid g)
  then have "\<not> is_active_version n"
    if "n \<in> set (gnodes g)" "nlabel n = label" "node_is n ''rid'' (PStr rid)" "tenant_is n t" for n
    using that by (auto simp: get_active_node_def match_nodes_def filter_empty_conv node_all_def
        identity_conds_def version_defs)
  then show ?case
    by (auto simp: live_def unstage_props_def is_active_version_def intro!: filter_update_node)
qed (auto simp: live_def delete_node_def Let_def node_all_def opt_bool_cond_def is_active_version_def
      dest: node_is_unique intro!: filter_detach_delete)

lemma publish_move_others: "publish_move t g g' \<Longrightarrow> others t g' = others t g"
proof (induction rule: publish_move.induct)
  case (rollback target cur g)
  then show ?case
    by (auto simp: others_def rollback_to_snapshot_def Let_def tenant_is_def
        intro!: filter_update_where [THEN trans])
next
  case (cascade ps g label rid)
  then show ?case by (auto simp: others_def flags_overlay intro!: filter_update_node)
qed (auto simp: others_def deactivate_query_def promote_query_def cleanup_query_def tenant_is_def
      intro!: filter_update_where filter_detach_delete)

end
