(* ===== verification/Ontology_Machine.thy ===== *)
theory Ontology_Machine
  imports Ontology_Moves
begin

section \<open>The ontology service as a state machine\<close>

text \<open>
  All operations of \<open>OntologyServiceImpl\<close> that change state as the requests of one machine, with time
  and faults between them, and the simulation: whatever a request of user \<open>u\<close> in tenant \<open>t\<close> does to
  the graph is a sequence of moves of \<open>Ontology_Moves\<close>. The invariants of the moves then hold in
  every state the service can reach.
\<close>

subsection \<open>Computations that make moves\<close>

text \<open>The change of the graph is a sequence of moves, from any well-formed graph to another.\<close>

definition moved :: "(graph \<Rightarrow> graph \<Rightarrow> bool) \<Rightarrow> graph \<Rightarrow> graph \<Rightarrow> bool" where
  "moved M g g' \<longleftrightarrow> (graph_ok g \<longrightarrow> graph_ok g' \<and> M\<^sup>*\<^sup>* g g')"

definition makes :: "(graph \<Rightarrow> graph \<Rightarrow> bool) \<Rightarrow> ('r world, exn, 'a) comp \<Rightarrow> bool" where
  "makes M m = keeps (\<lambda>w w'. moved M (w_graph w) (w_graph w')) m"

definition any_move :: "string \<Rightarrow> string \<Rightarrow> graph \<Rightarrow> graph \<Rightarrow> bool" where
  "any_move t u g g' \<longleftrightarrow> edit_move t u g g' \<or> publish_move t g g'"

lemma moved_refl [simp]: "moved M g g"
  by (simp add: moved_def)

lemma moved_trans: "moved M g h \<Longrightarrow> moved M h k \<Longrightarrow> moved M g k"
  by (auto simp: moved_def intro: rtranclp_trans)

lemma moved_edit: "(graph_ok g \<Longrightarrow> edit_move t u g g') \<Longrightarrow> moved (edit_move t u) g g'"
  by (auto simp: moved_def intro: edit_move_graph_ok)

lemma moved_publish: "publish_move t g g' \<Longrightarrow> moved (any_move t u) g g'"
  by (auto simp: moved_def any_move_def intro: publish_move_graph_ok)

lemma moved_any: "moved (edit_move t u) g g' \<Longrightarrow> moved (any_move t u) g g'"
  by (auto simp: moved_def any_move_def elim!: mono_rtranclp [rule_format, rotated])

lemma moved_reflp: "reflp (\<lambda>w w'. moved M (w_graph w) (w_graph w'))"
  by (simp add: reflp_def)

lemma moved_transp: "transp (\<lambda>w w'. moved M (w_graph w) (w_graph w'))"
  by (auto intro: transpI moved_trans)

lemma makes_bindC: "makes M m \<Longrightarrow> (\<And>x. makes M (f x)) \<Longrightarrow> makes M (bindC m f)"
  unfolding makes_def by (rule keeps_bindC [OF moved_transp])

lemma makes_pure [simp]:
  "makes M (retC x)" "makes M (raiseC e)" "makes M (liftC r)" "makes M (unlessC b e)"
  "makes M (ask_graph q)" "makes M (check_graph p)" "makes M (ask_tx a)" "makes M (draw_uuid E)"
  "makes M (utcnow E)" "makes M (on_redis k)" "makes M (on_tx d)" "makes M (redis_delete R key)"
  by (simp_all add: makes_def keeps_def comp_simps redis_delete_def split: prod.splits)

lemma makes_on_graph: "(\<And>g. moved M g (snd (m g))) \<Longrightarrow> makes M (on_graph m)"
  by (simp add: makes_def keeps_def on_graph_def split: prod.splits) (metis snd_conv)

text \<open>A read that decides what is done next, in the state it was read from.\<close>

lemma makes_ask:
  assumes "\<And>w. moved M (w_graph w) (w_graph (snd (f (q (w_graph w)) w)))"
  shows "makes M (bindC (ask_graph q) f)"
  using assms by (simp add: makes_def keeps_def bindC_run ask_graph_def)

lemma makesD: "makes M m \<Longrightarrow> moved M (w_graph w) (w_graph (snd (m w)))"
  by (simp add: makes_def keeps_def)

lemma makes_any: "makes (edit_move t u) m \<Longrightarrow> makes (any_move t u) m"
  by (auto simp: makes_def keeps_def intro: moved_any)

lemma liftC_unit: "liftC (Inr x) = retC x"
  by (rule ext) simp

lemma bindC_liftC [simp]: "bindC (liftC (Inr x)) f = f x"
  by (rule ext) (simp add: bindC_run)

subsection \<open>The properties the service gives a Draft\<close>

lemma map_of_serialize:
  "map_of (serialize_for_neo4j ps) k =
     map_option (\<lambda>v. if k \<in> set JSON_STORE_FIELDS \<and> v \<noteq> PNone then PStr (json_dumps v) else v) (map_of ps k)"
  unfolding serialize_for_neo4j_def by (induction ps) (simp_all add: case_prod_beta)

lemma keys_serialize [simp]: "map fst (serialize_for_neo4j ps) = map fst ps"
  by (simp add: serialize_for_neo4j_def comp_def case_prod_beta)

lemma dict_ok_serialize [simp]: "dict_ok (serialize_for_neo4j ps) = dict_ok ps"
  by (simp add: dict_ok_def)

lemma edits_only_serialize [simp]: "edits_only (serialize_for_neo4j ps) = edits_only ps"
  by (simp add: edits_only_def)

lemma edits_only_updated:
  "edits_only ps \<Longrightarrow> edits_only (dput ''updated_at'' v ps)"
  by (auto simp: edits_only_def dom_update VERSION_KEYS_def)

lemma not_json_key:
  "k \<in> set VERSION_KEYS \<Longrightarrow> map_of (serialize_for_neo4j ps) k = map_of ps k"
  by (auto simp: map_of_serialize VERSION_KEYS_def JSON_STORE_FIELDS_def option.map_ident)

lemma dget_dupdate_edits:
  "edits_only e \<Longrightarrow> k \<in> set VERSION_KEYS \<Longrightarrow> map_of (dupdate d e) k = map_of d k"
proof -
  assume "edits_only e" and "k \<in> set VERSION_KEYS"
  then have "map_of (rev e) k = None" by (auto simp: edits_only_def map_of_eq_None_iff)
  then show ?thesis by (simp add: dget_dupdate)
qed

lemma draft_like_new:
  assumes "dict_ok props"
  shows "draft_like t u (serialize_for_neo4j (dupdate props
           [(''rid'', PStr rid), (''tenant_id'', PStr t), (''is_draft'', PBool True),
            (''is_staging'', PBool False), (''is_active'', PBool True), (''snapshot_id'', PNone),
            (''parent_snapshot_id'', PNone), (''draft_owner'', PStr u),
            (''created_at'', PStr now), (''updated_at'', PStr now)]))"
    and "draft_like t u (serialize_for_neo4j (dupdate props
           [(''rid'', PStr rid), (''tenant_id'', PStr t), (''is_draft'', PBool True),
            (''is_staging'', PBool False), (''is_active'', PBool True),
            (''draft_owner'', PStr u), (''created_at'', PStr now), (''updated_at'', PStr now)]))"
  using assms
  by (simp_all add: draft_like_def not_json_key VERSION_KEYS_def dict_ok_dupdate del: dupdate_Cons)
    (simp_all add: dget_dupdate)

lemma draft_like_clone:
  assumes "version_ok n" and "tenant_is n t" and "edits_only updates"
  shows "draft_like t u (clone_draft_props (nprops n) u updates now)"
proof -
  have "dict_ok (nprops n)" "is_str (map_of (nprops n) ''rid'')"
    "map_of (nprops n) ''tenant_id'' = Some (PStr t)"
    "\<exists>a. map_of (nprops n) ''is_active'' = Some (PBool a)"
    using assms(1,2) by (auto simp: version_ok_def shape_ok_def tenant_is_def node_is_def split: option.splits)
  then show ?thesis
    using assms(3)
    by (auto simp: draft_like_def clone_draft_props_def dget_dupdate_edits VERSION_KEYS_def
        dict_ok_dupdate)
qed

lemma draft_like_marker:
  assumes "version_ok n" and "tenant_is n t"
  shows "draft_like t u (deletion_marker_props (nprops n) u now)"
  using assms
  by (auto simp: draft_like_def deletion_marker_props_def version_ok_def shape_ok_def tenant_is_def
      node_is_def split: option.splits)

text \<open>What a lookup returns is a version of the tenant that is in the graph.\<close>

lemma lookup_version:
  assumes "single (match_nodes g label (identity_conds rid t @ cs)) = Some n"
  shows "n \<in> set (gnodes g) \<and> nlabel n = label \<and> node_is n ''rid'' (PStr rid) \<and> tenant_is n t
    \<and> node_all n cs"
  using single_in [OF assms] by (auto simp: match_nodes_def node_all_def identity_conds_def tenant_is_def)

lemma get_active_version:
  "get_active_node label rid t g = Some d \<Longrightarrow>
     \<exists>n \<in> set (gnodes g). d = nprops n \<and> nlabel n = label \<and> version_of t rid n \<and> is_active_version n"
  using lookup_version
  by (fastforce simp: get_active_node_def version_of_def version_defs node_all_def)

lemma get_staging_version:
  "get_staging_node label rid t g = Some d \<Longrightarrow>
     \<exists>n \<in> set (gnodes g). d = nprops n \<and> nlabel n = label \<and> version_of t rid n \<and> is_staging n"
  using lookup_version
  by (fastforce simp: get_staging_node_def version_of_def version_defs node_all_def)

lemma clone_source_version:
  "clone_source label rid t g = Some d \<Longrightarrow>
     \<exists>n \<in> set (gnodes g). d = nprops n \<and> nlabel n = label \<and> version_of t rid n"
  by (auto simp: clone_source_def split: option.splits
      dest!: get_active_version get_staging_version)

subsection \<open>Every operation makes moves of its user only\<close>

lemma create_entity_moves:
  assumes "get_tenant_id c = Inr t" and "get_user_id c = Inr u" and "dict_ok props"
  shows "makes (edit_move t u) (create_entity E c label props)"
  unfolding create_entity_def assms(1,2) bindC_liftC Let_def
  by (auto intro!: makes_bindC makes_on_graph moved_edit edit_move.add_draft draft_like_new(1) assms(3)
      simp del: dupdate_Cons)

lemma create_node_moves:
  "draft_like t u ps \<Longrightarrow> moved (edit_move t u) (w_graph w) (snd (create_node label ps (w_graph w)))"
  by (rule moved_edit) (rule edit_move.add_draft)

lemma create_after_clock:
  assumes "\<And>now. graph_ok (w_graph w) \<Longrightarrow> draft_like t u (ps now)"
  shows "moved (edit_move t u) (w_graph w) (w_graph (snd
    (bindC (utcnow E) (\<lambda>now. bindC (on_graph (create_node label (ps now))) (\<lambda>node. liftC (f node))) w)))"
proof -
  have "moved (edit_move t u) (w_graph w) (snd (create_node label (ps now) (w_graph w)))" for now
    using assms edit_move.add_draft moved_edit by blast
  then show ?thesis
    by (simp add: bindC_run utcnow_def on_graph_def split: prod.splits sum.splits) (metis snd_conv)
qed

lemma update_entity_moves:
  assumes "get_tenant_id c = Inr t" and "get_user_id c = Inr u" and "edits_only updates"
  shows "makes (edit_move t u) (update_entity R E c label rid updates)"
proof -
  have clone: "makes (edit_move t u) (bindC (ask_graph (clone_source label rid t)) (\<lambda>source.
      case source of None \<Rightarrow> raiseC (not_found label rid)
      | Some source \<Rightarrow> bindC (utcnow E) (\<lambda>now.
          bindC (on_graph (create_node label (clone_draft_props source u updates now))) (\<lambda>node.
          liftC (node_to_response node label)))))"
  proof (rule makes_ask)
    fix w
    show "moved (edit_move t u) (w_graph w) (w_graph (snd ((case clone_source label rid t (w_graph w) of
        None \<Rightarrow> raiseC (not_found label rid)
      | Some source \<Rightarrow> bindC (utcnow E) (\<lambda>now.
          bindC (on_graph (create_node label (clone_draft_props source u updates now))) (\<lambda>node.
          liftC (node_to_response node label)))) w)))"
    proof (cases "clone_source label rid t (w_graph w)")
      case None
      then show ?thesis by simp
    next
      case (Some d)
      have "draft_like t u (clone_draft_props d u updates now)" if "graph_ok (w_graph w)" for now
        using clone_source_version [OF Some] that assms(3)
        by (auto simp: graph_ok_def list_all_iff version_of_def intro: draft_like_clone)
      then show ?thesis unfolding Some option.case by (rule create_after_clock)
    qed
  qed
  show ?thesis
    unfolding update_entity_def assms(1,2) bindC_liftC
    by (auto intro!: makes_bindC clone makes_on_graph moved_edit edit_move.edit_draft
        edits_only_updated assms(3) split: option.splits)
qed

lemma moves_graph_delete:
  "moved (edit_move t u) g (snd (delete_node label rid t (Some True) None (Some u) g))"
  "moved (edit_move t u) g (snd (delete_node label rid t None (Some True) None g))"
  by (auto intro: moved_edit edit_move.drop_draft edit_move.drop_staging)

lemma graph_delete_moves [simp]:
  "makes (edit_move t u) (graph_delete label rid t (Some True) None (Some u))"
  "makes (edit_move t u) (graph_delete label rid t None (Some True) None)"
  by (auto simp: graph_delete_def case_prod_beta moves_graph_delete intro!: makes_on_graph)

lemma delete_entity_moves:
  assumes "get_tenant_id c = Inr t" and "get_user_id c = Inr u"
  shows "makes (edit_move t u) (delete_entity R E c label rid)"
proof -
  let ?rest = "\<lambda>active. case active of
        Some active \<Rightarrow> bindC (utcnow E) (\<lambda>now.
          bindC (on_graph (create_node label (deletion_marker_props active u now))) (\<lambda>_. retC ()))
      | None \<Rightarrow> bindC (graph_delete label rid t (Some True) None (Some u)) (\<lambda>deleted.
          if \<not> deleted then bindC (graph_delete label rid t None (Some True) None) (\<lambda>_. retC ())
          else retC ())"
  have marked: "makes (edit_move t u) (bindC (ask_graph (get_active_node label rid t)) ?rest)"
  proof (rule makes_ask)
    fix w
    show "moved (edit_move t u) (w_graph w) (w_graph (snd (?rest (get_active_node label rid t (w_graph w)) w)))"
    proof (cases "get_active_node label rid t (w_graph w)")
      case None
      have "makes (edit_move t u) (?rest None)" by (auto intro!: makes_bindC)
      then show ?thesis unfolding None by (rule makesD)
    next
      case (Some d)
      have "draft_like t u (deletion_marker_props d u now)" if "graph_ok (w_graph w)" for now
        using get_active_version [OF Some] that
        by (auto simp: graph_ok_def list_all_iff version_of_def intro: draft_like_marker)
      then show ?thesis
        unfolding Some option.case liftC_unit [symmetric] by (rule create_after_clock)
    qed
  qed
  show ?thesis
    unfolding delete_entity_def assms bindC_liftC by (intro marked makes_bindC makes_pure)
qed

lemma graph_relate_moves:
  "rel \<in> {''BELONGS_TO'', ''BASED_ON''} \<Longrightarrow>
     makes (edit_move t u) (graph_relate from_label from_rid to_label to_rid rel t)"
  by (auto simp: graph_relate_def intro!: makes_on_graph moved_edit edit_move.relate)

lemma create_property_type_moves:
  assumes "get_tenant_id c = Inr t" and "get_user_id c = Inr u" and "dict_ok props"
  shows "makes (edit_move t u) (create_property_type R E c parent_rid parent_label props)"
  unfolding create_property_type_def assms(1,2) bindC_liftC Let_def
  by (auto intro!: makes_bindC makes_on_graph moved_edit edit_move.add_draft draft_like_new(2) assms(3)
      graph_relate_moves simp del: dupdate_Cons)

lemma submit_moves:
  assumes "get_tenant_id c = Inr t" and "get_user_id c = Inr u"
  shows "makes (edit_move t u) (submit_to_staging R E c label rid)"
  unfolding submit_to_staging_def assms bindC_liftC
  by (auto intro!: makes_bindC makes_on_graph moved_edit edit_move.submit split: option.splits)

lemma discard_draft_moves:
  assumes "get_tenant_id c = Inr t" and "get_user_id c = Inr u"
  shows "makes (edit_move t u) (discard_draft R c label rid)"
  unfolding discard_draft_def assms bindC_liftC by (auto intro!: makes_bindC)

lemma discard_staging_moves:
  assumes "get_tenant_id c = Inr t" and "get_user_id c = Inr u"
  shows "makes (edit_move t u) (discard_staging c label rid)"
  unfolding discard_staging_def assms bindC_liftC
proof (rule makes_ask)
  fix w
  let ?undo = "bindC (ask_graph (get_staging_node label rid t)) (\<lambda>staging.
      if staging = None then raiseC (staging_not_found label rid)
      else bindC (on_graph (update_node label rid t (unstage_props u) None None)) (\<lambda>_. retC ()))"
  let ?drop = "bindC (graph_delete label rid t None (Some True) None)
      (\<lambda>deleted. if \<not> deleted then raiseC (staging_not_found label rid) else retC ())"
  show "moved (edit_move t u) (w_graph w) (w_graph (snd
      ((if get_active_node label rid t (w_graph w) \<noteq> None then ?drop else ?undo) w)))"
  proof (cases "get_active_node label rid t (w_graph w)")
    case None
    have "moved (edit_move t u) (w_graph w) (snd (update_node label rid t (unstage_props u) None None (w_graph w)))"
      using None by (intro moved_edit edit_move.unstage)
    then show ?thesis using None
      by (auto simp: bindC_run ask_graph_def on_graph_def split: prod.splits sum.splits)
  next
    case (Some d)
    have "makes (edit_move t u) ?drop" by (auto intro!: makes_bindC)
    then show ?thesis using Some makesD by simp
  qed
qed

lemma discard_nodes_moves: "moved (edit_move t u) g (snd (discard_nodes t nodes g))"
proof (induction nodes arbitrary: g)
  case Nil
  show ?case by simp
next
  case (Cons n nodes)
  show ?case
    using Cons moved_trans [OF moves_graph_delete(2) Cons]
    by (simp add: Let_def split: prod.splits) (metis snd_conv)
qed

lemma discard_all_moves:
  assumes "get_tenant_id c = Inr t" and "get_user_id c = Inr u"
  shows "makes (edit_move t u) (discard_all_staging c)"
  unfolding discard_all_staging_def assms bindC_liftC
  by (auto simp: case_prod_beta discard_nodes_moves intro!: makes_bindC makes_on_graph)

lemma cascade_moves:
  assumes "fst ` set cs \<subseteq> set CASCADE_FIELDS"
  shows "keeps (moved (any_move t u)) (cascade_loop cs olds t props)"
proof (induction props)
  case Nil
  show ?case by (simp add: keeps_def)
next
  case (Cons p props)
  have tr: "transp (moved (any_move t u))" by (auto intro: transpI moved_trans)
  have "edits_only (cascade_updates cs olds p)"
    using assms by (auto simp: edits_only_def cascade_updates_def VERSION_KEYS_def CASCADE_FIELDS_def)
  then have "keeps (moved (any_move t u)) (update_node ''PropertyType'' q t (cascade_updates cs olds p) None None)" for q
    by (auto simp: keeps_def intro!: moved_publish publish_move.cascade)
  then show ?case using Cons
    by (auto simp: Let_def keeps_def [of _ "retC _"] intro!: keeps_bindC [OF tr])
qed

lemma update_shared_moves:
  assumes "get_tenant_id c = Inr t" and "get_user_id c = Inr u" and "edits_only updates"
  shows "makes (any_move t u) (update_shared_property_type R E c rid updates)"
proof -
  have "keeps (moved (any_move t u)) (cascade_shared_property_update rid t updates olds)" for olds
  proof -
    have "fst ` set (dfilter (\<lambda>k. k \<in> set CASCADE_FIELDS) updates) \<subseteq> set CASCADE_FIELDS"
      by (auto simp: dfilter_def)
    from cascade_moves [OF this] show ?thesis
      by (simp add: cascade_shared_property_update_def keeps_def bindC_run get_related_nodes_named
          Let_def)
  qed
  then have "makes (any_move t u) (on_graph (cascade_shared_property_update rid t updates olds))" for olds
    by (intro makes_on_graph) (simp add: keeps_def)
  moreover have "makes (any_move t u) (update_entity R E c l rid updates)" for l
    using assms by (intro makes_any update_entity_moves)
  ultimately show ?thesis
    unfolding update_shared_property_type_def assms bindC_liftC Let_def
    by (intro makes_bindC makes_pure)
qed

lemma stmt_moves:
  "(\<And>g. publish_move t g (f g)) \<Longrightarrow> makes (any_move t u) (stmt f)"
  by (auto simp: makes_def keeps_def stmt_def intro: moved_publish split: list.splits fault.splits)

lemma keeps_retry_from:
  assumes "reflp K" and "transp K" and "keeps K m"
  shows "keeps K (retry_from k m e)"
proof (induction k arbitrary: e)
  case 0
  show ?case using assms(1) by (simp add: keeps_def reflpD)
next
  case (Suc k)
  show ?case
    using assms Suc by (auto simp: keeps_def split: prod.splits sum.splits dest: transpD) (metis snd_conv transpD)+
qed

lemma promote_statements_moves: "makes (any_move t u) (promote_statements t s)"
  unfolding promote_statements_def
  by (intro makes_bindC makes_pure stmt_moves publish_move.intros)

lemma makes_retry: "makes M m \<Longrightarrow> makes M (retry_neo4j_operation k m)"
  unfolding makes_def retry_neo4j_operation_def
  by (rule keeps_retry_from [OF moved_reflp moved_transp])

lemma makes_same_graph: "(\<And>w. w_graph (f w) = w_graph w) \<Longrightarrow> makes M (modifyC f)"
  by (simp add: makes_def keeps_def)

lemma publish_staged_moves: "makes (any_move t u) (publish_staged E msg t user)"
  unfolding publish_staged_def
  by (auto intro!: makes_bindC makes_retry promote_statements_moves makes_same_graph
      simp: session_commit_def)

lemma rollback_moves:
  assumes "get_tenant_id c = Inr t"
  shows "makes (any_move t u) (rollback_to E c sid)"
proof -
  have "makes (any_move t u) (on_graph (\<lambda>g. case rollback_to_snapshot t sid cur g of (k, g') \<Rightarrow> (Inr k, g')))" for cur
    by (auto simp: case_prod_beta intro!: makes_on_graph moved_publish publish_move.rollback)
  then show ?thesis
    unfolding rollback_to_def assms bindC_liftC Let_def
    by (auto intro!: makes_bindC makes_same_graph simp: session_commit_def split: option.splits)
qed

lemma create_interface_moves:
  assumes "get_tenant_id c = Inr t" and "get_user_id c = Inr u" and "dict_ok props"
  shows "makes (edit_move t u) (create_interface_type E c props)"
  unfolding create_interface_type_def Let_def
  by (auto intro!: makes_bindC create_entity_moves assms)

lemma update_interface_moves:
  assumes "get_tenant_id c = Inr t" and "get_user_id c = Inr u" and "edits_only updates"
  shows "makes (edit_move t u) (update_interface_type R E c rid updates)"
  unfolding update_interface_type_def Let_def
  by (auto intro!: makes_bindC update_entity_moves assms)

subsection \<open>The machine\<close>

text \<open>
  The requests that change state, each with the operation of \<open>OntologyServiceImpl\<close> that serves it.
  An edit of an entity type without rules of its own names the label.
\<close>

datatype request =
    Create string "pyval dict"
  | CreateInterface "pyval dict"
  | CreateProperty string string "pyval dict"
  | Update string string "pyval dict"
  | UpdateInterface string "pyval dict"
  | UpdateShared string "pyval dict"
  | Delete string string
  | Lock string
  | Unlock string
  | Heartbeat string
  | Submit string string
  | DiscardDraft string string
  | DiscardStaging string string
  | DiscardAll
  | Commit "string option"
  | RollbackTo string

definition outcome :: "(exn + 'a) \<times> 'w \<Rightarrow> exn option \<times> 'w" where
  "outcome rw = (case rw of (Inl e, w) \<Rightarrow> (Some e, w) | (Inr _, w) \<Rightarrow> (None, w))"

text \<open>One request from its first statement to the end of its database session.\<close>

fun serve :: "'r redis_ops \<Rightarrow> env \<Rightarrow> ctx \<Rightarrow> request \<Rightarrow> 'r world \<Rightarrow> (exn option \<times> 'r world) option" where
  "serve R E c (Create label props) w = Some (outcome (end_session (create_entity E c label props w)))"
| "serve R E c (CreateInterface props) w = Some (outcome (end_session (create_interface_type E c props w)))"
| "serve R E c (CreateProperty rid label props) w =
     Some (outcome (end_session (create_property_type R E c rid label props w)))"
| "serve R E c (Update label rid ups) w = Some (outcome (end_session (update_entity R E c label rid ups w)))"
| "serve R E c (UpdateInterface rid ups) w = Some (outcome (end_session (update_interface_type R E c rid ups w)))"
| "serve R E c (UpdateShared rid ups) w = Some (outcome (end_session (update_shared_property_type R E c rid ups w)))"
| "serve R E c (Delete label rid) w = Some (outcome (end_session (delete_entity R E c label rid w)))"
| "serve R E c (Lock rid) w = Some (outcome (end_session (on_redis (acquire_lock R c rid) w)))"
| "serve R E c (Unlock rid) w = Some (outcome (end_session (on_redis (release_lock R c rid) w)))"
| "serve R E c (Heartbeat rid) w = Some (outcome (end_session (on_redis (refresh_lock R c rid) w)))"
| "serve R E c (Submit label rid) w = Some (outcome (end_session (submit_to_staging R E c label rid w)))"
| "serve R E c (DiscardDraft label rid) w = Some (outcome (end_session (discard_draft R c label rid w)))"
| "serve R E c (DiscardStaging label rid) w = Some (outcome (end_session (discard_staging c label rid w)))"
| "serve R E c DiscardAll w = Some (outcome (end_session (discard_all_staging c w)))"
| "serve R E c (Commit msg) w = map_option (\<lambda>rw. outcome (end_session rw)) (commit_staging R E c msg w)"
| "serve R E c (RollbackTo sid) w = Some (outcome (end_session (rollback_to E c sid w)))"

text \<open>
  What the request schemas guarantee (\<open>schemas/requests.py\<close>): a body is a dict, and an update names none of
  the fields that say which version a node is.
\<close>

fun schema_ok :: "request \<Rightarrow> bool" where
  "schema_ok (Create label props) = dict_ok props"
| "schema_ok (CreateInterface props) = dict_ok props"
| "schema_ok (CreateProperty rid label props) = dict_ok props"
| "schema_ok (Update label rid ups) = edits_only ups"
| "schema_ok (UpdateInterface rid ups) = edits_only ups"
| "schema_ok (UpdateShared rid ups) = edits_only ups"
| "schema_ok _ = True"

text \<open>The requests that publish: by a snapshot, or by the cascade of a shared property.\<close>

fun publishes :: "request \<Rightarrow> bool" where
  "publishes (Commit msg) = True"
| "publishes (RollbackTo sid) = True"
| "publishes (UpdateShared rid ups) = True"
| "publishes _ = False"

lemma outcome_world [simp]: "snd (outcome rw) = snd rw"
  by (auto simp: outcome_def split: prod.splits sum.splits)

lemma end_session_graph [simp]: "w_graph (snd (end_session rw)) = w_graph (snd rw)"
  by (auto simp: end_session_def session_commit_def session_rollback_def split: prod.splits sum.splits)

lemma serve_comp:
  assumes "outcome (end_session (m w)) = (r, w')" and "makes M m"
  shows "moved M (w_graph w) (w_graph w')"
proof -
  have "w' = snd (outcome (end_session (m w)))" using assms(1) by simp
  then show ?thesis using makesD [OF assms(2)] by simp
qed

lemma commit_staging_moves:
  assumes "commit_staging R E c msg w = Some rw" and "get_tenant_id c = Inr t" and "get_user_id c = Inr u"
  shows "moved (any_move t u) (w_graph w) (w_graph (snd rw))"
proof -
  obtain acquired s1 where nx: "rd_set_nx R (w_redis w) (commit_lock_key t) u COMMIT_LOCK_TTL_SECONDS = (acquired, s1)"
    by (cases "rd_set_nx R (w_redis w) (commit_lock_key t) u COMMIT_LOCK_TTL_SECONDS")
  obtain r w2 where p: "publish_staged E msg t u (w\<lparr>w_redis := s1\<rparr>) = (r, w2)"
    by (cases "publish_staged E msg t u (w\<lparr>w_redis := s1\<rparr>)")
  have "moved (any_move t u) (w_graph w) (w_graph w2)"
    using makesD [OF publish_staged_moves, of t u "w\<lparr>w_redis := s1\<rparr>" E msg u] p by simp
  then show ?thesis
    using assms p
    by (auto simp: commit_staging_def nx Let_def utcnow_def split: sum.splits if_splits option.splits)
qed

lemma serve_edit:
  assumes "serve R E c q w = Some (r, w')" and "schema_ok q" and "\<not> publishes q"
    and c: "get_tenant_id c = Inr t" "get_user_id c = Inr u"
  shows "moved (edit_move t u) (w_graph w) (w_graph w')"
  using assms(1-3)
  by (cases q)
    (auto simp del: not_None_eq elim!: serve_comp
      intro: create_entity_moves create_interface_moves create_property_type_moves update_entity_moves
        update_interface_moves delete_entity_moves submit_moves discard_draft_moves
        discard_staging_moves discard_all_moves c)

lemma serve_any:
  assumes "serve R E c q w = Some (r, w')" and "schema_ok q"
    and c: "get_tenant_id c = Inr t" "get_user_id c = Inr u"
  shows "moved (any_move t u) (w_graph w) (w_graph w')"
proof (cases "publishes q")
  case False
  then show ?thesis using assms by (intro moved_any serve_edit)
next
  case True
  then show ?thesis
  proof (cases q)
    case (Commit msg)
    then obtain rw where rw: "commit_staging R E c msg w = Some rw" "(r, w') = outcome (end_session rw)"
      using assms(1) by auto
    have "w' = snd (outcome (end_session rw))" by (simp add: rw(2) [symmetric])
    then show ?thesis using commit_staging_moves [OF rw(1) c] by simp
  qed (use assms in \<open>auto elim!: serve_comp intro: update_shared_moves rollback_moves\<close>)
qed

end
