(* ===== verification/Ontology_Commit.thy ===== *)
theory Ontology_Commit
  imports Ontology_Machine
begin

section \<open>Publishing, end to end\<close>

text \<open>
  Facts about \<open>commit_staging\<close> and \<open>rollback_to_snapshot\<close> of \<open>OntologyServiceImpl\<close>: under any faults of
  the single statements, a publication that succeeds has had the effect of running its statements
  once, and one that fails can be completed by running it again; what a commit leaves in the graph,
  the database and the key-value server on each of its outcomes; and that it returns.
\<close>

subsection \<open>Publishing under faults\<close>

text \<open>Everything but the graph and the faults still to come.\<close>

definition same_rest :: "'r world \<Rightarrow> 'r world \<Rightarrow> bool" where
  "same_rest w w' \<longleftrightarrow> w_redis w' = w_redis w \<and> w_db w' = w_db w \<and> w_tx w' = w_tx w
     \<and> w_draws w' = w_draws w \<and> w_ticks w' = w_ticks w"

lemma same_rest_refl [simp]: "same_rest w w"
  by (simp add: same_rest_def)

lemma same_rest_trans: "same_rest w w' \<Longrightarrow> same_rest w' w'' \<Longrightarrow> same_rest w w''"
  by (simp add: same_rest_def)

lemma stmt_cases:
  assumes "stmt f w = (r, w')"
  shows "same_rest w w' \<and>
    (case r of Inr _ \<Rightarrow> w_graph w' = f (w_graph w) | Inl e \<Rightarrow> w_graph w' \<in> {w_graph w, f (w_graph w)})"
  using assms by (auto simp: stmt_def same_rest_def split: list.splits fault.splits)

lemma promote_statements_cases:
  assumes "promote_statements t s w = (r, w')"
  shows "same_rest w w' \<and>
    (case r of
       Inr _ \<Rightarrow> w_graph w' = promote_all t s (w_graph w)
     | Inl e \<Rightarrow> w_graph w' \<in> {w_graph w, deactivate_query t (w_graph w),
         promote_query t s (deactivate_query t (w_graph w)), promote_all t s (w_graph w)})"
proof -
  obtain r1 w1 where 1: "stmt (deactivate_query t) w = (r1, w1)" by (cases "stmt (deactivate_query t) w")
  obtain r2 w2 where 2: "stmt (promote_query t s) w1 = (r2, w2)" by (cases "stmt (promote_query t s) w1")
  obtain r3 w3 where 3: "stmt (cleanup_query t s) w2 = (r3, w3)" by (cases "stmt (cleanup_query t s) w2")
  note steps = stmt_cases [OF 1] stmt_cases [OF 2] stmt_cases [OF 3]
  show ?thesis
    using assms steps same_rest_trans
    by (cases r1; cases r2; cases r3)
      (auto simp: promote_statements_def bindC_run ask_graph_def 1 2 3 promote_all_def
        intro: same_rest_trans)
qed

lemma promote_retried:
  assumes "retry_from k (promote_statements t s) prev w = (r, w')"
  shows "same_rest w w' \<and> promote_all t s (w_graph w') = promote_all t s (w_graph w) \<and>
    (case r of Inr _ \<Rightarrow> w_graph w' = promote_all t s (w_graph w) | Inl _ \<Rightarrow> True)"
  using assms
proof (induction k arbitrary: prev w)
  case 0
  then show ?case by auto
next
  case (Suc k)
  obtain r1 w1 where 1: "promote_statements t s w = (r1, w1)" by (cases "promote_statements t s w")
  have p: "same_rest w w1" "promote_all t s (w_graph w1) = promote_all t s (w_graph w)"
    using promote_statements_cases [OF 1] by (auto simp: promote_restart split: sum.splits)
  show ?case
  proof (cases r1)
    case (Inr x)
    then show ?thesis using Suc.prems 1 p promote_statements_cases [OF 1] by auto
  next
    case (Inl e)
    show ?thesis
    proof (cases "retryable e")
      case True
      then have "retry_from k (promote_statements t s) e w1 = (r, w')" using Suc.prems 1 Inl by simp
      from Suc.IH [OF this] show ?thesis using p by (auto intro: same_rest_trans split: sum.splits)
    next
      case False
      then show ?thesis using Suc.prems 1 Inl p by auto
    qed
  qed
qed

text \<open>
C2. Whatever faults the statements of a publication meet, with the statement applied or not, a retried
publication that reports success has changed the graph exactly as one undisturbed run; after one
that gives up, another run completes it to the same graph. Nothing but the graph is touched.
\<close>

theorem promote_with_retry_exact:
  assumes "retry_neo4j_operation k (promote_statements t s) w = (r, w')"
  shows "promote_all t s (w_graph w') = promote_all t s (w_graph w) \<and>
    w_redis w' = w_redis w \<and> w_db w' = w_db w \<and> w_tx w' = w_tx w \<and>
    (case r of Inr _ \<Rightarrow> w_graph w' = snd (promote_staging_to_active t s (w_graph w)) | Inl _ \<Rightarrow> True)"
  using promote_retried [OF assms [unfolded retry_neo4j_operation_def]]
  by (auto simp: same_rest_def split: sum.splits)

definition demo_world :: "ttl_state world" where
  "demo_world =
     \<lparr>w_graph = demo_graph, w_redis = ttl_empty, w_db = \<lparr>sd_snapshots = [], sd_pointers = []\<rparr>,
      w_tx = \<lparr>sd_snapshots = [], sd_pointers = []\<rparr>, w_draws = 0, w_ticks = 0,
      w_faults = [NoFault, FailAfter ''ServiceUnavailable'', FailBefore ''SessionExpired'']\<rparr>"

lemma demo_retry_ok:
  "\<exists>x. fst (retry_neo4j_operation DEFAULT_MAX_RETRIES (promote_statements ''t'' ''s2'') demo_world) = Inr x"
  by (simp add: retry_neo4j_operation_def DEFAULT_MAX_RETRIES_def demo_world_def numeral_3_eq_3
      promote_statements_def bindC_run stmt_def ask_graph_def retryable_def)

lemma promote_with_retry_exact_witness:
  "w_graph (snd (retry_neo4j_operation DEFAULT_MAX_RETRIES (promote_statements ''t'' ''s2'') demo_world)) =
     snd (promote_staging_to_active ''t'' ''s2'' demo_graph)"
proof -
  obtain r w' where rw: "retry_neo4j_operation DEFAULT_MAX_RETRIES (promote_statements ''t'' ''s2'') demo_world = (r, w')"
    by (cases "retry_neo4j_operation DEFAULT_MAX_RETRIES (promote_statements ''t'' ''s2'') demo_world")
  have "w_graph demo_world = demo_graph" by (simp add: demo_world_def)
  moreover obtain x where "r = Inr x" using demo_retry_ok rw by auto
  ultimately show ?thesis using promote_with_retry_exact [OF rw] unfolding rw by simp
qed

subsection \<open>Outcomes of a commit\<close>

text \<open>The snapshot a commit records.\<close>

definition new_snapshot :: "env \<Rightarrow> string option \<Rightarrow> string \<Rightarrow> string \<Rightarrow> 'r world \<Rightarrow> snapshot" where
  "new_snapshot E msg t u w =
     \<lparr>sn_id = ''ri.snap.'' @ env_uuid E (w_draws w),
      sn_parent = map_option ap_snapshot (get_active_pointer t (w_tx w)), sn_tenant = t,
      sn_message = msg, sn_author = u,
      sn_changes = entity_changes_of t (get_staging_nodes t (w_graph w)) (w_graph w),
      sn_data = Some (entity_data_of (get_staging_nodes t (w_graph w))),
      sn_created = env_now E (w_ticks w)\<rparr>"

lemma generate_snap [simp]: "generate_rid uuid ''snap'' = Inr (''ri.snap.'' @ uuid)"
  by (simp add: generate_rid_def VALID_RESOURCE_TYPES_def)

lemma publish_staged_run:
  assumes "publish_staged E msg t u w = (Inr snap, w')"
  shows "get_staging_nodes t (w_graph w) \<noteq> [] \<and> snap = new_snapshot E msg t u w \<and>
    sn_id snap \<notin> sn_id ` set (sd_snapshots (w_tx w)) \<and>
    (\<exists>w3 x. retry_neo4j_operation DEFAULT_MAX_RETRIES (promote_statements t (sn_id snap))
        (w\<lparr>w_draws := Suc (w_draws w), w_ticks := Suc (w_ticks w),
           w_tx := (w_tx w)\<lparr>sd_snapshots := sd_snapshots (w_tx w) @ [snap]\<rparr>\<rparr>) = (Inr x, w3) \<and>
      w' = session_commit (w3\<lparr>w_ticks := Suc (w_ticks w3),
          w_tx := set_active_pointer (env_now E (w_ticks w3)) t (sn_id snap) (w_tx w3)\<rparr>))"
  using assms
  by (auto simp: publish_staged_def bindC_ok_iff ask_graph_def draw_uuid_def ask_tx_def utcnow_def
      on_tx_def snap_create_def new_snapshot_def image_iff split: if_splits)

lemma publish_staged_ok:
  assumes "publish_staged E msg t u w = (Inr snap, w')"
  shows "get_staging_nodes t (w_graph w) \<noteq> []"
    and "snap = new_snapshot E msg t u w"
    and "w_graph w' = promote_all t (sn_id snap) (w_graph w)"
    and "w_redis w' = w_redis w"
    and "w_db w' = w_tx w'"
    and "\<exists>now. w_tx w' = set_active_pointer now t (sn_id snap)
           ((w_tx w)\<lparr>sd_snapshots := sd_snapshots (w_tx w) @ [snap]\<rparr>)"
    and "sn_id snap \<notin> sn_id ` set (sd_snapshots (w_tx w))"
proof -
  note run = publish_staged_run [OF assms]
  show "get_staging_nodes t (w_graph w) \<noteq> []" and "snap = new_snapshot E msg t u w"
    and "sn_id snap \<notin> sn_id ` set (sd_snapshots (w_tx w))"
    using run by blast+
  obtain w3 x where retry: "retry_neo4j_operation DEFAULT_MAX_RETRIES (promote_statements t (sn_id snap))
        (w\<lparr>w_draws := Suc (w_draws w), w_ticks := Suc (w_ticks w),
           w_tx := (w_tx w)\<lparr>sd_snapshots := sd_snapshots (w_tx w) @ [snap]\<rparr>\<rparr>) = (Inr x, w3)"
    and w': "w' = session_commit (w3\<lparr>w_ticks := Suc (w_ticks w3),
          w_tx := set_active_pointer (env_now E (w_ticks w3)) t (sn_id snap) (w_tx w3)\<rparr>)"
    using run by blast
  note p = promote_retried [OF retry [unfolded retry_neo4j_operation_def]]
  show "w_graph w' = promote_all t (sn_id snap) (w_graph w)" and "w_redis w' = w_redis w"
    and "w_db w' = w_tx w'"
    and "\<exists>now. w_tx w' = set_active_pointer now t (sn_id snap)
           ((w_tx w)\<lparr>sd_snapshots := sd_snapshots (w_tx w) @ [snap]\<rparr>)"
    using p by (auto simp: w' session_commit_def same_rest_def)
qed

lemma commit_staging_ok:
  assumes "commit_staging R E c msg w = Some (Inr resp, w')"
    and "get_tenant_id c = Inr t" and "get_user_id c = Inr u"
  obtains s1 snap w2 created where
    "rd_set_nx R (w_redis w) (commit_lock_key t) u COMMIT_LOCK_TTL_SECONDS = (True, s1)"
    and "publish_staged E msg t u (w\<lparr>w_redis := s1\<rparr>) = (Inr snap, w2)"
    and "resp = to_response snap created"
    and "w_graph w' = w_graph w2" and "w_db w' = w_db w2" and "w_tx w' = w_tx w2"
proof -
  obtain acquired s1 where nx: "rd_set_nx R (w_redis w) (commit_lock_key t) u COMMIT_LOCK_TTL_SECONDS = (acquired, s1)"
    by (cases "rd_set_nx R (w_redis w) (commit_lock_key t) u COMMIT_LOCK_TTL_SECONDS")
  obtain r w2 where p: "publish_staged E msg t u (w\<lparr>w_redis := s1\<rparr>) = (r, w2)"
    by (cases "publish_staged E msg t u (w\<lparr>w_redis := s1\<rparr>)")
  show ?thesis
    using that assms p nx
    by (auto simp: commit_staging_def Let_def utcnow_def split: sum.splits if_splits option.splits)
qed

lemma single_new:
  assumes "k \<notin> f ` set xs" and "f x = k"
  shows "single (filter (\<lambda>y. f y = k) (xs @ [x])) = Some x"
proof -
  have "filter (\<lambda>y. f y = k) xs = []" using assms(1) by (auto simp: filter_empty_conv)
  then show ?thesis using assms(2) by simp
qed

lemma snapshots_set_pointer [simp]: "sd_snapshots (set_active_pointer now t sid db) = sd_snapshots db"
  by (simp add: set_active_pointer_def split: option.splits)

lemma pointer_set_pointer:
  "map_option ap_snapshot (get_active_pointer t (set_active_pointer now t sid db)) = Some sid"
  using set_pointer_get [of t now t sid db] by simp

text \<open>
C6. A commit that succeeds found something staged; it leaves the graph as the publication statements
make it, whatever faults they met, the new snapshot as a committed row that names the previous
active snapshot as its parent, the author and what was staged, and the tenant's active pointer on
it.
\<close>

theorem commit_publishes:
  assumes "commit_staging R E c msg w = Some (Inr resp, w')"
    and "get_tenant_id c = Inr t" and "get_user_id c = Inr u"
  shows "get_staging_nodes t (w_graph w) \<noteq> [] \<and>
    w_graph w' = snd (promote_staging_to_active t (sr_id resp) (w_graph w)) \<and>
    map_option ap_snapshot (get_active_pointer t (w_db w')) = Some (sr_id resp) \<and>
    snap_get_by_id (sr_id resp) (w_db w') = Some (new_snapshot E msg t u w) \<and>
    sr_parent resp = map_option ap_snapshot (get_active_pointer t (w_tx w)) \<and> w_tx w' = w_db w'"
proof -
  obtain s1 snap w2 created where
    p: "publish_staged E msg t u (w\<lparr>w_redis := s1\<rparr>) = (Inr snap, w2)"
    and resp: "resp = to_response snap created"
    and w': "w_graph w' = w_graph w2" "w_db w' = w_db w2" "w_tx w' = w_tx w2"
    by (rule commit_staging_ok [OF assms])
  note ok = publish_staged_ok [OF p]
  have snap: "snap = new_snapshot E msg t u w" using ok(2) by (simp add: new_snapshot_def)
  obtain now where tx: "w_tx w2 = set_active_pointer now t (sn_id snap)
           ((w_tx w)\<lparr>sd_snapshots := sd_snapshots (w_tx w) @ [snap]\<rparr>)"
    using ok(6) by auto
  have found: "snap_get_by_id (sn_id snap) (w_tx w2) = Some snap"
    using ok(7) single_new [of "sn_id snap" sn_id "sd_snapshots (w_tx w)" snap]
    by (simp add: snap_get_by_id_def tx)
  have "sn_parent snap = map_option ap_snapshot (get_active_pointer t (w_tx w))"
    by (simp add: snap new_snapshot_def)
  moreover have "sr_id resp = sn_id snap" "sr_parent resp = sn_parent snap"
    by (simp_all add: resp to_response_def)
  moreover have "map_option ap_snapshot (get_active_pointer t (w_tx w2)) = Some (sn_id snap)"
    unfolding tx by (rule pointer_set_pointer)
  ultimately show ?thesis
    using ok(1,3,5) w' found unfolding snap [symmetric] by simp
qed

definition demo_env :: env where
  "demo_env = \<lparr>env_uuid = (\<lambda>n. ''0000000'' @ nat_str n @ ''-0000-0000-0000-000000000000''),
               env_now = (\<lambda>n. ''2024-01-01T00:00:0'' @ nat_str n)\<rparr>"

definition demo_ctx :: "string \<Rightarrow> string \<Rightarrow> ctx" where
  "demo_ctx t u = \<lparr>ctx_user_id = Some u, ctx_tenant_id = Some t, ctx_role = None, ctx_request_id = None\<rparr>"

lemma demo_ctx_ids [simp]: "get_tenant_id (demo_ctx t u) = Inr t" "get_user_id (demo_ctx t u) = Inr u"
  by (simp_all add: demo_ctx_def get_tenant_id_def get_user_id_def)

lemma promote_no_faults:
  "w_faults w = [] \<Longrightarrow> \<exists>n. promote_statements t s w = (Inr n, w\<lparr>w_graph := promote_all t s (w_graph w)\<rparr>)"
  by (simp add: promote_statements_def bindC_run stmt_def ask_graph_def promote_all_def)

lemma publish_staged_succeeds:
  assumes "get_staging_nodes t (w_graph w) \<noteq> []" and "w_faults w = []" and "sd_snapshots (w_tx w) = []"
  shows "\<exists>snap w'. publish_staged E msg t u w = (Inr snap, w')"
proof -
  have "retry_neo4j_operation DEFAULT_MAX_RETRIES (promote_statements t s) v =
      promote_statements t s v" if "w_faults v = []" for s and v :: "'a world"
    using promote_no_faults [OF that, of t s] by (auto simp: retry_neo4j_operation_def)
  moreover have "\<exists>x v'. promote_statements t s v = (Inr x, v')" if "w_faults v = []" for s and v :: "'a world"
    using promote_no_faults [OF that] by blast
  ultimately show ?thesis
    using assms
    by (simp add: publish_staged_def bindC_ok_iff ask_graph_def draw_uuid_def ask_tx_def utcnow_def
        on_tx_def snap_create_def)
qed

context redis
begin

lemma schema_published_returns: "\<exists>s'. on_schema_published R t sid s = Some s'"
  using scan_delete_returns by (auto simp: on_schema_published_def)

lemma commit_outcome:
  assumes "get_tenant_id c = Inr t" and "get_user_id c = Inr u"
  shows "\<exists>r w'. commit_staging R E c msg w = Some (r, w') \<and>
    (if rd_get R (w_redis w) (commit_lock_key t) = None
     then rd_get R (w_redis w') (commit_lock_key t) = None
     else r = Inl (AppError ONTOLOGY_LOCK_CONFLICT ''Another commit is in progress'' []) \<and> w' = w)"
proof (cases "rd_get R (w_redis w) (commit_lock_key t)")
  case (Some v)
  then have "rd_set_nx R (w_redis w) (commit_lock_key t) u COMMIT_LOCK_TTL_SECONDS = (False, w_redis w)"
    by (rule set_nx_taken)
  then show ?thesis using Some assms by (simp add: commit_staging_def)
next
  case None
  obtain s1 where nx: "rd_set_nx R (w_redis w) (commit_lock_key t) u COMMIT_LOCK_TTL_SECONDS = (True, s1)"
    using set_nx_free [OF None, of COMMIT_LOCK_TTL_SECONDS u]
    by (cases "rd_set_nx R (w_redis w) (commit_lock_key t) u COMMIT_LOCK_TTL_SECONDS") auto
  obtain r w2 where p: "publish_staged E msg t u (w\<lparr>w_redis := s1\<rparr>) = (r, w2)"
    by (cases "publish_staged E msg t u (w\<lparr>w_redis := s1\<rparr>)")
  show ?thesis
  proof (cases r)
    case (Inl e)
    then show ?thesis using None assms p nx by (simp add: commit_staging_def delete_get)
  next
    case (Inr snap)
    obtain s3 where "on_schema_published R t (sn_id snap) (w_redis w2) = Some s3"
      using schema_published_returns by blast
    then show ?thesis
      using None assms p nx Inr by (simp add: commit_staging_def utcnow_def delete_get)
  qed
qed

end

lemma demo_commit_ok:
  "\<exists>resp w'. commit_staging ttl_redis demo_env (demo_ctx ''t'' ''ann'') None (demo_world\<lparr>w_faults := []\<rparr>)
     = Some (Inr resp, w')"
proof -
  let ?w = "demo_world\<lparr>w_faults := []\<rparr>"
  have nx: "rd_set_nx ttl_redis (w_redis ?w) k u t = (True, ttl_setex ttl_empty k t u)" for k u t
    by (simp add: ttl_redis_def ttl_set_nx_def ttl_get_def ttl_live_def ttl_empty_def demo_world_def)
  have "get_staging_nodes ''t'' (w_graph ?w) \<noteq> []"
    by (simp add: get_staging_nodes_def demo_world_def demo_eval)
  then have "\<exists>snap w'. publish_staged demo_env None ''t'' ''ann'' (?w\<lparr>w_redis := s\<rparr>) = (Inr snap, w')" for s
    by (intro publish_staged_succeeds) (simp_all add: demo_world_def)
  then obtain snap w2 where p: "publish_staged demo_env None ''t'' ''ann''
      (?w\<lparr>w_redis := ttl_setex ttl_empty (commit_lock_key ''t'') COMMIT_LOCK_TTL_SECONDS ''ann''\<rparr>) = (Inr snap, w2)"
    by blast
  obtain s3 where "on_schema_published ttl_redis ''t'' (sn_id snap) (w_redis w2) = Some s3"
    using ttl.schema_published_returns by blast
  then show ?thesis using p nx by (simp add: commit_staging_def utcnow_def)
qed

lemma commit_publishes_witness:
  "\<exists>resp w'. commit_staging ttl_redis demo_env (demo_ctx ''t'' ''ann'') None (demo_world\<lparr>w_faults := []\<rparr>)
       = Some (Inr resp, w') \<and>
     map_option ap_snapshot (get_active_pointer ''t'' (w_db w')) = Some (sr_id resp)"
  using demo_commit_ok commit_publishes demo_ctx_ids by metis

text \<open>
C7. A commit always returns. If no other commit of the tenant holds the commit lock, the lock is free
again afterwards, whether the commit succeeded or failed; if one does, the commit is refused and
nothing is changed.
\<close>

theorem commit_returns_and_frees_lock:
  assumes "redis R rank" and "get_tenant_id c = Inr t" and "get_user_id c = Inr u"
  shows "\<exists>r w'. commit_staging R E c msg w = Some (r, w') \<and>
    (if rd_get R (w_redis w) (commit_lock_key t) = None
     then rd_get R (w_redis w') (commit_lock_key t) = None
     else r = Inl (AppError ONTOLOGY_LOCK_CONFLICT ''Another commit is in progress'' []) \<and> w' = w)"
  by (rule redis.commit_outcome [OF assms])

lemma commit_returns_and_frees_lock_witness:
  "\<exists>r w'. commit_staging ttl_redis demo_env (demo_ctx ''t'' ''ann'') None demo_world = Some (r, w') \<and>
     rd_get ttl_redis (w_redis w') (commit_lock_key ''t'') = None"
proof -
  have "rd_get ttl_redis (w_redis demo_world) (commit_lock_key ''t'') = None"
    by (simp add: ttl_redis_def ttl_get_def ttl_live_def ttl_empty_def demo_world_def)
  then show ?thesis
    using commit_returns_and_frees_lock [OF ttl.redis_axioms demo_ctx_ids(1) [of "''t''" "''ann''"]
        demo_ctx_ids(2), where E = demo_env and msg = None
        and w = demo_world]
    by simp
qed

lemma promote_retry_op:
  assumes "retry_neo4j_operation k (promote_statements t s) w = (r, w')"
  shows "same_rest w w' \<and> promote_all t s (w_graph w') = promote_all t s (w_graph w)"
  using promote_retried [OF assms [unfolded retry_neo4j_operation_def]] by simp

lemma publish_staged_err:
  assumes "publish_staged E msg t u w = (Inl e, w')"
  shows "w_db w' = w_db w \<and>
    promote_all t (sn_id (new_snapshot E msg t u w)) (w_graph w') =
    promote_all t (sn_id (new_snapshot E msg t u w)) (w_graph w)"
  using assms
  by (auto dest!: promote_retry_op simp: publish_staged_def bindC_err_iff ask_graph_def draw_uuid_def ask_tx_def utcnow_def
      on_tx_def snap_create_def new_snapshot_def same_rest_def
      split: if_splits)

text \<open>
A commit that fails leaves the database as it was, and the graph in a state from which running
the publication statements for the same snapshot leads to where they would have led at once.
\<close>

theorem commit_failure_recoverable:
  assumes "commit_staging R E c msg w = Some (Inl e, w')"
    and "get_tenant_id c = Inr t" and "get_user_id c = Inr u"
  shows "w_db w' = w_db w \<and>
    snd (promote_staging_to_active t (sn_id (new_snapshot E msg t u w)) (w_graph w')) =
    snd (promote_staging_to_active t (sn_id (new_snapshot E msg t u w)) (w_graph w))"
proof -
  obtain acquired s1 where nx: "rd_set_nx R (w_redis w) (commit_lock_key t) u COMMIT_LOCK_TTL_SECONDS = (acquired, s1)"
    by (cases "rd_set_nx R (w_redis w) (commit_lock_key t) u COMMIT_LOCK_TTL_SECONDS")
  obtain r w2 where p: "publish_staged E msg t u (w\<lparr>w_redis := s1\<rparr>) = (r, w2)"
    by (cases "publish_staged E msg t u (w\<lparr>w_redis := s1\<rparr>)")
  show ?thesis
    using assms p nx publish_staged_err [of E msg t u "w\<lparr>w_redis := s1\<rparr>"]
    by (auto simp: commit_staging_def new_snapshot_def Let_def utcnow_def
        split: sum.splits if_splits option.splits)
qed

lemma commit_failure_recoverable_witness:
  "\<exists>e w'. commit_staging ttl_redis demo_env (demo_ctx ''t'' ''ann'') None (demo_world\<lparr>w_graph := empty_graph\<rparr>)
       = Some (Inl e, w') \<and> w_db w' = w_db demo_world"
proof -
  have "\<exists>e w'. commit_staging ttl_redis demo_env (demo_ctx ''t'' ''ann'') None (demo_world\<lparr>w_graph := empty_graph\<rparr>)
      = Some (Inl e, w')"
    by (auto simp: commit_staging_def publish_staged_def bindC_run ask_graph_def get_staging_nodes_def
        empty_graph_def Let_def split: prod.splits)
  then show ?thesis using commit_failure_recoverable demo_ctx_ids by fastforce
qed

end
