(* ===== verification/Ontology_Reach.thy ===== *)
theory Ontology_Reach
  imports Ontology_Commit
begin

section \<open>What holds in every state the service reaches\<close>

text \<open>
  Reachable states of the machine of \<open>Ontology_Machine\<close>: from empty stores, by requests of any users
  of any tenants in any order, with time passing on the key-value server and faults announced for
  the statements of publications in between. Invariants by rule induction, and what a request can
  and cannot change from a reachable state on.
\<close>

subsection \<open>Reachable states\<close>

definition start_world :: "'r \<Rightarrow> 'r world" where
  "start_world s =
     \<lparr>w_graph = empty_graph, w_redis = s, w_db = \<lparr>sd_snapshots = [], sd_pointers = []\<rparr>,
      w_tx = \<lparr>sd_snapshots = [], sd_pointers = []\<rparr>, w_draws = 0, w_ticks = 0, w_faults = []\<rparr>"

inductive reachable :: "'r redis_ops \<Rightarrow> env \<Rightarrow> 'r world \<Rightarrow> bool" for R E where
  start: "reachable R E (start_world s)"
| request: "reachable R E w \<Longrightarrow> get_tenant_id c = Inr t \<Longrightarrow> get_user_id c = Inr u \<Longrightarrow> schema_ok q \<Longrightarrow>
    serve R E c q w = Some (r, w') \<Longrightarrow> reachable R E w'"
| environment: "reachable R E w \<Longrightarrow>
    reachable R E (w\<lparr>w_redis := rd_tick R (w_redis w) d, w_faults := fs\<rparr>)"

lemma reachable_ok: "reachable R E w \<Longrightarrow> graph_ok (w_graph w)"
proof (induction rule: reachable.induct)
  case (start s)
  show ?case by (simp add: start_world_def graph_ok_def empty_graph_def)
next
  case (request w c t u q r w')
  then show ?case using serve_any [of R E c q w r w' t u] by (simp add: moved_def)
next
  case (environment w d fs)
  then show ?case by simp
qed

text \<open>
C8. In every reachable state each version has its identity, is at most one of Draft and Staging, has an
owner exactly while it is a Draft and a definite deletion mark, no two nodes share an identifier,
and every edge joins two nodes of the graph.
\<close>

theorem reachable_well_formed:
  assumes "reachable R E w"
  shows "list_all version_ok (gnodes (w_graph w)) \<and> distinct (map nid (gnodes (w_graph w))) \<and>
    list_all (\<lambda>e. {esrc e, edst e} \<subseteq> nid ` set (gnodes (w_graph w))) (gedges (w_graph w))"
  using reachable_ok [OF assms] by (auto simp: graph_ok_def list_all_iff)

definition demo_props :: "pyval dict" where
  "demo_props = [(''api_name'', PStr ''order''), (''display_name'', PStr ''Order'')]"

text \<open>The state after a user has created an object type.\<close>

definition one_draft :: "ttl_state world" where
  "one_draft = snd (the (serve ttl_redis demo_env (demo_ctx ''t'' ''ann'') (Create ''ObjectType'' demo_props)
     (start_world ttl_empty)))"

lemma reachable_one_draft: "reachable ttl_redis demo_env one_draft"
proof -
  obtain r w' where s: "serve ttl_redis demo_env (demo_ctx ''t'' ''ann'') (Create ''ObjectType'' demo_props)
     (start_world ttl_empty) = Some (r, w')"
    by (cases "outcome (end_session (create_entity demo_env (demo_ctx ''t'' ''ann'') ''ObjectType'' demo_props
      (start_world ttl_empty)))") (auto simp: start_world_def)
  have "reachable ttl_redis demo_env w'"
    by (rule reachable.request [OF reachable.start demo_ctx_ids _ s]) (simp add: demo_props_def dict_ok_def)
  then show ?thesis by (simp only: one_draft_def s option.sel snd_conv)
qed

lemma reachable_well_formed_witness:
  "list_all version_ok (gnodes (w_graph one_draft)) \<and> distinct (map nid (gnodes (w_graph one_draft)))"
  using reachable_well_formed [OF reachable_one_draft] by simp

subsection \<open>Tenants\<close>

lemma moves_others: "(any_move t u)\<^sup>*\<^sup>* g g' \<Longrightarrow> others t g' = others t g"
  by (induction rule: rtranclp_induct)
    (auto simp: any_move_def dest: edit_move_others publish_move_others)

text \<open>
C9. No request, whatever it is and whether it succeeds or fails, changes, adds or removes a version of
a tenant other than the one it was made in.
\<close>

theorem requests_stay_in_tenant:
  assumes "reachable R E w" and "get_tenant_id c = Inr t" and "get_user_id c = Inr u"
    and "schema_ok q" and "serve R E c q w = Some (r, w')"
  shows "filter (\<lambda>n. \<not> tenant_is n t) (gnodes (w_graph w')) =
         filter (\<lambda>n. \<not> tenant_is n t) (gnodes (w_graph w))"
  using serve_any [OF assms(5,4,2,3)] reachable_ok [OF assms(1)] moves_others
  by (auto simp: moved_def others_def)

lemma requests_stay_in_tenant_witness:
  "\<exists>r w'. serve ttl_redis demo_env (demo_ctx ''other'' ''bob'') DiscardAll one_draft = Some (r, w') \<and>
     filter (\<lambda>n. \<not> tenant_is n ''other'') (gnodes (w_graph w')) =
     filter (\<lambda>n. \<not> tenant_is n ''other'') (gnodes (w_graph one_draft))"
proof -
  let ?s = "serve ttl_redis demo_env (demo_ctx ''other'' ''bob'') DiscardAll one_draft"
  obtain r w' where s: "?s = Some (r, w')" by (metis serve.simps(14) surj_pair)
  have "filter (\<lambda>n. \<not> tenant_is n ''other'') (gnodes (w_graph w')) =
     filter (\<lambda>n. \<not> tenant_is n ''other'') (gnodes (w_graph one_draft))"
    by (rule requests_stay_in_tenant [OF reachable_one_draft demo_ctx_ids _ s]) simp
  then show ?thesis using s by blast
qed

subsection \<open>What is published\<close>





subsection \<open>Relations between entities\<close>




end
