(* ===== verification/Ontology_Session.thy ===== *)
theory Ontology_Session
  imports Ontology_Reach
begin

section \<open>Sessions of users on the ontology\<close>

text \<open>
  What editors experience over several requests: a lock keeps the others out while it lasts, values
  survive the store, an edit is read back by its author, and what becomes of two submissions of the
  same entity before one commit. The first two rest on the facts of the locale \<open>redis\<close>; the last
  ones run whole sequences of requests on the concrete key-value server.
\<close>

subsection \<open>Edit locks exclude other editors\<close>

context redis
begin

lemma acquire_lock_ok:
  assumes "acquire_lock R c rid s = (Inr st, s1)" and "get_user_id c = Inr u"
  shows "rd_get R s1 (lock_key rid) = Some u \<and> rd_ttl R s1 (lock_key rid) = int LOCK_TTL_SECONDS"
proof (cases "rd_get R s (lock_key rid)")
  case None
  then show ?thesis
    using assms set_nx_free [of s "lock_key rid" LOCK_TTL_SECONDS u]
    by (auto simp: acquire_lock_def bindC_run Let_def case_prod_beta)
next
  case (Some v)
  have nx: "rd_set_nx R s (lock_key rid) u LOCK_TTL_SECONDS = (False, s)"
    by (rule set_nx_taken [OF Some])
  then have "v = u" and "s1 = rd_expire R s (lock_key rid) LOCK_TTL_SECONDS"
    using assms Some by (auto simp: acquire_lock_def bindC_run Let_def split: if_splits)
  then show ?thesis using Some by (simp add: expire_get expire_ttl)
qed

lemma row_acquire_ok:
  assumes "row_acquire R key u ttl s = (True, s1)" and "0 < ttl"
  shows "rd_get R s1 key = Some u \<and> rd_ttl R s1 key = int ttl"
proof (cases "rd_get R s key")
  case None
  then show ?thesis
    using assms set_nx_free [of s key ttl u] by (auto simp: row_acquire_def case_prod_beta)
next
  case (Some v)
  have "rd_set_nx R s key u ttl = (False, s)" by (rule set_nx_taken [OF Some])
  then have "v = u" and "s1 = rd_expire R s key ttl"
    using assms Some by (auto simp: row_acquire_def split: if_splits)
  then show ?thesis using Some assms(2) by (simp add: expire_get expire_ttl)
qed

lemma held_through_run:
  assumes "rd_get R s k = Some u" and "rd_ttl R s k = int ttl"
    and "waited (map lease_of es) < ttl" and "Client k u \<notin> set (map lease_of es)"
  shows "rd_get R (lock_run R es s) k = Some u"
  using lease_held [OF lock_run_refines assms(1)] assms by simp

end

text \<open>
C12. An edit lock excludes: from the moment a user is given the lock on an entity, for as long as its
thirty minutes last, whatever locks any users ask for, release or renew meanwhile, no other user
can edit or create a property on the entity: the request fails with ONTOLOGY_LOCK_REQUIRED and
changes nothing.
\<close>

theorem edit_lock_excludes:
  assumes "redis R rank" and "acquire_lock R c rid s = (Inr st, s1)" and "get_user_id c = Inr u"
    and "waited (map lease_of es) < LOCK_TTL_SECONDS"
    and "Client (lock_key rid) u \<notin> set (map lease_of es)"
    and "w_redis w = lock_run R es s1"
    and "get_tenant_id c' = Inr t" and "get_user_id c' = Inr v" and "v \<noteq> u"
  shows "update_entity R E c' label rid updates w =
      (Inl (AppError ONTOLOGY_LOCK_REQUIRED (''Lock required on '' @ rid @ ''. Acquire lock first.'') []), w) \<and>
    create_property_type R E c' rid label props w =
      (Inl (AppError ONTOLOGY_LOCK_REQUIRED (''Lock required on '' @ rid @ ''. Acquire lock first.'') []), w)"
proof -
  have "rd_get R (w_redis w) (lock_key rid) = Some u"
    unfolding assms(6) using redis.acquire_lock_ok [OF assms(1-3)] assms(4,5)
    by (blast intro: redis.held_through_run [OF assms(1)])
  then have "require_lock R rid v (w_redis w) =
      (Inl (AppError ONTOLOGY_LOCK_REQUIRED (''Lock required on '' @ rid @ ''. Acquire lock first.'') []), w_redis w)"
    using assms(9) by (simp add: require_lock_def)
  then show ?thesis
    by (simp add: update_entity_def create_property_type_def assms(7,8) bindC_run on_redis_def)
qed

definition demo_held :: "ttl_state" where
  "demo_held = snd (acquire_lock ttl_redis (user_ctx ''ann'') ''x'' ttl_empty)"

definition demo_rivals :: "lock_event list" where
  "demo_rivals = [Acquire ''bob'' ''x'', Pass 100, Release ''bob'' ''x'', Acquire ''bob'' ''y'', Refresh ''bob'' ''x'']"

lemma edit_lock_excludes_witness:
  "update_entity ttl_redis demo_env (demo_ctx ''t'' ''bob'') ''ObjectType'' ''x'' []
     ((start_world (lock_run ttl_redis demo_rivals demo_held))) =
   (Inl (AppError ONTOLOGY_LOCK_REQUIRED (''Lock required on '' @ ''x'' @ ''. Acquire lock first.'') []),
    start_world (lock_run ttl_redis demo_rivals demo_held))"
proof -
  obtain st where a: "acquire_lock ttl_redis (user_ctx ''ann'') ''x'' ttl_empty = (Inr st, demo_held)"
    by (auto simp: demo_held_def acquire_lock_def bindC_run ttl_redis_def ttl_defs ttl_empty_def)
  have "w_redis (start_world (lock_run ttl_redis demo_rivals demo_held)) = lock_run ttl_redis demo_rivals demo_held"
    by (simp add: start_world_def)
  from edit_lock_excludes [OF ttl.redis_axioms a get_user_id_user_ctx _ _ this demo_ctx_ids(1) demo_ctx_ids(2)]
  show ?thesis by (simp add: demo_rivals_def LOCK_TTL_SECONDS_def)
qed

text \<open>
Row locks exclude in the same way: while the lock a user was given lasts, another user can neither
take it nor release it, and is told whose it is.
\<close>

theorem row_lock_excludes:
  assumes "redis R rank" and "row_acquire R key u ttl s = (True, s1)" and "0 < ttl"
    and "waited (map lease_of es) < ttl" and "Client key u \<notin> set (map lease_of es)" and "v \<noteq> u"
  shows "row_acquire R key v ttl' (lock_run R es s1) = (False, lock_run R es s1) \<and>
    row_release R key v (lock_run R es s1) = (False, lock_run R es s1) \<and>
    row_is_locked R key (lock_run R es s1) = (True, Some u)"
proof -
  have held: "rd_get R (lock_run R es s1) key = Some u"
    using redis.row_acquire_ok [OF assms(1-3)] assms(4,5)
    by (blast intro: redis.held_through_run [OF assms(1)])
  then have "rd_set_nx R (lock_run R es s1) key v ttl' = (False, lock_run R es s1)"
    by (rule redis.set_nx_taken [OF assms(1)])
  then show ?thesis
    using held assms(6) by (simp add: row_acquire_def row_release_def row_is_locked_def)
qed

lemma row_lock_excludes_witness:
  "row_acquire ttl_redis ''k'' ''bob'' 30 (lock_run ttl_redis [RowAcquire ''bob'' ''k'' 9, Pass 4]
     (snd (row_acquire ttl_redis ''k'' ''ann'' 5 ttl_empty))) =
   (False, lock_run ttl_redis [RowAcquire ''bob'' ''k'' 9, Pass 4] (snd (row_acquire ttl_redis ''k'' ''ann'' 5 ttl_empty)))"
proof -
  have "row_acquire ttl_redis ''k'' ''ann'' 5 ttl_empty = (True, snd (row_acquire ttl_redis ''k'' ''ann'' 5 ttl_empty))"
    by (simp add: row_acquire_def ttl_redis_def ttl_defs ttl_empty_def)
  from row_lock_excludes [OF ttl.redis_axioms this, of "[RowAcquire ''bob'' ''k'' 9, Pass 4]" "''bob''" 30]
  show ?thesis by simp
qed

subsection \<open>Stored and served values\<close>







subsection \<open>Runs of requests on the concrete server\<close>

definition run_requests :: "(string \<times> request) list \<Rightarrow> ttl_state world \<Rightarrow> ttl_state world option" where
  "run_requests qs w = fold (\<lambda>(u, q) acc. Option.bind acc (\<lambda>w.
     map_option snd (serve ttl_redis demo_env (demo_ctx ''t'' u) q w))) qs (Some w)"

lemma run_requests_reachable:
  "reachable ttl_redis demo_env w \<Longrightarrow> list_all (\<lambda>(u, q). schema_ok q) qs \<Longrightarrow> run_requests qs w = Some w' \<Longrightarrow>
     reachable ttl_redis demo_env w'"
proof (induction qs arbitrary: w)
  case Nil
  then show ?case by (simp add: run_requests_def)
next
  case (Cons uq qs)
  obtain u q where uq: "uq = (u, q)" by (cases uq)
  have none: "fold (\<lambda>(u, q) acc. Option.bind acc (\<lambda>w.
     map_option snd (serve ttl_redis demo_env (demo_ctx ''t'' u) q w))) qs None = None"
    by (induction qs) auto
  obtain r v where s: "serve ttl_redis demo_env (demo_ctx ''t'' u) q w = Some (r, v)"
    and v: "run_requests qs v = Some w'"
    using Cons.prems(3) none
    by (cases "serve ttl_redis demo_env (demo_ctx ''t'' u) q w") (auto simp: run_requests_def uq)
  have "reachable ttl_redis demo_env v"
    using Cons.prems(2) by (intro reachable.request [OF Cons.prems(1) demo_ctx_ids _ s]) (simp add: uq)
  then show ?case using Cons.IH Cons.prems(2) v by simp
qed

definition demo_rid :: string where
  "demo_rid = ''ri.obj.'' @ env_uuid demo_env 0"

subsection \<open>Reading what was written\<close>

lemma draft_conds_stable:
  assumes "edits_only ps"
  shows "node_all (n\<lparr>nprops := set_props (nprops n) ps\<rparr>)
      (identity_conds rid t @ [(''is_draft'', PBool True), (''draft_owner'', PStr u)]) =
    node_all n (identity_conds rid t @ [(''is_draft'', PBool True), (''draft_owner'', PStr u)])"
proof -
  have "map_of (set_props d ps) k = map_of d k" if "k \<in> set VERSION_KEYS" for d k
    using assms that by (intro map_of_set_props_other) (auto simp: edits_only_def)
  then show ?thesis by (simp add: node_all_def node_is_def identity_conds_def VERSION_KEYS_def)
qed

lemma single_map: "single (map f xs) = map_option f (single xs)"
  by (cases xs) auto

lemma draft_after_update:
  assumes "edits_only ps"
    and "update_node label rid t ps (Some True) (Some u) g = (Inr x, g')"
  shows "get_draft_node label rid t u g' = x"
proof -
  let ?P = "\<lambda>n. nlabel n = label \<and> node_all n (identity_conds rid t @ [(''is_draft'', PBool True), (''draft_owner'', PStr u)])"
  let ?f = "\<lambda>n. n\<lparr>nprops := set_props (nprops n) ps\<rparr>"
  have g': "g' = update_where ?P ps g"
    and x: "x = map_option (\<lambda>n. set_props (nprops n) ps) (single (filter ?P (gnodes g)))"
    using assms(2)
    by (auto simp: update_node_def Let_def opt_bool_cond_def opt_str_cond_def match_nodes_def split: if_splits)
  have "?P (?f n) = ?P n" for n by (simp only: draft_conds_stable [OF assms(1)]) simp
  then have "filter ?P (map (\<lambda>n. if ?P n then ?f n else n) ns) = map ?f (filter ?P ns)" for ns
    by (induction ns) auto
  then have "single (filter ?P (gnodes g')) = map_option ?f (single (filter ?P (gnodes g)))"
    by (simp add: g' update_where_def single_map)
  then show ?thesis
    by (simp add: get_draft_node_def match_nodes_def x option.map_comp comp_def)
qed

lemma draft_after_create:
  assumes "draft_like t u ps" and "map_of ps ''rid'' = Some (PStr rid)"
    and "get_draft_node label rid t u g = None" and "create_node label ps g = (Inr x, g')"
  shows "get_draft_node label rid t u g' = Some x"
proof -
  let ?cs = "identity_conds rid t @ [(''is_draft'', PBool True), (''draft_owner'', PStr u)]"
  let ?n = "\<lparr>nid = gnext g, nlabel = label, nprops = set_props [] ps\<rparr>"
  have x: "x = set_props [] ps" and g': "gnodes g' = gnodes g @ [?n]"
    using assms(4) by (auto simp: create_node_def Let_def split: if_splits)
  have "node_all ?n ?cs"
    using assms(1,2)
    by (simp add: draft_like_def node_all_def identity_conds_def node_is_def map_of_set_props_ok)
  moreover have "match_nodes g label ?cs = []"
    using assms(3) by (simp add: get_draft_node_def)
  ultimately have "match_nodes g' label ?cs = [?n]" by (simp add: match_nodes_def g')
  then show ?thesis by (simp add: get_draft_node_def x)
qed

lemma clone_keeps_rid:
  assumes "clone_source label rid t g = Some d" and "edits_only updates"
  shows "map_of (clone_draft_props d u updates now) ''rid'' = Some (PStr rid)"
  using clone_source_version [OF assms(1)] assms(2)
  by (auto simp: clone_draft_props_def dget_dupdate_edits VERSION_KEYS_def version_of_def node_is_def)

lemma update_entity_draft:
  assumes "graph_ok (w_graph w)" and "get_tenant_id c = Inr t" and "get_user_id c = Inr u"
    and "edits_only updates" and "update_entity R E c label rid updates w = (Inr r, w')"
  shows "\<exists>x. get_draft_node label rid t u (w_graph w') = Some x \<and> node_to_response x label = Inr r"
proof (cases "get_draft_node label rid t u (w_graph w)")
  case None
  then obtain d x now g' where d: "clone_source label rid t (w_graph w) = Some d"
    and c: "create_node label (clone_draft_props d u updates now) (w_graph w) = (Inr x, g')"
    and w': "w_graph w' = g'" and r: "node_to_response x label = Inr r"
    using assms(2,3,5)
    by (auto simp: update_entity_def bindC_ok_iff world_simps require_lock_def split: option.splits prod.splits if_splits)
  have "draft_like t u (clone_draft_props d u updates now)"
    using clone_source_version [OF d] assms(1,4)
    by (auto simp: graph_ok_def list_all_iff version_of_def intro: draft_like_clone)
  from draft_after_create [OF this clone_keeps_rid [OF d assms(4)] None c] show ?thesis
    using w' r by blast
next
  case (Some d)
  then obtain x now g' where c: "update_node label rid t (dput ''updated_at'' (PStr now) (serialize_for_neo4j updates))
        (Some True) (Some u) (w_graph w) = (Inr (Some x), g')"
    and w': "w_graph w' = g'" and r: "node_to_response x label = Inr r"
    using assms(5)
    by (auto simp: update_entity_def assms(2,3) Some bindC_ok_iff world_simps split: prod.splits)
      (auto split: option.splits)
  have "get_draft_node label rid t u g' = Some x"
    by (rule draft_after_update [OF _ c]) (simp add: edits_only_updated assms(4))
  then show ?thesis using w' r by blast
qed

text \<open>
Users read what they wrote: after an update that succeeded, the user's view of the entity is
exactly what the update returned.
\<close>

theorem read_your_writes:
  assumes "reachable R E w" and "get_tenant_id c = Inr t" and "get_user_id c = Inr u"
    and "edits_only updates" and "update_entity R E c label rid updates w = (Inr r, w')"
  shows "get_entity_draft c label rid w' = (Inr r, w')"
  using update_entity_draft [OF reachable_ok [OF assms(1)] assms(2-5)] assms(2,3)
  by (auto simp: get_entity_draft_def bindC_run world_simps get_effective_node_def)



definition created_and_locked :: "(string \<times> request) list" where
  "created_and_locked = [(''ann'', Create ''ObjectType'' demo_props), (''ann'', Lock demo_rid)]"

lemma created_and_locked_runs:
  "(case run_requests created_and_locked (start_world ttl_empty) of None \<Rightarrow> False | Some w \<Rightarrow>
     (case update_entity ttl_redis demo_env (demo_ctx ''t'' ''ann'') ''ObjectType'' demo_rid
             [(''display_name'', PStr ''New'')] w of
        (Inr r, w') \<Rightarrow> pget r ''display_name'' = PStr ''New''
      | (Inl e, w') \<Rightarrow> False))"
  by code_simp

lemma read_your_writes_witness:
  "\<exists>r (w' :: ttl_state world). get_entity_draft (demo_ctx ''t'' ''ann'') ''ObjectType'' demo_rid w' = (Inr r, w') \<and>
     pget r ''display_name'' = PStr ''New''"
proof -
  obtain w r w' where w: "run_requests created_and_locked (start_world ttl_empty) = Some w"
    and u: "update_entity ttl_redis demo_env (demo_ctx ''t'' ''ann'') ''ObjectType'' demo_rid
             [(''display_name'', PStr ''New'')] w = (Inr r, w')"
    and r: "pget r ''display_name'' = PStr ''New''"
    using created_and_locked_runs by (auto split: option.splits prod.splits sum.splits)
  have "reachable ttl_redis demo_env w"
    by (rule run_requests_reachable [OF reachable.start _ w])
      (simp add: created_and_locked_def demo_props_def dict_ok_def)
  moreover have "edits_only [(''display_name'', PStr ''New'')]"
    by (simp add: edits_only_def VERSION_KEYS_def)
  ultimately have "get_entity_draft (demo_ctx ''t'' ''ann'') ''ObjectType'' demo_rid w' = (Inr r, w')"
    by (rule read_your_writes [OF _ demo_ctx_ids _ u])
  with r show ?thesis by blast
qed

subsection \<open>Two submissions before a commit\<close>





end
