(* ===== verification/Setting_Store.thy ===== *)
theory Setting_Store
  imports Infra
begin

section \<open>Setting: tables and repositories\<close>

text \<open>
  The six tables of \<open>setting/models.py\<close> and the queries of \<open>setting/repository/*.py\<close> on them. A
  table is the list of its rows in insertion order; primary keys, unique columns and foreign keys are
  checked by the insertion, which fails with the driver's \<open>IntegrityError\<close>. Instants are seconds;
  \<open>ORDER BY created_at DESC\<close> is a stable sort, so rows of the same instant keep the order of
  insertion (which SQL leaves open).
\<close>

subsection \<open>Rows\<close>

record user_row =
  us_rid :: string
  us_email :: string
  us_name :: string
  us_hash :: string
  us_status :: string
  us_created :: int
  us_updated :: int

record tenant_row =
  tn_rid :: string
  tn_name :: string
  tn_status :: string
  tn_config :: "pyval dict"
  tn_created :: int
  tn_updated :: int

record member_row =
  mb_user :: string
  mb_tenant :: string
  mb_role :: string
  mb_default :: bool
  mb_created :: int

record token_row =
  rt_hash :: string
  rt_user :: string
  rt_tenant :: string
  rt_expires :: int
  rt_revoked :: "int option"

record role_row =
  cr_rid :: string
  cr_tenant :: string
  cr_name :: string
  cr_desc :: "string option"
  cr_perms :: "pyval dict list"
  cr_system :: bool
  cr_created :: int
  cr_updated :: int

record audit_row =
  al_id :: int
  al_tenant :: string
  al_module :: string
  al_event :: string
  al_rtype :: "string option"
  al_rrid :: "string option"
  al_user :: string
  al_action :: string
  al_details :: "pyval dict option"
  al_request :: "string option"
  al_created :: int

record setdb =
  db_users :: "user_row list"
  db_tenants :: "tenant_row list"
  db_members :: "member_row list"
  db_tokens :: "token_row list"
  db_roles :: "role_row list"
  db_audit :: "audit_row list"
  db_next_log :: int

definition empty_db :: setdb where
  "empty_db = \<lparr>db_users = [], db_tenants = [], db_members = [], db_tokens = [], db_roles = [],
     db_audit = [], db_next_log = 1\<rparr>"

definition integrity_error :: exn where
  "integrity_error = DriverError ''IntegrityError''"

text \<open>\<open>scalar_one_or_none()\<close>: more than one row is an error.\<close>

definition one_or_none :: "'a list \<Rightarrow> 'a option res" where
  "one_or_none xs = (case xs of [] \<Rightarrow> Inr None | [x] \<Rightarrow> Inr (Some x) | _ \<Rightarrow> Inl (DriverError ''MultipleResultsFound''))"

type_synonym 'a tx = "(setdb, exn, 'a) comp"

definition ask_one :: "(setdb \<Rightarrow> 'a list) \<Rightarrow> 'a option tx" where
  "ask_one f d = (one_or_none (f d), d)"

definition newest :: "('a \<Rightarrow> int) \<Rightarrow> nat \<Rightarrow> nat \<Rightarrow> 'a list \<Rightarrow> 'a list \<times> nat" where
  "newest at offset limit rows = (page offset limit (sort_desc at rows), length rows)"

subsection \<open>Users\<close>

definition user_create :: "user_row \<Rightarrow> user_row tx" where
  "user_create u d =
     (if us_rid u \<in> us_rid ` set (db_users d) \<or> us_email u \<in> us_email ` set (db_users d)
      then (Inl integrity_error, d)
      else (Inr u, d\<lparr>db_users := db_users d @ [u]\<rparr>))"

definition user_get_by_rid :: "string \<Rightarrow> user_row option tx" where
  "user_get_by_rid rid = ask_one (\<lambda>d. filter (\<lambda>u. us_rid u = rid) (db_users d))"

definition user_get_by_email :: "string \<Rightarrow> user_row option tx" where
  "user_get_by_email email = ask_one (\<lambda>d. filter (\<lambda>u. us_email u = email) (db_users d))"

text \<open>The join of users with the memberships of a tenant.\<close>

definition users_of_tenant :: "string \<Rightarrow> setdb \<Rightarrow> user_row list" where
  "users_of_tenant tenant d =
     concat (map (\<lambda>u. map (\<lambda>m. u) (filter (\<lambda>m. mb_user m = us_rid u \<and> mb_tenant m = tenant) (db_members d)))
       (db_users d))"

definition user_list_by_tenant :: "string \<Rightarrow> nat \<Rightarrow> nat \<Rightarrow> setdb \<Rightarrow> user_row list \<times> nat" where
  "user_list_by_tenant tenant offset limit d = newest us_created offset limit (users_of_tenant tenant d)"

text \<open>The columns the service assigns.\<close>

definition user_assign :: "string \<times> string \<Rightarrow> user_row \<Rightarrow> user_row" where
  "user_assign kv u =
     (case kv of (k, v) \<Rightarrow>
        if k = ''display_name'' then u\<lparr>us_name := v\<rparr>
        else if k = ''status'' then u\<lparr>us_status := v\<rparr>
        else if k = ''password_hash'' then u\<lparr>us_hash := v\<rparr>
        else u)"

definition user_update_fields :: "string \<Rightarrow> string dict \<Rightarrow> int \<Rightarrow> user_row option tx" where
  "user_update_fields rid flds now =
     bindC (modifyC (\<lambda>d. d\<lparr>db_users := map (\<lambda>u. if us_rid u = rid
         then (fold user_assign flds u)\<lparr>us_updated := now\<rparr> else u) (db_users d)\<rparr>)) (\<lambda>_.
     user_get_by_rid rid)"

definition user_count_by_status :: "string \<Rightarrow> setdb \<Rightarrow> nat dict" where
  "user_count_by_status tenant d =
     fold (\<lambda>u acc. dput (us_status u) (Suc (dget_or acc (us_status u) 0)) acc) (users_of_tenant tenant d) []"

subsection \<open>Tenants\<close>

definition tenant_create :: "tenant_row \<Rightarrow> tenant_row tx" where
  "tenant_create t d =
     (if tn_rid t \<in> tn_rid ` set (db_tenants d) then (Inl integrity_error, d)
      else (Inr t, d\<lparr>db_tenants := db_tenants d @ [t]\<rparr>))"

definition tenant_get_by_rid :: "string \<Rightarrow> tenant_row option tx" where
  "tenant_get_by_rid rid = ask_one (\<lambda>d. filter (\<lambda>t. tn_rid t = rid) (db_tenants d))"

definition tenant_list_all :: "nat \<Rightarrow> nat \<Rightarrow> setdb \<Rightarrow> tenant_row list \<times> nat" where
  "tenant_list_all offset limit d = newest tn_created offset limit (db_tenants d)"

definition tenants_of_user :: "string \<Rightarrow> setdb \<Rightarrow> tenant_row list" where
  "tenants_of_user user d =
     concat (map (\<lambda>t. map (\<lambda>m. t) (filter (\<lambda>m. mb_tenant m = tn_rid t \<and> mb_user m = user) (db_members d)))
       (db_tenants d))"

definition tenant_list_by_user :: "string \<Rightarrow> nat \<Rightarrow> nat \<Rightarrow> setdb \<Rightarrow> tenant_row list \<times> nat" where
  "tenant_list_by_user user offset limit d = newest tn_created offset limit (tenants_of_user user d)"

definition tenant_assign :: "string \<times> pyval \<Rightarrow> tenant_row \<Rightarrow> tenant_row" where
  "tenant_assign kv t =
     (case kv of
        (k, PStr v) \<Rightarrow> (if k = ''display_name'' then t\<lparr>tn_name := v\<rparr>
                       else if k = ''status'' then t\<lparr>tn_status := v\<rparr> else t)
      | (k, PDict v) \<Rightarrow> (if k = ''config'' then t\<lparr>tn_config := v\<rparr> else t)
      | _ \<Rightarrow> t)"

definition tenant_update_fields :: "string \<Rightarrow> pyval dict \<Rightarrow> int \<Rightarrow> tenant_row option tx" where
  "tenant_update_fields rid flds now =
     bindC (modifyC (\<lambda>d. d\<lparr>db_tenants := map (\<lambda>t. if tn_rid t = rid
         then (fold tenant_assign flds t)\<lparr>tn_updated := now\<rparr> else t) (db_tenants d)\<rparr>)) (\<lambda>_.
     tenant_get_by_rid rid)"

definition tenant_count :: "setdb \<Rightarrow> nat" where
  "tenant_count d = length (db_tenants d)"

subsection \<open>Memberships\<close>

definition is_member :: "string \<Rightarrow> string \<Rightarrow> member_row \<Rightarrow> bool" where
  "is_member user tenant m = (mb_user m = user \<and> mb_tenant m = tenant)"

definition member_create :: "member_row \<Rightarrow> member_row tx" where
  "member_create m d =
     (if mb_user m \<notin> us_rid ` set (db_users d) \<or> mb_tenant m \<notin> tn_rid ` set (db_tenants d) \<or>
         list_ex (is_member (mb_user m) (mb_tenant m)) (db_members d)
      then (Inl integrity_error, d)
      else (Inr m, d\<lparr>db_members := db_members d @ [m]\<rparr>))"

definition member_get :: "string \<Rightarrow> string \<Rightarrow> member_row option tx" where
  "member_get user tenant = ask_one (\<lambda>d. filter (is_member user tenant) (db_members d))"

definition member_get_default_tenant :: "string \<Rightarrow> member_row option tx" where
  "member_get_default_tenant user = ask_one (\<lambda>d. filter (\<lambda>m. mb_user m = user \<and> mb_default m) (db_members d))"

definition member_list_by_user :: "string \<Rightarrow> setdb \<Rightarrow> member_row list" where
  "member_list_by_user user d = filter (\<lambda>m. mb_user m = user) (db_members d)"

definition member_list_by_tenant :: "string \<Rightarrow> nat \<Rightarrow> nat \<Rightarrow> setdb \<Rightarrow> member_row list \<times> nat" where
  "member_list_by_tenant tenant offset limit d =
     newest mb_created offset limit (filter (\<lambda>m. mb_tenant m = tenant) (db_members d))"

definition member_update_role :: "string \<Rightarrow> string \<Rightarrow> string \<Rightarrow> member_row option tx" where
  "member_update_role user tenant role =
     bindC (modifyC (\<lambda>d. d\<lparr>db_members :=
         map (\<lambda>m. if is_member user tenant m then m\<lparr>mb_role := role\<rparr> else m) (db_members d)\<rparr>)) (\<lambda>_.
     member_get user tenant)"

definition member_delete :: "string \<Rightarrow> string \<Rightarrow> unit tx" where
  "member_delete user tenant =
     modifyC (\<lambda>d. d\<lparr>db_members := filter (\<lambda>m. \<not> is_member user tenant m) (db_members d)\<rparr>)"

subsection \<open>Refresh tokens\<close>

definition token_create :: "token_row \<Rightarrow> token_row tx" where
  "token_create t d =
     (if rt_hash t \<in> rt_hash ` set (db_tokens d) \<or> rt_user t \<notin> us_rid ` set (db_users d) \<or>
         rt_tenant t \<notin> tn_rid ` set (db_tenants d)
      then (Inl integrity_error, d)
      else (Inr t, d\<lparr>db_tokens := db_tokens d @ [t]\<rparr>))"

definition token_get_by_hash :: "string \<Rightarrow> token_row option tx" where
  "token_get_by_hash h = ask_one (\<lambda>d. filter (\<lambda>t. rt_hash t = h) (db_tokens d))"

definition token_revoke :: "string \<Rightarrow> int \<Rightarrow> unit tx" where
  "token_revoke h now =
     modifyC (\<lambda>d. d\<lparr>db_tokens := map (\<lambda>t. if rt_hash t = h then t\<lparr>rt_revoked := Some now\<rparr> else t) (db_tokens d)\<rparr>)"

definition token_revoke_all_for_user :: "string \<Rightarrow> string \<Rightarrow> int \<Rightarrow> unit tx" where
  "token_revoke_all_for_user user tenant now =
     modifyC (\<lambda>d. d\<lparr>db_tokens := map (\<lambda>t. if rt_user t = user \<and> rt_tenant t = tenant \<and> rt_revoked t = None
         then t\<lparr>rt_revoked := Some now\<rparr> else t) (db_tokens d)\<rparr>)"

text \<open>
  Python's \<open>datetime\<close>: with or without a time zone. Comparing one with the other raises a
  \<open>TypeError\<close>. A column \<open>DateTime(timezone=True)\<close> is read with a time zone, \<open>datetime.utcnow()\<close> has
  none.
\<close>

datatype pydatetime = Aware int | Naive int

fun later :: "pydatetime \<Rightarrow> pydatetime \<Rightarrow> bool res" where
  "later (Aware a) (Aware b) = Inr (b < a)"
| "later (Naive a) (Naive b) = Inr (b < a)"
| "later _ _ = Inl (DriverError ''TypeError'')"

definition token_is_valid :: "token_row \<Rightarrow> int \<Rightarrow> bool res" where
  "token_is_valid t now =
     (if rt_revoked t \<noteq> None then Inr False else later (Aware (rt_expires t)) (Naive now))"

subsection \<open>Custom roles\<close>

definition role_create :: "role_row \<Rightarrow> role_row tx" where
  "role_create r d =
     (if cr_rid r \<in> cr_rid ` set (db_roles d) \<or>
         list_ex (\<lambda>q. cr_tenant q = cr_tenant r \<and> cr_name q = cr_name r) (db_roles d)
      then (Inl integrity_error, d)
      else (Inr r, d\<lparr>db_roles := db_roles d @ [r]\<rparr>))"

definition role_get_by_rid :: "string \<Rightarrow> role_row option tx" where
  "role_get_by_rid rid = ask_one (\<lambda>d. filter (\<lambda>r. cr_rid r = rid) (db_roles d))"

definition role_get_by_name :: "string \<Rightarrow> string \<Rightarrow> role_row option tx" where
  "role_get_by_name tenant nm = ask_one (\<lambda>d. filter (\<lambda>r. cr_tenant r = tenant \<and> cr_name r = nm) (db_roles d))"

definition role_list_by_tenant :: "string \<Rightarrow> nat \<Rightarrow> nat \<Rightarrow> setdb \<Rightarrow> role_row list \<times> nat" where
  "role_list_by_tenant tenant offset limit d =
     newest cr_created offset limit (filter (\<lambda>r. cr_tenant r = tenant) (db_roles d))"

record role_fields =
  rf_name :: "string option"
  rf_desc :: "string option"
  rf_perms :: "pyval dict list option"

definition role_assign :: "role_fields \<Rightarrow> role_row \<Rightarrow> role_row" where
  "role_assign f r =
     (let r = (case rf_name f of Some n \<Rightarrow> r\<lparr>cr_name := n\<rparr> | None \<Rightarrow> r);
          r = (case rf_desc f of Some n \<Rightarrow> r\<lparr>cr_desc := Some n\<rparr> | None \<Rightarrow> r)
      in (case rf_perms f of Some p \<Rightarrow> r\<lparr>cr_perms := p\<rparr> | None \<Rightarrow> r))"

definition no_role_fields :: role_fields where
  "no_role_fields = \<lparr>rf_name = None, rf_desc = None, rf_perms = None\<rparr>"

definition role_update_fields :: "string \<Rightarrow> role_fields \<Rightarrow> int \<Rightarrow> role_row option tx" where
  "role_update_fields rid f now =
     (if f = no_role_fields then role_get_by_rid rid
      else
        bindC (\<lambda>d.
          let rows = map (\<lambda>r. if cr_rid r = rid then (role_assign f r)\<lparr>cr_updated := now\<rparr> else r) (db_roles d)
          in if distinct (map (\<lambda>r. (cr_tenant r, cr_name r)) rows)
             then (Inr (), d\<lparr>db_roles := rows\<rparr>) else (Inl integrity_error, d)) (\<lambda>_.
        role_get_by_rid rid))"

definition role_delete :: "string \<Rightarrow> unit tx" where
  "role_delete rid = modifyC (\<lambda>d. d\<lparr>db_roles := filter (\<lambda>r. cr_rid r \<noteq> rid) (db_roles d)\<rparr>)"

subsection \<open>Audit log\<close>

text \<open>The key of a log row is the next value of its sequence.\<close>

definition audit_create :: "audit_row \<Rightarrow> audit_row tx" where
  "audit_create l d =
     (let l' = l\<lparr>al_id := db_next_log d\<rparr>
      in (Inr l', d\<lparr>db_audit := db_audit d @ [l'], db_next_log := db_next_log d + 1\<rparr>))"

definition audit_get_by_id :: "int \<Rightarrow> string \<Rightarrow> audit_row option tx" where
  "audit_get_by_id log_id tenant = ask_one (\<lambda>d. filter (\<lambda>l. al_id l = log_id \<and> al_tenant l = tenant) (db_audit d))"

record audit_filter =
  af_module :: "string option"
  af_event :: "string option"
  af_user :: "string option"
  af_rtype :: "string option"
  af_rrid :: "string option"

definition opt_is :: "string option \<Rightarrow> string \<Rightarrow> bool" where
  "opt_is f v = (case f of None \<Rightarrow> True | Some x \<Rightarrow> v = x)"

text \<open>A missing value equals nothing.\<close>

definition opt_is_opt :: "string option \<Rightarrow> string option \<Rightarrow> bool" where
  "opt_is_opt f v = (case f of None \<Rightarrow> True | Some x \<Rightarrow> v = Some x)"

definition audit_matches :: "string \<Rightarrow> audit_filter \<Rightarrow> audit_row \<Rightarrow> bool" where
  "audit_matches tenant f l =
     (al_tenant l = tenant \<and> opt_is (af_module f) (al_module l) \<and> opt_is (af_event f) (al_event l) \<and>
      opt_is (af_user f) (al_user l) \<and> opt_is_opt (af_rtype f) (al_rtype l) \<and> opt_is_opt (af_rrid f) (al_rrid l))"

definition audit_query :: "string \<Rightarrow> audit_filter \<Rightarrow> nat \<Rightarrow> nat \<Rightarrow> setdb \<Rightarrow> audit_row list \<times> nat" where
  "audit_query tenant f offset limit d =
     newest al_created offset limit (filter (audit_matches tenant f) (db_audit d))"

definition audit_delete_before :: "string \<Rightarrow> int \<Rightarrow> nat tx" where
  "audit_delete_before tenant before d =
     (let old = (\<lambda>l. al_tenant l = tenant \<and> al_created l < before)
      in (Inr (length (filter old (db_audit d))), d\<lparr>db_audit := filter (\<lambda>l. \<not> old l) (db_audit d)\<rparr>))"

definition audit_recent :: "string \<Rightarrow> nat \<Rightarrow> setdb \<Rightarrow> audit_row list" where
  "audit_recent tenant limit d =
     take limit (sort_desc al_created (filter (\<lambda>l. al_tenant l = tenant) (db_audit d)))"

subsection \<open>Integrity\<close>

text \<open>What the constraints of the schema say of the tables.\<close>

definition db_ok :: "setdb \<Rightarrow> bool" where
  "db_ok d \<longleftrightarrow>
     distinct (map us_rid (db_users d)) \<and> distinct (map us_email (db_users d)) \<and>
     distinct (map tn_rid (db_tenants d)) \<and>
     distinct (map (\<lambda>m. (mb_user m, mb_tenant m)) (db_members d)) \<and>
     mb_user ` set (db_members d) \<subseteq> us_rid ` set (db_users d) \<and>
     mb_tenant ` set (db_members d) \<subseteq> tn_rid ` set (db_tenants d) \<and>
     distinct (map rt_hash (db_tokens d)) \<and>
     rt_user ` set (db_tokens d) \<subseteq> us_rid ` set (db_users d) \<and>
     rt_tenant ` set (db_tokens d) \<subseteq> tn_rid ` set (db_tenants d) \<and>
     distinct (map cr_rid (db_roles d)) \<and> distinct (map (\<lambda>r. (cr_tenant r, cr_name r)) (db_roles d)) \<and>
     distinct (map al_id (db_audit d)) \<and> list_all (\<lambda>l. al_id l < db_next_log d) (db_audit d)"

text \<open>A step of a transaction that keeps the constraints.\<close>

definition ok_step :: "setdb \<Rightarrow> setdb \<Rightarrow> bool" where
  "ok_step d d' \<longleftrightarrow> (if db_ok d then db_ok d' else True)"

lemma ok_step_refl: "reflp ok_step"
  by (simp add: reflp_def ok_step_def)

lemma ok_step_trans: "transp ok_step"
  by (auto simp: transp_def ok_step_def)

named_theorems tx_ok \<open>repository operations keep the constraints\<close>

lemma keeps_ok_ask [tx_ok]: "keeps ok_step (ask_one f)"
  by (simp add: keeps_def ask_one_def ok_step_def)

lemma keeps_ok_modify: "(\<And>d. db_ok d \<Longrightarrow> db_ok (f d)) \<Longrightarrow> keeps ok_step (modifyC f)"
  by (simp add: keeps_def ok_step_def)

lemma keeps_ok_bind [tx_ok]: "keeps ok_step m \<Longrightarrow> (\<And>x. keeps ok_step (f x)) \<Longrightarrow> keeps ok_step (bindC m f)"
  by (rule keeps_bindC [OF ok_step_trans])

lemma keys_map_if:
  assumes "\<And>x. key (f x) = key x"
  shows "map key (map (\<lambda>x. if P x then f x else x) xs) = map key xs"
  using assms by (induction xs) auto

lemma key_image_map_if:
  assumes "\<And>x. key (f x) = key x"
  shows "key ` set (map (\<lambda>x. if P x then f x else x) xs) = key ` set xs"
  using keys_map_if [of key f P xs, OF assms] by (metis list.set_map)

lemma user_assign_keys: "us_rid (user_assign kv u) = us_rid u" "us_email (user_assign kv u) = us_email u"
  by (auto simp: user_assign_def split: prod.splits)

lemma user_assigns_keys: "us_rid (fold user_assign kvs u) = us_rid u" "us_email (fold user_assign kvs u) = us_email u"
  by (induction kvs arbitrary: u) (simp_all add: user_assign_keys)

lemma tenant_assigns_key: "tn_rid (fold tenant_assign kvs t) = tn_rid t"
  by (induction kvs arbitrary: t) (auto simp: tenant_assign_def split: prod.splits pyval.splits)

lemma role_assign_keys [simp]: "cr_rid (role_assign f r) = cr_rid r" "cr_tenant (role_assign f r) = cr_tenant r"
  by (auto simp: role_assign_def Let_def split: option.splits)

lemma user_create_ok [tx_ok]: "keeps ok_step (user_create u)"
  by (auto simp: keeps_def user_create_def ok_step_def db_ok_def)

lemma tenant_create_ok [tx_ok]: "keeps ok_step (tenant_create t)"
  by (auto simp: keeps_def tenant_create_def ok_step_def db_ok_def)

lemma member_create_ok [tx_ok]: "keeps ok_step (member_create m)"
  by (auto simp: keeps_def member_create_def ok_step_def db_ok_def list_ex_iff is_member_def)

lemma token_create_ok [tx_ok]: "keeps ok_step (token_create t)"
  by (auto simp: keeps_def token_create_def ok_step_def db_ok_def)

lemma role_create_ok [tx_ok]: "keeps ok_step (role_create r)"
  by (auto simp: keeps_def role_create_def ok_step_def db_ok_def list_ex_iff)

lemma audit_create_ok [tx_ok]: "keeps ok_step (audit_create l)"
  by (auto simp: keeps_def audit_create_def Let_def ok_step_def db_ok_def list_all_iff)

lemma user_update_ok [tx_ok]: "keeps ok_step (user_update_fields rid flds now)"
  unfolding user_update_fields_def user_get_by_rid_def
  by (intro keeps_ok_bind keeps_ok_ask keeps_ok_modify)
    (simp add: db_ok_def keys_map_if key_image_map_if user_assigns_keys del: map_map set_map)

lemma tenant_update_ok [tx_ok]: "keeps ok_step (tenant_update_fields rid flds now)"
  unfolding tenant_update_fields_def tenant_get_by_rid_def
  by (intro keeps_ok_bind keeps_ok_ask keeps_ok_modify)
    (simp add: db_ok_def keys_map_if key_image_map_if tenant_assigns_key del: map_map set_map)

lemma member_update_ok [tx_ok]: "keeps ok_step (member_update_role user tenant role)"
  unfolding member_update_role_def member_get_def
  by (intro keeps_ok_bind keeps_ok_ask keeps_ok_modify)
    (simp add: db_ok_def keys_map_if key_image_map_if del: map_map set_map)

lemma member_delete_ok [tx_ok]: "keeps ok_step (member_delete user tenant)"
  unfolding member_delete_def by (rule keeps_ok_modify) (auto simp: db_ok_def distinct_map_filter)

lemma token_revoke_ok [tx_ok]: "keeps ok_step (token_revoke h now)"
  unfolding token_revoke_def
  by (rule keeps_ok_modify) (simp add: db_ok_def keys_map_if key_image_map_if del: map_map set_map)

lemma token_revoke_all_ok [tx_ok]: "keeps ok_step (token_revoke_all_for_user user tenant now)"
  unfolding token_revoke_all_for_user_def
  by (rule keeps_ok_modify) (simp add: db_ok_def keys_map_if key_image_map_if del: map_map set_map)

lemma role_update_ok [tx_ok]: "keeps ok_step (role_update_fields rid f now)"
proof -
  have "keeps ok_step (\<lambda>d.
      let rows = map (\<lambda>r. if cr_rid r = rid then (role_assign f r)\<lparr>cr_updated := now\<rparr> else r) (db_roles d)
      in if distinct (map (\<lambda>r. (cr_tenant r, cr_name r)) rows)
         then (Inr (), d\<lparr>db_roles := rows\<rparr>) else (Inl integrity_error, d))"
    by (auto simp: keeps_def ok_step_def db_ok_def keys_map_if Let_def simp del: map_map)
  then show ?thesis
    by (simp add: role_update_fields_def role_get_by_rid_def keeps_ok_ask keeps_ok_bind)
qed

lemma role_delete_ok [tx_ok]: "keeps ok_step (role_delete rid)"
  unfolding role_delete_def by (rule keeps_ok_modify) (auto simp: db_ok_def distinct_map_filter)

lemma audit_delete_ok [tx_ok]: "keeps ok_step (audit_delete_before tenant before)"
  by (auto simp: keeps_def ok_step_def audit_delete_before_def Let_def db_ok_def distinct_map_filter list_all_iff)

lemma lookups_ok [tx_ok]:
  "keeps ok_step (user_get_by_rid rid)" "keeps ok_step (user_get_by_email email)"
  "keeps ok_step (tenant_get_by_rid rid)" "keeps ok_step (member_get user tenant)"
  "keeps ok_step (member_get_default_tenant user)" "keeps ok_step (token_get_by_hash h)"
  "keeps ok_step (role_get_by_rid rid)" "keeps ok_step (role_get_by_name tenant nm)"
  "keeps ok_step (audit_get_by_id log_id tenant)"
  by (simp_all add: user_get_by_rid_def user_get_by_email_def tenant_get_by_rid_def member_get_def
      member_get_default_tenant_def token_get_by_hash_def role_get_by_rid_def role_get_by_name_def
      audit_get_by_id_def keeps_ok_ask)

text \<open>Under the constraints a lookup by a key finds the row there is.\<close>

lemma one_or_none_unique:
  assumes "distinct (map key xs)"
  shows "one_or_none (filter (\<lambda>x. key x = k) xs) = Inr (single (filter (\<lambda>x. key x = k) xs))"
proof (cases "filter (\<lambda>x. key x = k) xs")
  case Nil
  then show ?thesis by (simp add: one_or_none_def)
next
  case (Cons a as)
  have "distinct (map key (a # as))"
    using distinct_map_filter [OF assms, of "\<lambda>x. key x = k"] by (simp only: Cons)
  moreover have "key x = k" if "x \<in> set (a # as)" for x
    using that unfolding Cons [symmetric] by simp
  ultimately have "as = []" by (cases as) auto
  then show ?thesis by (simp add: Cons one_or_none_def)
qed

end
