(* ===== verification/Setting_Rbac.thy ===== *)
theory Setting_Rbac
  imports Infra
begin

section \<open>Setting: roles and permissions\<close>

text \<open>
  \<open>setting/authz/enforcer.py\<close>: the wrapper \<open>PermissionEnforcer\<close> around a Casbin enforcer. Casbin is a
  library: its operations are a record of functions over a state of unknown type, and the locale
  \<open>casbin\<close> states what the code relies on (policies and role assignments are sets, and \<open>enforce\<close>
  decides as the program's \<open>authz/model.conf\<close> says). \<open>list_casbin\<close>, which keeps two lists, satisfies
  the laws. What a user may do is then characterised once for any policies, and for the built-in
  roles in particular.
\<close>

subsection \<open>The policy engine\<close>

text \<open>A policy line \<open>p = sub, obj, act, res\<close> of \<open>model.conf\<close>, and its matcher without the role part.\<close>

record policy =
  p_sub :: string
  p_obj :: string
  p_act :: string
  p_res :: string

definition mk_policy :: "string \<Rightarrow> string \<Rightarrow> string \<Rightarrow> string \<Rightarrow> policy" where
  "mk_policy s ob ac re = \<lparr>p_sub = s, p_obj = ob, p_act = ac, p_res = re\<rparr>"

definition policy_covers :: "policy \<Rightarrow> string \<Rightarrow> string \<Rightarrow> string \<Rightarrow> bool" where
  "policy_covers p ob ac re =
     ((p_obj p = ''*'' \<or> ob = p_obj p) \<and> (p_act p = ''*'' \<or> ac = p_act p) \<and> (p_res p = ''*'' \<or> re = p_res p))"

record 'c casbin_ops =
  cb_has_policy :: "'c \<Rightarrow> policy \<Rightarrow> bool"
  cb_add_policy :: "'c \<Rightarrow> policy \<Rightarrow> 'c"
  cb_remove_sub :: "'c \<Rightarrow> string \<Rightarrow> 'c"
  cb_has_group :: "'c \<Rightarrow> string \<Rightarrow> string \<Rightarrow> bool"
  cb_add_group :: "'c \<Rightarrow> string \<Rightarrow> string \<Rightarrow> 'c"
  cb_remove_group :: "'c \<Rightarrow> string \<Rightarrow> string \<Rightarrow> 'c"
  cb_link :: "'c \<Rightarrow> string \<Rightarrow> string \<Rightarrow> bool"
  cb_enforce :: "'c \<Rightarrow> string \<Rightarrow> string \<Rightarrow> string \<Rightarrow> string \<Rightarrow> bool"

text \<open>Roles are not users: nobody is assigned to a role that is assigned to a role itself.\<close>

definition flat_roles :: "'c casbin_ops \<Rightarrow> 'c \<Rightarrow> bool" where
  "flat_roles C s \<longleftrightarrow> (\<forall>u m r. cb_has_group C s u m \<longrightarrow> \<not> cb_has_group C s m r)"

text \<open>
  \<open>cb_link s u r\<close> is the role relation \<open>g(u, r)\<close> of the matcher: reflexive, and it follows the role
  assignments.
\<close>

locale casbin =
  fixes C :: "'c casbin_ops"
  assumes add_policy: "cb_has_policy C (cb_add_policy C s p) q \<longleftrightarrow> q = p \<or> cb_has_policy C s q"
    and remove_sub: "cb_has_policy C (cb_remove_sub C s n) q \<longleftrightarrow> cb_has_policy C s q \<and> p_sub q \<noteq> n"
    and add_group: "cb_has_group C (cb_add_group C s u r) v t \<longleftrightarrow> (v = u \<and> t = r) \<or> cb_has_group C s v t"
    and remove_group:
      "cb_has_group C (cb_remove_group C s u r) v t \<longleftrightarrow> cb_has_group C s v t \<and> \<not> (v = u \<and> t = r)"
    and policy_group: "cb_has_policy C (cb_add_group C s u r) q = cb_has_policy C s q"
      "cb_has_policy C (cb_remove_group C s u r) q = cb_has_policy C s q"
    and group_policy: "cb_has_group C (cb_add_policy C s p) u r = cb_has_group C s u r"
      "cb_has_group C (cb_remove_sub C s n) u r = cb_has_group C s u r"
    and link_self: "cb_link C s u u"
    and link_group: "cb_has_group C s u r \<Longrightarrow> cb_link C s u r"
    and link_step: "cb_link C s u r \<Longrightarrow> u = r \<or> (\<exists>m. cb_has_group C s u m \<and> cb_link C s m r)"
    and enforce: "cb_enforce C s u ob ac re \<longleftrightarrow>
      (\<exists>p. cb_has_policy C s p \<and> cb_link C s u (p_sub p) \<and> policy_covers p ob ac re)"
begin

lemma link_flat:
  assumes "flat_roles C s"
  shows "cb_link C s u r \<longleftrightarrow> r = u \<or> cb_has_group C s u r"
proof
  assume "cb_link C s u r"
  then consider "u = r" | m where "cb_has_group C s u m" "cb_link C s m r"
    using link_step by blast
  then show "r = u \<or> cb_has_group C s u r"
  proof cases
    case 2
    then have "m = r" using link_step [of s m r] assms by (auto simp: flat_roles_def)
    then show ?thesis using 2 by simp
  qed simp
qed (auto intro: link_self link_group)

end

subsection \<open>The enforcer\<close>

definition MEMBER_WRITE_RESOURCES :: "string list" where
  "MEMBER_WRITE_RESOURCES =
     [''object_type'', ''link_type'', ''interface_type'', ''action_type'', ''shared_property_type'',
      ''connection'', ''instance'', ''action'', ''function'', ''workflow'']"

definition WRITE_ACTIONS :: "string list" where
  "WRITE_ACTIONS = [''write'', ''create'', ''update'', ''delete'']"

text \<open>The rows of the built-in roles: name, description and permission list.\<close>

definition permission :: "string \<Rightarrow> string \<Rightarrow> pyval dict" where
  "permission rt ac = [(''resource_type'', PStr rt), (''action'', PStr ac)]"

definition SYSTEM_ROLE_DEFINITIONS :: "(string \<times> string \<times> pyval dict list) list" where
  "SYSTEM_ROLE_DEFINITIONS =
     [(''admin'', ''Full access to all resources'', [permission ''*'' ''*'']),
      (''member'', ''Read all resources, write business entities, execute actions/functions'',
       permission ''*'' ''read'' #
       concat (map (\<lambda>r. map (permission r) WRITE_ACTIONS) (sort MEMBER_WRITE_RESOURCES)) @
       [permission ''action'' ''execute'', permission ''function'' ''execute'']),
      (''viewer'', ''Read-only access to all resources'', [permission ''*'' ''read''])]"

text \<open>\<open>if not e.has_policy(...): e.add_policy(...)\<close>\<close>

definition ensure_policy :: "'c casbin_ops \<Rightarrow> policy \<Rightarrow> 'c \<Rightarrow> 'c" where
  "ensure_policy C p s = (if \<not> cb_has_policy C s p then cb_add_policy C s p else s)"

text \<open>The policies \<open>seed_policies\<close> ensures, in its order.\<close>

definition seeded :: "policy list" where
  "seeded =
     mk_policy ''admin'' ''*'' ''*'' ''*'' #
     mk_policy ''member'' ''*'' ''read'' ''*'' #
     concat (map (\<lambda>r. map (\<lambda>a. mk_policy ''member'' r a ''*'') WRITE_ACTIONS) (sort MEMBER_WRITE_RESOURCES)) @
     [mk_policy ''member'' ''action'' ''execute'' ''*'', mk_policy ''member'' ''function'' ''execute'' ''*'',
      mk_policy ''viewer'' ''*'' ''read'' ''*'']"

definition seed_policies :: "'c casbin_ops \<Rightarrow> 'c \<Rightarrow> 'c" where
  "seed_policies C s = fold (ensure_policy C) seeded s"

definition sync_user_role :: "'c casbin_ops \<Rightarrow> string \<Rightarrow> string \<Rightarrow> 'c \<Rightarrow> 'c" where
  "sync_user_role C user_rid role s =
     (if \<not> cb_has_group C s user_rid role then cb_add_group C s user_rid role else s)"

definition remove_user_role :: "'c casbin_ops \<Rightarrow> string \<Rightarrow> string \<Rightarrow> 'c \<Rightarrow> 'c" where
  "remove_user_role C user_rid role s =
     (if cb_has_group C s user_rid role then cb_remove_group C s user_rid role else s)"

text \<open>\<open>resource_rid or "*"\<close>\<close>

definition check_permission ::
  "'c casbin_ops \<Rightarrow> bool \<Rightarrow> string \<Rightarrow> string \<Rightarrow> string \<Rightarrow> string option \<Rightarrow> 'c \<Rightarrow> bool" where
  "check_permission C rbac_enabled user_id resource_type action resource_rid s =
     (if \<not> rbac_enabled then True
      else cb_enforce C s user_id resource_type action
             (case resource_rid of Some r \<Rightarrow> if r = [] then ''*'' else r | None \<Rightarrow> ''*''))"

text \<open>\<open>perm.get(key, "*")\<close> of a permission entry, whose values are texts.\<close>

definition perm_get :: "pyval dict \<Rightarrow> string \<Rightarrow> string" where
  "perm_get perm k = (case map_of perm k of Some (PStr v) \<Rightarrow> v | _ \<Rightarrow> ''*'')"

definition perm_policy :: "string \<Rightarrow> pyval dict \<Rightarrow> policy" where
  "perm_policy role_name perm =
     mk_policy role_name (perm_get perm ''resource_type'') (perm_get perm ''action'') (perm_get perm ''resource_rid'')"

definition add_custom_role_policies :: "'c casbin_ops \<Rightarrow> string \<Rightarrow> pyval dict list \<Rightarrow> 'c \<Rightarrow> 'c" where
  "add_custom_role_policies C role_name permissions s =
     fold (\<lambda>perm. ensure_policy C (perm_policy role_name perm)) permissions s"

definition remove_role_policies :: "'c casbin_ops \<Rightarrow> string \<Rightarrow> 'c \<Rightarrow> 'c" where
  "remove_role_policies C role_name s = cb_remove_sub C s role_name"

subsection \<open>What the operations do to policies and assignments\<close>

context casbin
begin

lemma ensure_has: "cb_has_policy C (ensure_policy C p s) q \<longleftrightarrow> q = p \<or> cb_has_policy C s q"
  by (auto simp: ensure_policy_def add_policy)

lemma ensure_group [simp]: "cb_has_group C (ensure_policy C p s) u r = cb_has_group C s u r"
  by (simp add: ensure_policy_def group_policy)

lemma ensure_all_has:
  "cb_has_policy C (fold (\<lambda>x. ensure_policy C (f x)) xs s) q \<longleftrightarrow> q \<in> f ` set xs \<or> cb_has_policy C s q"
  by (induction xs arbitrary: s) (auto simp: ensure_has)

lemma ensure_all_group [simp]:
  "cb_has_group C (fold (\<lambda>x. ensure_policy C (f x)) xs s) u r = cb_has_group C s u r"
  by (induction xs arbitrary: s) auto

lemma seed_has: "cb_has_policy C (seed_policies C s) q \<longleftrightarrow> q \<in> set seeded \<or> cb_has_policy C s q"
  using ensure_all_has [of "\<lambda>p. p"] by (simp add: seed_policies_def)

lemma seed_group [simp]: "cb_has_group C (seed_policies C s) u r = cb_has_group C s u r"
  using ensure_all_group [of "\<lambda>p. p"] by (simp add: seed_policies_def)

lemma ensure_idle: "cb_has_policy C s p \<Longrightarrow> ensure_policy C p s = s"
  by (simp add: ensure_policy_def)

lemma ensure_all_idle: "(\<And>p. p \<in> set ps \<Longrightarrow> cb_has_policy C s p) \<Longrightarrow> fold (ensure_policy C) ps s = s"
  by (induction ps) (auto simp: ensure_idle)

lemma seed_twice: "seed_policies C (seed_policies C s) = seed_policies C s"
  unfolding seed_policies_def [of C "seed_policies C s"]
  by (rule ensure_all_idle) (simp add: seed_has)

lemma sync_group: "cb_has_group C (sync_user_role C u r s) v t \<longleftrightarrow> (v = u \<and> t = r) \<or> cb_has_group C s v t"
  by (auto simp: sync_user_role_def add_group)

lemma sync_policy [simp]: "cb_has_policy C (sync_user_role C u r s) q = cb_has_policy C s q"
  by (simp add: sync_user_role_def policy_group)

lemma unsync_group:
  "cb_has_group C (remove_user_role C u r s) v t \<longleftrightarrow> cb_has_group C s v t \<and> \<not> (v = u \<and> t = r)"
  by (auto simp: remove_user_role_def remove_group)

lemma unsync_policy [simp]: "cb_has_policy C (remove_user_role C u r s) q = cb_has_policy C s q"
  by (simp add: remove_user_role_def policy_group)

lemma custom_has:
  "cb_has_policy C (add_custom_role_policies C n ps s) q \<longleftrightarrow> q \<in> perm_policy n ` set ps \<or> cb_has_policy C s q"
  by (simp add: add_custom_role_policies_def ensure_all_has)

lemma custom_group [simp]: "cb_has_group C (add_custom_role_policies C n ps s) u r = cb_has_group C s u r"
  by (simp add: add_custom_role_policies_def)

lemma unrole_has: "cb_has_policy C (remove_role_policies C n s) q \<longleftrightarrow> cb_has_policy C s q \<and> p_sub q \<noteq> n"
  by (simp add: remove_role_policies_def remove_sub)

lemma unrole_group [simp]: "cb_has_group C (remove_role_policies C n s) u r = cb_has_group C s u r"
  by (simp add: remove_role_policies_def group_policy)

lemma check_iff:
  assumes "flat_roles C s"
  shows "check_permission C True u rt ac rid s \<longleftrightarrow>
    (\<exists>p. cb_has_policy C s p \<and> (p_sub p = u \<or> cb_has_group C s u (p_sub p)) \<and>
       policy_covers p rt ac (case rid of Some r \<Rightarrow> if r = [] then ''*'' else r | None \<Rightarrow> ''*''))"
  by (auto simp: check_permission_def enforce link_flat [OF assms])

lemma check_cong:
  assumes "\<And>q. cb_has_policy C s q = cb_has_policy C s' q" and "\<And>v t. cb_has_group C s v t = cb_has_group C s' v t"
    and "flat_roles C s"
  shows "check_permission C b u rt ac rid s = check_permission C b u rt ac rid s'"
proof (cases b)
  case True
  have "flat_roles C s'" using assms(2,3) by (simp add: flat_roles_def)
  then show ?thesis using assms True by (simp add: check_iff)
qed (simp add: check_permission_def)

end

subsection \<open>A policy engine of two lists\<close>

record list_engine =
  le_policies :: "policy list"
  le_groups :: "(string \<times> string) list"

fun link_within :: "nat \<Rightarrow> (string \<times> string) list \<Rightarrow> string \<Rightarrow> string \<Rightarrow> bool" where
  "link_within 0 g u r = (u = r)"
| "link_within (Suc n) g u r = (u = r \<or> list_ex (\<lambda>(a, b). a = u \<and> link_within n g b r) g)"

lemma link_within_mono: "link_within n g u r \<Longrightarrow> link_within (Suc n) g u r"
  by (induction n arbitrary: u) (auto simp: list_ex_iff)

text \<open>Casbin follows role assignments up to ten levels.\<close>

definition list_casbin :: "list_engine casbin_ops" where
  "list_casbin =
     \<lparr>cb_has_policy = (\<lambda>s p. p \<in> set (le_policies s)),
      cb_add_policy = (\<lambda>s p. s\<lparr>le_policies := le_policies s @ [p]\<rparr>),
      cb_remove_sub = (\<lambda>s n. s\<lparr>le_policies := filter (\<lambda>p. p_sub p \<noteq> n) (le_policies s)\<rparr>),
      cb_has_group = (\<lambda>s u r. (u, r) \<in> set (le_groups s)),
      cb_add_group = (\<lambda>s u r. s\<lparr>le_groups := le_groups s @ [(u, r)]\<rparr>),
      cb_remove_group = (\<lambda>s u r. s\<lparr>le_groups := filter (\<lambda>g. g \<noteq> (u, r)) (le_groups s)\<rparr>),
      cb_link = (\<lambda>s u r. link_within 10 (le_groups s) u r),
      cb_enforce = (\<lambda>s u ob ac re.
        list_ex (\<lambda>p. link_within 10 (le_groups s) u (p_sub p) \<and> policy_covers p ob ac re) (le_policies s))\<rparr>"

definition no_rules :: list_engine where
  "no_rules = \<lparr>le_policies = [], le_groups = []\<rparr>"

lemma link_within_refl [simp]: "link_within n g u u"
  by (cases n) auto

lemma link_within_one: "(u, r) \<in> set g \<Longrightarrow> 0 < n \<Longrightarrow> link_within n g u r"
  by (cases n) (force simp: list_ex_iff)+

lemma link_within_step:
  "link_within n g u r \<Longrightarrow> u = r \<or> (\<exists>m. (u, m) \<in> set g \<and> link_within n g m r)"
  by (cases n) (auto simp: list_ex_iff dest: link_within_mono)

interpretation lists: casbin list_casbin
proof (unfold_locales, goal_cases)
  case (10 s u r)
  then show ?case by (simp add: list_casbin_def link_within_one)
next
  case (11 s u r)
  then show ?case
    using link_within_step [of 10 "le_groups s" u r] by (auto simp: list_casbin_def)
qed (auto simp: list_casbin_def list_ex_iff)


subsection \<open>Who may do what\<close>

lemma seeded_iff:
  "p \<in> set seeded \<longleftrightarrow>
     p = mk_policy ''admin'' ''*'' ''*'' ''*'' \<or> p = mk_policy ''member'' ''*'' ''read'' ''*'' \<or>
     (\<exists>r \<in> set MEMBER_WRITE_RESOURCES. \<exists>a \<in> set WRITE_ACTIONS. p = mk_policy ''member'' r a ''*'') \<or>
     p = mk_policy ''member'' ''action'' ''execute'' ''*'' \<or> p = mk_policy ''member'' ''function'' ''execute'' ''*'' \<or>
     p = mk_policy ''viewer'' ''*'' ''read'' ''*''"
  by (auto simp: seeded_def)

lemma no_star: "''*'' \<notin> set MEMBER_WRITE_RESOURCES" "''*'' \<notin> set WRITE_ACTIONS"
  by (simp_all add: MEMBER_WRITE_RESOURCES_def WRITE_ACTIONS_def)

lemma seeded_ex:
  "(\<exists>p \<in> set seeded. Q p) \<longleftrightarrow>
     Q (mk_policy ''admin'' ''*'' ''*'' ''*'') \<or> Q (mk_policy ''member'' ''*'' ''read'' ''*'') \<or>
     (\<exists>r \<in> set MEMBER_WRITE_RESOURCES. \<exists>a \<in> set WRITE_ACTIONS. Q (mk_policy ''member'' r a ''*'')) \<or>
     Q (mk_policy ''member'' ''action'' ''execute'' ''*'') \<or> Q (mk_policy ''member'' ''function'' ''execute'' ''*'') \<or>
     Q (mk_policy ''viewer'' ''*'' ''read'' ''*'')"
  unfolding Bex_def seeded_iff by blast

definition builtin_decision :: "(string \<Rightarrow> bool) \<Rightarrow> string \<Rightarrow> string \<Rightarrow> bool" where
  "builtin_decision has_role rt ac =
     (if has_role ''admin'' then True
      else if has_role ''member''
      then ac = ''read'' \<or> (rt \<in> set MEMBER_WRITE_RESOURCES \<and> ac \<in> set WRITE_ACTIONS)
           \<or> (ac = ''execute'' \<and> rt \<in> {''action'', ''function''})
      else has_role ''viewer'' \<and> ac = ''read'')"

lemma covers_mk [simp]:
  "p_sub (mk_policy s ob ac re) = s"
  "policy_covers (mk_policy s ob ac ''*'') rt a r \<longleftrightarrow> (ob = ''*'' \<or> rt = ob) \<and> (ac = ''*'' \<or> a = ac)"
  by (simp_all add: mk_policy_def policy_covers_def)

lemma member_writes:
  "(\<exists>r \<in> set MEMBER_WRITE_RESOURCES. \<exists>a \<in> set WRITE_ACTIONS. cb ''member'' \<and>
      (r = ''*'' \<or> rt = r) \<and> (a = ''*'' \<or> ac = a)) \<longleftrightarrow>
    cb ''member'' \<and> rt \<in> set MEMBER_WRITE_RESOURCES \<and> ac \<in> set WRITE_ACTIONS"
  using no_star by blast

text \<open>
C15. With role-based control on and only the seeded policies, what a user may do is exactly the
documented table: an admin everything, a member read everything, write the business entities and
execute actions and functions, a viewer read, a user of none of these roles nothing; the resource
does not matter.
\<close>

theorem builtin_roles_decide:
  assumes "casbin C" and "flat_roles C s" and "{p. cb_has_policy C s p} = {}"
    and "u \<notin> {''admin'', ''member'', ''viewer''}"
  shows "check_permission C True u rt ac rid (seed_policies C s) = builtin_decision (cb_has_group C s u) rt ac"
proof -
  let ?s = "seed_policies C s"
  let ?r = "case rid of Some r \<Rightarrow> if r = [] then ''*'' else r | None \<Rightarrow> ''*''"
  have flat: "flat_roles C ?s" using assms(2) by (simp add: flat_roles_def casbin.seed_group [OF assms(1)])
  have has: "cb_has_policy C ?s p \<longleftrightarrow> p \<in> set seeded" for p
    using assms(3) by (auto simp: casbin.seed_has [OF assms(1)])
  have role: "p_sub p \<noteq> u" if "p \<in> set seeded" for p
    using that assms(4) by (auto simp: seeded_iff)
  have "check_permission C True u rt ac rid ?s \<longleftrightarrow>
      (\<exists>p \<in> set seeded. cb_has_group C s u (p_sub p) \<and> policy_covers p rt ac ?r)"
    unfolding casbin.check_iff [OF assms(1) flat] using role
    by (auto simp: has casbin.seed_group [OF assms(1)])
  also have "\<dots> \<longleftrightarrow> cb_has_group C s u ''admin'' \<or>
      (cb_has_group C s u ''member'' \<and> (ac = ''read'' \<or> (rt \<in> set MEMBER_WRITE_RESOURCES \<and> ac \<in> set WRITE_ACTIONS)
         \<or> (ac = ''execute'' \<and> (rt = ''action'' \<or> rt = ''function'')))) \<or>
      (cb_has_group C s u ''viewer'' \<and> ac = ''read'')"
    unfolding seeded_ex covers_mk member_writes by auto
  finally show ?thesis by (auto simp: builtin_decision_def)
qed

lemma builtin_roles_decide_witness:
  "check_permission list_casbin True ''ri.user.1'' ''connection'' ''delete'' None
     (seed_policies list_casbin (sync_user_role list_casbin ''ri.user.1'' ''member'' no_rules)) \<and>
   \<not> check_permission list_casbin True ''ri.user.1'' ''user'' ''delete'' None
     (seed_policies list_casbin (sync_user_role list_casbin ''ri.user.1'' ''member'' no_rules))"
proof -
  let ?s = "sync_user_role list_casbin ''ri.user.1'' ''member'' no_rules"
  have g: "cb_has_group list_casbin ?s = (\<lambda>u r. u = ''ri.user.1'' \<and> r = ''member'')"
    by (intro ext, simp only: lists.sync_group) (simp add: no_rules_def list_casbin_def)
  have "flat_roles list_casbin ?s" by (simp add: flat_roles_def g)
  moreover have "{p. cb_has_policy list_casbin ?s p} = {}"
    by (simp only: lists.sync_policy) (simp add: no_rules_def list_casbin_def)
  ultimately show ?thesis
    using builtin_roles_decide [OF lists.casbin_axioms, of ?s "''ri.user.1''"]
    by (simp add: g builtin_decision_def MEMBER_WRITE_RESOURCES_def WRITE_ACTIONS_def)
qed

text \<open>
Seeding is idempotent, whatever policies and assignments there are: at each start of the program
the second and every later seeding leaves the engine as it is.
\<close>

theorem seed_policies_idempotent:
  assumes "casbin C"
  shows "seed_policies C (seed_policies C s) = seed_policies C s"
  by (rule casbin.seed_twice [OF assms])

lemma seed_policies_idempotent_witness:
  "seed_policies list_casbin (seed_policies list_casbin no_rules) = seed_policies list_casbin no_rules"
  by (rule seed_policies_idempotent [OF lists.casbin_axioms])

text \<open>
Removing a role's policies and adding a new list, as an update of a role does, makes the role grant
exactly the entries of the new list; what other roles and the user's own rules grant is as before.
\<close>

theorem role_policies_replaced:
  assumes "casbin C" and "flat_roles C s"
  shows "check_permission C True u rt ac rid (add_custom_role_policies C n perms (remove_role_policies C n s)) =
    ((if u = n \<or> cb_has_group C s u n
      then list_ex (\<lambda>perm. policy_covers (perm_policy n perm) rt ac
             (case rid of Some r \<Rightarrow> if r = [] then ''*'' else r | None \<Rightarrow> ''*'')) perms
      else False) \<or>
     (\<exists>p. cb_has_policy C s p \<and> p_sub p \<noteq> n \<and> (p_sub p = u \<or> cb_has_group C s u (p_sub p)) \<and>
        policy_covers p rt ac (case rid of Some r \<Rightarrow> if r = [] then ''*'' else r | None \<Rightarrow> ''*'')))"
proof -
  let ?s = "add_custom_role_policies C n perms (remove_role_policies C n s)"
  have g: "cb_has_group C ?s v t = cb_has_group C s v t" for v t
    by (simp add: casbin.custom_group [OF assms(1)] casbin.unrole_group [OF assms(1)])
  then have "flat_roles C ?s" using assms(2) by (simp add: flat_roles_def)
  moreover have "p_sub (perm_policy n perm) = n" for perm by (simp add: perm_policy_def)
  ultimately show ?thesis
    unfolding casbin.check_iff [OF assms(1) \<open>flat_roles C ?s\<close>]
    by (auto simp: g casbin.custom_has [OF assms(1)] casbin.unrole_has [OF assms(1)] list_ex_iff)
qed

lemma role_policies_replaced_witness:
  "check_permission list_casbin True ''u'' ''workflow'' ''run'' None
     (add_custom_role_policies list_casbin ''ops'' [permission ''workflow'' ''run'']
       (remove_role_policies list_casbin ''ops'' (sync_user_role list_casbin ''u'' ''ops'' no_rules)))"
proof -
  let ?s = "sync_user_role list_casbin ''u'' ''ops'' no_rules"
  have g: "cb_has_group list_casbin ?s = (\<lambda>u r. u = ''u'' \<and> r = ''ops'')"
    by (intro ext, simp only: lists.sync_group) (simp add: no_rules_def list_casbin_def)
  have "flat_roles list_casbin ?s" by (simp add: flat_roles_def g)
  then show ?thesis
    using role_policies_replaced [OF lists.casbin_axioms, of ?s "''u''" "''workflow''" "''run''" None "''ops''"
        "[permission ''workflow'' ''run'']"]
    by (simp add: g perm_policy_def perm_get_def permission_def)
qed

end
