(* ===== verification/Setting_Auth.thy ===== *)
theory Setting_Auth
  imports Setting_Store Setting_Rbac Redis_Store
begin

section \<open>Setting: passwords, tokens, the authentication middleware\<close>

text \<open>
  \<open>setting/auth\<close>: password rules (\<open>password.py\<close>), issue, validation and revocation of tokens
  (\<open>provider.py\<close>) and the middleware that admits a request (\<open>middleware.py\<close>). What the program
  takes from libraries is a field of the environment: bcrypt, SHA-256, random sources, the clock and
  the coding of signed tokens. The locale \<open>jwt\<close> states the one law of the latter: a token decodes to
  the claims it was made of, until they expire.
\<close>

subsection \<open>What a request works on\<close>

record claims =
  cl_iss :: string
  cl_sub :: string
  cl_aud :: string
  cl_tid :: string
  cl_role :: string
  cl_jti :: string
  cl_iat :: int
  cl_exp :: int

text \<open>\<open>decode\<close> and \<open>validate\<close> of the JOSE library: the claims, an expired token, another fault.\<close>

datatype decoded = Decoded claims | ExpiredToken | JoseFault string

record userinfo =
  ui_sub :: string
  ui_email :: string
  ui_name :: string

record senv =
  se_uuid :: "nat \<Rightarrow> string"
  se_secret :: "nat \<Rightarrow> string"
  se_now :: "nat \<Rightarrow> int"
  se_hashpw :: "nat \<Rightarrow> string \<Rightarrow> string res"
  se_checkpw :: "string \<Rightarrow> string \<Rightarrow> bool res"
  se_sha256 :: "string \<Rightarrow> string"
  se_encode :: "claims \<Rightarrow> string"
  se_decode :: "int \<Rightarrow> string \<Rightarrow> decoded"
  se_access_ttl :: int
  se_refresh_ttl :: int
  se_rbac :: bool
  se_sso :: bool
  se_exchange :: "string \<Rightarrow> string \<Rightarrow> pyval dict res"
  se_userinfo :: "pyval \<Rightarrow> userinfo res"
  se_auth_url :: "string \<Rightarrow> string \<Rightarrow> string res"
  se_provider_name :: string

text \<open>
  The committed tables and those the request's transaction sees, the policy engine in the memory of
  the process, the key-value server, and how often the random sources and the clock were read. Inserts
  and updates take the instant the transaction began for \<open>now()\<close>.
\<close>

record ('c, 'r) sworld =
  sw_db :: setdb
  sw_tx :: setdb
  sw_cas :: 'c
  sw_redis :: 'r
  sw_draws :: nat
  sw_ticks :: nat
  sw_began :: int

type_synonym ('c, 'r, 'a) sop = "(('c, 'r) sworld, exn, 'a) comp"

definition on_sdb :: "'a tx \<Rightarrow> ('c, 'r, 'a) sop" where
  "on_sdb m w = (case m (sw_tx w) of (r, d) \<Rightarrow> (r, w\<lparr>sw_tx := d\<rparr>))"

definition ask_sdb :: "(setdb \<Rightarrow> 'a) \<Rightarrow> ('c, 'r, 'a) sop" where
  "ask_sdb f w = (Inr (f (sw_tx w)), w)"

definition on_cas :: "('c \<Rightarrow> 'c) \<Rightarrow> ('c, 'r, unit) sop" where
  "on_cas f w = (Inr (), w\<lparr>sw_cas := f (sw_cas w)\<rparr>)"

definition clock :: "senv \<Rightarrow> ('c, 'r, int) sop" where
  "clock E w = (Inr (se_now E (sw_ticks w)), w\<lparr>sw_ticks := Suc (sw_ticks w)\<rparr>)"

definition began :: "('c, 'r, int) sop" where
  "began w = (Inr (sw_began w), w)"

definition draw :: "(nat \<Rightarrow> 'a) \<Rightarrow> ('c, 'r, 'a) sop" where
  "draw f w = (Inr (f (sw_draws w)), w\<lparr>sw_draws := Suc (sw_draws w)\<rparr>)"

definition new_rid :: "senv \<Rightarrow> string \<Rightarrow> ('c, 'r, string) sop" where
  "new_rid E ty = bindC (draw (se_uuid E)) (\<lambda>uuid. liftC (generate_rid uuid ty))"

lemmas sop_simps = on_sdb_def ask_sdb_def on_cas_def clock_def began_def draw_def

subsection \<open>Passwords\<close>

definition PASSWORD_MIN_LENGTH :: nat where "PASSWORD_MIN_LENGTH = 8"

definition is_letter :: "char \<Rightarrow> bool" where
  "is_letter c \<longleftrightarrow> (let n = of_char c :: nat in (65 \<le> n \<and> n \<le> 90) \<or> (97 \<le> n \<and> n \<le> 122))"

text \<open>
  \<open>^(?=.*[a-zA-Z])(?=.*\d).{8,}$\<close>: the dot matches anything but a line feed, and \<open>$\<close> the end or a
  final line feed.
\<close>

definition password_pattern :: "string \<Rightarrow> bool" where
  "password_pattern p =
     (let line = takeWhile (\<lambda>c. c \<noteq> CHR 0x0A) p; rest = dropWhile (\<lambda>c. c \<noteq> CHR 0x0A) p
      in list_ex is_letter line \<and> list_ex is_digit line \<and> 8 \<le> length line \<and> (rest = [] \<or> rest = [CHR 0x0A]))"

definition validate_password_strength :: "string \<Rightarrow> string option" where
  "validate_password_strength p =
     (if length p < PASSWORD_MIN_LENGTH
      then Some (''Password must be at least '' @ nat_str PASSWORD_MIN_LENGTH @ '' characters'')
      else if \<not> password_pattern p then Some ''Password must contain at least one letter and one number''
      else None)"

definition hash_password :: "senv \<Rightarrow> string \<Rightarrow> ('c, 'r, string) sop" where
  "hash_password E p = bindC (draw (\<lambda>n. se_hashpw E n p)) liftC"

definition verify_password :: "senv \<Rightarrow> string \<Rightarrow> string \<Rightarrow> bool res" where
  "verify_password E p h = se_checkpw E p h"

subsection \<open>Tokens\<close>

definition issue_access_token :: "senv \<Rightarrow> string \<Rightarrow> string \<Rightarrow> string \<Rightarrow> ('c, 'r, string) sop" where
  "issue_access_token E user_rid tenant_rid role =
     bindC (clock E) (\<lambda>now.
     bindC (draw (se_uuid E)) (\<lambda>jti.
     retC (se_encode E \<lparr>cl_iss = ''lingshu'', cl_sub = user_rid, cl_aud = ''lingshu'', cl_tid = tenant_rid,
       cl_role = role, cl_jti = jti, cl_iat = now, cl_exp = now + se_access_ttl E\<rparr>)))"

text \<open>The raw token and its hash.\<close>

definition issue_refresh_token :: "senv \<Rightarrow> string \<Rightarrow> string \<Rightarrow> ('c, 'r, string \<times> string) sop" where
  "issue_refresh_token E user_rid tenant_rid =
     bindC (draw (se_secret E)) (\<lambda>raw. retC (raw, se_sha256 E raw))"

definition validate_token :: "senv \<Rightarrow> int \<Rightarrow> string \<Rightarrow> claims res" where
  "validate_token E now token =
     (case se_decode E now token of
        ExpiredToken \<Rightarrow> Inl (ValueError ''Token expired'')
      | JoseFault m \<Rightarrow> Inl (ValueError (''Invalid token: '' @ m))
      | Decoded c \<Rightarrow>
          (if cl_iss c \<noteq> ''lingshu'' \<or> cl_aud c \<noteq> ''lingshu''
           then Inl (ValueError ''Invalid token issuer or audience'') else Inr c))"

definition blacklist_key :: "string \<Rightarrow> string" where
  "blacklist_key jti = ''jwt_blacklist:'' @ jti"

definition revoke_token :: "'r redis_ops \<Rightarrow> senv \<Rightarrow> string \<Rightarrow> int \<Rightarrow> ('c, 'r, unit) sop" where
  "revoke_token R E jti exp =
     bindC (clock E) (\<lambda>now.
     let ttl = max (exp - now) 0 in
     if 0 < ttl then (\<lambda>w. (Inr (), w\<lparr>sw_redis := rd_setex R (sw_redis w) (blacklist_key jti) (nat ttl) ''1''\<rparr>))
     else retC ())"

definition is_revoked :: "'r redis_ops \<Rightarrow> string \<Rightarrow> string \<Rightarrow> 'r \<Rightarrow> bool" where
  "is_revoked R tenant_id jti s = (rd_get R s (blacklist_key jti) \<noteq> None)"

subsection \<open>The middleware\<close>

record http_request =
  rq_method :: string
  rq_path :: string
  rq_headers :: "string dict"
  rq_access :: "string option"

text \<open>A request is answered at once, or passed on with the context the handlers will see.\<close>

datatype admission = Answer nat pyval | Pass_on ctx

definition WHITELIST_PATHS :: "string list" where
  "WHITELIST_PATHS =
     [''/health'', ''/setting/v1/auth/login'', ''/setting/v1/auth/sso/config'', ''/docs'', ''/openapi.json'', ''/redoc'']"

definition REFRESH_PATHS :: "string list" where
  "REFRESH_PATHS = [''/setting/v1/auth/refresh'']"

definition error_response :: "nat \<Rightarrow> string \<Rightarrow> string \<Rightarrow> admission" where
  "error_response status code message =
     Answer status (PDict [(''error'', PDict [(''code'', PStr code), (''message'', PStr message)]),
                           (''metadata'', PDict [(''request_id'', PStr [])])])"

definition anonymous :: "string \<Rightarrow> ctx" where
  "anonymous req = \<lparr>ctx_user_id = None, ctx_tenant_id = None, ctx_role = None, ctx_request_id = Some req\<rparr>"

definition session_ctx :: "string \<Rightarrow> string \<Rightarrow> string \<Rightarrow> string \<Rightarrow> ctx" where
  "session_ctx u t r req =
     \<lparr>ctx_user_id = Some u, ctx_tenant_id = Some t, ctx_role = Some r, ctx_request_id = Some req\<rparr>"

text \<open>
  \<open>_dispatch_inner\<close>, at a time \<open>now\<close> with the key-value server \<open>s\<close>; \<open>uuid\<close> is the request id of a request
  without one, and \<open>ready\<close> says whether the provider has been installed. The message of a failed
  validation is the text of its \<open>ValueError\<close>.
\<close>

definition dispatch ::
  "'r redis_ops \<Rightarrow> senv \<Rightarrow> bool \<Rightarrow> bool \<Rightarrow> string \<Rightarrow> int \<Rightarrow> http_request \<Rightarrow> 'r \<Rightarrow> admission" where
  "dispatch R E ready dev_mode uuid now rq s =
     (let req_id = dget_or (rq_headers rq) ''X-Request-ID'' uuid in
      if rq_method rq = ''OPTIONS'' \<or> rq_path rq \<in> set WHITELIST_PATHS \<or> rq_path rq \<in> set REFRESH_PATHS
      then Pass_on (anonymous req_id)
      else if \<not> ready then error_response 503 ''COMMON_SERVICE_UNAVAILABLE'' ''Service initializing''
      else if rq_access rq \<noteq> None \<and> rq_access rq \<noteq> Some [] then
        (case validate_token E now (the (rq_access rq)) of
           Inl (ValueError m) \<Rightarrow> error_response 401 ''SETTING_AUTH_TOKEN_EXPIRED'' m
         | Inl _ \<Rightarrow> error_response 500 ''COMMON_INTERNAL_ERROR'' ''Internal server error''
         | Inr c \<Rightarrow>
             (if is_revoked R (cl_tid c) (cl_jti c) s
              then error_response 401 ''SETTING_AUTH_TOKEN_REVOKED'' ''Token has been revoked''
              else Pass_on (session_ctx (cl_sub c) (cl_tid c) (cl_role c) req_id)))
      else if dev_mode \<and> dget_or (rq_headers rq) ''X-User-ID'' [] \<noteq> [] \<and> dget_or (rq_headers rq) ''X-Tenant-ID'' [] \<noteq> []
      then Pass_on (session_ctx (dget_or (rq_headers rq) ''X-User-ID'' []) (dget_or (rq_headers rq) ''X-Tenant-ID'' [])
             (dget_or (rq_headers rq) ''X-Role'' ''admin'') req_id)
      else error_response 401 ''COMMON_UNAUTHORIZED'' ''Authentication required'')"

subsection \<open>The coding of tokens\<close>

locale jwt =
  fixes E :: senv
  assumes encode_nonempty: "se_encode E c \<noteq> []"
    and decode_encode: "se_decode E now (se_encode E c) = (if cl_exp c < now then ExpiredToken else Decoded c)"
begin

lemma validate_issued:
  "cl_iss c = ''lingshu'' \<Longrightarrow> cl_aud c = ''lingshu'' \<Longrightarrow>
     validate_token E now (se_encode E c) = (if cl_exp c < now then Inl (ValueError ''Token expired'') else Inr c)"
  by (simp add: validate_token_def decode_encode)

end

end
