(* ===== verification/Setting_Service.thy ===== *)
theory Setting_Service
  imports Setting_Auth
begin

section \<open>Setting: the service\<close>

text \<open>
  \<open>SettingServiceImpl\<close> (\<open>setting/service.py\<close>) with the provisioning of single sign-on users
  (\<open>auth/jit_provisioning.py\<close>) and the first-run seeding (\<open>seed.py\<close>). Every operation works in the
  transaction of its request and on the policy engine of the process; what it did to the engine is
  not undone when the transaction is rolled back.
\<close>

subsection \<open>Responses\<close>

record tenant_brief =
  tb_rid :: string
  tb_name :: string

record user_response =
  ur_rid :: string
  ur_email :: string
  ur_name :: string
  ur_status :: string
  ur_role :: "string option"
  ur_tenant :: "tenant_brief option"
  ur_created :: int
  ur_updated :: int

record tenant_response =
  tr_rid :: string
  tr_name :: string
  tr_status :: string
  tr_config :: "pyval dict"
  tr_created :: int
  tr_updated :: int

record member_response =
  mr_user :: string
  mr_name :: string
  mr_email :: string
  mr_role :: string
  mr_default :: bool
  mr_created :: int

record role_response =
  rr_rid :: string
  rr_name :: string
  rr_desc :: "string option"
  rr_perms :: "pyval dict list"
  rr_system :: bool
  rr_created :: int
  rr_updated :: int

definition user_to_response :: "user_row \<Rightarrow> string option \<Rightarrow> tenant_brief option \<Rightarrow> user_response" where
  "user_to_response u role tenant =
     \<lparr>ur_rid = us_rid u, ur_email = us_email u, ur_name = us_name u, ur_status = us_status u,
      ur_role = role, ur_tenant = tenant, ur_created = us_created u, ur_updated = us_updated u\<rparr>"

definition brief :: "tenant_row \<Rightarrow> tenant_brief" where
  "brief t = \<lparr>tb_rid = tn_rid t, tb_name = tn_name t\<rparr>"

definition tenant_to_response :: "tenant_row \<Rightarrow> tenant_response" where
  "tenant_to_response t =
     \<lparr>tr_rid = tn_rid t, tr_name = tn_name t, tr_status = tn_status t, tr_config = tn_config t,
      tr_created = tn_created t, tr_updated = tn_updated t\<rparr>"

definition member_to_response :: "user_row \<Rightarrow> member_row \<Rightarrow> member_response" where
  "member_to_response u m =
     \<lparr>mr_user = us_rid u, mr_name = us_name u, mr_email = us_email u, mr_role = mb_role m,
      mr_default = mb_default m, mr_created = mb_created m\<rparr>"

definition role_to_response :: "role_row \<Rightarrow> role_response" where
  "role_to_response r =
     \<lparr>rr_rid = cr_rid r, rr_name = cr_name r, rr_desc = cr_desc r, rr_perms = cr_perms r,
      rr_system = cr_system r, rr_created = cr_created r, rr_updated = cr_updated r\<rparr>"

definition user_not_found :: exn where
  "user_not_found = AppError SETTING_USER_NOT_FOUND ''User not found'' []"

definition missing :: "string \<Rightarrow> exn" where
  "missing what = AppError COMMON_NOT_FOUND (what @ '' not found'') []"

text \<open>\<open>if x is None: raise e\<close>\<close>

definition need_some :: "exn \<Rightarrow> 'a option \<Rightarrow> ('s, exn, 'a) comp" where
  "need_some e x = liftC (case x of Some y \<Rightarrow> Inr y | None \<Rightarrow> Inl e)"

subsection \<open>Permissions and audit\<close>

definition service_check_permission ::
  "'c casbin_ops \<Rightarrow> senv \<Rightarrow> string \<Rightarrow> string \<Rightarrow> string \<Rightarrow> string option \<Rightarrow> ('c, 'r, bool) sop" where
  "service_check_permission C E user_id resource_type action resource_rid w =
     (Inr (check_permission C (se_rbac E) user_id resource_type action resource_rid (sw_cas w)), w)"

definition write_audit_log ::
  "ctx \<Rightarrow> string \<Rightarrow> string \<Rightarrow> string \<Rightarrow> string option \<Rightarrow> string option \<Rightarrow> pyval dict option \<Rightarrow> bool \<Rightarrow>
   ('c, 'r, unit) sop" where
  "write_audit_log c module event action rtype rrid details has_session =
     (if \<not> has_session then retC ()
      else
        bindC (liftC (get_tenant_id c)) (\<lambda>tenant.
        bindC (liftC (get_user_id c)) (\<lambda>user.
        bindC began (\<lambda>now.
        bindC (on_sdb (audit_create \<lparr>al_id = 0, al_tenant = tenant, al_module = module, al_event = event,
            al_rtype = rtype, al_rrid = rrid, al_user = user, al_action = action, al_details = details,
            al_request = Some (get_request_id c), al_created = now\<rparr>)) (\<lambda>_. retC ())))))"

subsection \<open>Signing in and out\<close>

text \<open>The membership a session starts in: the default one, or else the first.\<close>

definition session_membership :: "string \<Rightarrow> string \<Rightarrow> ('c, 'r, member_row) sop" where
  "session_membership user_rid err =
     bindC (on_sdb (member_get_default_tenant user_rid)) (\<lambda>dm.
     (case dm of
        Some m \<Rightarrow> retC m
      | None \<Rightarrow>
          bindC (ask_sdb (member_list_by_user user_rid)) (\<lambda>ms.
          (case ms of
             [] \<Rightarrow> raiseC (AppError COMMON_INTERNAL_ERROR err [])
           | m # _ \<Rightarrow> retC m))))"

text \<open>Both tokens of a session; the refresh token is stored by its hash.\<close>

definition open_session :: "senv \<Rightarrow> string \<Rightarrow> string \<Rightarrow> string \<Rightarrow> ('c, 'r, string \<times> string) sop" where
  "open_session E user_rid tenant_rid role =
     bindC (issue_access_token E user_rid tenant_rid role) (\<lambda>access.
     bindC (issue_refresh_token E user_rid tenant_rid) (\<lambda>(raw, hash).
     bindC (clock E) (\<lambda>now.
     bindC (on_sdb (token_create \<lparr>rt_hash = hash, rt_user = user_rid, rt_tenant = tenant_rid,
         rt_expires = now + se_refresh_ttl E, rt_revoked = None\<rparr>)) (\<lambda>_.
     retC (access, raw)))))"

definition start_session ::
  "'c casbin_ops \<Rightarrow> senv \<Rightarrow> user_row \<Rightarrow> member_row \<Rightarrow> ('c, 'r, user_response \<times> string \<times> string) sop" where
  "start_session C E user m =
     bindC (on_sdb (tenant_get_by_rid (mb_tenant m))) (\<lambda>tenant.
     bindC (need_some (AppError COMMON_INTERNAL_ERROR ''Tenant not found'' []) tenant) (\<lambda>tenant.
     bindC (on_cas (sync_user_role C (us_rid user) (mb_role m))) (\<lambda>_.
     bindC (open_session E (us_rid user) (tn_rid tenant) (mb_role m)) (\<lambda>(access, raw).
     retC (user_to_response user (Some (mb_role m)) (Some (brief tenant)), access, raw)))))"

definition login ::
  "'c casbin_ops \<Rightarrow> senv \<Rightarrow> string \<Rightarrow> string \<Rightarrow> ('c, 'r, user_response \<times> string \<times> string) sop" where
  "login C E email password =
     bindC (on_sdb (user_get_by_email email)) (\<lambda>user.
     bindC (need_some (AppError SETTING_AUTH_INVALID_CREDENTIALS ''Invalid email or password'' []) user) (\<lambda>user.
     bindC (liftC (verify_password E password (us_hash user))) (\<lambda>good.
     bindC (unlessC good (AppError SETTING_AUTH_INVALID_CREDENTIALS ''Invalid email or password'' [])) (\<lambda>_.
     bindC (unlessC (us_status user \<noteq> ''disabled'')
              (AppError SETTING_PERMISSION_DENIED ''User account is disabled'' [])) (\<lambda>_.
     bindC (session_membership (us_rid user) ''User has no tenant membership'') (\<lambda>m.
     start_session C E user m))))))"

definition logout :: "'r redis_ops \<Rightarrow> senv \<Rightarrow> string \<Rightarrow> string option \<Rightarrow> ('c, 'r, unit) sop" where
  "logout R E access_token refresh_raw =
     bindC (clock E) (\<lambda>now.
     bindC (case validate_token E now access_token of
              Inr c \<Rightarrow> revoke_token R E (cl_jti c) (cl_exp c)
            | Inl (ValueError m) \<Rightarrow> retC ()
            | Inl e \<Rightarrow> raiseC e) (\<lambda>_.
     (case refresh_raw of
        Some raw \<Rightarrow>
          (if raw = [] then retC ()
           else bindC (clock E) (\<lambda>now. on_sdb (token_revoke (se_sha256 E raw) now)))
      | None \<Rightarrow> retC ())))"

definition refresh :: "senv \<Rightarrow> string \<Rightarrow> ('c, 'r, string \<times> string) sop" where
  "refresh E refresh_raw =
     (let refresh_hash = se_sha256 E refresh_raw;
          expired = AppError SETTING_AUTH_TOKEN_EXPIRED ''Refresh token is invalid or expired'' [] in
      bindC (on_sdb (token_get_by_hash refresh_hash)) (\<lambda>token.
      bindC (need_some expired token) (\<lambda>token.
      bindC (clock E) (\<lambda>now.
      bindC (liftC (token_is_valid token now)) (\<lambda>good.
      bindC (unlessC good expired) (\<lambda>_.
      bindC (clock E) (\<lambda>now.
      bindC (on_sdb (token_revoke refresh_hash now)) (\<lambda>_.
      bindC (on_sdb (member_get (rt_user token) (rt_tenant token))) (\<lambda>membership.
      open_session E (rt_user token) (rt_tenant token)
        (case membership of Some m \<Rightarrow> mb_role m | None \<Rightarrow> ''member''))))))))))"

definition get_me :: "ctx \<Rightarrow> ('c, 'r, user_response) sop" where
  "get_me c =
     bindC (liftC (get_user_id c)) (\<lambda>user_id.
     bindC (liftC (get_tenant_id c)) (\<lambda>tenant_id.
     bindC (on_sdb (user_get_by_rid user_id)) (\<lambda>user.
     bindC (need_some user_not_found user) (\<lambda>user.
     bindC (on_sdb (member_get user_id tenant_id)) (\<lambda>m.
     bindC (on_sdb (tenant_get_by_rid tenant_id)) (\<lambda>tenant.
     retC (user_to_response user (map_option mb_role m) (map_option brief tenant))))))))"

definition change_password :: "senv \<Rightarrow> ctx \<Rightarrow> string \<Rightarrow> string \<Rightarrow> ('c, 'r, unit) sop" where
  "change_password E c current_password new_password =
     bindC (liftC (get_user_id c)) (\<lambda>user_id.
     bindC (on_sdb (user_get_by_rid user_id)) (\<lambda>user.
     bindC (need_some user_not_found user) (\<lambda>user.
     bindC (liftC (verify_password E current_password (us_hash user))) (\<lambda>good.
     bindC (unlessC good (AppError SETTING_AUTH_INVALID_CREDENTIALS ''Current password is incorrect'' [])) (\<lambda>_.
     (case validate_password_strength new_password of
        Some e \<Rightarrow> raiseC (AppError COMMON_INVALID_INPUT e [])
      | None \<Rightarrow>
          bindC (hash_password E new_password) (\<lambda>h.
          bindC (clock E) (\<lambda>now.
          bindC (on_sdb (user_update_fields (us_rid user) [(''password_hash'', h)] now)) (\<lambda>_. retC ())))))))))"

subsection \<open>Users\<close>

definition create_user ::
  "'c casbin_ops \<Rightarrow> senv \<Rightarrow> ctx \<Rightarrow> string \<Rightarrow> string \<Rightarrow> string \<Rightarrow> string \<Rightarrow> ('c, 'r, user_response) sop" where
  "create_user C E c email display_name password role =
     bindC (on_sdb (user_get_by_email email)) (\<lambda>existing.
     bindC (unlessC (existing = None)
              (AppError SETTING_USER_EMAIL_EXISTS (''Email '' @ email @ '' is already registered'') [])) (\<lambda>_.
     (case validate_password_strength password of
        Some e \<Rightarrow> raiseC (AppError COMMON_INVALID_INPUT e [])
      | None \<Rightarrow>
          bindC (new_rid E ''user'') (\<lambda>user_rid.
          bindC (liftC (get_tenant_id c)) (\<lambda>tenant_rid.
          bindC (hash_password E password) (\<lambda>h.
          bindC began (\<lambda>now.
          bindC (on_sdb (user_create \<lparr>us_rid = user_rid, us_email = email, us_name = display_name, us_hash = h,
              us_status = ''active'', us_created = now, us_updated = now\<rparr>)) (\<lambda>user.
          bindC (on_sdb (member_create \<lparr>mb_user = user_rid, mb_tenant = tenant_rid, mb_role = role,
              mb_default = True, mb_created = now\<rparr>)) (\<lambda>_.
          bindC (on_cas (sync_user_role C user_rid role)) (\<lambda>_.
          retC (user_to_response user (Some role) None)))))))))))"

definition get_user :: "ctx \<Rightarrow> string \<Rightarrow> ('c, 'r, user_response) sop" where
  "get_user c rid =
     bindC (on_sdb (user_get_by_rid rid)) (\<lambda>user.
     bindC (need_some user_not_found user) (\<lambda>user.
     bindC (liftC (get_tenant_id c)) (\<lambda>tenant_rid.
     bindC (on_sdb (member_get rid tenant_rid)) (\<lambda>m.
     retC (user_to_response user (map_option mb_role m) None)))))"

definition no_fields :: exn where
  "no_fields = AppError COMMON_INVALID_INPUT ''No fields to update'' []"

text \<open>\<open>model_dump(exclude_none=True)\<close>: the fields that were given.\<close>

definition given :: "string \<Rightarrow> 'a option \<Rightarrow> (string \<times> 'a) list" where
  "given k x = (case x of Some v \<Rightarrow> [(k, v)] | None \<Rightarrow> [])"

definition update_user ::
  "senv \<Rightarrow> string \<Rightarrow> string option \<Rightarrow> string option \<Rightarrow> ('c, 'r, user_response) sop" where
  "update_user E rid display_name status =
     (let flds = given ''display_name'' display_name @ given ''status'' status in
      bindC (unlessC (flds \<noteq> []) no_fields) (\<lambda>_.
      bindC (clock E) (\<lambda>now.
      bindC (on_sdb (user_update_fields rid flds now)) (\<lambda>user.
      bindC (need_some user_not_found user) (\<lambda>user.
      retC (user_to_response user None None))))))"

definition delete_user :: "senv \<Rightarrow> string \<Rightarrow> ('c, 'r, unit) sop" where
  "delete_user E rid =
     bindC (clock E) (\<lambda>now.
     bindC (on_sdb (user_update_fields rid [(''status'', ''disabled'')] now)) (\<lambda>user.
     bindC (need_some user_not_found user) (\<lambda>_. retC ())))"

definition reset_password :: "senv \<Rightarrow> string \<Rightarrow> string \<Rightarrow> ('c, 'r, unit) sop" where
  "reset_password E rid new_password =
     (case validate_password_strength new_password of
        Some e \<Rightarrow> raiseC (AppError COMMON_INVALID_INPUT e [])
      | None \<Rightarrow>
          bindC (hash_password E new_password) (\<lambda>h.
          bindC (clock E) (\<lambda>now.
          bindC (on_sdb (user_update_fields rid [(''password_hash'', h)] now)) (\<lambda>user.
          bindC (need_some user_not_found user) (\<lambda>_. retC ())))))"

text \<open>A loop that collects results.\<close>

fun collectC :: "('a \<Rightarrow> ('s, 'e, 'b) comp) \<Rightarrow> 'a list \<Rightarrow> ('s, 'e, 'b list) comp" where
  "collectC f [] = retC []"
| "collectC f (x # xs) = bindC (f x) (\<lambda>y. bindC (collectC f xs) (\<lambda>ys. retC (y # ys)))"

definition query_users :: "ctx \<Rightarrow> nat \<Rightarrow> nat \<Rightarrow> ('c, 'r, user_response list \<times> nat) sop" where
  "query_users c offset limit =
     bindC (liftC (get_tenant_id c)) (\<lambda>tenant_rid.
     bindC (ask_sdb (user_list_by_tenant tenant_rid offset limit)) (\<lambda>(users, tot).
     bindC (collectC (\<lambda>user. bindC (on_sdb (member_get (us_rid user) tenant_rid)) (\<lambda>m.
              retC (user_to_response user (map_option mb_role m) None))) users) (\<lambda>results.
     retC (results, tot))))"

subsection \<open>Tenants\<close>

definition create_tenant ::
  "senv \<Rightarrow> ctx \<Rightarrow> string \<Rightarrow> pyval dict option \<Rightarrow> ('c, 'r, tenant_response) sop" where
  "create_tenant E c display_name config =
     bindC (new_rid E ''tenant'') (\<lambda>tenant_rid.
     bindC (liftC (get_user_id c)) (\<lambda>creator_rid.
     bindC began (\<lambda>now.
     bindC (on_sdb (tenant_create \<lparr>tn_rid = tenant_rid, tn_name = display_name, tn_status = ''active'',
         tn_config = (case config of Some d \<Rightarrow> d | None \<Rightarrow> []), tn_created = now, tn_updated = now\<rparr>)) (\<lambda>tenant.
     bindC (on_sdb (member_create \<lparr>mb_user = creator_rid, mb_tenant = tenant_rid, mb_role = ''admin'',
         mb_default = False, mb_created = now\<rparr>)) (\<lambda>_.
     retC (tenant_to_response tenant))))))"

definition get_tenant :: "string \<Rightarrow> ('c, 'r, tenant_response) sop" where
  "get_tenant rid =
     bindC (on_sdb (tenant_get_by_rid rid)) (\<lambda>tenant.
     bindC (need_some (missing ''Tenant'') tenant) (\<lambda>tenant. retC (tenant_to_response tenant)))"

definition update_tenant ::
  "senv \<Rightarrow> string \<Rightarrow> string option \<Rightarrow> string option \<Rightarrow> pyval dict option \<Rightarrow> ('c, 'r, tenant_response) sop" where
  "update_tenant E rid display_name status config =
     (let flds = given ''display_name'' (map_option PStr display_name) @ given ''status'' (map_option PStr status)
                   @ given ''config'' (map_option PDict config) in
      bindC (unlessC (flds \<noteq> []) no_fields) (\<lambda>_.
      bindC (clock E) (\<lambda>now.
      bindC (on_sdb (tenant_update_fields rid flds now)) (\<lambda>tenant.
      bindC (need_some (missing ''Tenant'') tenant) (\<lambda>tenant. retC (tenant_to_response tenant))))))"

definition delete_tenant :: "senv \<Rightarrow> string \<Rightarrow> ('c, 'r, unit) sop" where
  "delete_tenant E rid =
     bindC (clock E) (\<lambda>now.
     bindC (on_sdb (tenant_update_fields rid [(''status'', PStr ''disabled'')] now)) (\<lambda>tenant.
     bindC (need_some (missing ''Tenant'') tenant) (\<lambda>_. retC ())))"

definition query_tenants :: "ctx \<Rightarrow> nat \<Rightarrow> nat \<Rightarrow> ('c, 'r, tenant_response list \<times> nat) sop" where
  "query_tenants c offset limit =
     bindC (liftC (get_role c)) (\<lambda>current_role.
     bindC (liftC (get_user_id c)) (\<lambda>current_user.
     bindC (ask_sdb (if current_role = ''admin'' then tenant_list_all offset limit
                     else tenant_list_by_user current_user offset limit)) (\<lambda>(tenants, tot).
     retC (map tenant_to_response tenants, tot))))"

definition switch_tenant ::
  "'c casbin_ops \<Rightarrow> senv \<Rightarrow> ctx \<Rightarrow> string \<Rightarrow> ('c, 'r, string \<times> string \<times> string) sop" where
  "switch_tenant C E c tenant_rid =
     bindC (liftC (get_user_id c)) (\<lambda>user_rid.
     bindC (on_sdb (member_get user_rid tenant_rid)) (\<lambda>m.
     bindC (need_some (AppError SETTING_PERMISSION_DENIED ''You are not a member of this tenant'' []) m) (\<lambda>m.
     bindC (on_sdb (tenant_get_by_rid tenant_rid)) (\<lambda>tenant.
     bindC (need_some (AppError COMMON_NOT_FOUND ''Tenant not found or disabled'' [])
              (case tenant of Some t \<Rightarrow> if tn_status t = ''active'' then Some t else None | None \<Rightarrow> None)) (\<lambda>tenant.
     bindC (on_cas (sync_user_role C user_rid (mb_role m))) (\<lambda>_.
     bindC (open_session E user_rid (tn_rid tenant) (mb_role m)) (\<lambda>(access, raw).
     retC (access, raw, mb_role m))))))))"

subsection \<open>Members\<close>

definition add_member ::
  "'c casbin_ops \<Rightarrow> string \<Rightarrow> string \<Rightarrow> string \<Rightarrow> ('c, 'r, member_response) sop" where
  "add_member C tenant_rid user_rid role =
     bindC (on_sdb (tenant_get_by_rid tenant_rid)) (\<lambda>tenant.
     bindC (need_some (missing ''Tenant'') tenant) (\<lambda>_.
     bindC (on_sdb (user_get_by_rid user_rid)) (\<lambda>user.
     bindC (need_some user_not_found user) (\<lambda>user.
     bindC (on_sdb (member_get user_rid tenant_rid)) (\<lambda>existing.
     bindC (unlessC (existing = None)
              (AppError COMMON_CONFLICT ''User is already a member of this tenant'' [])) (\<lambda>_.
     bindC began (\<lambda>now.
     bindC (on_sdb (member_create \<lparr>mb_user = user_rid, mb_tenant = tenant_rid, mb_role = role,
         mb_default = False, mb_created = now\<rparr>)) (\<lambda>m.
     bindC (on_cas (sync_user_role C user_rid role)) (\<lambda>_.
     retC (member_to_response user m))))))))))"

definition change_engine_role :: "'c casbin_ops \<Rightarrow> string \<Rightarrow> string \<Rightarrow> string \<Rightarrow> ('c, 'r, unit) sop" where
  "change_engine_role C user_rid old_role role =
     bindC (on_cas (remove_user_role C user_rid old_role)) (\<lambda>_. on_cas (sync_user_role C user_rid role))"

definition update_member_role ::
  "'c casbin_ops \<Rightarrow> string \<Rightarrow> string \<Rightarrow> string \<Rightarrow> ('c, 'r, member_response) sop" where
  "update_member_role C tenant_rid user_rid role =
     bindC (on_sdb (member_get user_rid tenant_rid)) (\<lambda>m.
     bindC (need_some (missing ''Membership'') m) (\<lambda>m.
     bindC (on_sdb (member_update_role user_rid tenant_rid role)) (\<lambda>updated.
     bindC (need_some (AppError COMMON_INTERNAL_ERROR ''Failed to update membership role'' []) updated) (\<lambda>updated.
     bindC (change_engine_role C user_rid (mb_role m) role) (\<lambda>_.
     bindC (on_sdb (user_get_by_rid user_rid)) (\<lambda>user.
     bindC (need_some user_not_found user) (\<lambda>user.
     retC (member_to_response user updated))))))))"

definition remove_member :: "'c casbin_ops \<Rightarrow> string \<Rightarrow> string \<Rightarrow> ('c, 'r, unit) sop" where
  "remove_member C tenant_rid user_rid =
     bindC (on_sdb (member_get user_rid tenant_rid)) (\<lambda>m.
     bindC (need_some (missing ''Membership'') m) (\<lambda>m.
     bindC (if mb_role m = ''admin''
            then bindC (ask_sdb (member_list_by_tenant tenant_rid 0 20)) (\<lambda>(members, _).
                 unlessC (1 < length (filter (\<lambda>m. mb_role m = ''admin'') members))
                   (AppError COMMON_INVALID_INPUT ''Cannot remove the last admin from a tenant'' []))
            else retC ()) (\<lambda>_.
     bindC (on_cas (remove_user_role C user_rid (mb_role m))) (\<lambda>_.
     on_sdb (member_delete user_rid tenant_rid)))))"

definition member_line :: "member_row \<Rightarrow> ('c, 'r, member_response list) sop" where
  "member_line m =
     bindC (on_sdb (user_get_by_rid (mb_user m))) (\<lambda>user.
     retC (case user of Some u \<Rightarrow> [member_to_response u m] | None \<Rightarrow> []))"

definition query_members :: "string \<Rightarrow> nat \<Rightarrow> nat \<Rightarrow> ('c, 'r, member_response list \<times> nat) sop" where
  "query_members tenant_rid offset limit =
     bindC (on_sdb (tenant_get_by_rid tenant_rid)) (\<lambda>tenant.
     bindC (need_some (missing ''Tenant'') tenant) (\<lambda>_.
     bindC (ask_sdb (member_list_by_tenant tenant_rid offset limit)) (\<lambda>(ms, tot).
     bindC (collectC member_line ms) (\<lambda>results.
     retC (concat results, tot)))))"

subsection \<open>Roles\<close>

record perm_entry =
  pe_type :: string
  pe_action :: string
  pe_rid :: "string option"

definition dump_permission :: "perm_entry \<Rightarrow> pyval dict" where
  "dump_permission p =
     [(''resource_type'', PStr (pe_type p)), (''action'', PStr (pe_action p))] @
     given ''resource_rid'' (map_option PStr (pe_rid p))"

definition role_conflict :: "string \<Rightarrow> exn" where
  "role_conflict nm = AppError COMMON_CONFLICT
     (''Role with name '' @ CHR 0x27 # nm @ CHR 0x27 # '' already exists in this tenant'') []"

definition create_role ::
  "'c casbin_ops \<Rightarrow> senv \<Rightarrow> ctx \<Rightarrow> string \<Rightarrow> string option \<Rightarrow> perm_entry list \<Rightarrow> ('c, 'r, role_response) sop" where
  "create_role C E c nm description permissions =
     bindC (liftC (get_tenant_id c)) (\<lambda>tenant_id.
     bindC (on_sdb (role_get_by_name tenant_id nm)) (\<lambda>existing.
     bindC (unlessC (existing = None) (role_conflict nm)) (\<lambda>_.
     bindC (new_rid E ''role'') (\<lambda>role_rid.
     let permissions_data = map dump_permission permissions in
     bindC began (\<lambda>now.
     bindC (on_sdb (role_create \<lparr>cr_rid = role_rid, cr_tenant = tenant_id, cr_name = nm, cr_desc = description,
         cr_perms = permissions_data, cr_system = False, cr_created = now, cr_updated = now\<rparr>)) (\<lambda>role.
     bindC (on_cas (add_custom_role_policies C nm permissions_data)) (\<lambda>_.
     retC (role_to_response role))))))))"

definition get_custom_role :: "string \<Rightarrow> ('c, 'r, role_response) sop" where
  "get_custom_role rid =
     bindC (on_sdb (role_get_by_rid rid)) (\<lambda>role.
     bindC (need_some (missing ''Role'') role) (\<lambda>role. retC (role_to_response role)))"

definition update_role ::
  "'c casbin_ops \<Rightarrow> ctx \<Rightarrow> string \<Rightarrow> string option \<Rightarrow> string option \<Rightarrow> perm_entry list option \<Rightarrow>
   ('c, 'r, role_response) sop" where
  "update_role C c rid nm description permissions =
     bindC (on_sdb (role_get_by_rid rid)) (\<lambda>role.
     bindC (need_some (missing ''Role'') role) (\<lambda>role.
     bindC (unlessC (\<not> cr_system role)
              (AppError SETTING_PERMISSION_DENIED ''System roles cannot be modified'' [])) (\<lambda>_.
     bindC (case nm of
              None \<Rightarrow> retC ()
            | Some n \<Rightarrow>
                bindC (liftC (get_tenant_id c)) (\<lambda>tenant_id.
                bindC (on_sdb (role_get_by_name tenant_id n)) (\<lambda>existing.
                unlessC (case existing of Some x \<Rightarrow> cr_rid x = rid | None \<Rightarrow> True) (role_conflict n)))) (\<lambda>_.
     let flds = \<lparr>rf_name = nm, rf_desc = description, rf_perms = map_option (map dump_permission) permissions\<rparr> in
     bindC (unlessC (flds \<noteq> no_role_fields) no_fields) (\<lambda>_.
     bindC began (\<lambda>now.
     bindC (on_sdb (role_update_fields rid flds now)) (\<lambda>updated.
     bindC (need_some (missing ''Role'') updated) (\<lambda>updated.
     bindC (on_cas (remove_role_policies C (cr_name role))) (\<lambda>_.
     bindC (on_cas (add_custom_role_policies C (cr_name updated) (cr_perms updated))) (\<lambda>_.
     retC (role_to_response updated)))))))))))"

definition delete_role :: "'c casbin_ops \<Rightarrow> string \<Rightarrow> ('c, 'r, unit) sop" where
  "delete_role C rid =
     bindC (on_sdb (role_get_by_rid rid)) (\<lambda>role.
     bindC (need_some (missing ''Role'') role) (\<lambda>role.
     bindC (unlessC (\<not> cr_system role)
              (AppError SETTING_PERMISSION_DENIED ''System roles cannot be deleted'' [])) (\<lambda>_.
     bindC (on_cas (remove_role_policies C (cr_name role))) (\<lambda>_.
     on_sdb (role_delete rid)))))"

definition query_roles :: "ctx \<Rightarrow> nat \<Rightarrow> nat \<Rightarrow> ('c, 'r, role_response list \<times> nat) sop" where
  "query_roles c offset limit =
     bindC (liftC (get_tenant_id c)) (\<lambda>tenant_id.
     bindC (ask_sdb (role_list_by_tenant tenant_id offset limit)) (\<lambda>(roles, tot).
     retC (map role_to_response roles, tot)))"

definition assign_role_to_user :: "'c casbin_ops \<Rightarrow> ctx \<Rightarrow> string \<Rightarrow> string \<Rightarrow> ('c, 'r, unit) sop" where
  "assign_role_to_user C c user_rid role_name =
     bindC (liftC (get_tenant_id c)) (\<lambda>tenant_rid.
     bindC (on_sdb (member_get user_rid tenant_rid)) (\<lambda>m.
     bindC (need_some (missing ''Membership'') m) (\<lambda>m.
     bindC (on_sdb (member_update_role user_rid tenant_rid role_name)) (\<lambda>_.
     change_engine_role C user_rid (mb_role m) role_name))))"

subsection \<open>Audit logs and overview\<close>

definition cleanup_audit_logs :: "senv \<Rightarrow> ctx \<Rightarrow> int \<Rightarrow> ('c, 'r, nat) sop" where
  "cleanup_audit_logs E c days =
     bindC (clock E) (\<lambda>now.
     bindC (liftC (get_tenant_id c)) (\<lambda>tenant.
     on_sdb (audit_delete_before tenant (now - days * 86400))))"

definition query_audit_logs ::
  "ctx \<Rightarrow> string option \<Rightarrow> string option \<Rightarrow> string option \<Rightarrow> nat \<Rightarrow> nat \<Rightarrow>
   ('c, 'r, audit_row list \<times> nat) sop" where
  "query_audit_logs c module event user offset limit =
     bindC (liftC (get_tenant_id c)) (\<lambda>tenant.
     ask_sdb (audit_query tenant \<lparr>af_module = module, af_event = event, af_user = user, af_rtype = None,
       af_rrid = None\<rparr> offset limit))"

definition get_audit_log :: "ctx \<Rightarrow> int \<Rightarrow> ('c, 'r, audit_row) sop" where
  "get_audit_log c log_id =
     bindC (liftC (get_tenant_id c)) (\<lambda>tenant.
     bindC (on_sdb (audit_get_by_id log_id tenant)) (\<lambda>log.
     need_some (missing ''Audit log'') log))"

record overview =
  ov_users :: nat
  ov_by_status :: "nat dict"
  ov_tenants :: nat
  ov_recent :: "audit_row list"

definition get_overview :: "ctx \<Rightarrow> ('c, 'r, overview) sop" where
  "get_overview c =
     bindC (liftC (get_tenant_id c)) (\<lambda>tenant.
     ask_sdb (\<lambda>d. let by_status = user_count_by_status tenant d in
       \<lparr>ov_users = sum_list (map snd by_status), ov_by_status = by_status, ov_tenants = tenant_count d,
        ov_recent = audit_recent tenant 10 d\<rparr>))"

subsection \<open>Single sign-on\<close>

definition provision_user :: "senv \<Rightarrow> userinfo \<Rightarrow> string \<Rightarrow> ('c, 'r, user_row) sop" where
  "provision_user E info tenant_rid =
     bindC (on_sdb (user_get_by_email (ui_email info))) (\<lambda>user.
     (case user of
        Some user \<Rightarrow>
          bindC (if us_name user \<noteq> ui_name info
                 then bindC (clock E) (\<lambda>now.
                      bindC (on_sdb (user_update_fields (us_rid user) [(''display_name'', ui_name info)] now))
                        (need_some (DriverError ''AttributeError'')))
                 else retC user) (\<lambda>user.
          bindC (on_sdb (member_get (us_rid user) tenant_rid)) (\<lambda>m.
          bindC (if m = None
                 then bindC began (\<lambda>now.
                      bindC (on_sdb (member_create \<lparr>mb_user = us_rid user, mb_tenant = tenant_rid,
                        mb_role = ''member'', mb_default = False, mb_created = now\<rparr>)) (\<lambda>_. retC ()))
                 else retC ()) (\<lambda>_. retC user)))
      | None \<Rightarrow>
          bindC (new_rid E ''user'') (\<lambda>user_rid.
          bindC began (\<lambda>now.
          bindC (on_sdb (user_create \<lparr>us_rid = user_rid, us_email = ui_email info, us_name = ui_name info,
              us_hash = ''SSO_MANAGED'', us_status = ''active'', us_created = now, us_updated = now\<rparr>)) (\<lambda>user.
          bindC (on_sdb (member_create \<lparr>mb_user = user_rid, mb_tenant = tenant_rid, mb_role = ''member'',
              mb_default = True, mb_created = now\<rparr>)) (\<lambda>_.
          retC user))))))"

definition sso_not_configured :: exn where
  "sso_not_configured = AppError COMMON_INVALID_INPUT ''SSO is not configured'' []"

definition sso_authorize :: "senv \<Rightarrow> ('c, 'r, string \<times> string) sop" where
  "sso_authorize E =
     bindC (unlessC (se_sso E) sso_not_configured) (\<lambda>_.
     bindC (draw (se_secret E)) (\<lambda>state.
     bindC (draw (se_secret E)) (\<lambda>nonce.
     bindC (liftC (se_auth_url E state nonce)) (\<lambda>url. retC (url, state)))))"

definition sso_callback ::
  "'c casbin_ops \<Rightarrow> senv \<Rightarrow> string \<Rightarrow> string \<Rightarrow> ('c, 'r, user_response \<times> string \<times> string) sop" where
  "sso_callback C E code state =
     bindC (unlessC (se_sso E) sso_not_configured) (\<lambda>_.
     bindC (liftC (se_exchange E code state)) (\<lambda>token_response.
     bindC (liftC (se_userinfo E (dget_or token_response ''access_token'' (PStr [])))) (\<lambda>info.
     bindC (unlessC (ui_email info \<noteq> []) (AppError SETTING_AUTH_INVALID_CREDENTIALS
              ''OIDC provider did not return an email address'' [])) (\<lambda>_.
     bindC (ask_sdb (\<lambda>d. fst (tenant_list_all 0 1 d))) (\<lambda>tenants.
     bindC (need_some (AppError COMMON_INTERNAL_ERROR ''No tenant available for SSO provisioning'' [])
              (single tenants)) (\<lambda>default_tenant.
     bindC (provision_user E info (tn_rid default_tenant)) (\<lambda>user.
     bindC (unlessC (us_status user \<noteq> ''disabled'')
              (AppError SETTING_PERMISSION_DENIED ''User account is disabled'' [])) (\<lambda>_.
     bindC (session_membership (us_rid user) ''User has no tenant membership after provisioning'') (\<lambda>m.
     start_session C E user m)))))))))"

definition get_sso_config :: "senv \<Rightarrow> bool \<times> string option" where
  "get_sso_config E = (if \<not> se_sso E then (False, None) else (True, Some (se_provider_name E)))"

subsection \<open>First run\<close>

definition seed_system_role :: "senv \<Rightarrow> string \<Rightarrow> string \<times> string \<times> pyval dict list \<Rightarrow> ('c, 'r, unit) sop" where
  "seed_system_role E tenant_rid def =
     (case def of (nm, desc, perms) \<Rightarrow>
        bindC (on_sdb (role_get_by_name tenant_rid nm)) (\<lambda>existing.
        if existing \<noteq> None then retC ()
        else
          bindC (new_rid E ''role'') (\<lambda>role_rid.
          bindC began (\<lambda>now.
          bindC (on_sdb (role_create \<lparr>cr_rid = role_rid, cr_tenant = tenant_rid, cr_name = nm, cr_desc = Some desc,
              cr_perms = perms, cr_system = True, cr_created = now, cr_updated = now\<rparr>)) (\<lambda>_. retC ())))))"

definition seed_system_roles :: "senv \<Rightarrow> string option \<Rightarrow> ('c, 'r, unit) sop" where
  "seed_system_roles E tenant_rid =
     bindC (ask_sdb (\<lambda>d. case tenant_rid of Some t \<Rightarrow> [t] | None \<Rightarrow> map tn_rid (db_tenants d))) (\<lambda>tenant_rids.
     forC tenant_rids (\<lambda>t. forC SYSTEM_ROLE_DEFINITIONS (seed_system_role E t)))"

definition tx_commit :: "('c, 'r) sworld \<Rightarrow> ('c, 'r) sworld" where
  "tx_commit w = w\<lparr>sw_db := sw_tx w\<rparr>"

definition tx_rollback :: "('c, 'r) sworld \<Rightarrow> ('c, 'r) sworld" where
  "tx_rollback w = w\<lparr>sw_tx := sw_db w\<rparr>"

definition run_seed ::
  "'c casbin_ops \<Rightarrow> senv \<Rightarrow> string \<Rightarrow> string \<Rightarrow> string \<Rightarrow> ('c, 'r, unit) sop" where
  "run_seed C E admin_email admin_password tenant_name =
     bindC (on_cas (seed_policies C)) (\<lambda>_.
     bindC (ask_sdb (\<lambda>d. db_users d \<noteq> [])) (\<lambda>populated.
     if populated then
       bindC (ask_sdb db_members) (\<lambda>members.
       bindC (forC members (\<lambda>m. on_cas (sync_user_role C (mb_user m) (mb_role m)))) (\<lambda>_.
       bindC (seed_system_roles E None) (\<lambda>_.
       bindC (ask_sdb db_roles) (\<lambda>roles.
       forC roles (\<lambda>r. if \<not> cr_system r then on_cas (add_custom_role_policies C (cr_name r) (cr_perms r))
                        else retC ())))))
     else
       bindC (new_rid E ''tenant'') (\<lambda>tenant_rid.
       bindC began (\<lambda>now.
       bindC (on_sdb (tenant_create \<lparr>tn_rid = tenant_rid, tn_name = tenant_name, tn_status = ''active'',
           tn_config = [], tn_created = now, tn_updated = now\<rparr>)) (\<lambda>_.
       bindC (new_rid E ''user'') (\<lambda>user_rid.
       bindC (hash_password E admin_password) (\<lambda>h.
       bindC (on_sdb (user_create \<lparr>us_rid = user_rid, us_email = admin_email, us_name = ''Admin'', us_hash = h,
           us_status = ''active'', us_created = now, us_updated = now\<rparr>)) (\<lambda>_.
       bindC (on_sdb (member_create \<lparr>mb_user = user_rid, mb_tenant = tenant_rid, mb_role = ''admin'',
           mb_default = True, mb_created = now\<rparr>)) (\<lambda>_.
       bindC (seed_system_roles E (Some tenant_rid)) (\<lambda>_.
       bindC (on_sdb (audit_create \<lparr>al_id = 0, al_tenant = tenant_rid, al_module = ''setting'', al_event = ''seed'',
           al_rtype = None, al_rrid = None, al_user = user_rid,
           al_action = ''System initialized: admin='' @ admin_email @ '', tenant='' @ tenant_name,
           al_details = None, al_request = None, al_created = now\<rparr>)) (\<lambda>_.
       bindC (\<lambda>w. (Inr (), tx_commit w)) (\<lambda>_.
       on_cas (sync_user_role C user_rid ''admin'')))))))))))))"

end
