(* ===== verification/Setting_Session.thy ===== *)
theory Setting_Session
  imports Setting_Service
begin

section \<open>Sessions: who is let in, until when\<close>

text \<open>
  What the pieces of the sign-in path amount to together: login and middleware, logout and middleware,
  the refresh of a session, and single sign-on. The facts on the key-value server come from the locale
  \<open>redis\<close>, those on tokens from \<open>jwt\<close>, which \<open>demo_senv\<close> interprets by claims written as JSON.
\<close>

subsection \<open>Tokens as JSON\<close>

definition claims_json :: "claims \<Rightarrow> pyval" where
  "claims_json c =
     PDict [(''iss'', PStr (cl_iss c)), (''sub'', PStr (cl_sub c)), (''aud'', PStr (cl_aud c)),
       (''tid'', PStr (cl_tid c)), (''role'', PStr (cl_role c)), (''jti'', PStr (cl_jti c)),
       (''iat'', PInt (cl_iat c)), (''exp'', PInt (cl_exp c))]"

definition int_of :: "pyval \<Rightarrow> int" where
  "int_of v = (case v of PInt i \<Rightarrow> i | _ \<Rightarrow> 0)"

definition json_claims :: "pyval dict \<Rightarrow> claims" where
  "json_claims d =
     \<lparr>cl_iss = pget_str d ''iss'', cl_sub = pget_str d ''sub'', cl_aud = pget_str d ''aud'',
      cl_tid = pget_str d ''tid'', cl_role = pget_str d ''role'', cl_jti = pget_str d ''jti'',
      cl_iat = int_of (pget d ''iat''), cl_exp = int_of (pget d ''exp'')\<rparr>"

definition decode_json :: "int \<Rightarrow> string \<Rightarrow> decoded" where
  "decode_json now s =
     (case json_loads s of
        Some (PDict d) \<Rightarrow> (if cl_exp (json_claims d) < now then ExpiredToken else Decoded (json_claims d))
      | _ \<Rightarrow> JoseFault ''bad token'')"

definition demo_senv :: senv where
  "demo_senv =
     \<lparr>se_uuid = (\<lambda>n. ''0000000'' @ nat_str n @ ''-0000-0000-0000-000000000000''),
      se_secret = (\<lambda>n. ''secret'' @ nat_str n), se_now = (\<lambda>n. 1000),
      se_hashpw = (\<lambda>n p. Inr (''#'' @ p)), se_checkpw = (\<lambda>p h. Inr (h = ''#'' @ p)),
      se_sha256 = (\<lambda>s. ''sha:'' @ s), se_encode = (\<lambda>c. json_dumps (claims_json c)), se_decode = decode_json,
      se_access_ttl = 900, se_refresh_ttl = 604800, se_rbac = True, se_sso = True,
      se_exchange = (\<lambda>code state. Inr [(''access_token'', PStr code)]),
      se_userinfo = (\<lambda>tok. case tok of PStr e \<Rightarrow> Inr \<lparr>ui_sub = e, ui_email = e, ui_name = ''Ext''\<rparr>
        | _ \<Rightarrow> Inl (DriverError ''HTTPStatusError'')),
      se_auth_url = (\<lambda>state nonce. Inr (''https://idp/?state='' @ state)), se_provider_name = ''SSO''\<rparr>"

lemma json_claims_of_json: "json_claims d = c" if "claims_json c = PDict d"
  using that by (auto simp: claims_json_def json_claims_def pget_str_def pget_def int_of_def)

interpretation demo_jwt: jwt demo_senv
proof
  fix c
  show "se_encode demo_senv c \<noteq> []" by (simp add: demo_senv_def claims_json_def)
next
  fix now c
  have "json_ok (claims_json c)" by (simp add: claims_json_def)
  then have "json_loads (json_dumps (claims_json c)) = Some (claims_json c)" by (rule json_loads_dumps)
  moreover obtain d where d: "claims_json c = PDict d" by (simp add: claims_json_def)
  ultimately show "se_decode demo_senv now (se_encode demo_senv c) = (if cl_exp c < now then ExpiredToken else Decoded c)"
    using json_claims_of_json [OF d] by (simp add: demo_senv_def decode_json_def)
qed

subsection \<open>Frames\<close>

text \<open>The parts of the world the token machinery leaves alone.\<close>

lemma one_or_none_Some: "one_or_none xs = Inr (Some x) \<longleftrightarrow> xs = [x]"
  by (auto simp: one_or_none_def split: list.splits)

lemma one_or_none_Some' [simp]: "Inr (Some x) = one_or_none xs \<longleftrightarrow> xs = [x]"
  by (auto simp: one_or_none_def split: list.splits)

lemma if_Inr_unit [simp]: "(if b then Inr () else Inl e) = Inr u \<longleftrightarrow> b"
  by simp

lemma need_some_ok [simp]: "need_some e x w = (Inr y, w') \<longleftrightarrow> x = Some y \<and> w' = w"
  by (auto simp: need_some_def split: option.splits)

lemma need_some_err: "need_some e x w = (Inl e', w') \<longleftrightarrow> x = None \<and> e' = e \<and> w' = w"
  by (auto simp: need_some_def split: option.splits)

lemma unlessC_ok [simp]: "unlessC b e w = (Inr u, w') \<longleftrightarrow> b \<and> w' = w"
  by (auto simp: unlessC_def)

lemma on_sdb_lookup:
  "on_sdb (ask_one f) w = (r, w') \<longleftrightarrow> r = one_or_none (f (sw_tx w)) \<and> w' = w"
  by (auto simp: on_sdb_def ask_one_def)

lemmas lookup_defs = user_get_by_rid_def user_get_by_email_def tenant_get_by_rid_def member_get_def
  member_get_default_tenant_def token_get_by_hash_def role_get_by_rid_def role_get_by_name_def audit_get_by_id_def

lemmas run_simps = bindC_ok_iff on_sdb_lookup lookup_defs one_or_none_Some ask_sdb_def on_cas_def clock_def
  began_def draw_def

lemma filter_hd: "filter P xs = x # ys \<Longrightarrow> x \<in> set xs \<and> P x"
  by (auto simp: filter_eq_Cons_iff)

lemma session_membership_ok:
  assumes "session_membership u e w = (Inr m, w')"
  shows "w' = w \<and> m \<in> set (db_members (sw_tx w)) \<and> mb_user m = u"
proof -
  let ?dm = "one_or_none (filter (\<lambda>m. mb_user m = u \<and> mb_default m) (db_members (sw_tx w)))"
  consider (default) x where "?dm = Inr (Some x)" | (none) "?dm = Inr None" | (err) e' where "?dm = Inl e'"
    by (metis obj_sumE option.exhaust)
  then show ?thesis
  proof cases
    case default
    then have "m = x \<and> w' = w"
      using assms by (simp add: session_membership_def bindC_run on_sdb_def ask_one_def member_get_default_tenant_def)
    then show ?thesis using default by (auto simp: one_or_none_Some dest: filter_hd)
  next
    case none
    then have "w' = w \<and> (\<exists>ms. member_list_by_user u (sw_tx w) = m # ms)"
      using assms
      by (auto simp: session_membership_def bindC_run on_sdb_def ask_one_def member_get_default_tenant_def
          ask_sdb_def split: list.splits)
    then show ?thesis by (auto simp: member_list_by_user_def dest: filter_hd)
  next
    case err
    then show ?thesis
      using assms by (simp add: session_membership_def bindC_run on_sdb_def ask_one_def member_get_default_tenant_def)
  qed
qed

lemma open_session_ok:
  assumes "open_session E u t r w = (Inr (access, raw), w')"
  shows "access = se_encode E \<lparr>cl_iss = ''lingshu'', cl_sub = u, cl_aud = ''lingshu'', cl_tid = t, cl_role = r,
      cl_jti = se_uuid E (sw_draws w), cl_iat = se_now E (sw_ticks w), cl_exp = se_now E (sw_ticks w) + se_access_ttl E\<rparr>"
  using assms
  by (auto simp: open_session_def issue_access_token_def issue_refresh_token_def run_simps split: prod.splits)


subsection \<open>What an operation may do to the tables\<close>

text \<open>
  A relation on the tables, lifted to the worlds of requests: the transaction moves along the relation
  and nothing is committed. \<open>table_relation\<close> is the interface between such a relation and the service:
  what it has to hold for (reflexive and transitive, and kept by the insertions every session makes),
  and that it then holds for whatever is composed of operations that keep it.
\<close>

definition tables :: "(setdb \<Rightarrow> setdb \<Rightarrow> bool) \<Rightarrow> ('c, 'r) sworld \<Rightarrow> ('c, 'r) sworld \<Rightarrow> bool" where
  "tables P w w' \<longleftrightarrow> P (sw_tx w) (sw_tx w') \<and> sw_db w' = sw_db w"

locale table_relation =
  fixes P :: "setdb \<Rightarrow> setdb \<Rightarrow> bool"
  assumes refl: "P d d"
    and trans: "P d e \<Longrightarrow> P e f \<Longrightarrow> P d f"
    and user_create: "keeps P (user_create u)"
    and user_update: "keeps P (user_update_fields rid flds now)"
    and token_create: "keeps P (token_create t)"
begin

lemma tables_trans: "transp (tables P)"
  by (auto simp: transp_def tables_def intro: trans)

lemma tables_refl: "reflp (tables P)"
  by (auto simp: reflp_def tables_def refl)

lemma lookup: "keeps P (ask_one q)"
  by (simp add: keeps_def ask_one_def refl)

lemma on_tables: "keeps P m \<Longrightarrow> keeps (tables P) (on_sdb m)"
  by (simp add: keeps_def tables_def on_sdb_def case_prod_beta)

lemma quiet:
  "keeps (tables P) (draw f)" "keeps (tables P) (clock E)" "keeps (tables P) began"
  "keeps (tables P) (on_cas g)" "keeps (tables P) (ask_sdb h)" "keeps (tables P) (need_some e x)"
  by (simp_all add: keeps_def tables_def refl draw_def clock_def began_def on_cas_def ask_sdb_def need_some_def)

lemma quiet_pure:
  "keeps (tables P) (retC x)" "keeps (tables P) (raiseC e)" "keeps (tables P) (liftC r)" "keeps (tables P) (unlessC b e)"
  by (simp_all add: keeps_def tables_def refl)

lemmas steps = keeps_bindC [OF tables_trans] on_tables lookup user_create user_update token_create quiet quiet_pure

lemma fresh_rid: "keeps (tables P) (new_rid E ty)"
  unfolding new_rid_def by (intro steps)

lemma hashing: "keeps (tables P) (hash_password E p)"
  unfolding hash_password_def by (intro steps)

lemma revoking: "keeps (tables P) (revoke_token R E jti ex)"
  by (simp add: keeps_def tables_def revoke_token_def bindC_run clock_def Let_def refl)

lemmas rules = steps fresh_rid hashing revoking

lemma open_session: "keeps (tables P) (open_session E u t r)"
  unfolding open_session_def issue_access_token_def issue_refresh_token_def
  by (auto intro!: rules split: prod.splits)

lemma session_membership: "keeps (tables P) (session_membership u e)"
  unfolding session_membership_def lookup_defs
  by (auto intro!: rules split: option.splits list.splits)

lemma start_session: "keeps (tables P) (start_session C E u m)"
  unfolding start_session_def lookup_defs
  by (auto intro!: rules open_session split: prod.splits)

lemmas sessions = open_session session_membership start_session

lemma login: "keeps (tables P) (login C E email password)"
  unfolding login_def lookup_defs by (auto intro!: rules sessions)

lemma collect: "(\<And>x. keeps (tables P) (f x)) \<Longrightarrow> keeps (tables P) (collectC f xs)"
  by (induction xs) (auto intro!: steps)

lemma each: "(\<And>x. keeps (tables P) (f x)) \<Longrightarrow> keeps (tables P) (forC xs f)"
  by (induction xs) (auto intro!: steps)

end

subsection \<open>Signing in\<close>

text \<open>A path the middleware guards.\<close>

definition guarded :: "http_request \<Rightarrow> bool" where
  "guarded rq \<longleftrightarrow> rq_method rq \<noteq> ''OPTIONS'' \<and> rq_path rq \<notin> set (WHITELIST_PATHS @ REFRESH_PATHS)"

definition request_id :: "string \<Rightarrow> http_request \<Rightarrow> string" where
  "request_id uuid rq = dget_or (rq_headers rq) ''X-Request-ID'' uuid"

lemma dispatch_token:
  assumes "jwt E" and "guarded rq" and "rq_access rq = Some (se_encode E c)"
    and "cl_iss c = ''lingshu''" and "cl_aud c = ''lingshu''"
  shows "dispatch R E True dev uuid now rq s =
    (if cl_exp c < now then error_response 401 ''SETTING_AUTH_TOKEN_EXPIRED'' ''Token expired''
     else if is_revoked R (cl_tid c) (cl_jti c) s
     then error_response 401 ''SETTING_AUTH_TOKEN_REVOKED'' ''Token has been revoked''
     else Pass_on (session_ctx (cl_sub c) (cl_tid c) (cl_role c) (request_id uuid rq)))"
  using assms(2-5) jwt.encode_nonempty [OF assms(1), of c] jwt.validate_issued [OF assms(1), of c now]
  by (simp add: dispatch_def guarded_def Let_def request_id_def)

lemma login_ok:
  assumes "login C E email password w = (Inr (resp, access, raw), w')"
  shows "\<exists>u m. u \<in> set (db_users (sw_tx w)) \<and> us_email u = email \<and> se_checkpw E password (us_hash u) = Inr True \<and>
    us_status u \<noteq> ''disabled'' \<and> m \<in> set (db_members (sw_tx w)) \<and> mb_user m = us_rid u \<and>
    access = se_encode E \<lparr>cl_iss = ''lingshu'', cl_sub = us_rid u, cl_aud = ''lingshu'', cl_tid = mb_tenant m,
      cl_role = mb_role m, cl_jti = se_uuid E (sw_draws w), cl_iat = se_now E (sw_ticks w),
      cl_exp = se_now E (sw_ticks w) + se_access_ttl E\<rparr>"
proof -
  obtain u m w1 where u: "filter (\<lambda>u. us_email u = email) (db_users (sw_tx w)) = [u]"
    and pw: "se_checkpw E password (us_hash u) = Inr True" and st: "us_status u \<noteq> ''disabled''"
    and m: "session_membership (us_rid u) ''User has no tenant membership'' w = (Inr m, w1)"
    and s: "start_session C E u m w1 = (Inr (resp, access, raw), w')"
    using assms by (auto simp: login_def run_simps verify_password_def)
  note m' = session_membership_ok [OF m]
  obtain t where t: "filter (\<lambda>t. tn_rid t = mb_tenant m) (db_tenants (sw_tx w1)) = [t]"
    and o: "open_session E (us_rid u) (tn_rid t) (mb_role m)
      (w1\<lparr>sw_cas := sync_user_role C (us_rid u) (mb_role m) (sw_cas w1)\<rparr>) = (Inr (access, raw), w')"
    using s by (auto simp: start_session_def run_simps split: prod.splits)
  show ?thesis
    using filter_hd [OF u] filter_hd [OF t] pw st m' open_session_ok [OF o] by auto
qed

text \<open>
C16. Signing in admits: whoever is given an access token for an email and a password is an enabled user
with that email and password and a member of a tenant, and until the token's time is up a request
with it reaches the handlers as this user, in this tenant, with the role of this membership.
\<close>

theorem login_admits:
  assumes "jwt E" and "login C E email password w = (Inr (resp, access, raw), w')"
    and "guarded rq" and "rq_access rq = Some access" and "now \<le> se_now E (sw_ticks w) + se_access_ttl E"
    and "rd_get R s (blacklist_key (se_uuid E (sw_draws w))) = None"
  shows "\<exists>u m. u \<in> set (db_users (sw_tx w)) \<and> us_email u = email \<and> se_checkpw E password (us_hash u) = Inr True \<and>
    us_status u \<noteq> ''disabled'' \<and> m \<in> set (db_members (sw_tx w)) \<and> mb_user m = us_rid u \<and>
    dispatch R E True dev uuid now rq s =
      Pass_on (session_ctx (us_rid u) (mb_tenant m) (mb_role m) (request_id uuid rq))"
proof -
  obtain u m where u: "u \<in> set (db_users (sw_tx w))" "us_email u = email" "se_checkpw E password (us_hash u) = Inr True"
    "us_status u \<noteq> ''disabled''" "m \<in> set (db_members (sw_tx w))" "mb_user m = us_rid u"
    and a: "access = se_encode E \<lparr>cl_iss = ''lingshu'', cl_sub = us_rid u, cl_aud = ''lingshu'', cl_tid = mb_tenant m,
      cl_role = mb_role m, cl_jti = se_uuid E (sw_draws w), cl_iat = se_now E (sw_ticks w),
      cl_exp = se_now E (sw_ticks w) + se_access_ttl E\<rparr>"
    using login_ok [OF assms(2)] by blast
  have "dispatch R E True dev uuid now rq s =
      Pass_on (session_ctx (us_rid u) (mb_tenant m) (mb_role m) (request_id uuid rq))"
    using assms(5,6)
    by (simp add: dispatch_token [OF assms(1,3) assms(4) [unfolded a]] is_revoked_def not_less)
  with u show ?thesis by blast
qed

subsection \<open>Signing out\<close>

lemma revoke_token_run:
  "revoke_token R E jti ex w =
     (Inr (), (if se_now E (sw_ticks w) < ex
        then w\<lparr>sw_ticks := Suc (sw_ticks w),
               sw_redis := rd_setex R (sw_redis w) (blacklist_key jti) (nat (ex - se_now E (sw_ticks w))) ''1''\<rparr>
        else w\<lparr>sw_ticks := Suc (sw_ticks w)\<rparr>))"
  by (simp add: revoke_token_def bindC_run clock_def Let_def max_def)

lemma logout_redis:
  assumes "validate_token E (se_now E (sw_ticks w)) access = Inr c"
    and "se_now E (Suc (sw_ticks w)) < cl_exp c"
  shows "sw_redis (snd (logout R E access raw w)) =
    rd_setex R (sw_redis w) (blacklist_key (cl_jti c)) (nat (cl_exp c - se_now E (Suc (sw_ticks w)))) ''1''"
  using assms
  by (simp add: logout_def bindC_run clock_def revoke_token_run on_sdb_def token_revoke_def split: option.splits)

text \<open>
C17. Signing out revokes the access token for the seconds it still has, and not one more: from the
logout on, every request with it is answered 401, except in the last second of its life, when the
entry of the blacklist has expired and the token has not.
\<close>

theorem logout_revokes:
  assumes "redis R rank" and "jwt E" and "cl_iss c = ''lingshu''" and "cl_aud c = ''lingshu''"
    and "se_now E (sw_ticks w) \<le> cl_exp c" and "se_now E (Suc (sw_ticks w)) < cl_exp c"
    and "guarded rq" and "rq_access rq = Some (se_encode E c)"
    and "now = se_now E (Suc (sw_ticks w)) + int d"
    and "s = rd_tick R (sw_redis (snd (logout R E (se_encode E c) raw w))) d"
  shows "dispatch R E True dev uuid now rq s =
    (if now = cl_exp c then Pass_on (session_ctx (cl_sub c) (cl_tid c) (cl_role c) (request_id uuid rq))
     else if now < cl_exp c then error_response 401 ''SETTING_AUTH_TOKEN_REVOKED'' ''Token has been revoked''
     else error_response 401 ''SETTING_AUTH_TOKEN_EXPIRED'' ''Token expired'')"
proof -
  let ?k = "blacklist_key (cl_jti c)" and ?ttl = "nat (cl_exp c - se_now E (Suc (sw_ticks w)))"
  let ?s = "rd_setex R (sw_redis w) ?k ?ttl ''1''"
  have "validate_token E (se_now E (sw_ticks w)) (se_encode E c) = Inr c"
    using jwt.validate_issued [OF assms(2-4)] assms(5) by simp
  then have s: "s = rd_tick R ?s d" using logout_redis [OF _ assms(6)] assms(10) by simp
  have ttl: "0 < ?ttl" using assms(6) by simp
  have get: "rd_get R ?s ?k = Some ''1''" by (simp add: redis.setex_get [OF assms(1) ttl])
  have left: "rd_ttl R ?s ?k = int ?ttl" by (rule redis.setex_ttl [OF assms(1) ttl])
  have "is_revoked R (cl_tid c) (cl_jti c) s \<longleftrightarrow> now < cl_exp c"
  proof (cases "now < cl_exp c")
    case True
    then have "int d < rd_ttl R ?s ?k" using left assms(6,9) by simp
    then show ?thesis using redis.tick_live [OF assms(1) get] True by (simp add: is_revoked_def s)
  next
    case False
    then have "0 \<le> rd_ttl R ?s ?k" "rd_ttl R ?s ?k \<le> int d" using left assms(6,9) by simp_all
    then show ?thesis using redis.tick_dead [OF assms(1) get] False by (simp add: is_revoked_def s)
  qed
  then show ?thesis
    unfolding dispatch_token [OF assms(2,7,8,3,4)] by auto
qed

subsection \<open>Refreshing\<close>

definition refresh_expired :: exn where
  "refresh_expired = AppError SETTING_AUTH_TOKEN_EXPIRED ''Refresh token is invalid or expired'' []"

text \<open>
C18. No session is ever refreshed: an unknown or revoked refresh token is refused, and for one that is
good the comparison of its expiry, which is read with a time zone, with the present time, which has
none, raises a TypeError; either way no table changes and no token is issued.
\<close>

theorem refresh_never_succeeds:
  "fst (refresh E raw w) =
     Inl (case filter (\<lambda>t. rt_hash t = se_sha256 E raw) (db_tokens (sw_tx w)) of
            [] \<Rightarrow> refresh_expired
          | [t] \<Rightarrow> if rt_revoked t = None then DriverError ''TypeError'' else refresh_expired
          | _ \<Rightarrow> DriverError ''MultipleResultsFound'') \<and>
   sw_tx (snd (refresh E raw w)) = sw_tx w"
  by (simp add: refresh_def Let_def bindC_run on_sdb_def token_get_by_hash_def ask_one_def one_or_none_def
      need_some_def clock_def token_is_valid_def refresh_expired_def split: list.splits)


subsection \<open>Single sign-on\<close>

text \<open>The memberships of a role other than member.\<close>

definition privileged :: "setdb \<Rightarrow> member_row list" where
  "privileged d = filter (\<lambda>m. mb_role m \<noteq> ''member'') (db_members d)"

definition same_privileged :: "setdb \<Rightarrow> setdb \<Rightarrow> bool" where
  "same_privileged d d' \<longleftrightarrow> privileged d' = privileged d"

lemma privileged_tx:
  "keeps same_privileged (user_create u)" "keeps same_privileged (user_update_fields rid flds now)"
  "keeps same_privileged (token_create t)"
  by (simp_all add: keeps_def same_privileged_def privileged_def user_create_def user_update_fields_def
      user_get_by_rid_def bindC_run ask_one_def token_create_def)

interpretation priv: table_relation same_privileged
  by unfold_locales (simp_all add: same_privileged_def privileged_tx)

lemma privileged_member_create:
  "mb_role m = ''member'' \<Longrightarrow> keeps same_privileged (member_create m)"
  by (simp add: keeps_def same_privileged_def privileged_def member_create_def)

lemma privileged_provision: "keeps (tables same_privileged) (provision_user E info t)"
  unfolding provision_user_def lookup_defs
  by (auto intro!: priv.rules privileged_member_create split: option.splits)

lemma privileged_sso: "keeps (tables same_privileged) (sso_callback C E code state)"
  unfolding sso_callback_def
  by (auto intro!: priv.rules priv.sessions privileged_provision)

text \<open>
Single sign-on never gives anybody a role: whatever the identity provider answers, and whether the
call succeeds or not, the memberships with a role other than member are the same afterwards.
\<close>

theorem sso_never_elevates:
  "privileged (sw_tx (snd (sso_callback C E code state w))) = privileged (sw_tx w)"
  by (rule privileged_sso [unfolded keeps_def tables_def same_privileged_def, rule_format, THEN conjunct1])

subsection \<open>A concrete installation\<close>

definition demo_user :: user_row where
  "demo_user = \<lparr>us_rid = ''u'', us_email = ''a@x'', us_name = ''Ann'', us_hash = ''#secret12'', us_status = ''active'',
     us_created = 10, us_updated = 10\<rparr>"

definition demo_tenant :: "string \<Rightarrow> tenant_row" where
  "demo_tenant rid = \<lparr>tn_rid = rid, tn_name = rid, tn_status = ''active'', tn_config = [], tn_created = 10,
     tn_updated = 10\<rparr>"

definition demo_member :: "string \<Rightarrow> string \<Rightarrow> bool \<Rightarrow> member_row" where
  "demo_member t r dflt = \<lparr>mb_user = ''u'', mb_tenant = t, mb_role = r, mb_default = dflt, mb_created = 10\<rparr>"

text \<open>A user who is an admin of tenant \<open>t\<close> and a viewer of tenant \<open>v\<close>.\<close>

definition demo_db :: setdb where
  "demo_db = empty_db\<lparr>db_users := [demo_user], db_tenants := [demo_tenant ''t'', demo_tenant ''v''],
     db_members := [demo_member ''t'' ''admin'' True, demo_member ''v'' ''viewer'' False]\<rparr>"

definition demo_site :: "(list_engine, ttl_state) sworld" where
  "demo_site = \<lparr>sw_db = demo_db, sw_tx = demo_db, sw_cas = no_rules, sw_redis = ttl_empty, sw_draws = 0,
     sw_ticks = 0, sw_began = 1000\<rparr>"

definition demo_rq :: "string \<Rightarrow> http_request" where
  "demo_rq access = \<lparr>rq_method = ''GET'', rq_path = ''/setting/v1/auth/me'', rq_headers = [], rq_access = Some access\<rparr>"

lemma guarded_demo_rq [simp]: "guarded (demo_rq access)"
  by (simp add: guarded_def demo_rq_def WHITELIST_PATHS_def REFRESH_PATHS_def)

lemma demo_login_runs: "isl (fst (login list_casbin demo_senv ''a@x'' ''secret12'' demo_site)) = False"
  by code_simp

lemma login_admits_witness:
  "\<exists>access (u :: user_row) (m :: member_row). dispatch ttl_redis demo_senv True False ''r'' 1500 (demo_rq access) ttl_empty =
      Pass_on (session_ctx (us_rid u) (mb_tenant m) (mb_role m) (request_id ''r'' (demo_rq access))) \<and>
    us_email u = ''a@x''"
proof -
  obtain resp access raw w' where l: "login list_casbin demo_senv ''a@x'' ''secret12'' demo_site = (Inr (resp, access, raw), w')"
    using demo_login_runs by (metis isl_def prod.collapse sum.collapse(2))
  have t: "(1500 :: int) \<le> se_now demo_senv (sw_ticks demo_site) + se_access_ttl demo_senv"
    by (simp add: demo_senv_def)
  have r: "rd_get ttl_redis ttl_empty k = None" for k by (simp add: ttl_redis_def ttl_defs ttl_empty_def)
  have a: "rq_access (demo_rq access) = Some access" by (simp add: demo_rq_def)
  show ?thesis
    using login_admits [OF demo_jwt.jwt_axioms l guarded_demo_rq a t r, where dev = False and uuid = "''r''"] by blast
qed

definition demo_claims :: claims where
  "demo_claims = \<lparr>cl_iss = ''lingshu'', cl_sub = ''u'', cl_aud = ''lingshu'', cl_tid = ''t'', cl_role = ''admin'',
     cl_jti = ''j'', cl_iat = 900, cl_exp = 1800\<rparr>"

text \<open>After a logout at second 1000 the token of \<open>demo_claims\<close> is refused at 1799 and passes at 1800.\<close>

lemma logout_revokes_witness:
  "dispatch ttl_redis demo_senv True False ''r'' 1799 (demo_rq (se_encode demo_senv demo_claims))
     (rd_tick ttl_redis (sw_redis (snd (logout ttl_redis demo_senv (se_encode demo_senv demo_claims) None demo_site))) 799)
     = error_response 401 ''SETTING_AUTH_TOKEN_REVOKED'' ''Token has been revoked'' \<and>
   dispatch ttl_redis demo_senv True False ''r'' 1800 (demo_rq (se_encode demo_senv demo_claims))
     (rd_tick ttl_redis (sw_redis (snd (logout ttl_redis demo_senv (se_encode demo_senv demo_claims) None demo_site))) 800)
     = Pass_on (session_ctx ''u'' ''t'' ''admin'' ''r'')"
proof -
  have n: "se_now demo_senv k = 1000" for k by (simp add: demo_senv_def)
  have a: "rq_access (demo_rq access) = Some access" for access by (simp add: demo_rq_def)
  have at: "dispatch ttl_redis demo_senv True False ''r'' (1000 + int d) (demo_rq (se_encode demo_senv demo_claims))
      (rd_tick ttl_redis (sw_redis (snd (logout ttl_redis demo_senv (se_encode demo_senv demo_claims) None demo_site))) d) =
    (if 1000 + int d = cl_exp demo_claims then Pass_on (session_ctx (cl_sub demo_claims) (cl_tid demo_claims)
        (cl_role demo_claims) (request_id ''r'' (demo_rq (se_encode demo_senv demo_claims))))
     else if 1000 + int d < cl_exp demo_claims
     then error_response 401 ''SETTING_AUTH_TOKEN_REVOKED'' ''Token has been revoked''
     else error_response 401 ''SETTING_AUTH_TOKEN_EXPIRED'' ''Token expired'')" for d
    by (rule logout_revokes [OF ttl.redis_axioms demo_jwt.jwt_axioms _ _ _ _ guarded_demo_rq a _ refl])
      (simp_all add: demo_claims_def n)
  show ?thesis
    using at [of 799] at [of 800] by (simp add: demo_claims_def demo_rq_def request_id_def dget_or_def)
qed

end
