(* ===== verification/Setting_Access.thy ===== *)
theory Setting_Access
  imports Setting_Session
begin

section \<open>Tenants, members and roles over many requests\<close>

text \<open>
  The requests of \<open>setting/router.py\<close> as a state machine: which tables they can bring about, what a
  failed one leaves, and how the roles of the tables and the roles of the policy engine relate. The
  engine has no notion of a tenant: its roles are global, and so is what they permit.
\<close>

subsection \<open>Requests\<close>

datatype srequest =
    Login string string
  | Logout string "string option"
  | Refresh_session string
  | Change_password string string
  | Create_user string string string string
  | Update_user string "string option" "string option"
  | Delete_user string
  | Reset_password string string
  | Create_tenant string "pyval dict option"
  | Update_tenant string "string option" "string option" "pyval dict option"
  | Delete_tenant string
  | Switch_tenant string
  | Add_member string string string
  | Update_member_role string string string
  | Remove_member string string
  | Create_role string "string option" "perm_entry list"
  | Update_role string "string option" "string option" "perm_entry list option"
  | Delete_role string
  | Assign_role string string
  | Cleanup_audit int
  | Write_audit string string string
  | Sso_callback string string

definition no_value :: "('s, exn, 'a) comp \<Rightarrow> ('s, exn, unit) comp" where
  "no_value m = bindC m (\<lambda>_. retC ())"

fun sserve :: "'c casbin_ops \<Rightarrow> 'r redis_ops \<Rightarrow> senv \<Rightarrow> ctx \<Rightarrow> srequest \<Rightarrow> ('c, 'r, unit) sop" where
  "sserve C R E c (Login email pw) = no_value (login C E email pw)"
| "sserve C R E c (Logout access raw) = no_value (logout R E access raw)"
| "sserve C R E c (Refresh_session raw) = no_value (refresh E raw)"
| "sserve C R E c (Change_password cur new) = no_value (change_password E c cur new)"
| "sserve C R E c (Create_user email nm pw role) = no_value (create_user C E c email nm pw role)"
| "sserve C R E c (Update_user rid nm st) = no_value (update_user E rid nm st)"
| "sserve C R E c (Delete_user rid) = no_value (delete_user E rid)"
| "sserve C R E c (Reset_password rid pw) = no_value (reset_password E rid pw)"
| "sserve C R E c (Create_tenant nm cfg) = no_value (create_tenant E c nm cfg)"
| "sserve C R E c (Update_tenant rid nm st cfg) = no_value (update_tenant E rid nm st cfg)"
| "sserve C R E c (Delete_tenant rid) = no_value (delete_tenant E rid)"
| "sserve C R E c (Switch_tenant t) = no_value (switch_tenant C E c t)"
| "sserve C R E c (Add_member t u r) = no_value (add_member C t u r)"
| "sserve C R E c (Update_member_role t u r) = no_value (update_member_role C t u r)"
| "sserve C R E c (Remove_member t u) = no_value (remove_member C t u)"
| "sserve C R E c (Create_role nm d ps) = no_value (create_role C E c nm d ps)"
| "sserve C R E c (Update_role rid nm d ps) = no_value (update_role C c rid nm d ps)"
| "sserve C R E c (Delete_role rid) = no_value (delete_role C rid)"
| "sserve C R E c (Assign_role u r) = no_value (assign_role_to_user C c u r)"
| "sserve C R E c (Cleanup_audit days) = no_value (cleanup_audit_logs E c days)"
| "sserve C R E c (Write_audit m e a) = no_value (write_audit_log c m e a None None None True)"
| "sserve C R E c (Sso_callback code state) = no_value (sso_callback C E code state)"

text \<open>A request in its database session: commit after a normal return, rollback after a raise.\<close>

definition sfinish :: "(exn + unit) \<times> ('c, 'r) sworld \<Rightarrow> exn option \<times> ('c, 'r) sworld" where
  "sfinish rw = (case rw of (Inr _, w) \<Rightarrow> (None, tx_commit w) | (Inl e, w) \<Rightarrow> (Some e, tx_rollback w))"


subsection \<open>Constraints\<close>

interpretation good: table_relation ok_step
  by unfold_locales (auto simp: ok_step_def tx_ok)

lemmas good_rules = good.rules good.sessions tx_ok

lemma good_change_engine: "keeps (tables ok_step) (change_engine_role C u old new)"
  unfolding change_engine_role_def by (intro good.steps)

lemma good_session_ops:
  "keeps (tables ok_step) (login C E email pw)"
  "keeps (tables ok_step) (logout R E access raw)"
  "keeps (tables ok_step) (refresh E raw')"
  "keeps (tables ok_step) (change_password E c cur new)"
  unfolding login_def logout_def refresh_def change_password_def
  by (auto intro!: good_rules simp: Let_def split: option.splits sum.splits exn.splits)

lemma good_user_ops:
  "keeps (tables ok_step) (create_user C E c email nm pw role)"
  "keeps (tables ok_step) (update_user E rid nm' st)"
  "keeps (tables ok_step) (delete_user E rid)"
  "keeps (tables ok_step) (reset_password E rid pw)"
  unfolding create_user_def update_user_def delete_user_def reset_password_def
  by (auto intro!: good_rules simp: Let_def split: option.splits)

lemma good_tenant_ops:
  "keeps (tables ok_step) (create_tenant E c nm cfg)"
  "keeps (tables ok_step) (update_tenant E rid nm' st cfg)"
  "keeps (tables ok_step) (delete_tenant E rid)"
  "keeps (tables ok_step) (switch_tenant C E c t)"
  unfolding create_tenant_def update_tenant_def delete_tenant_def switch_tenant_def
  by (auto intro!: good_rules simp: Let_def split: option.splits prod.splits)

lemma good_member_ops:
  "keeps (tables ok_step) (add_member C t u r)"
  "keeps (tables ok_step) (update_member_role C t u r)"
  "keeps (tables ok_step) (remove_member C t u)"
  "keeps (tables ok_step) (assign_role_to_user C c u r)"
  unfolding add_member_def update_member_role_def remove_member_def assign_role_to_user_def
  by (auto intro!: good_rules good_change_engine split: option.splits prod.splits)

lemma good_role_ops:
  "keeps (tables ok_step) (create_role C E c nm d ps)"
  "keeps (tables ok_step) (update_role C c rid nm' d ps')"
  "keeps (tables ok_step) (delete_role C rid)"
  unfolding create_role_def update_role_def delete_role_def
  by (auto intro!: good_rules simp: Let_def split: option.splits)

lemma good_audit_ops:
  "keeps (tables ok_step) (cleanup_audit_logs E c days)"
  "keeps (tables ok_step) (write_audit_log c m e a rt rr ds b)"
  unfolding cleanup_audit_logs_def write_audit_log_def
  by (auto intro!: good_rules)

lemma good_provision: "keeps (tables ok_step) (provision_user E info t)"
  unfolding provision_user_def by (auto intro!: good_rules split: option.splits)

lemma good_sso: "keeps (tables ok_step) (sso_callback C E code state)"
  unfolding sso_callback_def by (auto intro!: good_rules good_provision)

lemma good_no_value: "keeps (tables ok_step) m \<Longrightarrow> keeps (tables ok_step) (no_value m)"
  unfolding no_value_def by (intro good.steps)

lemma good_serve: "keeps (tables ok_step) (sserve C R E c q)"
  by (cases q) (simp_all add: good_no_value good_session_ops good_user_ops good_tenant_ops good_member_ops
      good_role_ops good_audit_ops good_sso)
















text \<open>
A request that fails changes no table: what it wrote is rolled back, and the next request starts
from what was committed; one that succeeds commits all it wrote.
\<close>

theorem failed_requests_change_no_table:
  "(case sfinish (sserve C R E c q w) of
      (Some e, w') \<Rightarrow> sw_db w' = sw_db w \<and> sw_tx w' = sw_db w
    | (None, w') \<Rightarrow> sw_db w' = sw_tx (snd (sserve C R E c q w)) \<and> sw_tx w' = sw_db w')"
proof -
  have "sw_db (snd (sserve C R E c q w)) = sw_db w"
    using good_serve [of C R E c q] by (simp add: keeps_def tables_def)
  then show ?thesis
    by (auto simp: sfinish_def tx_commit_def tx_rollback_def split: prod.splits sum.splits)
qed


subsection \<open>Switching the tenant\<close>

lemma check_iff_at:
  assumes "casbin C" and "flat_roles C s"
  shows "check_permission C True u rt ac rid s \<longleftrightarrow>
    (\<exists>p. cb_has_policy C s p \<and> (p_sub p = u \<or> cb_has_group C s u (p_sub p)) \<and>
       policy_covers p rt ac (case rid of Some r \<Rightarrow> if r = [] then ''*'' else r | None \<Rightarrow> ''*''))"
  by (rule casbin.check_iff [OF assms])

lemma open_session_cas:
  "open_session E u t r w = (Inr (access, raw), w') \<Longrightarrow> sw_cas w' = sw_cas w"
  by (auto simp: open_session_def issue_access_token_def issue_refresh_token_def bindC_ok_iff clock_def draw_def
      on_sdb_def split: prod.splits)

lemma switch_tenant_run:
  assumes "switch_tenant C E c t w = (Inr (access, raw, role), w')" and "get_user_id c = Inr u"
  shows "sw_cas w' = sync_user_role C u role (sw_cas w) \<and>
    (\<exists>m \<in> set (db_members (sw_tx w)). mb_user m = u \<and> mb_tenant m = t \<and> mb_role m = role) \<and>
    (\<exists>tn \<in> set (db_tenants (sw_tx w)). tn_rid tn = t \<and> tn_status tn = ''active'')"
proof -
  obtain m tn where m: "filter (is_member u t) (db_members (sw_tx w)) = [m]" and r: "mb_role m = role"
    and tn: "filter (\<lambda>x. tn_rid x = t) (db_tenants (sw_tx w)) = [tn]" and st: "tn_status tn = ''active''"
    and o: "open_session E u (tn_rid tn) role (w\<lparr>sw_cas := sync_user_role C u role (sw_cas w)\<rparr>) = (Inr (access, raw), w')"
    using assms by (auto simp: switch_tenant_def run_simps split: prod.splits option.splits if_splits)
  have "sw_cas w' = sync_user_role C u role (sw_cas w)" using open_session_cas [OF o] by simp
  then show ?thesis using filter_hd [OF m] filter_hd [OF tn] r st by (auto simp: is_member_def)
qed

text \<open>
C20. Switching to another tenant gives a token with the role the user has there, but takes nothing away
in the policy engine: whatever the user was permitted before the switch stays permitted after it.
\<close>

theorem switch_keeps_permissions:
  assumes "casbin C" and "flat_roles C (sw_cas w)" and "flat_roles C (sw_cas w')"
    and "switch_tenant C E c t w = (Inr (access, raw, role), w')" and "get_user_id c = Inr u"
    and "check_permission C True u rt ac rid (sw_cas w)"
  shows "check_permission C True u rt ac rid (sw_cas w') \<and>
    (\<exists>m \<in> set (db_members (sw_tx w)). mb_user m = u \<and> mb_tenant m = t \<and> mb_role m = role)"
  using switch_tenant_run [OF assms(4,5)] assms(6)
  unfolding check_iff_at [OF assms(1,2)] check_iff_at [OF assms(1,3)]
  by (auto simp: casbin.sync_group [OF assms(1)] casbin.sync_policy [OF assms(1)])

definition two_roles :: list_engine where
  "two_roles = \<lparr>le_policies = [mk_policy ''admin'' ''*'' ''*'' ''*'', mk_policy ''viewer'' ''*'' ''read'' ''*''],
     le_groups = [(''u'', ''admin'')]\<rparr>"

text \<open>An admin of tenant \<open>t\<close> who switches to tenant \<open>v\<close>, a viewer there, may still delete users.\<close>

lemma switch_keeps_permissions_witness:
  "\<exists>access raw w'. switch_tenant list_casbin demo_senv (session_ctx ''u'' ''t'' ''admin'' ''r'') ''v'' (demo_site\<lparr>sw_cas := two_roles\<rparr>) =
      (Inr (access, raw, ''viewer''), w') \<and>
    check_permission list_casbin True ''u'' ''user'' ''delete'' None (sw_cas w')"
proof -
  let ?w = "demo_site\<lparr>sw_cas := two_roles\<rparr>"
  obtain access raw w' where s: "switch_tenant list_casbin demo_senv (session_ctx ''u'' ''t'' ''admin'' ''r'') ''v'' ?w =
      (Inr (access, raw, ''viewer''), w')"
  proof -
    have "case switch_tenant list_casbin demo_senv (session_ctx ''u'' ''t'' ''admin'' ''r'') ''v'' ?w of
        (Inr (access, raw, role), w') \<Rightarrow> role = ''viewer'' | (Inl e, w') \<Rightarrow> False" by code_simp
    then show ?thesis using that by (auto split: prod.splits sum.splits)
  qed
  have cas: "sw_cas w' = two_roles\<lparr>le_groups := [(''u'', ''admin''), (''u'', ''viewer'')]\<rparr>"
    using switch_tenant_run [OF s]
    by (simp add: get_user_id_def session_ctx_def sync_user_role_def list_casbin_def two_roles_def)
  have "flat_roles list_casbin two_roles" "flat_roles list_casbin (sw_cas w')"
    by (auto simp: cas flat_roles_def list_casbin_def two_roles_def)
  moreover have "check_permission list_casbin True ''u'' ''user'' ''delete'' None two_roles" by code_simp
  ultimately have "check_permission list_casbin True ''u'' ''user'' ''delete'' None (sw_cas w')"
    using switch_keeps_permissions [OF lists.casbin_axioms, of ?w w' demo_senv "session_ctx ''u'' ''t'' ''admin'' ''r''" "''v''" access raw "''viewer''" "''u''"] s
    by (simp add: get_user_id_def session_ctx_def)
  with s show ?thesis by blast
qed

subsection \<open>The last admin\<close>

lemma distinct_page: "distinct xs \<Longrightarrow> distinct (page k l xs)"
  by (simp add: page_def)

lemma distinct_sort_desc: "distinct xs \<Longrightarrow> distinct (sort_desc f xs)"
  by (simp add: sort_desc_def)

lemma two_in_filter:
  assumes "1 < length (filter P xs)" and "distinct xs"
  shows "\<exists>a b. a \<noteq> b \<and> a \<in> set xs \<and> b \<in> set xs \<and> P a \<and> P b"
proof -
  obtain a as where a: "filter P xs = a # as" using assms(1) by (cases "filter P xs") auto
  then have "as \<noteq> []" using assms(1) by auto
  then obtain b ys where "as = b # ys" by (cases as) auto
  with a have y: "filter P xs = a # b # ys" by simp
  have "distinct (a # b # ys)" using assms(2) by (metis y distinct_filter)
  moreover have "set (a # b # ys) \<subseteq> set xs \<inter> {x. P x}" unfolding y [symmetric] by auto
  ultimately show ?thesis by (intro exI [of _ a] exI [of _ b]) auto
qed

lemma remove_member_run:
  assumes "remove_member C t u w = (Inr x, w')"
  shows "\<exists>m. filter (is_member u t) (db_members (sw_tx w)) = [m] \<and>
    db_members (sw_tx w') = filter (\<lambda>m. \<not> is_member u t m) (db_members (sw_tx w)) \<and>
    (if mb_role m = ''admin''
     then 1 < length (filter (\<lambda>m. mb_role m = ''admin'') (fst (member_list_by_tenant t 0 20 (sw_tx w)))) else True)"
proof -
  let ?guard = "\<lambda>m. if mb_role m = ''admin''
            then bindC (ask_sdb (member_list_by_tenant t 0 20)) (\<lambda>(members, _).
                 unlessC (1 < length (filter (\<lambda>m. mb_role m = ''admin'') members))
                   (AppError COMMON_INVALID_INPUT ''Cannot remove the last admin from a tenant'' []))
            else retC ()"
  obtain m where m: "filter (is_member u t) (db_members (sw_tx w)) = [m]"
    and g: "bindC (?guard m) (\<lambda>_. bindC (on_cas (remove_user_role C u (mb_role m))) (\<lambda>_.
        on_sdb (member_delete u t))) w = (Inr x, w')"
    using assms by (auto simp: remove_member_def bindC_ok_iff [of "on_sdb (ask_one _)"]
        bindC_ok_iff [of "need_some _ _"] on_sdb_lookup member_get_def)
  obtain w1 where g1: "?guard m w = (Inr (), w1)"
    and d: "bindC (on_cas (remove_user_role C u (mb_role m))) (\<lambda>_. on_sdb (member_delete u t)) w1 = (Inr x, w')"
    using g by (auto simp: bindC_ok_iff [of "?guard m"])
  have w1: "w1 = w" and last: "if mb_role m = ''admin''
     then 1 < length (filter (\<lambda>m. mb_role m = ''admin'') (fst (member_list_by_tenant t 0 20 (sw_tx w)))) else True"
    using g1 by (auto simp: bindC_run ask_sdb_def case_prod_beta split: if_splits)
  have "db_members (sw_tx w') = filter (\<lambda>m. \<not> is_member u t m) (db_members (sw_tx w1))"
    using d by (auto simp: bindC_run on_cas_def on_sdb_def member_delete_def)
  with m w1 last show ?thesis by blast
qed

definition has_admin :: "string \<Rightarrow> setdb \<Rightarrow> bool" where
  "has_admin t d = list_ex (\<lambda>m. mb_tenant m = t \<and> mb_role m = ''admin'') (db_members d)"

text \<open>
C21. Removing members never leaves a tenant without an admin: although only the twenty newest members are
looked at, a removal that is carried out leaves one if there was one.
\<close>

theorem remove_member_keeps_admin:
  assumes "db_ok (sw_tx w)" and "has_admin t (sw_tx w)" and "remove_member C t u w = (Inr x, w')"
  shows "has_admin t (sw_tx w')"
proof -
  let ?ms = "db_members (sw_tx w)"
  have dist: "distinct (map (\<lambda>m. (mb_user m, mb_tenant m)) ?ms)" using assms(1) by (simp add: db_ok_def)
  obtain m where m: "filter (is_member u t) ?ms = [m]"
    and ms': "db_members (sw_tx w') = filter (\<lambda>m. \<not> is_member u t m) ?ms"
    and last: "mb_role m = ''admin'' \<Longrightarrow>
      1 < length (filter (\<lambda>m. mb_role m = ''admin'') (fst (member_list_by_tenant t 0 20 (sw_tx w))))"
    using remove_member_run [OF assms(3)] by (auto split: if_splits)
  have only: "x = m" if "x \<in> set ?ms" "is_member u t x" for x
  proof -
    have "x \<in> set (filter (is_member u t) ?ms)" using that by simp
    then show ?thesis by (simp add: m)
  qed
  have "\<exists>a \<in> set ?ms. mb_tenant a = t \<and> mb_role a = ''admin'' \<and> a \<noteq> m"
  proof (cases "mb_role m = ''admin''")
    case True
    let ?pg = "fst (member_list_by_tenant t 0 20 (sw_tx w))"
    have "distinct ?ms" using dist by (simp add: distinct_map)
    then have "distinct ?pg"
      by (simp add: member_list_by_tenant_def newest_def distinct_page distinct_sort_desc)
    moreover have "set ?pg \<subseteq> {m \<in> set ?ms. mb_tenant m = t}"
      by (auto simp: member_list_by_tenant_def newest_def page_def dest!: in_set_takeD in_set_dropD)
    ultimately show ?thesis using two_in_filter [OF last [OF True]] by blast
  next
    case False
    then show ?thesis using assms(2) by (auto simp: has_admin_def list_ex_iff)
  qed
  then obtain a where "a \<in> set ?ms" "mb_tenant a = t" "mb_role a = ''admin''" "a \<noteq> m" by blast
  then show ?thesis using only by (auto simp: has_admin_def list_ex_iff ms')
qed

definition two_admins :: "(list_engine, ttl_state) sworld" where
  "two_admins = demo_site\<lparr>sw_tx := demo_db\<lparr>db_users := [demo_user, demo_user\<lparr>us_rid := ''x'', us_email := ''x@x''\<rparr>],
     db_members := [demo_member ''t'' ''admin'' True, (demo_member ''t'' ''admin'' True)\<lparr>mb_user := ''x''\<rparr>]\<rparr>\<rparr>"

lemma remove_member_keeps_admin_witness:
  "fst (remove_member list_casbin ''t'' ''u'' two_admins) = Inr () \<and>
   has_admin ''t'' (sw_tx (snd (remove_member list_casbin ''t'' ''u'' two_admins)))"
proof -
  have r: "fst (remove_member list_casbin ''t'' ''u'' two_admins) = Inr ()" by code_simp
  have ok: "db_ok (sw_tx two_admins)" and "has_admin ''t'' (sw_tx two_admins)"
    by (simp_all add: two_admins_def demo_site_def db_ok_def demo_db_def demo_user_def demo_member_def
        demo_tenant_def empty_db_def has_admin_def)
  then show ?thesis
    using remove_member_keeps_admin [OF ok, of "''t''" list_casbin "''u''" "()"] r by (metis prod.collapse)
qed


subsection \<open>A restart\<close>

lemma sync_all:
  "forC ms (\<lambda>m. on_cas (sync_user_role C (mb_user m) (mb_role m))) w =
     (Inr (), w\<lparr>sw_cas := fold (\<lambda>m. sync_user_role C (mb_user m) (mb_role m)) ms (sw_cas w)\<rparr>)"
  by (induction ms arbitrary: w) (simp_all add: bindC_run on_cas_def)

definition load_role :: "'c casbin_ops \<Rightarrow> role_row \<Rightarrow> 'c \<Rightarrow> 'c" where
  "load_role C r s = (if cr_system r then s else add_custom_role_policies C (cr_name r) (cr_perms r) s)"

lemma load_all:
  "forC rs (\<lambda>r. if \<not> cr_system r then on_cas (add_custom_role_policies C (cr_name r) (cr_perms r)) else retC ()) w =
     (Inr (), w\<lparr>sw_cas := fold (load_role C) rs (sw_cas w)\<rparr>)"
  by (induction rs arbitrary: w) (simp_all add: bindC_run on_cas_def load_role_def)

text \<open>What seeding the system roles leaves alone: the policy engine, and every role that is not a system role.\<close>

definition custom_only :: "('c, 'r) sworld \<Rightarrow> ('c, 'r) sworld \<Rightarrow> bool" where
  "custom_only w w' \<longleftrightarrow> sw_cas w' = sw_cas w \<and>
     filter (\<lambda>r. \<not> cr_system r) (db_roles (sw_tx w')) = filter (\<lambda>r. \<not> cr_system r) (db_roles (sw_tx w))"

lemma custom_only_seed: "keeps custom_only (seed_system_roles E t)"
proof -
  have r: "reflp custom_only" and tr: "transp custom_only"
    by (auto simp: reflp_def transp_def custom_only_def)
  have basic: "keeps custom_only (on_sdb (role_get_by_name tn nm))" "keeps custom_only (new_rid E ty)"
    "keeps custom_only began" "keeps custom_only (ask_sdb h)" for tn nm ty h
    by (simp_all add: keeps_def custom_only_def on_sdb_def role_get_by_name_def ask_one_def new_rid_def bindC_run
        draw_def began_def ask_sdb_def)
  have create: "cr_system x \<Longrightarrow> keeps custom_only (on_sdb (role_create x))" for x
    by (simp add: keeps_def custom_only_def on_sdb_def role_create_def)
  have one: "keeps custom_only (seed_system_role E tn df)" for tn df
    unfolding seed_system_role_def
    by (auto intro!: keeps_bindC [OF tr] basic create keeps_pure [OF r] split: prod.splits)
  show ?thesis
    unfolding seed_system_roles_def
    by (intro keeps_bindC [OF tr] keeps_forC [OF r tr] basic one)
qed

context casbin
begin

lemma sync_all_group:
  "cb_has_group C (fold (\<lambda>m. sync_user_role C (mb_user m) (mb_role m)) ms s) u r \<longleftrightarrow>
     (\<exists>m \<in> set ms. mb_user m = u \<and> mb_role m = r) \<or> cb_has_group C s u r"
  by (induction ms arbitrary: s) (auto simp: sync_group)

lemma sync_all_policy:
  "cb_has_policy C (fold (\<lambda>m. sync_user_role C (mb_user m) (mb_role m)) ms s) q = cb_has_policy C s q"
  by (induction ms arbitrary: s) simp_all

lemma load_all_group: "cb_has_group C (fold (load_role C) rs s) u r = cb_has_group C s u r"
  by (induction rs arbitrary: s) (simp_all add: load_role_def)

lemma load_all_policy:
  "cb_has_policy C (fold (load_role C) rs s) q \<longleftrightarrow>
     (\<exists>r \<in> set (filter (\<lambda>r. \<not> cr_system r) rs). q \<in> perm_policy (cr_name r) ` set (cr_perms r)) \<or> cb_has_policy C s q"
  by (induction rs arbitrary: s) (auto simp: load_role_def custom_has)

end

definition synced :: "'c casbin_ops \<Rightarrow> ('c, 'r) sworld \<Rightarrow> ('c, 'r) sworld" where
  "synced C w = w\<lparr>sw_cas := fold (\<lambda>m. sync_user_role C (mb_user m) (mb_role m)) (db_members (sw_tx w))
     (seed_policies C (sw_cas w))\<rparr>"

lemma restart_eq:
  assumes "db_users (sw_tx w) \<noteq> []"
  shows "run_seed C E email pw nm w =
    bindC (seed_system_roles E None)
      (\<lambda>_ w2. (Inr (), w2\<lparr>sw_cas := fold (load_role C) (db_roles (sw_tx w2)) (sw_cas w2)\<rparr>)) (synced C w)"
  using assms
  by (simp add: run_seed_def bindC_run [of "on_cas _"] bindC_run [of "ask_sdb _"] bindC_run [of "forC _ _"]
      on_cas_def ask_sdb_def sync_all load_all synced_def) (simp add: bindC_run ask_sdb_def load_all split: sum.split)

lemma restart_run:
  assumes "run_seed C E email pw nm w = (Inr x, w')" and "db_users (sw_tx w) \<noteq> []"
  shows "\<exists>rs. filter (\<lambda>r. \<not> cr_system r) rs = filter (\<lambda>r. \<not> cr_system r) (db_roles (sw_tx w)) \<and>
    sw_cas w' = fold (load_role C) rs
      (fold (\<lambda>m. sync_user_role C (mb_user m) (mb_role m)) (db_members (sw_tx w)) (seed_policies C (sw_cas w)))"
proof -
  obtain w2 where s: "seed_system_roles E None (synced C w) = (Inr (), w2)"
    and w': "w' = w2\<lparr>sw_cas := fold (load_role C) (db_roles (sw_tx w2)) (sw_cas w2)\<rparr>"
    using assms(1) unfolding restart_eq [OF assms(2)] by (auto simp: bindC_ok_iff)
  have "custom_only (synced C w) w2" by (rule keepsD [OF custom_only_seed s])
  then show ?thesis using w' by (auto simp: custom_only_def synced_def)
qed

text \<open>
A restart rebuilds the policy engine from the tables: a user has in it the roles of all memberships
of all tenants, without a trace of the tenant, and the policies are those of the built-in roles and
the permission lists of the custom roles of all tenants.
\<close>

theorem restart_rebuilds_engine:
  assumes "casbin C" and "run_seed C E email pw nm w = (Inr x, w')" and "db_users (sw_tx w) \<noteq> []"
    and "{q. cb_has_policy C (sw_cas w) q} = {}" and "{(u, r). cb_has_group C (sw_cas w) u r} = {}"
  shows "{(u, r). cb_has_group C (sw_cas w') u r} = (\<lambda>m. (mb_user m, mb_role m)) ` set (db_members (sw_tx w)) \<and>
    {q. cb_has_policy C (sw_cas w') q} = set seeded \<union>
      (\<Union>r \<in> set (filter (\<lambda>r. \<not> cr_system r) (db_roles (sw_tx w))). perm_policy (cr_name r) ` set (cr_perms r))"
proof -
  obtain rs where rs: "filter (\<lambda>r. \<not> cr_system r) rs = filter (\<lambda>r. \<not> cr_system r) (db_roles (sw_tx w))"
    and cas: "sw_cas w' = fold (load_role C) rs
      (fold (\<lambda>m. sync_user_role C (mb_user m) (mb_role m)) (db_members (sw_tx w)) (seed_policies C (sw_cas w)))"
    using restart_run [OF assms(2,3)] by blast
  have "cb_has_group C (sw_cas w') u r \<longleftrightarrow> (\<exists>m \<in> set (db_members (sw_tx w)). mb_user m = u \<and> mb_role m = r)" for u r
    using assms(5) by (auto simp: cas casbin.load_all_group [OF assms(1)] casbin.sync_all_group [OF assms(1)]
        casbin.seed_group [OF assms(1)])
  moreover have "cb_has_policy C (sw_cas w') q \<longleftrightarrow> q \<in> set seeded \<or>
      (\<exists>r \<in> set (filter (\<lambda>r. \<not> cr_system r) (db_roles (sw_tx w))). q \<in> perm_policy (cr_name r) ` set (cr_perms r))" for q
    using assms(4) by (auto simp: cas casbin.load_all_policy [OF assms(1)] rs casbin.sync_all_policy [OF assms(1)]
        casbin.seed_has [OF assms(1)] simp del: set_filter)
  ultimately show ?thesis by (auto simp del: set_filter)
qed

lemma run_seed_demo: "\<not> isl (fst (run_seed list_casbin demo_senv ''a@x'' ''secret12'' ''Default'' (demo_site\<lparr>sw_tx :=
    demo_db\<lparr>db_tenants := []\<rparr>\<rparr>)))"
proof -
  let ?w = "demo_site\<lparr>sw_tx := demo_db\<lparr>db_tenants := []\<rparr>\<rparr>"
  have "db_users (sw_tx ?w) \<noteq> []" and "db_tenants (sw_tx (synced list_casbin ?w)) = []"
    by (simp_all add: demo_site_def demo_db_def synced_def)
  then show ?thesis by (simp add: restart_eq bindC_run seed_system_roles_def ask_sdb_def)
qed

lemma restart_rebuilds_engine_witness:
  "\<exists>w' :: (list_engine, ttl_state) sworld. cb_has_group list_casbin (sw_cas w') ''u'' ''admin'' \<and> cb_has_group list_casbin (sw_cas w') ''u'' ''viewer''"
proof -
  let ?w = "demo_site\<lparr>sw_tx := demo_db\<lparr>db_tenants := []\<rparr>\<rparr>"
  obtain w' where s: "run_seed list_casbin demo_senv ''a@x'' ''secret12'' ''Default'' ?w = (Inr (), w')"
  proof -
    obtain r w' where e: "run_seed list_casbin demo_senv ''a@x'' ''secret12'' ''Default'' ?w = (r, w')" by fastforce
    then have "r = Inr ()" using run_seed_demo by (cases r) simp_all
    with e show ?thesis using that by simp
  qed
  have "db_users (sw_tx ?w) \<noteq> []" "{q. cb_has_policy list_casbin (sw_cas ?w) q} = {}"
    "{(u, r). cb_has_group list_casbin (sw_cas ?w) u r} = {}"
    by (simp_all add: demo_site_def demo_db_def no_rules_def list_casbin_def)
  note c = conjunct1 [OF restart_rebuilds_engine [OF lists.casbin_axioms s this]]
  have in_engine: "cb_has_group list_casbin (sw_cas w') u r"
    if "(u, r) \<in> (\<lambda>m. (mb_user m, mb_role m)) ` set (db_members (sw_tx ?w))" for u r
    using that unfolding c [symmetric] by simp
  have "(\<lambda>m. (mb_user m, mb_role m)) ` set (db_members (sw_tx ?w)) = {(''u'', ''admin''), (''u'', ''viewer'')}"
    by (simp add: demo_site_def demo_db_def demo_member_def)
  then show ?thesis using in_engine by (intro exI [of _ w'] conjI) simp_all
qed

subsection \<open>Names of roles\<close>




end
