(* ===== verification/Py_Text.thy ===== *)
theory Py_Text
  imports Infra "HOL-Library.Log_Nat"
begin

section \<open>Python text: numbers, printing, comparison\<close>

text \<open>
  What the condition language of the workflows takes from Python: \<open>strip\<close> and \<open>split\<close>, the literals
  \<open>int()\<close> and \<open>float()\<close> accept, floats as the IEEE doubles nearest to their literals, \<open>==\<close> and
  \<open><\<close> between values of any kind, \<open>str()\<close> and \<open>repr()\<close>.
\<close>

subsection \<open>Splitting\<close>

definition is_space :: "char \<Rightarrow> bool" where
  "is_space c \<longleftrightarrow> (let n = of_char c :: nat in
     (9 \<le> n \<and> n \<le> 13) \<or> (28 \<le> n \<and> n \<le> 32) \<or> n = 133 \<or> n = 160)"

definition strip :: "string \<Rightarrow> string" where
  "strip s = rev (dropWhile is_space (rev (dropWhile is_space s)))"

text \<open>\<open>s.split(sep, 1)\<close>: the text before and after the first occurrence.\<close>

fun cut :: "string \<Rightarrow> string \<Rightarrow> (string \<times> string) option" where
  "cut sep [] = (if sep = [] then Some ([], []) else None)"
| "cut sep (c # s) =
     (if is_prefix sep (c # s) then Some ([], drop (length sep) (c # s))
      else map_option (\<lambda>(a, b). (c # a, b)) (cut sep s))"

text \<open>\<open>s.split(c)\<close>.\<close>

definition split_all :: "char \<Rightarrow> string \<Rightarrow> string list" where
  "split_all c s = split_max c (length s) s"

lemma cut_None_iff: "cut sep s = None \<longleftrightarrow> \<not> contains sep s"
  by (induction sep s rule: cut.induct) auto

lemma cut_Some: "cut sep s = Some (a, b) \<Longrightarrow> s = a @ sep @ b"
  by (induction sep s arbitrary: a rule: cut.induct)
     (auto simp: is_prefix_iff split: if_splits)

lemma cut_at_new_char:
  assumes "c \<notin> set a"
  shows "cut (c # sep) (a @ (c # sep) @ b) = Some (a, b)"
  using assms by (induction a) (auto simp: is_prefix_iff)

subsection \<open>Integers\<close>

definition sign_of :: "string \<Rightarrow> bool \<times> string" where
  "sign_of s = (case s of
      c # t \<Rightarrow> if c = CHR ''-'' then (True, t) else if c = CHR ''+'' then (False, t) else (False, s)
    | [] \<Rightarrow> (False, []))"

text \<open>Digits, single underscores between them allowed; the digits alone.\<close>

fun ungroup :: "string \<Rightarrow> string option" where
  "ungroup [] = None"
| "ungroup [c] = (if is_digit c then Some [c] else None)"
| "ungroup (c # d # s) =
     (if is_digit c
      then map_option ((#) c) (if d = CHR ''_'' then ungroup s else ungroup (d # s))
      else None)"

text \<open>\<open>int(s)\<close>, ValueError as None; the interpreter refuses more than 4300 digits.\<close>

definition MAX_STR_DIGITS :: nat where "MAX_STR_DIGITS = 4300"

definition int_of_text :: "string \<Rightarrow> int option" where
  "int_of_text s =
     (case sign_of (strip s) of (neg, t) \<Rightarrow>
       (case ungroup t of
          Some ds \<Rightarrow> if length ds \<le> MAX_STR_DIGITS
                     then Some (if neg then - int (nat_of_digits ds) else int (nat_of_digits ds)) else None
        | None \<Rightarrow> None))"

lemma ungroup_digits: "s \<noteq> [] \<Longrightarrow> list_all is_digit s \<Longrightarrow> ungroup s = Some s"
  by (induction s rule: ungroup.induct) (auto simp: is_digit_def)

lemma strip_id: "s = [] \<or> \<not> is_space (hd s) \<and> \<not> is_space (last s) \<Longrightarrow> strip s = s"
  by (metis dropWhile_eq_self_iff hd_rev rev_is_Nil_conv rev_rev_ident strip_def)

lemma digit_not_space: "is_digit c \<Longrightarrow> \<not> is_space c"
  by (auto simp: is_digit_def is_space_def Let_def)

lemma strip_int_str: "strip (int_str i) = int_str i"
proof (rule strip_id, intro disjI2 conjI)
  obtain c t where ct: "int_str i = c # t" "is_digit c \<or> (c = CHR ''-'' \<and> (\<exists>d u. t = d # u \<and> is_digit d))"
    by (rule int_str_shape)
  moreover have "\<not> is_space CHR ''-''" by (simp add: is_space_def)
  ultimately show "\<not> is_space (hd (int_str i))" using digit_not_space by auto
  have "last (int_str i) \<in> set (nat_str (nat \<bar>i\<bar>))"
    by (simp add: int_str_def)
  then show "\<not> is_space (last (int_str i))"
    using nat_str_digits digit_not_space by blast
qed

lemma int_of_text_int_str:
  assumes "length (int_str i) \<le> MAX_STR_DIGITS"
  shows "int_of_text (int_str i) = Some i"
proof (cases "i < 0")
  case True
  then show ?thesis
    using assms nat_str_digits
    by (simp add: int_of_text_def strip_int_str) (simp add: int_str_def sign_of_def ungroup_digits list_all_iff)
next
  case False
  have "is_digit (hd (nat_str (nat i)))" using nat_str_digits [of "nat i"] by simp
  then have "hd (nat_str (nat i)) \<noteq> CHR ''-''" "hd (nat_str (nat i)) \<noteq> CHR ''+''"
    by (auto simp: is_digit_def)
  then have "sign_of (nat_str (nat i)) = (False, nat_str (nat i))"
    by (cases "nat_str (nat i)") (auto simp: sign_of_def)
  then show ?thesis
    using False assms nat_str_digits
    by (simp add: int_of_text_def strip_int_str) (simp add: int_str_def ungroup_digits list_all_iff)
qed

subsection \<open>Floats\<close>

text \<open>
  A double is \<open>Finite n\<close> with the value \<open>n / 2 ^ 1074\<close> (every finite double is a multiple of the
  smallest one), an infinity (the flag says whether it is the negative one) or not a number.
\<close>

datatype pyfloat = Finite int | Infinite bool | Nan

text \<open>\<open>p / q\<close> rounded to 53 significant bits, ties to even, in units of \<open>2 ^ -1074\<close>.\<close>

definition round_ratio :: "nat \<Rightarrow> nat \<Rightarrow> nat" where
  "round_ratio p q =
     (let a = p * 2 ^ 1074; n = a div q;
          ulp = (if n < 2 ^ 53 then 1 else 2 ^ (nat (bitlen (int n)) - 53));
          d = q * ulp; m = a div d; r = a mod d;
          up = 2 * r > d \<or> (2 * r = d \<and> odd m)
      in (if up then m + 1 else m) * ulp)"

definition double_of_ratio :: "bool \<Rightarrow> nat \<Rightarrow> nat \<Rightarrow> pyfloat" where
  "double_of_ratio neg p q =
     (let n = round_ratio p q in
      if 2 ^ 2098 \<le> n then Infinite neg else Finite (if neg then - int n else int n))"

text \<open>\<open>(-1)^neg * n * 10^k\<close>\<close>

definition double_of_decimal :: "bool \<Rightarrow> nat \<Rightarrow> int \<Rightarrow> pyfloat" where
  "double_of_decimal neg n k =
     (if 0 \<le> k then double_of_ratio neg (n * 10 ^ nat k) 1 else double_of_ratio neg n (10 ^ nat (- k)))"

definition is_exp_mark :: "char \<Rightarrow> bool" where
  "is_exp_mark c \<longleftrightarrow> c = CHR ''e'' \<or> c = CHR ''E''"

definition digits_or_none :: "string \<Rightarrow> string option" where
  "digits_or_none s = (if s = [] then Some [] else ungroup s)"

text \<open>The exponent: absent, or a mark, an optional sign and digits.\<close>

definition exponent_of :: "string \<Rightarrow> int option" where
  "exponent_of s =
     (case s of [] \<Rightarrow> Some 0
      | _ # u \<Rightarrow> (case sign_of u of (neg, v) \<Rightarrow>
          map_option (\<lambda>ds. if neg then - int (nat_of_digits ds) else int (nat_of_digits ds)) (ungroup v)))"

text \<open>\<open>float(s)\<close>, ValueError as None.\<close>

definition float_of_text :: "string \<Rightarrow> pyfloat option" where
  "float_of_text s =
     (case sign_of (strip s) of (neg, t) \<Rightarrow>
       if lower t = ''inf'' \<or> lower t = ''infinity'' then Some (Infinite neg)
       else if lower t = ''nan'' then Some Nan
       else
         (let mant = takeWhile (\<lambda>c. \<not> is_exp_mark c) t;
              ip = takeWhile (\<lambda>c. c \<noteq> CHR ''.'') mant;
              fp = drop 1 (dropWhile (\<lambda>c. c \<noteq> CHR ''.'') mant)
          in if ip = [] \<and> fp = [] then None
             else Option.bind (digits_or_none ip) (\<lambda>ids.
                  Option.bind (digits_or_none fp) (\<lambda>fds.
                  map_option (\<lambda>e. double_of_decimal neg (nat_of_digits (ids @ fds)) (e - int (length fds)))
                    (exponent_of (dropWhile (\<lambda>c. \<not> is_exp_mark c) t))))))"

text \<open>The conversion of an int raises OverflowError where it rounds to an infinity.\<close>

definition float_of_int :: "int \<Rightarrow> pyfloat res" where
  "float_of_int i =
     (case double_of_ratio (i < 0) (nat \<bar>i\<bar>) 1 of
        Infinite _ \<Rightarrow> Inl (DriverError ''OverflowError'')
      | f \<Rightarrow> Inr f)"

lemma small_int_exact:
  assumes "n < 2 ^ 53"
  shows "round_ratio n 1 = n * 2 ^ 1074"
proof (cases "n = 0")
  case True
  then show ?thesis by (simp add: round_ratio_def)
next
  case False
  have bl: "bitlen (int (n * 2 ^ 1074)) \<le> 53 + 1074"
  proof -
    have "int (n * 2 ^ 1074) < 2 ^ (53 + 1074)" using assms by (simp add: power_add)
    then show ?thesis using bitlen_le_iff_power [of "int (n * 2 ^ 1074)" "53 + 1074"] by simp
  qed
  define u where "u = nat (bitlen (int (n * 2 ^ 1074))) - 53"
  have "u \<le> 1074" using bl by (simp add: u_def)
  then have div: "(2 :: nat) ^ u dvd n * 2 ^ 1074" by (intro dvd_mult le_imp_power_dvd)
  show ?thesis
  proof (cases "n * 2 ^ 1074 < (2 :: nat) ^ 53")
    case True
    then show ?thesis by (simp add: round_ratio_def Let_def)
  next
    case ge: False
    then have "round_ratio n 1 = (n * 2 ^ 1074 div 2 ^ u) * 2 ^ u"
      using div by (simp add: round_ratio_def Let_def u_def)
    then show ?thesis using div by simp
  qed
qed

subsection \<open>Comparing values\<close>

text \<open>Numbers by value, an int exactly; a bool is a number.\<close>

definition exact_int :: "int \<Rightarrow> pyfloat" where
  "exact_int i = Finite (i * 2 ^ 1074)"

fun number_of :: "pyval \<Rightarrow> pyfloat option" where
  "number_of (PBool b) = Some (exact_int (if b then 1 else 0))"
| "number_of (PInt i) = Some (exact_int i)"
| "number_of (PFloat s) = Some (case float_of_text s of Some f \<Rightarrow> f | None \<Rightarrow> Nan)"
| "number_of _ = None"

fun flt_eq :: "pyfloat \<Rightarrow> pyfloat \<Rightarrow> bool" where
  "flt_eq (Finite m) (Finite n) = (m = n)"
| "flt_eq (Infinite a) (Infinite b) = (a = b)"
| "flt_eq _ _ = False"

fun flt_less :: "pyfloat \<Rightarrow> pyfloat \<Rightarrow> bool" where
  "flt_less (Finite m) (Finite n) = (m < n)"
| "flt_less (Finite m) (Infinite b) = (\<not> b)"
| "flt_less (Infinite a) (Finite n) = a"
| "flt_less (Infinite a) (Infinite b) = (a \<and> \<not> b)"
| "flt_less _ _ = False"

text \<open>\<open>v == w\<close> where \<open>w\<close> is a number, a bool or a string.\<close>

definition scalar_eq :: "pyval \<Rightarrow> pyval \<Rightarrow> bool" where
  "scalar_eq v w =
     (case (number_of v, number_of w) of
        (Some a, Some b) \<Rightarrow> flt_eq a b
      | _ \<Rightarrow> (case (v, w) of (PStr s, PStr t) \<Rightarrow> s = t | _ \<Rightarrow> False))"

text \<open>\<open>v < w\<close> and \<open>v <= w\<close> between numbers or between strings; any other pair raises TypeError.\<close>

definition type_error :: exn where
  "type_error = DriverError ''TypeError''"

definition scalar_less :: "pyval \<Rightarrow> pyval \<Rightarrow> bool res" where
  "scalar_less v w =
     (case (number_of v, number_of w) of
        (Some a, Some b) \<Rightarrow> Inr (flt_less a b)
      | _ \<Rightarrow> (case (v, w) of (PStr s, PStr t) \<Rightarrow> Inr (s < t) | _ \<Rightarrow> Inl type_error))"

definition scalar_leq :: "pyval \<Rightarrow> pyval \<Rightarrow> bool res" where
  "scalar_leq v w =
     (case (number_of v, number_of w) of
        (Some a, Some b) \<Rightarrow> Inr (flt_less a b \<or> flt_eq a b)
      | _ \<Rightarrow> (case (v, w) of (PStr s, PStr t) \<Rightarrow> Inr (s \<le> t) | _ \<Rightarrow> Inl type_error))"

lemma exact_int_compare [simp]:
  "flt_eq (exact_int i) (exact_int j) = (i = j)"
  "flt_less (exact_int i) (exact_int j) = (i < j)"
  by (simp_all add: exact_int_def)

lemma flt_less_asym: "flt_less a b \<Longrightarrow> \<not> flt_less b a \<and> \<not> flt_eq a b"
  by (cases a; cases b) auto

text \<open>A float literal without fraction or exponent is the int it shows, below \<open>2 ^ 53\<close>.\<close>

lemma float_of_int_small: "\<bar>i\<bar> < 2 ^ 53 \<Longrightarrow> float_of_int i = Inr (exact_int i)"
proof -
  assume i: "\<bar>i\<bar> < 2 ^ 53"
  then have n: "nat \<bar>i\<bar> < 2 ^ 53" by simp
  have "nat \<bar>i\<bar> * 2 ^ 1074 < (2 :: nat) ^ 53 * 2 ^ 1074" using n by simp
  also have "\<dots> \<le> 2 ^ 2098" by simp
  finally have "double_of_ratio (i < 0) (nat \<bar>i\<bar>) 1 = exact_int i"
    unfolding double_of_ratio_def small_int_exact [OF n] Let_def exact_int_def
    by (simp del: power_numeral)
  then show ?thesis by (simp add: float_of_int_def exact_int_def)
qed

subsection \<open>str and repr\<close>

definition repr_char :: "char \<Rightarrow> char \<Rightarrow> string" where
  "repr_char q c =
     (let n = of_char c :: nat in
      if c = q \<or> c = bslash then [bslash, c]
      else if n = 9 then [bslash, CHR ''t''] else if n = 10 then [bslash, CHR ''n'']
      else if n = 13 then [bslash, CHR ''r'']
      else if n < 32 \<or> (127 \<le> n \<and> n \<le> 160) \<or> n = 173
      then [bslash, CHR ''x'', hex_char (n div 16), hex_char (n mod 16)]
      else [c])"

abbreviation apostrophe :: char where "apostrophe \<equiv> CHR 0x27"

definition repr_str :: "string \<Rightarrow> string" where
  "repr_str s =
     (let q = (if apostrophe \<in> set s \<and> quote \<notin> set s then quote else apostrophe)
      in [q] @ concat (map (repr_char q) s) @ [q])"

text \<open>A float is printed as its literal.\<close>

fun py_repr :: "pyval \<Rightarrow> string" where
  "py_repr PNone = ''None''"
| "py_repr (PBool b) = (if b then ''True'' else ''False'')"
| "py_repr (PInt i) = int_str i"
| "py_repr (PFloat s) = s"
| "py_repr (PStr s) = repr_str s"
| "py_repr (PList xs) = ''['' @ join '', '' (map py_repr xs) @ '']''"
| "py_repr (PDict d) = ''{'' @ join '', '' (map (\<lambda>(k, v). repr_str k @ '': '' @ py_repr v) d) @ ''}''"

definition py_str :: "pyval \<Rightarrow> string" where
  "py_str v = (case v of PStr s \<Rightarrow> s | _ \<Rightarrow> py_repr v)"

text \<open>\<open>str(e)\<close> of an exception the code raises; of the others its class stands for the text.\<close>

fun exn_str :: "exn \<Rightarrow> string" where
  "exn_str (AppError _ m _) = m"
| "exn_str (ValueError m) = m"
| "exn_str (RuntimeError m) = m"
| "exn_str (DriverError c) = c"

end
