(* ===== verification/Workflow_Engine.thy ===== *)
theory Workflow_Engine
  imports Py_Text "HOL-Library.Sublist"
begin

section \<open>The workflow engine\<close>

text \<open>
  \<open>function/workflows/engine.py\<close> and the schemas of \<open>workflows/models.py\<close>: the safety level of a set
  of nodes, the layers a workflow is executed in (Kahn's algorithm), the condition language of the
  edges and the execution layer by layer. What a node of another type than condition and wait does is
  the parameter \<open>node_executor\<close>, and \<open>asyncio.sleep\<close> is the parameter \<open>sleep\<close>: None where it does
  not return. The tasks of one layer read the same context and write none, so their interleaving does
  not matter and they are run in order.
\<close>

subsection \<open>Definitions of workflows\<close>

record wf_node =
  nd_id :: string
  nd_type :: string
  nd_capability :: "string option"
  nd_inputs :: "pyval dict"

record wf_edge =
  ed_src :: string
  ed_tgt :: string
  ed_cond :: "string option"

record wf_definition =
  wd_nodes :: "wf_node list"
  wd_edges :: "wf_edge list"

subsection \<open>Safety levels\<close>

definition SAFETY_LEVEL_ORDER :: "nat dict" where
  "SAFETY_LEVEL_ORDER =
    [(''SAFETY_READ_ONLY'', 0), (''SAFETY_IDEMPOTENT_WRITE'', 1), (''SAFETY_NON_IDEMPOTENT'', 2),
     (''SAFETY_CRITICAL'', 3)]"

definition SAFETY_LEVELS_BY_RANK :: "(nat \<times> string) list" where
  "SAFETY_LEVELS_BY_RANK = map (\<lambda>(k, v). (v, k)) SAFETY_LEVEL_ORDER"

definition safety_rank :: "string \<Rightarrow> nat" where
  "safety_rank lvl = dget_or SAFETY_LEVEL_ORDER lvl 0"

definition compute_safety_level :: "string list \<Rightarrow> string" where
  "compute_safety_level lvls =
     (if lvls = [] then ''SAFETY_READ_ONLY''
      else (case map_of SAFETY_LEVELS_BY_RANK (Max (set (map safety_rank lvls))) of
              Some l \<Rightarrow> l | None \<Rightarrow> ''SAFETY_READ_ONLY''))"

subsection \<open>Layers\<close>

text \<open>\<open>in_degree\<close> and \<open>adjacency\<close> as the loop over the edges builds them.\<close>

definition count_edge :: "wf_edge \<Rightarrow> (string \<times> int) list \<Rightarrow> (string \<times> int) list" where
  "count_edge e deg =
     (case map_of deg (ed_tgt e) of Some d \<Rightarrow> AList.update (ed_tgt e) (d + 1) deg | None \<Rightarrow> deg)"

definition add_neighbour :: "wf_edge \<Rightarrow> string list dict \<Rightarrow> string list dict" where
  "add_neighbour e adj = dput (ed_src e) (dget_or adj (ed_src e) [] @ [ed_tgt e]) adj"

text \<open>One pass over the neighbours of a node: a target that is no node raises KeyError.\<close>

fun release :: "string list \<Rightarrow> (string \<times> int) list \<Rightarrow> string list \<Rightarrow> ((string \<times> int) list \<times> string list) res" where
  "release [] deg nxt = Inr (deg, nxt)"
| "release (m # ms) deg nxt =
     (case map_of deg m of
        None \<Rightarrow> Inl (DriverError ''KeyError'')
      | Some d \<Rightarrow> release ms (AList.update m (d - 1) deg) (if d - 1 = 0 then nxt @ [m] else nxt))"

fun visit_layer :: "string list dict \<Rightarrow> string list \<Rightarrow> (string \<times> int) list \<Rightarrow> string list \<Rightarrow>
    ((string \<times> int) list \<times> string list) res" where
  "visit_layer adj [] deg nxt = Inr (deg, nxt)"
| "visit_layer adj (n # ns) deg nxt =
     (case release (dget_or adj n []) deg nxt of
        Inl e \<Rightarrow> Inl e
      | Inr (deg', nxt') \<Rightarrow> visit_layer adj ns deg' nxt')"

definition open_count :: "(string \<times> int) list \<Rightarrow> nat" where
  "open_count deg = length (filter (\<lambda>kd. 0 < snd kd) deg)"

lemma open_count_update:
  assumes "map_of deg m = Some d"
  shows "open_count (AList.update m (d - 1) deg) \<le> open_count deg"
    and "d - 1 = 0 \<Longrightarrow> open_count (AList.update m (d - 1) deg) < open_count deg"
  using assms by (induction deg) (auto simp: open_count_def split: if_splits)

lemma release_open:
  "release ms deg nxt = Inr (deg', nxt') \<Longrightarrow>
     open_count deg' \<le> open_count deg \<and> (open_count deg' < open_count deg \<or> nxt' = nxt)"
proof (induction ms arbitrary: deg nxt)
  case Nil
  then show ?case by simp
next
  case (Cons m ms)
  then obtain d where d: "map_of deg m = Some d" by (auto split: option.splits)
  have "open_count deg' \<le> open_count (AList.update m (d - 1) deg) \<and>
      (open_count deg' < open_count (AList.update m (d - 1) deg) \<or>
       nxt' = (if d - 1 = 0 then nxt @ [m] else nxt))"
    using Cons.IH Cons.prems d by auto
  then show ?case using open_count_update [OF d] by (auto split: if_splits)
qed

lemma visit_layer_open:
  "visit_layer adj ns deg nxt = Inr (deg', nxt') \<Longrightarrow>
     open_count deg' \<le> open_count deg \<and> (open_count deg' < open_count deg \<or> nxt' = nxt)"
proof (induction ns arbitrary: deg nxt)
  case Nil
  then show ?case by simp
next
  case (Cons n ns)
  then obtain deg1 nxt1 where r: "release (dget_or adj n []) deg nxt = Inr (deg1, nxt1)"
    and v: "visit_layer adj ns deg1 nxt1 = Inr (deg', nxt')"
    by (auto split: sum.splits)
  show ?case using Cons.IH [OF v] release_open [OF r] by auto
qed

text \<open>
  The loop over the queue: the layers so far and the number of nodes visited. Every turn but the last
  brings some in-degree down to zero, which is why it ends.
\<close>

function kahn :: "string list dict \<Rightarrow> (string \<times> int) list \<Rightarrow> string list \<Rightarrow> string list list \<Rightarrow> nat \<Rightarrow>
    (string list list \<times> nat) res" where
  "kahn adj deg queue layers visited =
     (if queue = [] then Inr (layers, visited)
      else (case visit_layer adj queue deg [] of
              Inl e \<Rightarrow> Inl e
            | Inr (deg', nxt) \<Rightarrow> kahn adj deg' nxt (layers @ [sort queue]) (visited + length queue)))"
  by pat_completeness auto
termination
proof (relation "measure (\<lambda>(adj, deg, queue, layers, visited). 2 * open_count deg + (if queue = [] then 0 else 1))",
    goal_cases)
  case 1
  show ?case by simp
next
  case (2 adj deg queue layers visited p deg' nxt)
  then have "visit_layer adj queue deg [] = Inr (deg', nxt)" by simp
  from visit_layer_open [OF this] 2 show ?case by auto
qed

declare kahn.simps [simp del]

text \<open>
  The identifiers are kept in a set, whose order is arbitrary; the layers are sorted, so it does not
  show in the result.
\<close>

definition topological_sort :: "wf_node list \<Rightarrow> wf_edge list \<Rightarrow> string list list res" where
  "topological_sort nodes edges =
     (let node_ids = remdups (map nd_id nodes);
          in_degree = fold count_edge edges (map (\<lambda>n. (n, 0)) node_ids);
          adjacency = fold add_neighbour edges [];
          queue = map fst (filter (\<lambda>kd. snd kd = 0) in_degree)
      in (case kahn adjacency in_degree queue [] 0 of
            Inl e \<Rightarrow> Inl e
          | Inr (layers, visited) \<Rightarrow>
              if visited \<noteq> length node_ids
              then Inl (AppError COMMON_INVALID_INPUT ''Workflow DAG contains a cycle'' [])
              else Inr layers))"

subsection \<open>Conditions\<close>

text \<open>\<open>_resolve_value\<close>: a dotted path; what is no dict has no parts.\<close>

fun resolve_parts :: "string list \<Rightarrow> pyval \<Rightarrow> pyval" where
  "resolve_parts [] v = v"
| "resolve_parts (p # ps) v = (case v of PDict d \<Rightarrow> resolve_parts ps (pget d p) | _ \<Rightarrow> PNone)"

definition resolve_value :: "string \<Rightarrow> pyval dict \<Rightarrow> pyval" where
  "resolve_value path context = resolve_parts (split_all CHR ''.'' path) (PDict context)"

definition quoted_by :: "char \<Rightarrow> string \<Rightarrow> bool" where
  "quoted_by q s \<longleftrightarrow> s \<noteq> [] \<and> hd s = q \<and> last s = q"

definition resolve_literal :: "string \<Rightarrow> pyval" where
  "resolve_literal raw =
     (if lower raw = ''true'' then PBool True
      else if lower raw = ''false'' then PBool False
      else (case int_of_text raw of
          Some i \<Rightarrow> PInt i
        | None \<Rightarrow> (case float_of_text raw of
            Some _ \<Rightarrow> PFloat raw
          | None \<Rightarrow> if quoted_by apostrophe raw \<or> quoted_by quote raw then PStr (butlast (tl raw))
                    else PStr raw)))"

text \<open>The operators, longest first, as \<open>sorted(..., key=len, reverse=True)\<close> leaves them.\<close>

datatype condition_op = Op_eq | Op_ne | Op_ge | Op_le | Op_gt | Op_lt

definition CONDITION_OPS :: "(string \<times> condition_op) list" where
  "CONDITION_OPS =
    [(''=='', Op_eq), (''!='', Op_ne), (''>='', Op_ge), (''<='', Op_le), (''>'', Op_gt), (''<'', Op_lt)]"

fun apply_op :: "condition_op \<Rightarrow> pyval \<Rightarrow> pyval \<Rightarrow> bool res" where
  "apply_op Op_eq l r = Inr (scalar_eq l r)"
| "apply_op Op_ne l r = Inr (\<not> scalar_eq l r)"
| "apply_op Op_gt l r = scalar_less r l"
| "apply_op Op_ge l r = scalar_leq r l"
| "apply_op Op_lt l r = scalar_less l r"
| "apply_op Op_le l r = scalar_leq l r"

fun try_ops :: "(string \<times> condition_op) list \<Rightarrow> string \<Rightarrow> pyval dict \<Rightarrow> bool res" where
  "try_ops [] expr context = Inr (py_truthy (resolve_value expr context))"
| "try_ops ((op_str, op) # ops) expr context =
     (case cut op_str expr of
        Some (left_raw, right_raw) \<Rightarrow>
          apply_op op (resolve_value (strip left_raw) context) (resolve_literal (strip right_raw))
      | None \<Rightarrow> try_ops ops expr context)"

definition evaluate_condition :: "string \<Rightarrow> pyval dict \<Rightarrow> bool res" where
  "evaluate_condition expression context =
     (let expr = strip expression in
      if lower expr = ''true'' then Inr True
      else if lower expr = ''false'' then Inr False
      else try_ops CONDITION_OPS expr context)"

subsection \<open>Execution\<close>

datatype wf_step =
    Step_success string pyval
  | Step_failed string string

primrec step_node :: "wf_step \<Rightarrow> string" where
  "step_node (Step_success n v) = n"
| "step_node (Step_failed n e) = n"

record wf_result =
  wr_status :: string
  wr_steps :: "wf_step list"
  wr_outputs :: "pyval dict"

type_synonym node_executor = "wf_node \<Rightarrow> pyval dict \<Rightarrow> pyval res"

type_synonym sleeper = "pyfloat \<Rightarrow> unit res option"

definition build_edge_map :: "wf_edge list \<Rightarrow> wf_edge list dict" where
  "build_edge_map edges = fold (\<lambda>e m. dput (ed_tgt e) (dget_or m (ed_tgt e) [] @ [e]) m) edges []"

fun all_satisfied :: "wf_edge list \<Rightarrow> pyval dict \<Rightarrow> bool res" where
  "all_satisfied [] context = Inr True"
| "all_satisfied (e # es) context =
     (case ed_cond e of
        Some c \<Rightarrow>
          (if c = [] then all_satisfied es context
           else (case evaluate_condition c context of
                   Inl x \<Rightarrow> Inl x
                 | Inr False \<Rightarrow> Inr False
                 | Inr True \<Rightarrow> all_satisfied es context))
      | None \<Rightarrow> all_satisfied es context)"

definition should_execute :: "string \<Rightarrow> wf_edge list dict \<Rightarrow> pyval dict \<Rightarrow> bool res" where
  "should_execute node_id edge_map context = all_satisfied (dget_or edge_map node_id []) context"

text \<open>\<open>float(delay) if delay else 0\<close>\<close>

definition delay_of :: "pyval \<Rightarrow> pyfloat res" where
  "delay_of v =
     (if \<not> py_truthy v then Inr (exact_int 0)
      else (case v of
          PBool b \<Rightarrow> Inr (exact_int 1)
        | PInt i \<Rightarrow> float_of_int i
        | PFloat s \<Rightarrow> Inr (case float_of_text s of Some f \<Rightarrow> f | None \<Rightarrow> Nan)
        | PStr s \<Rightarrow> (case float_of_text s of
            Some f \<Rightarrow> Inr f
          | None \<Rightarrow> Inl (ValueError (''could not convert string to float: '' @ repr_str s)))
        | _ \<Rightarrow> Inl type_error))"

definition resolve_inputs :: "wf_node \<Rightarrow> pyval dict \<Rightarrow> pyval dict \<Rightarrow> pyval dict" where
  "resolve_inputs node context inputs =
     map (\<lambda>(k, v). (k, case v of PStr path \<Rightarrow> resolve_value path (dput ''_inputs'' (PDict inputs) context) | _ \<Rightarrow> v))
       (nd_inputs node)"

text \<open>None: the node never finishes.\<close>

definition execute_node :: "sleeper \<Rightarrow> node_executor option \<Rightarrow> wf_node \<Rightarrow> pyval dict \<Rightarrow> pyval dict \<Rightarrow> pyval res option" where
  "execute_node sleep node_executor node context inputs =
     (let resolved = resolve_inputs node context inputs in
      if nd_type node = ''condition'' then
        Some (case evaluate_condition (py_str (dget_or (nd_inputs node) ''expression'' (PStr ''true''))) context of
                Inl x \<Rightarrow> Inl x
              | Inr b \<Rightarrow> Inr (PDict [(''result'', PBool b)]))
      else if nd_type node = ''wait'' then
        (let delay = dget_or (nd_inputs node) ''seconds'' (PInt 0) in
         case delay_of delay of
           Inl x \<Rightarrow> Some (Inl x)
         | Inr d \<Rightarrow> (case sleep d of
               None \<Rightarrow> None
             | Some (Inl x) \<Rightarrow> Some (Inl x)
             | Some (Inr _) \<Rightarrow> Some (Inr (PDict [(''waited'', delay)]))))
      else (case node_executor of
          Some f \<Rightarrow> Some (f node resolved)
        | None \<Rightarrow> Some (Inr (PDict [(''node_id'', PStr (nd_id node)), (''inputs'', PDict resolved)]))))"

text \<open>The nodes of a layer whose conditions hold; a condition that raises ends the execution.\<close>

fun executable_of :: "string list \<Rightarrow> wf_edge list dict \<Rightarrow> pyval dict \<Rightarrow> string list res" where
  "executable_of [] edge_map context = Inr []"
| "executable_of (n # ns) edge_map context =
     (case should_execute n edge_map context of
        Inl x \<Rightarrow> Inl x
      | Inr b \<Rightarrow> (case executable_of ns edge_map context of
          Inl x \<Rightarrow> Inl x
        | Inr ms \<Rightarrow> Inr (if b then n # ms else ms)))"

text \<open>\<open>gather(..., return_exceptions=True)\<close>: it finishes when all tasks have.\<close>

fun gather :: "('a \<Rightarrow> 'b option) \<Rightarrow> 'a list \<Rightarrow> 'b list option" where
  "gather f [] = Some []"
| "gather f (x # xs) =
     (case f x of None \<Rightarrow> None | Some y \<Rightarrow> map_option ((#) y) (gather f xs))"

definition make_step :: "string \<Rightarrow> pyval res \<Rightarrow> wf_step" where
  "make_step nid r = (case r of Inl x \<Rightarrow> Step_failed nid (exn_str x) | Inr v \<Rightarrow> Step_success nid v)"

definition record_step :: "wf_step \<Rightarrow> pyval dict \<Rightarrow> pyval dict" where
  "record_step st context = (case st of Step_success n v \<Rightarrow> dput n v context | Step_failed _ _ \<Rightarrow> context)"

definition step_failed :: "wf_step \<Rightarrow> bool" where
  "step_failed st = (case st of Step_success _ _ \<Rightarrow> False | Step_failed _ _ \<Rightarrow> True)"

fun run_layers :: "(wf_node \<Rightarrow> pyval dict \<Rightarrow> pyval res option) \<Rightarrow> (string \<Rightarrow> wf_node) \<Rightarrow> wf_edge list dict \<Rightarrow>
    string list list \<Rightarrow> pyval dict \<Rightarrow> wf_step list \<Rightarrow> string \<Rightarrow> (pyval dict \<times> wf_step list \<times> string) res option" where
  "run_layers run node_of edge_map [] context steps status = Some (Inr (context, steps, status))"
| "run_layers run node_of edge_map (layer # layers) context steps status =
     (case executable_of layer edge_map context of
        Inl x \<Rightarrow> Some (Inl x)
      | Inr executable \<Rightarrow>
          (case gather (\<lambda>n. run (node_of n) context) executable of
             None \<Rightarrow> None
           | Some results \<Rightarrow>
               (let new = map2 make_step executable results in
                run_layers run node_of edge_map layers (fold record_step new context) (steps @ new)
                  (if list_ex step_failed new then ''partial_failure'' else status))))"

text \<open>\<open>node_map[nid]\<close>: of nodes with the same identifier the last one.\<close>

definition node_of :: "wf_node list \<Rightarrow> string \<Rightarrow> wf_node" where
  "node_of nodes nid = hd (filter (\<lambda>n. nd_id n = nid) (rev nodes))"

definition execute_workflow :: "sleeper \<Rightarrow> node_executor option \<Rightarrow> wf_definition \<Rightarrow> pyval dict \<Rightarrow> wf_result res option" where
  "execute_workflow sleep node_executor defn inputs =
     (if wd_nodes defn = [] then Some (Inr \<lparr>wr_status = ''success'', wr_steps = [], wr_outputs = []\<rparr>)
      else (case topological_sort (wd_nodes defn) (wd_edges defn) of
          Inl x \<Rightarrow> Some (Inl x)
        | Inr layers \<Rightarrow>
            (case run_layers (\<lambda>n ctx. execute_node sleep node_executor n ctx inputs) (node_of (wd_nodes defn))
                (build_edge_map (wd_edges defn)) layers [(''_inputs'', PDict inputs)] [] ''success'' of
               None \<Rightarrow> None
             | Some (Inl x) \<Rightarrow> Some (Inl x)
             | Some (Inr (context, steps, status)) \<Rightarrow>
                 Some (Inr \<lparr>wr_status = status, wr_steps = steps,
                   wr_outputs = dfilter (\<lambda>k. k \<noteq> ''_inputs'') context\<rparr>))))"

end
