(* ===== verification/Workflow_Layers.thy ===== *)
theory Workflow_Layers
  imports Workflow_Engine
begin

section \<open>Layers of a workflow\<close>

text \<open>
  Kahn's algorithm computes the one layering of the graph, and it returns one exactly when the graph
  is acyclic and no edge leaves the nodes. The loop keeps \<open>kahn_inv\<close>: the in-degrees count the edges
  from nodes not yet in a layer, and the queue holds the nodes without such an edge.
\<close>

subsection \<open>What a layering is\<close>

definition node_set :: "wf_node list \<Rightarrow> string set" where
  "node_set nodes = set (map nd_id nodes)"

definition links :: "wf_node list \<Rightarrow> wf_edge list \<Rightarrow> (string \<times> string) set" where
  "links nodes edges =
     {(ed_src e, ed_tgt e) | e. e \<in> set edges \<and> ed_src e \<in> node_set nodes \<and> ed_tgt e \<in> node_set nodes}"

definition edges_closed :: "wf_node list \<Rightarrow> wf_edge list \<Rightarrow> bool" where
  "edges_closed nodes edges \<longleftrightarrow> (\<forall>e \<in> set edges. ed_src e \<in> node_set nodes \<longleftrightarrow> ed_tgt e \<in> node_set nodes)"

text \<open>Every predecessor is in an earlier layer, and one of them in the layer just before.\<close>

definition in_place :: "(string \<times> string) set \<Rightarrow> string list list \<Rightarrow> nat \<Rightarrow> string \<Rightarrow> bool" where
  "in_place E ls k n \<longleftrightarrow>
     (\<forall>m. (m, n) \<in> E \<longrightarrow> (\<exists>j < k. m \<in> set (ls ! j))) \<and>
     (0 < k \<longrightarrow> (\<exists>m \<in> set (ls ! (k - 1)). (m, n) \<in> E))"

definition layering :: "string set \<Rightarrow> (string \<times> string) set \<Rightarrow> string list list \<Rightarrow> bool" where
  "layering V E ls \<longleftrightarrow>
     distinct (concat ls) \<and> set (concat ls) = V \<and>
     (\<forall>l \<in> set ls. l \<noteq> [] \<and> sorted l) \<and>
     (\<forall>k < length ls. \<forall>n \<in> set (ls ! k). in_place E ls k n)"

subsection \<open>The data the loop works on\<close>

lemma adjacency_is:
  "dget_or (fold add_neighbour es adj) n [] = dget_or adj n [] @ map ed_tgt (filter (\<lambda>e. ed_src e = n) es)"
  by (induction es arbitrary: adj) (auto simp: add_neighbour_def dget_or_def)

lemma count_edge_get:
  "map_of (count_edge e deg) v = map_option (\<lambda>d. if ed_tgt e = v then d + 1 else d) (map_of deg v)"
  by (cases "map_of deg v") (auto simp: count_edge_def split: option.splits)

lemma in_degree_is:
  "map_of (fold count_edge es deg) v =
     map_option (\<lambda>d. d + int (length (filter (\<lambda>e. ed_tgt e = v) es))) (map_of deg v)"
proof (induction es arbitrary: deg)
  case Nil
  then show ?case by (cases "map_of deg v") auto
next
  case (Cons e es)
  show ?case by (cases "map_of deg v") (simp_all add: Cons.IH count_edge_get)
qed

lemma count_edge_keys: "map fst (fold count_edge es deg) = map fst deg"
proof (induction es arbitrary: deg)
  case (Cons e es)
  have "map fst (count_edge e deg) = map fst deg"
    by (auto simp: count_edge_def update_keys map_of_eq_None_iff [symmetric] split: option.splits)
  then show ?case by (simp add: Cons.IH)
qed simp

lemma release_append:
  "release (xs @ ys) deg nxt =
     (case release xs deg nxt of Inl e \<Rightarrow> Inl e | Inr (deg', nxt') \<Rightarrow> release ys deg' nxt')"
  by (induction xs arbitrary: deg nxt) (auto split: option.splits)

lemma visit_layer_release:
  "visit_layer adj ns deg nxt = release (concat (map (\<lambda>n. dget_or adj n []) ns)) deg nxt"
  by (induction ns arbitrary: deg nxt) (auto simp: release_append split: sum.splits)

lemma release_ok_iff: "(\<exists>r. release ms deg nxt = Inr r) \<longleftrightarrow> set ms \<subseteq> dom (map_of deg)"
  by (induction ms arbitrary: deg nxt) (auto split: option.splits simp: dom_def)

lemma release_error: "release ms deg nxt = Inl e \<Longrightarrow> e = DriverError ''KeyError''"
  by (induction ms arbitrary: deg nxt) (auto split: option.splits)

lemma release_counts:
  assumes "\<And>v d. map_of deg v = Some d \<Longrightarrow> int (count_list ms v) \<le> d"
    and "release ms deg nxt = Inr (deg', nxt')"
  shows "(\<forall>v. map_of deg' v = map_option (\<lambda>d. d - int (count_list ms v)) (map_of deg v)) \<and>
    (\<exists>zs. nxt' = nxt @ zs \<and> distinct zs \<and>
       set zs = {v \<in> set ms. map_of deg v = Some (int (count_list ms v))})"
  using assms
proof (induction ms arbitrary: deg nxt)
  case Nil
  then show ?case by (auto simp: option.map_ident)
next
  case (Cons m ms)
  from Cons.prems(2) obtain d where d: "map_of deg m = Some d" by (auto split: option.splits)
  define deg1 where "deg1 = AList.update m (d - 1) deg"
  define nxt1 where "nxt1 = (if d - 1 = 0 then nxt @ [m] else nxt)"
  have r: "release ms deg1 nxt1 = Inr (deg', nxt')"
    using Cons.prems(2) d by (simp add: deg1_def nxt1_def)
  have le: "int (count_list ms v) \<le> x" if "map_of deg1 v = Some x" for v x
    using Cons.prems(1) [of v] d that by (auto simp: deg1_def split: if_splits)
  obtain zs where deg': "\<And>v. map_of deg' v = map_option (\<lambda>d. d - int (count_list ms v)) (map_of deg1 v)"
    and zs: "nxt' = nxt1 @ zs" "distinct zs" "set zs = {v \<in> set ms. map_of deg1 v = Some (int (count_list ms v))}"
    using Cons.IH [OF le r] by blast
  have d1: "1 + int (count_list ms m) \<le> d" using Cons.prems(1) [OF d] by simp
  have m0: "count_list ms m = 0 \<longleftrightarrow> m \<notin> set ms" by (simp add: count_list_0_iff)
  have g: "map_of deg1 v = (if v = m then Some (d - 1) else map_of deg v)" for v by (auto simp: deg1_def)
  have "nxt' = nxt @ (if d - 1 = 0 then m # zs else zs)" using zs(1) by (simp add: nxt1_def)
  moreover have "distinct (if d - 1 = 0 then m # zs else zs)"
  proof (cases "d - 1 = 0")
    case True
    then have "count_list ms m = 0" using d1 by linarith
    then have "m \<notin> set zs" unfolding m0 zs(3) by blast
    then show ?thesis using zs(2) by simp
  qed (use zs(2) in simp)
  moreover have "v \<in> set (if d - 1 = 0 then m # zs else zs) \<longleftrightarrow>
      v \<in> set (m # ms) \<and> map_of deg v = Some (int (count_list (m # ms) v))" for v
  proof (cases "v = m")
    case True
    show ?thesis
    proof (cases "d - 1 = 0")
      case zero: True
      then have "count_list ms m = 0" and "d = 1" using d1 by linarith+
      then show ?thesis by (simp add: True d)
    next
      case False
      have "m \<in> set zs \<longleftrightarrow> m \<in> set ms \<and> d - 1 = int (count_list ms m)"
        unfolding zs(3) by (simp add: g)
      moreover have "m \<notin> set ms \<Longrightarrow> count_list ms m = 0" using m0 by blast
      ultimately have "m \<in> set zs \<longleftrightarrow> d = 1 + int (count_list ms m)"
        using False by (cases "m \<in> set ms") auto
      then show ?thesis unfolding True using False d by simp
    qed
  next
    case False
    then show ?thesis using zs(3) by (simp add: g)
  qed
  then have "set (if d - 1 = 0 then m # zs else zs) =
      {v \<in> set (m # ms). map_of deg v = Some (int (count_list (m # ms) v))}"
    by blast
  moreover have "map_of deg' v = map_option (\<lambda>d. d - int (count_list (m # ms) v)) (map_of deg v)" for v
    using deg' [of v] d by (simp add: deg1_def)
  ultimately show ?case by blast
qed

subsection \<open>The invariant of the loop\<close>

text \<open>The edges into a node from nodes outside a set.\<close>

definition pending :: "wf_edge list \<Rightarrow> string set \<Rightarrow> string \<Rightarrow> nat" where
  "pending es P v = length (filter (\<lambda>e. ed_tgt e = v \<and> ed_src e \<notin> P) es)"

definition any_link :: "wf_edge list \<Rightarrow> (string \<times> string) set" where
  "any_link es = {(ed_src e, ed_tgt e) | e. e \<in> set es}"

record kahn_state =
  ks_deg :: "(string \<times> int) list"
  ks_queue :: "string list"
  ks_layers :: "string list list"

abbreviation placed :: "kahn_state \<Rightarrow> string set" where
  "placed s \<equiv> set (concat (ks_layers s))"

definition kahn_inv :: "string set \<Rightarrow> wf_edge list \<Rightarrow> kahn_state \<Rightarrow> bool" where
  "kahn_inv V es s \<longleftrightarrow>
     (\<forall>v. map_of (ks_deg s) v = (if v \<in> V then Some (int (pending es (placed s) v)) else None)) \<and>
     distinct (ks_queue s) \<and> set (ks_queue s) = {v \<in> V. pending es (placed s) v = 0} - placed s \<and>
     placed s \<subseteq> V \<and> distinct (concat (ks_layers s)) \<and>
     (\<forall>e \<in> set es. ed_src e \<in> placed s \<longrightarrow> ed_tgt e \<in> V) \<and>
     (\<forall>l \<in> set (ks_layers s). l \<noteq> [] \<and> sorted l) \<and>
     (\<forall>k < length (ks_layers s). \<forall>n \<in> set (ks_layers s ! k). in_place (any_link es) (ks_layers s) k n) \<and>
     (ks_layers s \<noteq> [] \<longrightarrow>
        (\<forall>n \<in> set (ks_queue s). \<exists>m \<in> set (last (ks_layers s)). (m, n) \<in> any_link es))"

lemma pending_0_iff: "pending es P v = 0 \<longleftrightarrow> (\<forall>e \<in> set es. ed_tgt e = v \<longrightarrow> ed_src e \<in> P)"
  by (auto simp: pending_def filter_empty_conv)

lemma pending_union:
  "Q \<inter> P = {} \<Longrightarrow>
     pending es P v = pending es (P \<union> Q) v + length (filter (\<lambda>e. ed_tgt e = v \<and> ed_src e \<in> Q) es)"
  by (induction es) (auto simp: pending_def)

lemma count_released:
  assumes "distinct Q"
  shows "count_list (concat (map (\<lambda>n. map ed_tgt (filter (\<lambda>e. ed_src e = n) es)) Q)) v =
    length (filter (\<lambda>e. ed_tgt e = v \<and> ed_src e \<in> set Q) es)"
  using assms
proof (induction Q)
  case Nil
  show ?case by simp
next
  case (Cons n Q)
  have "count_list (map ed_tgt (filter (\<lambda>e. ed_src e = n) es)) v +
      length (filter (\<lambda>e. ed_tgt e = v \<and> ed_src e \<in> set Q) es) =
      length (filter (\<lambda>e. ed_tgt e = v \<and> ed_src e \<in> set (n # Q)) es)"
    using Cons.prems by (induction es) auto
  then show ?case using Cons by (simp add: count_list_append)
qed

lemma in_place_append:
  assumes "k < length ls"
  shows "in_place E (ls @ ls') k n = in_place E ls k n"
proof -
  have eq: "(ls @ ls') ! j = ls ! j" if "j \<le> k" for j using assms that by (simp add: nth_append)
  then have "(\<exists>j < k. m \<in> set ((ls @ ls') ! j)) = (\<exists>j < k. m \<in> set (ls ! j))" for m by auto
  moreover have "(ls @ ls') ! (k - 1) = ls ! (k - 1)" by (rule eq) simp
  ultimately show ?thesis by (simp add: in_place_def)
qed

lemma placed_nth: "n \<in> set (concat ls) \<longleftrightarrow> (\<exists>k < length ls. n \<in> set (ls ! k))"
proof -
  have "n \<in> set (concat ls) \<longleftrightarrow> (\<exists>l \<in> set ls. n \<in> set l)" by auto
  then show ?thesis by (metis in_set_conv_nth)
qed

lemma sort_layer: "set (sort l) = set l" "sorted (sort l)" "sort l = [] \<longleftrightarrow> l = []"
  by (simp_all, metis list.set(1) set_empty set_sort)

lemma kahn_step:
  assumes inv: "kahn_inv V es \<lparr>ks_deg = deg, ks_queue = Q, ks_layers = ls\<rparr>" and "Q \<noteq> []"
    and v: "visit_layer (fold add_neighbour es []) Q deg [] = Inr (deg', nxt)"
  shows "kahn_inv V es \<lparr>ks_deg = deg', ks_queue = nxt, ks_layers = ls @ [sort Q]\<rparr>"
proof -
  let ?P = "set (concat ls)"
  let ?ms = "concat (map (\<lambda>n. map ed_tgt (filter (\<lambda>e. ed_src e = n) es)) Q)"
  have deg: "\<And>v. map_of deg v = (if v \<in> V then Some (int (pending es ?P v)) else None)"
    and dQ: "distinct Q" and Q: "set Q = {v \<in> V. pending es ?P v = 0} - ?P" and PV: "?P \<subseteq> V"
    and dP: "distinct (concat ls)" and out: "\<forall>e \<in> set es. ed_src e \<in> ?P \<longrightarrow> ed_tgt e \<in> V"
    and lay: "\<forall>l \<in> set ls. l \<noteq> [] \<and> sorted l"
    and pl: "\<forall>k < length ls. \<forall>n \<in> set (ls ! k). in_place (any_link es) ls k n"
    and pre: "ls \<noteq> [] \<longrightarrow> (\<forall>n \<in> set Q. \<exists>m \<in> set (last ls). (m, n) \<in> any_link es)"
    using inv by (simp_all add: kahn_inv_def)
  have "dget_or (fold add_neighbour es []) n [] = map ed_tgt (filter (\<lambda>e. ed_src e = n) es)" for n
    by (subst adjacency_is) (simp add: dget_or_def)
  then have r: "release ?ms deg [] = Inr (deg', nxt)"
    using v by (simp add: visit_layer_release)
  have c: "count_list ?ms v = length (filter (\<lambda>e. ed_tgt e = v \<and> ed_src e \<in> set Q) es)" for v
    by (rule count_released [OF dQ])
  have disj: "set Q \<inter> ?P = {}" using Q by blast
  have split: "pending es ?P v = pending es (?P \<union> set Q) v + count_list ?ms v" for v
    unfolding c by (rule pending_union [OF disj])
  have le: "int (count_list ?ms v) \<le> d" if "map_of deg v = Some d" for v d
    using that split [of v] by (simp add: deg split: if_splits)
  obtain deg': "\<And>v. map_of deg' v = map_option (\<lambda>d. d - int (count_list ?ms v)) (map_of deg v)"
    and nxt: "distinct nxt" "set nxt = {v \<in> set ?ms. map_of deg v = Some (int (count_list ?ms v))}"
    using release_counts [OF le r] by auto
  have ms: "set ?ms \<subseteq> V" using release_ok_iff [of ?ms deg "[]"] r deg by (auto simp: dom_def split: if_splits)
  have new: "set (concat (ls @ [sort Q])) = ?P \<union> set Q" by simp
  have mem: "v \<in> set ?ms \<longleftrightarrow> (\<exists>e \<in> set es. ed_tgt e = v \<and> ed_src e \<in> set Q)" for v
    by auto
  have nset: "set nxt = {v \<in> V. pending es (?P \<union> set Q) v = 0} - (?P \<union> set Q)"
  proof -
    have a: "v \<in> set nxt \<longleftrightarrow> v \<in> set ?ms \<and> v \<in> V \<and> pending es (?P \<union> set Q) v = 0" for v
      unfolding nxt(2) using split [of v] ms by (auto simp: deg split: if_splits)
    have b: "v \<in> set ?ms \<longleftrightarrow> v \<notin> ?P \<union> set Q" if "v \<in> V" "pending es (?P \<union> set Q) v = 0" for v
    proof
      assume "v \<in> set ?ms"
      then obtain e where e: "e \<in> set es" "ed_tgt e = v" "ed_src e \<in> set Q" using mem by blast
      then have nz: "pending es ?P v \<noteq> 0" using disj by (auto simp: pending_0_iff)
      have placed: "pending es ?P n = 0" if n: "n \<in> ?P" for n
      proof -
        obtain k where k: "k < length ls" "n \<in> set (ls ! k)" using n unfolding placed_nth by blast
        then have ip: "in_place (any_link es) ls k n" using pl by blast
        show ?thesis unfolding pending_0_iff
        proof (intro ballI impI)
          fix e assume "e \<in> set es" "ed_tgt e = n"
          then have "(ed_src e, n) \<in> any_link es" by (auto simp: any_link_def)
          then obtain j where "j < k" "ed_src e \<in> set (ls ! j)" using ip by (auto simp: in_place_def)
          then show "ed_src e \<in> ?P" using k(1) by (metis (no_types, lifting) UN_I nth_mem order.strict_trans set_concat)
        qed
      qed
      have "v \<notin> ?P" using nz placed by (rule contrapos_nn)
      moreover have "v \<notin> set Q" unfolding Q using nz by simp
      ultimately show "v \<notin> ?P \<union> set Q" unfolding Un_iff by simp
    next
      assume "v \<notin> ?P \<union> set Q"
      then have "pending es ?P v \<noteq> 0" using Q that by auto
      then have "count_list ?ms v \<noteq> 0" using split [of v] that by simp
      then show "v \<in> set ?ms" by (metis count_list_0_iff)
    qed
    show ?thesis using a b by blast
  qed
  have pl': "in_place (any_link es) (ls @ [sort Q]) k n"
    if "k < length (ls @ [sort Q])" "n \<in> set ((ls @ [sort Q]) ! k)" for k n
  proof (cases "k < length ls")
    case True
    then show ?thesis using pl that by (simp add: in_place_append nth_append)
  next
    case False
    then have k: "k = length ls" and n: "n \<in> set Q" using that by (auto simp: nth_append)
    have "\<exists>j < k. m \<in> set ((ls @ [sort Q]) ! j)" if "(m, n) \<in> any_link es" for m
    proof -
      have "m \<in> ?P" using that n Q by (auto simp: any_link_def pending_0_iff)
      then obtain j where "j < length ls" "m \<in> set (ls ! j)" unfolding placed_nth by blast
      then show ?thesis using k by (auto simp: nth_append)
    qed
    moreover have "\<exists>m \<in> set ((ls @ [sort Q]) ! (k - 1)). (m, n) \<in> any_link es" if "0 < k"
      using pre n k that by (auto simp: last_conv_nth nth_append)
    ultimately show ?thesis by (simp add: in_place_def)
  qed
  have nextpre: "\<forall>n \<in> set nxt. \<exists>m \<in> set (sort Q). (m, n) \<in> any_link es"
    unfolding nxt(2) by (auto simp: any_link_def)
  have out': "\<forall>e \<in> set es. ed_src e \<in> ?P \<union> set Q \<longrightarrow> ed_tgt e \<in> V"
  proof (intro ballI impI)
    fix e assume e: "e \<in> set es" "ed_src e \<in> ?P \<union> set Q"
    show "ed_tgt e \<in> V"
    proof (cases "ed_src e \<in> ?P")
      case True
      then show ?thesis using out e(1) by blast
    next
      case False
      then have "ed_tgt e \<in> set ?ms" using e unfolding mem by blast
      then show ?thesis using ms by blast
    qed
  qed
  have degs: "map_of deg' v = (if v \<in> V then Some (int (pending es (?P \<union> set Q) v)) else None)" for v
    using split [of v] by (simp add: deg' deg)
  show ?thesis
    unfolding kahn_inv_def
    using degs nxt(1) nset PV Q dP dQ disj out' lay pl' nextpre \<open>Q \<noteq> []\<close>
    by (simp add: new sort_layer)
qed

subsection \<open>What the loop returns\<close>

lemma kahn_inv_error:
  assumes "kahn_inv V es \<lparr>ks_deg = deg, ks_queue = Q, ks_layers = ls\<rparr>"
    and "visit_layer (fold add_neighbour es []) Q deg [] = Inl x"
  shows "x = DriverError ''KeyError'' \<and> (\<exists>e \<in> set es. ed_src e \<in> V \<and> ed_tgt e \<notin> V)"
proof -
  let ?ms = "concat (map (\<lambda>n. map ed_tgt (filter (\<lambda>e. ed_src e = n) es)) Q)"
  have "dget_or (fold add_neighbour es []) n [] = map ed_tgt (filter (\<lambda>e. ed_src e = n) es)" for n
    by (subst adjacency_is) (simp add: dget_or_def)
  then have r: "release ?ms deg [] = Inl x" using assms(2) by (simp add: visit_layer_release)
  then have "\<not> set ?ms \<subseteq> dom (map_of deg)" using release_ok_iff [of ?ms deg "[]"] by simp
  moreover have "dom (map_of deg) = V" and "set Q \<subseteq> V"
    using assms(1) by (auto simp: kahn_inv_def dom_def)
  ultimately have "\<exists>e \<in> set es. ed_src e \<in> V \<and> ed_tgt e \<notin> V" by auto
  then show ?thesis using release_error [OF r] by simp
qed

lemma kahn_result:
  assumes "kahn_inv V es \<lparr>ks_deg = deg, ks_queue = Q, ks_layers = ls\<rparr>"
    and "visited = length (concat ls)"
  shows "case kahn (fold add_neighbour es []) deg Q ls visited of
      Inl x \<Rightarrow> x = DriverError ''KeyError'' \<and> (\<exists>e \<in> set es. ed_src e \<in> V \<and> ed_tgt e \<notin> V)
    | Inr (ls', n) \<Rightarrow> n = length (concat ls') \<and>
        (\<exists>deg'. kahn_inv V es \<lparr>ks_deg = deg', ks_queue = [], ks_layers = ls'\<rparr>)"
  using assms
proof (induction "fold add_neighbour es []" deg Q ls visited rule: kahn.induct)
  case (1 deg Q ls visited)
  show ?case
  proof (cases "Q = []")
    case True
    then show ?thesis using 1 by (auto simp: kahn.simps)
  next
    case Q: False
    show ?thesis
    proof (cases "visit_layer (fold add_neighbour es []) Q deg []")
      case (Inl x)
      then show ?thesis using kahn_inv_error [OF 1(2)] Q by (simp add: kahn.simps)
    next
      case (Inr r)
      obtain deg' nxt where r: "r = (deg', nxt)" by (cases r)
      have v: "visit_layer (fold add_neighbour es []) Q deg [] = Inr (deg', nxt)" using Inr r by simp
      have n: "visited + length Q = length (concat (ls @ [sort Q]))" using 1(3) by simp
      from 1(1) [OF Q v refl kahn_step [OF 1(2) Q v] n]
      show ?thesis using Q v by (simp add: kahn.simps [of _ deg])
    qed
  qed
qed

lemma kahn_inv_start:
  fixes nodes edges
  defines "ids \<equiv> remdups (map nd_id nodes)"
  defines "deg \<equiv> fold count_edge edges (map (\<lambda>n. (n, 0)) ids)"
  shows "kahn_inv (node_set nodes) edges
    \<lparr>ks_deg = deg, ks_queue = map fst (filter (\<lambda>kd. snd kd = 0) deg), ks_layers = []\<rparr>"
proof -
  have start: "map_of (map (\<lambda>n. (n, 0 :: int)) ids) v = (if v \<in> node_set nodes then Some 0 else None)" for v
    by (auto simp: ids_def node_set_def map_of_eq_None_iff intro!: map_of_is_SomeI
        simp: comp_def distinct_map)
  have deg: "map_of deg v = (if v \<in> node_set nodes then Some (int (pending edges {} v)) else None)" for v
    by (simp add: deg_def in_degree_is start pending_def)
  have keys: "map fst deg = ids" by (simp add: deg_def count_edge_keys comp_def)
  then have d: "distinct (map fst deg)" by (simp add: ids_def)
  have q: "distinct (map fst (filter (\<lambda>kd. snd kd = 0) deg))" using d by (rule distinct_map_filter)
  have "v \<in> set (map fst (filter (\<lambda>kd. snd kd = 0) deg)) \<longleftrightarrow> map_of deg v = Some 0" for v
    using d by (force simp: map_of_eq_Some_iff)
  then have "set (map fst (filter (\<lambda>kd. snd kd = 0) deg)) = {v \<in> node_set nodes. pending edges {} v = 0}"
    unfolding set_eq_iff by (auto simp: deg split: if_splits)
  then show ?thesis using q by (simp add: kahn_inv_def deg)
qed

subsection \<open>Layerings are unique, and exist for acyclic graphs\<close>

lemma layer_index:
  assumes "layering V E ls" and "i < length ls" "j < length ls" and "n \<in> set (ls ! i)" "n \<in> set (ls ! j)"
  shows "i = j"
proof -
  have ne: "\<forall>l \<in> set ls. l \<noteq> []" and d: "distinct (concat ls)" using assms(1) by (auto simp: layering_def)
  have "removeAll [] ls = ls" using ne by (auto intro: removeAll_id)
  then have "distinct ls" and "\<forall>ys zs. ys \<in> set ls \<and> zs \<in> set ls \<and> ys \<noteq> zs \<longrightarrow> set ys \<inter> set zs = {}"
    using d by (auto simp: distinct_concat_iff)
  then show ?thesis using assms(2-) by (metis disjoint_iff nth_eq_iff_index_eq nth_mem)
qed

lemma layering_nodes: "layering V E ls \<Longrightarrow> n \<in> V \<longleftrightarrow> (\<exists>k < length ls. n \<in> set (ls ! k))"
  unfolding layering_def placed_nth [symmetric] by blast

lemma layering_subset:
  assumes l: "layering V E ls" and l': "layering V E ls'" and E: "E \<subseteq> V \<times> V"
    and "k < length ls" and "n \<in> set (ls ! k)"
  shows "k < length ls' \<and> n \<in> set (ls' ! k)"
  using assms(4,5)
proof (induction k arbitrary: n rule: less_induct)
  case (less k)
  then have "n \<in> V" using layering_nodes [OF l] by blast
  then obtain k' where k': "k' < length ls'" "n \<in> set (ls' ! k')" using layering_nodes [OF l'] by blast
  have p: "in_place E ls k n" using l less by (simp add: layering_def)
  have p': "in_place E ls' k' n" using l' k' by (simp add: layering_def)
  have "k' \<le> k"
  proof (rule ccontr)
    assume c: "\<not> k' \<le> k"
    then obtain m where m: "m \<in> set (ls' ! (k' - 1))" "(m, n) \<in> E" using p' by (auto simp: in_place_def)
    then obtain j where j: "j < k" "m \<in> set (ls ! j)" using p by (auto simp: in_place_def)
    then have "j < length ls' \<and> m \<in> set (ls' ! j)" using less.IH less.prems by simp
    then have "j = k' - 1" using layer_index [OF l', of j "k' - 1" m] m k' by simp
    then show False using j c by simp
  qed
  moreover have "k \<le> k'"
  proof (cases "k = 0")
    case False
    then obtain m where m: "m \<in> set (ls ! (k - 1))" "(m, n) \<in> E" using p by (auto simp: in_place_def)
    then obtain j where j: "j < k'" "m \<in> set (ls' ! j)" using p' by (auto simp: in_place_def)
    have "k - 1 < length ls' \<and> m \<in> set (ls' ! (k - 1))" using less False m by simp
    then have "k - 1 = j" using layer_index [OF l', of "k - 1" j m] j k' by simp
    then show ?thesis using j by simp
  qed simp
  ultimately show ?case using k' by simp
qed

lemma layering_unique:
  assumes l: "layering V E ls" and l': "layering V E ls'" and E: "E \<subseteq> V \<times> V"
  shows "ls = ls'"
proof -
  have len: "length xs \<le> length ys" if "layering V E xs" "layering V E ys" for xs ys
  proof (cases "xs = []")
    case False
    then have "xs ! (length xs - 1) \<noteq> []" using that(1) by (auto simp: layering_def)
    then obtain n where "n \<in> set (xs ! (length xs - 1))" by (metis last_in_set)
    then have "length xs - 1 < length ys" using layering_subset [OF that E, of "length xs - 1" n] False by simp
    then show ?thesis by simp
  qed simp
  have eq: "length ls = length ls'" using len l l' by (simp add: order.antisym)
  have "ls ! k = ls' ! k" if "k < length ls" for k
  proof -
    have "set (ls ! k) = set (ls' ! k)"
      using layering_subset [OF l l' E] layering_subset [OF l' l E] that eq by auto
    moreover have "sorted (ls ! k)" "sorted (ls' ! k)" "distinct (ls ! k)" "distinct (ls' ! k)"
      using l l' that eq by (auto simp: layering_def distinct_concat_iff)
    ultimately show ?thesis by (simp add: sorted_distinct_set_unique)
  qed
  then show ?thesis using eq by (simp add: list_eq_iff_nth_eq)
qed

lemma layering_acyclic:
  assumes l: "layering V E ls" and E: "E \<subseteq> V \<times> V"
  shows "acyclic E"
proof (rule wf_acyclic, rule wf_subset [OF wf_measure])
  let ?lv = "\<lambda>n. LEAST k. k < length ls \<and> n \<in> set (ls ! k)"
  show "E \<subseteq> measure ?lv"
  proof (intro subrelI)
    fix m n assume mn: "(m, n) \<in> E"
    then have "n \<in> V" using E by blast
    then have n: "?lv n < length ls \<and> n \<in> set (ls ! ?lv n)"
      using LeastI_ex [of "\<lambda>k. k < length ls \<and> n \<in> set (ls ! k)"] layering_nodes [OF l] by blast
    then have "in_place E ls (?lv n) n" using l by (simp add: layering_def)
    then obtain j where "j < ?lv n" "m \<in> set (ls ! j)" using mn by (auto simp: in_place_def)
    then have "?lv m \<le> j" using n by (intro Least_le) simp
    then show "(m, n) \<in> measure ?lv" using \<open>j < ?lv n\<close> by simp
  qed
qed

subsection \<open>The result of the sort\<close>

definition cycle_error :: exn where
  "cycle_error = AppError COMMON_INVALID_INPUT ''Workflow DAG contains a cycle'' []"

lemma links_inside: "links nodes edges \<subseteq> node_set nodes \<times> node_set nodes"
  by (auto simp: links_def)

lemma links_closed:
  "edges_closed nodes edges \<Longrightarrow> n \<in> node_set nodes \<Longrightarrow>
     (m, n) \<in> links nodes edges \<longleftrightarrow> (m, n) \<in> any_link edges"
  by (auto simp: links_def any_link_def edges_closed_def)

lemma card_node_set: "card (node_set nodes) = length (remdups (map nd_id nodes))"
  by (simp add: node_set_def length_remdups_card_conv)

lemma all_placed:
  assumes inv: "kahn_inv (node_set nodes) edges \<lparr>ks_deg = deg, ks_queue = [], ks_layers = ls\<rparr>"
    and all: "set (concat ls) = node_set nodes"
  shows "edges_closed nodes edges \<and> layering (node_set nodes) (links nodes edges) ls"
proof -
  let ?V = "node_set nodes"
  have pl: "\<forall>k < length ls. \<forall>n \<in> set (ls ! k). in_place (any_link edges) ls k n"
    and out: "\<forall>e \<in> set edges. ed_src e \<in> ?V \<longrightarrow> ed_tgt e \<in> ?V"
    using inv unfolding kahn_inv_def by (simp_all add: all del: set_concat)
  have cl: "edges_closed nodes edges"
    unfolding edges_closed_def
  proof (intro ballI iffI)
    fix e assume e: "e \<in> set edges" "ed_tgt e \<in> ?V"
    then have "ed_tgt e \<in> set (concat ls)" unfolding all by blast
    then obtain k where k: "k < length ls" "ed_tgt e \<in> set (ls ! k)" unfolding placed_nth by blast
    moreover have "(ed_src e, ed_tgt e) \<in> any_link edges" using e by (auto simp: any_link_def)
    ultimately obtain j where j: "j < k" "ed_src e \<in> set (ls ! j)" using pl unfolding in_place_def by blast
    then have "j < length ls" using k by simp
    then have "ed_src e \<in> set (concat ls)" unfolding placed_nth using j by blast
    then show "ed_src e \<in> ?V" unfolding all .
  qed (use out in blast)
  have "in_place (links nodes edges) ls k n" if "k < length ls" "n \<in> set (ls ! k)" for k n
  proof -
    have "n \<in> set (concat ls)" unfolding placed_nth using that by blast
    then have "n \<in> ?V" unfolding all .
    then show ?thesis using pl that links_closed [OF cl] by (simp add: in_place_def)
  qed
  then show ?thesis using inv all cl by (simp add: kahn_inv_def layering_def)
qed

lemma placed_if:
  assumes inv: "kahn_inv (node_set nodes) edges \<lparr>ks_deg = deg, ks_queue = [], ks_layers = ls\<rparr>"
    and "edges_closed nodes edges" and "acyclic (links nodes edges)"
  shows "set (concat ls) = node_set nodes"
proof (rule ccontr)
  let ?V = "node_set nodes" and ?P = "set (concat ls)"
  assume "?P \<noteq> ?V"
  moreover have "?P \<subseteq> ?V" and q: "{v \<in> ?V. pending edges ?P v = 0} - ?P = {}"
    using inv by (simp_all add: kahn_inv_def)
  ultimately obtain x where x: "x \<in> ?V - ?P" by blast
  have "finite (links nodes edges)"
    by (rule finite_subset [OF links_inside]) (simp add: node_set_def)
  then have "wf (links nodes edges)" using assms(3) by (rule finite_acyclic_wf)
  then obtain z where z: "z \<in> ?V - ?P" "\<And>y. (y, z) \<in> links nodes edges \<Longrightarrow> y \<notin> ?V - ?P"
    using x by (rule wfE_min [of "links nodes edges" x "?V - ?P"]) blast+
  then have "pending edges ?P z \<noteq> 0" using q by (metis (mono_tags, lifting) DiffD1 DiffD2 DiffI empty_iff mem_Collect_eq)
  then obtain e where e: "e \<in> set edges" "ed_tgt e = z" "ed_src e \<notin> ?P"
    unfolding pending_0_iff by blast
  then have "ed_src e \<in> ?V" using assms(2) z by (auto simp: edges_closed_def)
  then have "(ed_src e, z) \<in> links nodes edges" using e z by (auto simp: links_def)
  then show False using z(2) e \<open>ed_src e \<in> ?V\<close> by blast
qed

lemma topological_sort_result:
  "case topological_sort nodes edges of
     Inr ls \<Rightarrow> edges_closed nodes edges \<and> acyclic (links nodes edges) \<and>
       layering (node_set nodes) (links nodes edges) ls
   | Inl x \<Rightarrow> (if edges_closed nodes edges then \<not> acyclic (links nodes edges) \<and> x = cycle_error
       else x = cycle_error \<or> x = DriverError ''KeyError'')"
proof -
  let ?ids = "remdups (map nd_id nodes)"
  let ?deg = "fold count_edge edges (map (\<lambda>n. (n, 0)) ?ids)"
  let ?run = "kahn (fold add_neighbour edges []) ?deg (map fst (filter (\<lambda>kd. snd kd = 0) ?deg)) [] 0"
  have res: "case ?run of
      Inl x \<Rightarrow> x = DriverError ''KeyError'' \<and> (\<exists>e \<in> set edges. ed_src e \<in> node_set nodes \<and> ed_tgt e \<notin> node_set nodes)
    | Inr (ls', n) \<Rightarrow> n = length (concat ls') \<and>
        (\<exists>deg'. kahn_inv (node_set nodes) edges \<lparr>ks_deg = deg', ks_queue = [], ks_layers = ls'\<rparr>)"
    by (rule kahn_result [OF kahn_inv_start]) simp
  show ?thesis
  proof (cases ?run)
    case (Inl x)
    then have "x = DriverError ''KeyError''" and "\<not> edges_closed nodes edges"
      using res by (auto simp: edges_closed_def)
    then show ?thesis using Inl by (simp add: topological_sort_def Let_def)
  next
    case (Inr r)
    obtain ls n where r: "r = (ls, n)" by (cases r)
    from res Inr r obtain deg' where n: "n = length (concat ls)"
      and inv: "kahn_inv (node_set nodes) edges \<lparr>ks_deg = deg', ks_queue = [], ks_layers = ls\<rparr>" by auto
    have "set (concat ls) \<subseteq> node_set nodes" and "distinct (concat ls)"
      using inv by (simp_all add: kahn_inv_def)
    then have all: "n = length ?ids \<longleftrightarrow> set (concat ls) = node_set nodes"
      unfolding n card_node_set [symmetric]
      by (metis card_subset_eq distinct_card finite_set node_set_def)
    show ?thesis
    proof (cases "n = length ?ids")
      case True
      then have "edges_closed nodes edges \<and> layering (node_set nodes) (links nodes edges) ls"
        using all_placed [OF inv] all by blast
      then show ?thesis using True Inr r layering_acyclic [OF _ links_inside]
        by (auto simp: topological_sort_def Let_def)
    next
      case False
      then have "\<not> (edges_closed nodes edges \<and> acyclic (links nodes edges))"
        using placed_if [OF inv] all by blast
      then show ?thesis using False Inr r by (simp add: topological_sort_def Let_def cycle_error_def)
    qed
  qed
qed

text \<open>
C23. Sorting a workflow into layers returns the layers of its graph (every node in exactly one layer, in
the layer after its last predecessor, each layer in alphabetical order) if the graph is acyclic and
every edge joins two nodes or none; otherwise it fails, with the cycle error when the edges join
nodes of the workflow, and else with this error or a KeyError. It always ends.
\<close>

theorem workflow_layers:
  "case topological_sort nodes edges of
     Inr ls \<Rightarrow> edges_closed nodes edges \<and> acyclic (links nodes edges) \<and>
       layering (node_set nodes) (links nodes edges) ls
   | Inl x \<Rightarrow> (if edges_closed nodes edges then \<not> acyclic (links nodes edges) \<and> x = cycle_error
       else x = cycle_error \<or> x = DriverError ''KeyError'')"
  by (rule topological_sort_result)

end
