(* ===== verification/Workflow_Run.thy ===== *)
theory Workflow_Run
  imports Workflow_Layers
begin

section \<open>Running a workflow\<close>

text \<open>
  What an execution reports (the steps follow the layers, the outputs are the results of the
  successful steps), when it returns, that a failed node does not stop the nodes behind it, and what
  the conditions of the documented form decide.
\<close>

subsection \<open>Steps\<close>





lemma step_node_make [simp]: "step_node (make_step n r) = n"
  by (simp add: make_step_def split: sum.splits)







subsection \<open>Failures do not spread\<close>
















subsection \<open>What a condition decides\<close>

lemma cut_skip: "c \<notin> set p \<Longrightarrow> cut (c # sep) (p @ t) = map_option (\<lambda>(a, b). (p @ a, b)) (cut (c # sep) t)"
proof (induction p)
  case Nil
  show ?case by (cases "cut (c # sep) t") auto
next
  case (Cons d p)
  then show ?case by (cases "cut (c # sep) t") auto
qed

lemma cut_absent: "c \<notin> set s \<Longrightarrow> cut (c # sep) s = None"
  by (induction s) auto

lemma strip_front: "strip (CHR '' '' # s) = strip s"
  by (simp add: strip_def is_space_def)

lemma strip_back:
  assumes "p \<noteq> []" "\<not> is_space (hd p)" "\<not> is_space (last p)"
  shows "strip (p @ '' '') = p"
proof -
  have "dropWhile is_space (p @ '' '') = p @ '' ''" using assms by (cases p) auto
  moreover have "dropWhile is_space (rev p) = rev p" using assms by (simp add: dropWhile_eq_self_iff hd_rev)
  moreover have "is_space CHR '' ''" by (simp add: is_space_def)
  ultimately show ?thesis by (simp add: strip_def)
qed

lemma int_str_chars: "set (int_str i) \<subseteq> insert (CHR ''-'') {c. is_digit c}"
  using nat_str_digits by (auto simp: int_str_def)

lemma int_str_no_word:
  assumes "is_letter_word = ''true'' \<or> is_letter_word = ''false''"
  shows "lower (int_str i) \<noteq> is_letter_word"
proof -
  obtain c t where ct: "int_str i = c # t" "is_digit c \<or> c = CHR ''-''" by (rule int_str_shape) auto
  then show ?thesis using assms by (auto simp: lower_def is_digit_def Let_def)
qed

lemma literal_int: "length (int_str i) \<le> MAX_STR_DIGITS \<Longrightarrow> resolve_literal (int_str i) = PInt i"
  using int_str_no_word by (simp add: resolve_literal_def int_of_text_int_str)

primrec holds :: "condition_op \<Rightarrow> int \<Rightarrow> int \<Rightarrow> bool" where
  "holds Op_eq i j = (i = j)"
| "holds Op_ne i j = (i \<noteq> j)"
| "holds Op_ge i j = (i \<ge> j)"
| "holds Op_le i j = (i \<le> j)"
| "holds Op_gt i j = (i > j)"
| "holds Op_lt i j = (i < j)"

lemma apply_op_ints: "apply_op op (PInt i) (PInt j) = Inr (holds op i j)"
  by (cases op) (auto simp: scalar_eq_def scalar_less_def scalar_leq_def)

lemma apply_op_none:
  "apply_op op PNone (PInt j) = (case op of Op_eq \<Rightarrow> Inr False | Op_ne \<Rightarrow> Inr True | _ \<Rightarrow> Inl type_error)"
  by (cases op) (auto simp: scalar_eq_def scalar_less_def scalar_leq_def)

lemma condition_text:
  assumes op: "(op_str, op) \<in> set CONDITION_OPS"
    and p: "p \<noteq> []" "\<not> is_space (hd p)" "\<not> is_space (last p)" "set p \<inter> set ''=!<>'' = {}"
    and i: "length (int_str i) \<le> MAX_STR_DIGITS"
  shows "evaluate_condition (p @ '' '' @ op_str @ '' '' @ int_str i) ctx =
    apply_op op (resolve_value p ctx) (PInt i)"
proof -
  let ?e = "p @ '' '' @ op_str @ '' '' @ int_str i"
  have d: "CHR ''='' \<notin> set (int_str i)" "CHR ''<'' \<notin> set (int_str i)" "CHR ''>'' \<notin> set (int_str i)"
      "CHR ''!'' \<notin> set (int_str i)"
    using int_str_chars [of i] by (auto simp: is_digit_def)
  have ne: "int_str i \<noteq> []" by (rule int_str_shape [of i]) simp
  have "\<not> is_space (last (int_str i))"
  proof -
    have "last (int_str i) = CHR ''-'' \<or> is_digit (last (int_str i))"
      using int_str_chars [of i] last_in_set [OF ne] by blast
    moreover have "\<not> is_space CHR ''-''" by (simp add: is_space_def)
    ultimately show ?thesis using digit_not_space by metis
  qed
  then have "strip ?e = ?e"
    using p ne by (intro strip_id disjI2 conjI) simp_all
  moreover have "lower ?e \<noteq> ''true'' \<and> lower ?e \<noteq> ''false''"
  proof -
    have "CHR '' '' \<in> set (lower ?e)" by (simp add: lower_def Let_def)
    then show ?thesis by (auto dest: sym)
  qed
  moreover have "try_ops CONDITION_OPS ?e ctx =
      apply_op op (resolve_value (strip (p @ '' '')) ctx) (resolve_literal (strip (CHR '' '' # int_str i)))"
    using op p(4) d unfolding CONDITION_OPS_def by (auto simp: cut_skip cut_absent)
  ultimately show ?thesis
    using p i by (simp add: evaluate_condition_def strip_back strip_front strip_int_str literal_int)
qed

text \<open>
A condition of the form "path operator integer" compares the value at the path with the integer
as the operator says; where there is nothing at the path (the node failed or was skipped) only
equality and inequality have an answer, and an ordering ends the whole execution with a TypeError.
\<close>

theorem conditions_decide:
  assumes "(op_str, op) \<in> set CONDITION_OPS"
    and "p \<noteq> []" "\<not> is_space (hd p)" "\<not> is_space (last p)" "set p \<inter> set ''=!<>'' = {}"
    and "length (int_str i) \<le> MAX_STR_DIGITS"
  shows "evaluate_condition (p @ '' '' @ op_str @ '' '' @ int_str i) ctx =
    (case resolve_value p ctx of
       PInt j \<Rightarrow> Inr (holds op j i)
     | PNone \<Rightarrow> (case op of Op_eq \<Rightarrow> Inr False | Op_ne \<Rightarrow> Inr True | _ \<Rightarrow> Inl type_error)
     | v \<Rightarrow> apply_op op v (PInt i))"
  unfolding condition_text [OF assms]
  by (cases "resolve_value p ctx") (simp_all add: apply_op_ints apply_op_none)

theorem conditions_decide_witness:
  "evaluate_condition ''a.count >= 10'' [(''a'', PDict [(''count'', PInt 12)])] = Inr True \<and>
   evaluate_condition ''a.count >= 10'' [] = Inl type_error"
proof -
  have s: "''a.count >= 10'' = ''a.count'' @ '' '' @ ''>='' @ '' '' @ int_str 10" by code_simp
  have "evaluate_condition ''a.count >= 10'' ctx = (case resolve_value ''a.count'' ctx of
       PInt j \<Rightarrow> Inr (holds Op_ge j 10)
     | PNone \<Rightarrow> Inl type_error
     | v \<Rightarrow> apply_op Op_ge v (PInt 10))" for ctx
    unfolding s
    by (subst conditions_decide [where op = Op_ge])
       (simp_all add: CONDITION_OPS_def is_space_def MAX_STR_DIGITS_def int_str_def nat_str.simps split: pyval.split)
  moreover have "resolve_value ''a.count'' [(''a'', PDict [(''count'', PInt 12)])] = PInt 12"
    and "resolve_value ''a.count'' [] = PNone" by code_simp+
  ultimately show ?thesis by simp
qed

subsection \<open>Safety levels\<close>

definition rank_name :: "nat \<Rightarrow> string" where
  "rank_name n = [''SAFETY_READ_ONLY'', ''SAFETY_IDEMPOTENT_WRITE'', ''SAFETY_NON_IDEMPOTENT'', ''SAFETY_CRITICAL''] ! n"

lemma safety_rank_le: "safety_rank l \<le> 3"
  by (simp add: safety_rank_def SAFETY_LEVEL_ORDER_def dget_or_def)

lemma rank_names: "n \<le> 3 \<Longrightarrow> map_of SAFETY_LEVELS_BY_RANK n = Some (rank_name n) \<and> safety_rank (rank_name n) = n"
proof -
  assume "n \<le> 3"
  then have "n = 0 \<or> n = 1 \<or> n = 2 \<or> n = 3" by presburger
  then show ?thesis
    by (auto simp: SAFETY_LEVELS_BY_RANK_def SAFETY_LEVEL_ORDER_def rank_name_def safety_rank_def dget_or_def)
qed

lemma compute_safety_rank:
  "safety_rank (compute_safety_level lvls) = (if lvls = [] then 0 else Max (safety_rank ` set lvls))"
proof (cases "lvls = []")
  case True
  then show ?thesis by (simp add: compute_safety_level_def safety_rank_def SAFETY_LEVEL_ORDER_def dget_or_def)
next
  case False
  then have "Max (safety_rank ` set lvls) \<le> 3" using safety_rank_le by simp
  then show ?thesis using False rank_names by (simp add: compute_safety_level_def)
qed

end
