(* ===== verification/Function_Engines.thy ===== *)
theory Function_Engines
  imports Py_Text
begin

section \<open>Parameters and engines of actions\<close>

text \<open>
  \<open>function/actions\<close> up to the engines: the parsed definition of an action (\<open>loader.py\<close>), the safety
  decision (\<open>safety/enforcer.py\<close>), the resolution of parameters (\<open>param_resolver.py\<close>) and the two
  engines that compute in the process, \<open>native_crud.py\<close> and \<open>sql_runner.py\<close>. Configurations are
  JSON of any shape, so every access the code makes can fail the way Python's does. The names used
  as dict keys are strings; another scalar stands for the string it prints as.
\<close>

subsection \<open>Access to JSON of unknown shape\<close>

definition attribute_error :: exn where "attribute_error = DriverError ''AttributeError''"
definition key_error :: exn where "key_error = DriverError ''KeyError''"

text \<open>\<open>v.get\<close>, \<open>v.items\<close>: the receiver has to be a dict.\<close>

definition as_dict :: "pyval \<Rightarrow> pyval dict res" where
  "as_dict v = (case v of PDict d \<Rightarrow> Inr d | _ \<Rightarrow> Inl attribute_error)"

text \<open>\<open>for x in v\<close>\<close>

definition iterate :: "pyval \<Rightarrow> pyval list res" where
  "iterate v =
     (case v of
        PList xs \<Rightarrow> Inr xs
      | PDict d \<Rightarrow> Inr (map (\<lambda>kv. PStr (fst kv)) d)
      | PStr s \<Rightarrow> Inr (map (\<lambda>c. PStr [c]) s)
      | _ \<Rightarrow> Inl type_error)"

text \<open>\<open>v[k]\<close> for a string \<open>k\<close>\<close>

definition item :: "pyval \<Rightarrow> string \<Rightarrow> pyval res" where
  "item v k =
     (case v of
        PDict d \<Rightarrow> (case map_of d k of Some x \<Rightarrow> Inr x | None \<Rightarrow> Inl key_error)
      | _ \<Rightarrow> Inl type_error)"

definition as_key :: "pyval \<Rightarrow> string res" where
  "as_key v = (case v of PList _ \<Rightarrow> Inl type_error | PDict _ \<Rightarrow> Inl type_error | _ \<Rightarrow> Inr (py_str v))"

definition bindE :: "'a res \<Rightarrow> ('a \<Rightarrow> 'b res) \<Rightarrow> 'b res" where
  "bindE r f = (case r of Inl e \<Rightarrow> Inl e | Inr x \<Rightarrow> f x)"

text \<open>A loop over a list that carries a value and may raise.\<close>

fun foldE :: "('a \<Rightarrow> 'b \<Rightarrow> 'b res) \<Rightarrow> 'a list \<Rightarrow> 'b \<Rightarrow> 'b res" where
  "foldE f [] acc = Inr acc"
| "foldE f (x # xs) acc = bindE (f x acc) (foldE f xs)"

lemma bindE_simps [simp]: "bindE (Inr x) f = f x" "bindE (Inl e) f = Inl e"
  by (simp_all add: bindE_def)

lemma bindE_ok_iff: "bindE r f = Inr y \<longleftrightarrow> (\<exists>x. r = Inr x \<and> f x = Inr y)"
  by (cases r) auto

subsection \<open>Action definitions\<close>

record action_definition =
  ad_rid :: string
  ad_api_name :: pyval
  ad_display_name :: pyval
  ad_parameters :: pyval
  ad_execution :: pyval
  ad_outputs :: pyval
  ad_safety_level :: pyval
  ad_side_effects :: pyval

definition CONFIG_KEY_MAP :: "string dict" where
  "CONFIG_KEY_MAP =
    [(''native_crud'', ''native_crud_json''), (''python_venv'', ''python_script''),
     (''sql_runner'', ''sql_template''), (''webhook'', ''webhook_config_json'')]"

definition config_key_of :: "pyval \<Rightarrow> string option res" where
  "config_key_of v = bindE (as_key v) (\<lambda>_. Inr (case v of PStr k \<Rightarrow> dget CONFIG_KEY_MAP k | _ \<Rightarrow> None))"

definition extract_outputs :: "pyval \<Rightarrow> pyval res" where
  "extract_outputs execution =
     bindE (as_dict execution) (\<lambda>d.
     bindE (config_key_of (dget_or d ''type'' (PStr []))) (\<lambda>config_key.
     case config_key of
       Some k \<Rightarrow> bindE (as_dict (dget_or d k (PDict []))) (\<lambda>sub. Inr (dget_or sub ''outputs'' (PList [])))
     | None \<Rightarrow> Inr (PList [])))"

text \<open>What \<open>load\<close> makes of the node the ontology returned; an empty node counts as absent.\<close>

definition parse_action :: "string \<Rightarrow> pyval dict option \<Rightarrow> action_definition res" where
  "parse_action rid node =
     (case node of
        None \<Rightarrow> Inl (AppError FUNCTION_NOT_FOUND (''ActionType '' @ rid @ '' not found'') [])
      | Some n \<Rightarrow>
          (if n = [] then Inl (AppError FUNCTION_NOT_FOUND (''ActionType '' @ rid @ '' not found'') [])
           else
             (let execution = dget_or n ''execution'' (PDict []) in
              bindE (extract_outputs execution) (\<lambda>outputs.
              Inr \<lparr>ad_rid = rid, ad_api_name = dget_or n ''api_name'' (PStr []),
                ad_display_name = dget_or n ''display_name'' (PStr []),
                ad_parameters = dget_or n ''parameters'' (PList []), ad_execution = execution,
                ad_outputs = outputs, ad_safety_level = dget_or n ''safety_level'' (PStr ''SAFETY_READ_ONLY''),
                ad_side_effects = dget_or n ''side_effects'' (PList [])\<rparr>))))"

subsection \<open>Safety decisions\<close>

definition DIRECT_EXECUTE_LEVELS :: "string list" where
  "DIRECT_EXECUTE_LEVELS = [''SAFETY_READ_ONLY'', ''SAFETY_IDEMPOTENT_WRITE'']"

record safety_decision =
  sd_confirm :: bool
  sd_message :: "string option"
  sd_outputs :: "pyval list"
  sd_side_effects :: pyval

definition direct :: safety_decision where
  "direct = \<lparr>sd_confirm = False, sd_message = None, sd_outputs = [], sd_side_effects = PList []\<rparr>"

definition affected_output :: "pyval \<Rightarrow> pyval list \<Rightarrow> pyval list res" where
  "affected_output o_val acc =
     bindE (as_dict o_val) (\<lambda>d.
     Inr (if py_truthy (dget_or d ''writeback'' (PBool False))
          then acc @ [PDict [(''name'', dget_or d ''name'' (PStr [])),
                 (''target_param'', dget_or d ''target_param'' (PStr [])),
                 (''operation'', dget_or d ''operation'' (PStr [])),
                 (''writeback'', dget_or d ''writeback'' (PBool False))]]
          else acc))"

definition is_direct :: "pyval \<Rightarrow> bool res" where
  "is_direct level =
     bindE (as_key level) (\<lambda>_. Inr (case level of PStr s \<Rightarrow> s \<in> set DIRECT_EXECUTE_LEVELS | _ \<Rightarrow> False))"

definition safety_check :: "pyval \<Rightarrow> pyval \<Rightarrow> pyval \<Rightarrow> bool \<Rightarrow> safety_decision res" where
  "safety_check level outputs side_effects skip_confirmation =
     (if skip_confirmation then Inr direct
      else bindE (is_direct level) (\<lambda>b.
        if b then Inr direct
        else bindE (iterate outputs) (\<lambda>os.
             bindE (foldE affected_output os []) (\<lambda>affected.
             Inr \<lparr>sd_confirm = True,
               sd_message = (if level = PStr ''SAFETY_CRITICAL'' then Some ''This is a critical operation that cannot be undone''
                 else if level = PStr ''SAFETY_NON_IDEMPOTENT'' then Some ''This operation may have irreversible effects''
                 else None),
               sd_outputs = affected,
               sd_side_effects = (if py_truthy side_effects then side_effects else PList [])\<rparr>))))"

subsection \<open>Engines in the process\<close>

record engine_result =
  er_data :: pyval
  er_computed :: "pyval dict"

type_synonym instances = "pyval dict dict"

text \<open>\<open>instances\<close> are rows, so dicts; \<open>text\<close> is what \<open>datetime.now().isoformat()\<close> gives.\<close>

definition crud_source :: "pyval \<Rightarrow> pyval dict \<Rightarrow> instances \<Rightarrow> pyval res" where
  "crud_source source params insts =
     (case source of
        PStr s \<Rightarrow>
          (case split_max CHR ''.'' 1 s of
             [p, f] \<Rightarrow> (case dget insts p of Some row \<Rightarrow> Inr (pget row f) | None \<Rightarrow> Inr (pget params p))
           | p # _ \<Rightarrow> Inr (pget params p)
           | [] \<Rightarrow> Inr PNone)
      | _ \<Rightarrow> Inl attribute_error)"

definition crud_builtin :: "string \<Rightarrow> string res \<Rightarrow> pyval \<Rightarrow> pyval res" where
  "crud_builtin now_text user value =
     (if value = PStr ''$NOW'' then Inr (PStr now_text)
      else if value = PStr ''$USER'' then bindE user (\<lambda>u. Inr (PStr u))
      else Inr value)"

definition crud_field :: "string \<Rightarrow> string res \<Rightarrow> pyval dict \<Rightarrow> instances \<Rightarrow> pyval \<Rightarrow> pyval dict \<Rightarrow> pyval dict res" where
  "crud_field now_text user params insts mapping result =
     bindE (item mapping ''target_field'') (\<lambda>target.
     bindE (as_dict mapping) (\<lambda>m.
     let source = pget m ''source''; value = pget m ''value'' in
     if value \<noteq> PNone then
       bindE (crud_builtin now_text user value) (\<lambda>v. bindE (as_key target) (\<lambda>t. Inr (dput t v result)))
     else if source \<noteq> PNone then
       bindE (crud_source source params insts) (\<lambda>v. bindE (as_key target) (\<lambda>t. Inr (dput t v result)))
     else Inr result))"

definition crud_output :: "string \<Rightarrow> string res \<Rightarrow> pyval dict \<Rightarrow> instances \<Rightarrow> pyval \<Rightarrow> pyval dict \<Rightarrow> pyval dict res" where
  "crud_output now_text user params insts out computed =
     bindE (as_dict out) (\<lambda>d.
     bindE (iterate (dget_or d ''field_mappings'' (PList []))) (\<lambda>ms.
     bindE (foldE (crud_field now_text user params insts) ms []) (\<lambda>fields.
     bindE (as_key (dget_or d ''name'' (PStr []))) (\<lambda>name.
     Inr (dput name (PDict fields) computed)))))"

definition native_crud :: "string \<Rightarrow> string res \<Rightarrow> pyval \<Rightarrow> pyval dict \<Rightarrow> instances \<Rightarrow> engine_result res" where
  "native_crud now_text user config params insts =
     bindE (as_dict config) (\<lambda>d.
     bindE (iterate (dget_or d ''outputs'' (PList []))) (\<lambda>os.
     bindE (foldE (crud_output now_text user params insts) os []) (\<lambda>computed.
     Inr \<lparr>er_data = PDict [(''outputs'', PList (map (\<lambda>kv. PStr (fst kv)) computed))], er_computed = computed\<rparr>)))"

text \<open>\<open>_lookup\<close> of the SQL templates.\<close>

definition sql_lookup :: "string \<Rightarrow> pyval dict \<Rightarrow> instances \<Rightarrow> pyval" where
  "sql_lookup expr params insts =
     (case split_max CHR ''.'' 1 expr of
        [p, f] \<Rightarrow>
          (case dget insts p of
             Some row \<Rightarrow> pget row f
           | None \<Rightarrow> (case pget params p of PDict d \<Rightarrow> pget d f | _ \<Rightarrow> PNone))
      | p # _ \<Rightarrow> pget params p
      | [] \<Rightarrow> PNone)"

text \<open>The shortest \<open>.+?\<close> before \<open>}}\<close> and the text behind it; the dot matches no line feed.\<close>

fun close_brace :: "string \<Rightarrow> (string \<times> string) option" where
  "close_brace [] = None"
| "close_brace (c # s) =
     (if c = CHR 0x0A then None
      else if is_prefix ''}}'' s then Some ([c], drop 2 s)
      else map_option (\<lambda>(e, r). (c # e, r)) (close_brace s))"

lemma close_brace_length: "close_brace s = Some (e, r) \<Longrightarrow> length r < length s"
  by (induction s arbitrary: e) (auto split: if_splits)

function resolve_braces :: "pyval dict \<Rightarrow> instances \<Rightarrow> string \<Rightarrow> string" where
  "resolve_braces params insts [] = []"
| "resolve_braces params insts (c # s) =
     (case (if is_prefix ''{{'' (c # s) then close_brace (drop 1 s) else None) of
        Some (e, r) \<Rightarrow>
          (case sql_lookup (strip e) params insts of PNone \<Rightarrow> ''{{'' @ e @ ''}}'' | v \<Rightarrow> py_str v)
            @ resolve_braces params insts r
      | None \<Rightarrow> c # resolve_braces params insts s)"
  by pat_completeness auto
termination
  by (relation "measure (\<lambda>(p, i, s). length s)")
     (auto split: if_splits dest!: close_brace_length)

definition is_name_start :: "char \<Rightarrow> bool" where
  "is_name_start c \<longleftrightarrow> (let n = of_char c :: nat in (65 \<le> n \<and> n \<le> 90) \<or> (97 \<le> n \<and> n \<le> 122) \<or> n = 95)"

definition is_name_char :: "char \<Rightarrow> bool" where
  "is_name_char c \<longleftrightarrow> is_name_start c \<or> is_digit c \<or> c = CHR ''.''"

text \<open>The names after colons, \<open>finditer\<close> of the bind pattern.\<close>

function bind_names :: "string \<Rightarrow> string list" where
  "bind_names [] = []"
| "bind_names (c # s) =
     (if c = CHR '':'' \<and> s \<noteq> [] \<and> is_name_start (hd s)
      then takeWhile is_name_char s # bind_names (dropWhile is_name_char s)
      else bind_names s)"
  by pat_completeness auto
termination
  by (relation "measure length") (auto simp: less_Suc_eq_le length_dropWhile_le)

definition collect_bind_params :: "string \<Rightarrow> pyval dict \<Rightarrow> instances \<Rightarrow> pyval dict" where
  "collect_bind_params rendered params insts =
     fold (\<lambda>e d. if dget d e \<noteq> None then d else dput e (sql_lookup e params insts) d) (bind_names rendered) []"

definition sql_runner :: "pyval \<Rightarrow> pyval dict \<Rightarrow> instances \<Rightarrow> engine_result res" where
  "sql_runner config params insts =
     bindE (as_dict config) (\<lambda>d.
     if \<not> py_truthy (pget d ''template'')
     then Inl (AppError FUNCTION_EXECUTION_FAILED ''SQLRunner engine requires a 'template' in config'' [])
     else (case pget d ''template'' of
         PStr template \<Rightarrow>
           (let rendered = resolve_braces params insts template;
                data = PDict [(''rendered_sql'', PStr rendered),
                  (''bind_params'', PDict (collect_bind_params rendered params insts)),
                  (''connection_rid'', dget_or d ''connection_rid'' (PStr []))]
            in bindE (iterate (dget_or d ''outputs'' (PList []))) (\<lambda>os.
               bindE (foldE (\<lambda>out computed. bindE (as_dict out) (\<lambda>od.
                   bindE (as_key (dget_or od ''name'' (PStr []))) (\<lambda>name. Inr (dput name data computed)))) os [])
                 (\<lambda>computed. Inr \<lparr>er_data = data, er_computed = computed\<rparr>)))
       | _ \<Rightarrow> Inl type_error))"

end
