(* ===== verification/Function_External.thy ===== *)
theory Function_External
  imports Function_Engines
begin

section \<open>Engines outside the process\<close>

text \<open>
  \<open>actions/engines/webhook.py\<close> and \<open>python_venv.py\<close>: what they send and how they read the answer.
  The HTTP client and the operating system are parameters: \<open>os_http\<close> performs one request and
  \<open>os_run\<close> one run of a script, both on a state \<open>'x\<close> of everything outside the process;
  \<open>os_getenv\<close> reads the environment and \<open>os_json_error\<close> is the text of a JSON error.
\<close>

subsection \<open>Interfaces\<close>

record http_request =
  hr_method :: string
  hr_url :: string
  hr_headers :: "string dict"
  hr_body :: pyval

datatype http_outcome =
    Answered nat string string
  | Http_timeout
  | Http_fault string
  | Http_other exn

datatype proc_outcome = Exited int string string | Killed

record 'x outside =
  os_http :: "http_request \<Rightarrow> 'x \<Rightarrow> http_outcome \<times> 'x"
  os_run :: "string \<Rightarrow> string \<Rightarrow> pyval \<Rightarrow> 'x \<Rightarrow> proc_outcome \<times> 'x"
  os_getenv :: "string \<Rightarrow> string option"
  os_json_error :: "string \<Rightarrow> string"

subsection \<open>Templates of the webhook engine\<close>

definition upper :: "string \<Rightarrow> string" where
  "upper s = map (\<lambda>c. let n = of_char c :: nat in if 97 \<le> n \<and> n \<le> 122 then char_of (n - 32) else c) s"

definition after_prefix :: "string \<Rightarrow> string \<Rightarrow> string option" where
  "after_prefix p s = (if is_prefix p s then Some (drop (length p) s) else None)"

definition resolve_expression :: "(string \<Rightarrow> string option) \<Rightarrow> string res \<Rightarrow> string \<Rightarrow> pyval dict \<Rightarrow> instances \<Rightarrow> pyval" where
  "resolve_expression env user expr params insts =
     (case after_prefix ''secret:'' expr of
        Some key \<Rightarrow> PStr (case env (''LINGSHU_SECRET_'' @ upper key) of Some v \<Rightarrow> v | None \<Rightarrow> [])
      | None \<Rightarrow>
          (case after_prefix ''context.'' expr of
             Some field \<Rightarrow>
               (if field = ''user_id'' then (case user of Inr u \<Rightarrow> PStr u | Inl _ \<Rightarrow> PNone) else PNone)
           | None \<Rightarrow>
               sql_lookup (case after_prefix ''params.'' expr of Some p \<Rightarrow> p | None \<Rightarrow> expr) params insts))"

function fill_template :: "(string \<Rightarrow> pyval) \<Rightarrow> string \<Rightarrow> string" where
  "fill_template val [] = []"
| "fill_template val (c # s) =
     (case (if is_prefix ''{{'' (c # s) then close_brace (drop 1 s) else None) of
        Some (e, r) \<Rightarrow> (case val (strip e) of PNone \<Rightarrow> ''{{'' @ e @ ''}}'' | v \<Rightarrow> py_str v) @ fill_template val r
      | None \<Rightarrow> c # fill_template val s)"
  by pat_completeness auto
termination
  by (relation "measure (\<lambda>(f, s). length s)") (auto split: if_splits dest!: close_brace_length)

text \<open>\<open>fullmatch\<close>: two braces at each end, something without a line feed between.\<close>

definition whole_placeholder :: "string \<Rightarrow> string option" where
  "whole_placeholder s =
     (let e = take (length s - 4) (drop 2 s) in
      if 5 \<le> length s \<and> is_prefix ''{{'' s \<and> drop (length s - 2) s = ''}}'' \<and> CHR 0x0A \<notin> set e
      then Some e else None)"

fun fill_value :: "(string \<Rightarrow> pyval) \<Rightarrow> pyval \<Rightarrow> pyval" where
  "fill_value val (PStr s) =
     (case whole_placeholder s of
        Some e \<Rightarrow> (case val (strip e) of PNone \<Rightarrow> PStr s | v \<Rightarrow> v)
      | None \<Rightarrow> PStr (fill_template val s))"
| "fill_value val (PDict d) = PDict (map (\<lambda>(k, v). (k, fill_value val v)) d)"
| "fill_value val (PList xs) = PList (map (fill_value val) xs)"
| "fill_value val v = v"

text \<open>\<open>_PLACEHOLDER_PATTERN.sub\<close> on something that is no string raises TypeError.\<close>

definition fill_string :: "(string \<Rightarrow> pyval) \<Rightarrow> pyval \<Rightarrow> string res" where
  "fill_string val v = (case v of PStr s \<Rightarrow> Inr (fill_template val s) | _ \<Rightarrow> Inl type_error)"

subsection \<open>Answers\<close>

definition navigate_step :: "string \<Rightarrow> pyval option \<Rightarrow> pyval option" where
  "navigate_step segment current =
     (case current of
        Some (PDict d) \<Rightarrow> Some (pget d segment)
      | Some (PList xs) \<Rightarrow>
          (if segment \<noteq> [] \<and> list_all is_digit segment
           then Some (if nat_of_digits segment < length xs then xs ! nat_of_digits segment else PNone) else None)
      | _ \<Rightarrow> None)"

definition navigate_path :: "pyval \<Rightarrow> string \<Rightarrow> pyval" where
  "navigate_path data path =
     (let clean = dropWhile (\<lambda>c. c = CHR ''.'') (dropWhile (\<lambda>c. c = CHR ''$'') path) in
      if clean = [] then data
      else (case fold navigate_step (split_all CHR ''.'' clean) (Some data) of Some v \<Rightarrow> v | None \<Rightarrow> PNone))"

definition navigate :: "pyval \<Rightarrow> pyval \<Rightarrow> pyval res" where
  "navigate data path = (case path of PStr p \<Rightarrow> Inr (navigate_path data p) | _ \<Rightarrow> Inl attribute_error)"

definition response_mapping :: "pyval \<Rightarrow> pyval \<Rightarrow> pyval dict res" where
  "response_mapping mapping data =
     (if \<not> py_truthy mapping then Inr []
      else (case data of
          PDict _ \<Rightarrow> bindE (as_dict mapping) (\<lambda>m.
            foldE (\<lambda>(name, path) acc. bindE (navigate data path) (\<lambda>v. Inr (dput name v acc))) m [])
        | _ \<Rightarrow> Inr []))"

text \<open>
  One request: the parsed answer, an exception that ends the call, or one the loop keeps and tries
  again after.
\<close>

datatype attempt = Got pyval | Raised exn | Retry exn

definition make_request :: "'x outside \<Rightarrow> pyval \<Rightarrow> http_request \<Rightarrow> 'x \<Rightarrow> attempt \<times> 'x" where
  "make_request W timeout_ms rq x =
     (case os_http W rq x of
        (Answered status ctype body, x') \<Rightarrow>
          (if 200 \<le> status \<and> status < 300 then
             (if contains ''application/json'' ctype
              then (case json_loads body of
                      Some v \<Rightarrow> Got v
                    | None \<Rightarrow> Raised (ValueError (os_json_error W body)))
              else Got (PDict [(''text'', PStr body)]))
           else Retry (AppError FUNCTION_EXECUTION_FAILED (''Webhook returned HTTP '' @ nat_str status)
                  [(''response_body'', PStr (take 500 body))]), x')
      | (Http_timeout, x') \<Rightarrow>
          (Retry (AppError FUNCTION_TIMEOUT (''Webhook timed out after '' @ py_str timeout_ms @ ''ms'') []), x')
      | (Http_fault m, x') \<Rightarrow>
          (Retry (AppError FUNCTION_EXECUTION_FAILED (''Webhook request failed: '' @ m) []), x')
      | (Http_other e, x') \<Rightarrow> (Raised e, x'))"

definition is_number :: "pyval \<Rightarrow> bool" where
  "is_number v = (case v of PInt _ \<Rightarrow> True | PFloat _ \<Rightarrow> True | PBool _ \<Rightarrow> True | _ \<Rightarrow> False)"

text \<open>The loop with \<open>n\<close> attempts left; the wait before a repeated attempt needs a number.\<close>

fun webhook_loop :: "'x outside \<Rightarrow> pyval \<Rightarrow> pyval \<Rightarrow> pyval \<Rightarrow> http_request \<Rightarrow> bool \<Rightarrow> nat \<Rightarrow> exn option \<Rightarrow> 'x \<Rightarrow>
    engine_result res \<times> 'x" where
  "webhook_loop W timeout_ms backoff mapping rq first 0 last_error x =
     (Inl (case last_error of
         Some e \<Rightarrow> e
       | None \<Rightarrow> AppError FUNCTION_EXECUTION_FAILED ''Webhook request failed after retries'' []), x)"
| "webhook_loop W timeout_ms backoff mapping rq first (Suc n) last_error x =
     (if \<not> first \<and> \<not> is_number backoff then (Inl type_error, x)
      else (case make_request W timeout_ms rq x of
          (Got data, x') \<Rightarrow>
            (bindE (response_mapping mapping data) (\<lambda>computed. Inr \<lparr>er_data = data, er_computed = computed\<rparr>), x')
        | (Raised e, x') \<Rightarrow> (Inl e, x')
        | (Retry e, x') \<Rightarrow> webhook_loop W timeout_ms backoff mapping rq False n (Some e) x'))"

text \<open>Everything before the loop: the attempts, the back-off, the mapping, the time limit, the request.\<close>

definition webhook_plan :: "'x outside \<Rightarrow> string res \<Rightarrow> pyval \<Rightarrow> pyval dict \<Rightarrow> instances \<Rightarrow>
    (nat \<times> pyval \<times> pyval \<times> pyval \<times> http_request) res" where
  "webhook_plan W user config params insts =
     bindE (as_dict config) (\<lambda>d.
     let url = pget d ''url''; val = (\<lambda>e. resolve_expression (os_getenv W) user e params insts) in
     if \<not> py_truthy url
     then Inl (AppError FUNCTION_EXECUTION_FAILED ''Webhook engine requires a 'url' in config'' [])
     else
       bindE (case dget_or d ''method'' (PStr ''GET'') of PStr m \<Rightarrow> Inr (upper m) | _ \<Rightarrow> Inl attribute_error) (\<lambda>method.
       let timeout_ms = dget_or d ''timeout_ms'' (PInt 5000) in
       bindE (as_dict (dget_or d ''retry'' (PDict []))) (\<lambda>retry.
       let max_attempts = dget_or retry ''max_attempts'' (PInt 1); backoff = dget_or retry ''backoff_ms'' (PInt 1000) in
       bindE (fill_string val url) (\<lambda>resolved_url.
       bindE (as_dict (dget_or d ''headers'' (PDict []))) (\<lambda>headers.
       bindE (mapE (\<lambda>(k, v). bindE (fill_string val v) (\<lambda>s. Inr (k, s))) headers) (\<lambda>resolved_headers.
       if \<not> is_number timeout_ms then Inl type_error
       else
         bindE (case max_attempts of PInt n \<Rightarrow> Inr (nat n) | PBool b \<Rightarrow> Inr (if b then 1 else 0) | _ \<Rightarrow> Inl type_error)
           (\<lambda>attempts.
         Inr (attempts, backoff, dget_or d ''response_mapping'' (PDict []), timeout_ms,
           \<lparr>hr_method = method, hr_url = resolved_url, hr_headers = resolved_headers,
            hr_body = fill_value val (pget d ''body_template'')\<rparr>))))))))"

definition webhook :: "'x outside \<Rightarrow> string res \<Rightarrow> pyval \<Rightarrow> pyval dict \<Rightarrow> instances \<Rightarrow> 'x \<Rightarrow> engine_result res \<times> 'x" where
  "webhook W user config params insts x =
     (case webhook_plan W user config params insts of
        Inl e \<Rightarrow> (Inl e, x)
      | Inr (attempts, backoff, mapping, timeout_ms, rq) \<Rightarrow>
          webhook_loop W timeout_ms backoff mapping rq True attempts None x)"

subsection \<open>Scripts\<close>

definition wrapper_code :: "string \<Rightarrow> string" where
  "wrapper_code script =
     ''import json, sys'' @ [CHR 0x0A, CHR 0x0A] @ script @ [CHR 0x0A, CHR 0x0A] @
     ''_input = json.loads(sys.stdin.read())'' @ [CHR 0x0A] @
     ''_params = _input['' @ [quote] @ ''params'' @ [quote] @ '']'' @ [CHR 0x0A] @
     ''_context = _input['' @ [quote] @ ''context'' @ [quote] @ '']'' @ [CHR 0x0A] @
     ''_result = execute(_params, _context)'' @ [CHR 0x0A] @
     ''print(json.dumps(_result))'' @ [CHR 0x0A]"

definition computed_values :: "pyval \<Rightarrow> pyval \<Rightarrow> pyval dict res" where
  "computed_values outputs data =
     (if \<not> py_truthy outputs then Inr []
      else (case data of
          PDict d \<Rightarrow> bindE (iterate outputs) (\<lambda>os.
            foldE (\<lambda>out acc. bindE (as_dict out) (\<lambda>od.
              bindE (if py_truthy (pget od ''field'') then bindE (as_key (pget od ''field'')) (\<lambda>f. Inr (pget d f)) else Inr data) (\<lambda>v.
              bindE (as_key (dget_or od ''name'' (PStr []))) (\<lambda>name. Inr (dput name v acc))))) os [])
        | _ \<Rightarrow> Inr []))"

definition python_venv :: "'x outside \<Rightarrow> pyval \<Rightarrow> pyval dict \<Rightarrow> instances \<Rightarrow> 'x \<Rightarrow> engine_result res \<times> 'x" where
  "python_venv W config params insts x =
     (case as_dict config of
        Inl e \<Rightarrow> (Inl e, x)
      | Inr d \<Rightarrow>
          if \<not> py_truthy (pget d ''script'')
          then (Inl (AppError FUNCTION_EXECUTION_FAILED ''PythonVenv engine requires a 'script' in config'' []), x)
          else
            (let timeout = dget_or d ''timeout'' (PInt 30);
                 stdin = json_dumps (PDict [(''params'', PDict params),
                   (''context'', PDict [(''instances'', PDict (map (\<lambda>(k, r). (k, PDict r)) insts))])])
             in case os_run W (wrapper_code (py_str (pget d ''script''))) stdin timeout x of
                  (Killed, x') \<Rightarrow>
                    (Inl (AppError FUNCTION_TIMEOUT (''Python script timed out after '' @ py_str timeout @ ''s'') []), x')
                | (Exited code out err, x') \<Rightarrow>
                    ((if code \<noteq> 0
                      then Inl (AppError FUNCTION_EXECUTION_FAILED (''Python script failed: '' @ strip err) [])
                      else if strip out = []
                      then Inl (AppError FUNCTION_EXECUTION_FAILED ''Python script produced no output'' [])
                      else (case json_loads (strip out) of
                          None \<Rightarrow> Inl (AppError FUNCTION_EXECUTION_FAILED
                                    (''Python script returned invalid JSON: '' @ os_json_error W (strip out)) [])
                        | Some data \<Rightarrow>
                            bindE (computed_values (dget_or d ''outputs'' (PList [])) data) (\<lambda>computed.
                            Inr \<lparr>er_data = data, er_computed = computed\<rparr>))), x')))"

end
