(* ===== verification/Function_Store.thy ===== *)
theory Function_Store
  imports Function_External Setting_Store
begin

section \<open>Tables of the function and data packages\<close>

text \<open>
  The tables \<open>global_functions\<close>, \<open>workflows\<close>, \<open>executions\<close> (\<open>function/models.py\<close>), \<open>edit_logs\<close> and
  \<open>connections\<close> (\<open>data/models.py\<close>), their repositories, and the database session of a request. A
  transaction begins with its first statement, and \<open>now()\<close> is that instant.
\<close>

subsection \<open>Rows\<close>

record function_row =
  gf_rid :: string
  gf_tenant :: string
  gf_api_name :: string
  gf_name :: string
  gf_descr :: "string option"
  gf_params :: pyval
  gf_impl :: pyval
  gf_version :: int
  gf_active :: bool
  gf_created :: int
  gf_updated :: int

record workflow_row =
  wf_rid :: string
  wf_tenant :: string
  wf_api_name :: string
  wf_name :: string
  wf_descr :: "string option"
  wf_params :: pyval
  wf_defn :: "pyval dict"
  wf_safety :: string
  wf_side_effects :: pyval
  wf_version :: int
  wf_active :: bool
  wf_created :: int
  wf_updated :: int

record execution_row =
  ex_id :: string
  ex_tenant :: string
  ex_ctype :: string
  ex_crid :: string
  ex_status :: string
  ex_params :: "pyval dict"
  ex_result :: "pyval option"
  ex_safety :: pyval
  ex_side_effects :: pyval
  ex_user :: string
  ex_branch :: "string option"
  ex_started :: int
  ex_completed :: "int option"
  ex_confirmed :: "int option"
  ex_confirmed_by :: "string option"

record editlog_row =
  el_id :: string
  el_tenant :: string
  el_type :: string
  el_key :: pyval
  el_operation :: string
  el_values :: pyval
  el_user :: string
  el_action :: "string option"
  el_branch :: string
  el_created :: int

record connection_row =
  cn_rid :: string
  cn_tenant :: string
  cn_name :: string
  cn_type :: string
  cn_config :: "pyval dict"
  cn_credentials :: "string option"
  cn_status :: string
  cn_message :: "string option"
  cn_tested :: "int option"
  cn_created :: int
  cn_updated :: int

record fundb =
  fd_functions :: "function_row list"
  fd_workflows :: "workflow_row list"
  fd_executions :: "execution_row list"
  fd_editlogs :: "editlog_row list"
  fd_connections :: "connection_row list"

definition empty_fundb :: fundb where
  "empty_fundb = \<lparr>fd_functions = [], fd_workflows = [], fd_executions = [], fd_editlogs = [], fd_connections = []\<rparr>"

subsection \<open>The session\<close>

record async_task =
  at_id :: string
  at_action :: string
  at_params :: "pyval dict"
  at_ctx :: ctx
  at_branch :: "string option"

text \<open>
  Committed tables, what the open transaction sees, when it began, everything outside the process,
  the background tasks not yet run, and how often randomness and clock were read.
\<close>

record 'x fworld =
  fw_db :: fundb
  fw_tx :: fundb
  fw_began :: "int option"
  fw_ext :: 'x
  fw_tasks :: "async_task list"
  fw_draws :: nat
  fw_ticks :: nat

record 'x fenv =
  fe_uuid :: "nat \<Rightarrow> string"
  fe_now :: "nat \<Rightarrow> int"
  fe_iso :: "int \<Rightarrow> string"
  fe_object_type :: "string \<Rightarrow> string \<Rightarrow> 'x \<Rightarrow> pyval dict option res"
  fe_link_type :: "string \<Rightarrow> string \<Rightarrow> 'x \<Rightarrow> pyval dict option res"
  fe_action_types :: "string \<Rightarrow> nat \<Rightarrow> nat \<Rightarrow> 'x \<Rightarrow> (pyval dict list \<times> nat) res"
  fe_instance :: "pyval \<Rightarrow> string \<Rightarrow> pyval \<Rightarrow> 'x \<Rightarrow> pyval dict option res \<times> 'x"
  fe_instances :: "pyval \<Rightarrow> string \<Rightarrow> (string \<times> pyval) list \<Rightarrow> pyval \<Rightarrow> pyval \<Rightarrow> 'x \<Rightarrow> pyval res \<times> 'x"
  fe_outside :: "'x outside"

type_synonym ('x, 'a) fop = "('x fworld, exn, 'a) comp"

definition fclock :: "'x fenv \<Rightarrow> ('x, int) fop" where
  "fclock E w = (Inr (fe_now E (fw_ticks w)), w\<lparr>fw_ticks := Suc (fw_ticks w)\<rparr>)"

definition fuuid :: "'x fenv \<Rightarrow> ('x, string) fop" where
  "fuuid E w = (Inr (fe_uuid E (fw_draws w)), w\<lparr>fw_draws := Suc (fw_draws w)\<rparr>)"

text \<open>A statement: the first one of a transaction fixes \<open>now()\<close>.\<close>

definition sql :: "'x fenv \<Rightarrow> (int \<Rightarrow> fundb \<Rightarrow> 'a res \<times> fundb) \<Rightarrow> ('x, 'a) fop" where
  "sql E f w =
     (case fw_began w of
        Some t \<Rightarrow> (case f t (fw_tx w) of (r, d) \<Rightarrow> (r, w\<lparr>fw_tx := d\<rparr>))
      | None \<Rightarrow>
          (let t = fe_now E (fw_ticks w) in
           case f t (fw_tx w) of (r, d) \<Rightarrow> (r, w\<lparr>fw_tx := d, fw_began := Some t, fw_ticks := Suc (fw_ticks w)\<rparr>)))"

definition fcommit :: "('x, unit) fop" where
  "fcommit w = (Inr (), w\<lparr>fw_db := fw_tx w, fw_began := None\<rparr>)"

definition frollback :: "'x fworld \<Rightarrow> 'x fworld" where
  "frollback w = w\<lparr>fw_tx := fw_db w, fw_began := None\<rparr>"

text \<open>Calls to what lies outside the process.\<close>

definition ext_read :: "('x \<Rightarrow> 'a res) \<Rightarrow> ('x, 'a) fop" where
  "ext_read f w = (f (fw_ext w), w)"

definition ext_call :: "('x \<Rightarrow> 'a res \<times> 'x) \<Rightarrow> ('x, 'a) fop" where
  "ext_call f w = (case f (fw_ext w) of (r, x) \<Rightarrow> (r, w\<lparr>fw_ext := x\<rparr>))"

subsection \<open>Executions\<close>

definition execution_create :: "'x fenv \<Rightarrow> (int \<Rightarrow> execution_row) \<Rightarrow> ('x, execution_row) fop" where
  "execution_create E mk = sql E (\<lambda>now d.
     if ex_id (mk now) \<in> ex_id ` set (fd_executions d) then (Inl integrity_error, d)
     else (Inr (mk now), d\<lparr>fd_executions := fd_executions d @ [mk now]\<rparr>))"

definition is_execution :: "string \<Rightarrow> string \<Rightarrow> execution_row \<Rightarrow> bool" where
  "is_execution eid tenant e \<longleftrightarrow> ex_id e = eid \<and> ex_tenant e = tenant"

definition execution_get_by_id :: "'x fenv \<Rightarrow> string \<Rightarrow> string \<Rightarrow> ('x, execution_row option) fop" where
  "execution_get_by_id E eid tenant =
     sql E (\<lambda>now d. (one_or_none (filter (is_execution eid tenant) (fd_executions d)), d))"

record execution_change =
  xc_status :: string
  xc_result :: "pyval option"
  xc_completed :: "int option"
  xc_confirmed :: "int option"
  xc_confirmed_by :: "string option"

definition or_else :: "'a option \<Rightarrow> 'a option \<Rightarrow> 'a option" where
  "or_else a b = (case a of Some x \<Rightarrow> Some x | None \<Rightarrow> b)"

definition execution_assign :: "execution_change \<Rightarrow> execution_row \<Rightarrow> execution_row" where
  "execution_assign c e =
     e\<lparr>ex_status := xc_status c, ex_result := or_else (xc_result c) (ex_result e),
       ex_completed := or_else (xc_completed c) (ex_completed e),
       ex_confirmed := or_else (xc_confirmed c) (ex_confirmed e),
       ex_confirmed_by := or_else (xc_confirmed_by c) (ex_confirmed_by e)\<rparr>"

definition execution_update_status :: "'x fenv \<Rightarrow> string \<Rightarrow> string \<Rightarrow> execution_change \<Rightarrow> ('x, execution_row option) fop" where
  "execution_update_status E eid tenant c =
     bindC (sql E (\<lambda>now d. (Inr (), d\<lparr>fd_executions :=
        map (\<lambda>e. if is_execution eid tenant e then execution_assign c e else e) (fd_executions d)\<rparr>))) (\<lambda>_.
     execution_get_by_id E eid tenant)"

definition execution_list_by_tenant :: "string \<Rightarrow> nat \<Rightarrow> nat \<Rightarrow> string option \<Rightarrow> string option \<Rightarrow> fundb \<Rightarrow>
    execution_row list \<times> nat" where
  "execution_list_by_tenant tenant offset limit ctype status d =
     newest ex_started offset limit
       (filter (\<lambda>e. ex_tenant e = tenant \<and> opt_is ctype (ex_ctype e) \<and> opt_is status (ex_status e)) (fd_executions d))"

text \<open>Counts per status, \<open>GROUP BY\<close>.\<close>

definition execution_count_recent :: "string \<Rightarrow> int \<Rightarrow> fundb \<Rightarrow> nat dict" where
  "execution_count_recent tenant since d =
     fold (\<lambda>e acc. dput (ex_status e) (dget_or acc (ex_status e) 0 + 1) acc)
       (filter (\<lambda>e. ex_tenant e = tenant \<and> ex_started e \<ge> since) (fd_executions d)) []"

subsection \<open>Functions\<close>

definition is_function :: "string \<Rightarrow> string \<Rightarrow> function_row \<Rightarrow> bool" where
  "is_function rid tenant f \<longleftrightarrow> gf_rid f = rid \<and> gf_tenant f = tenant"

definition function_create :: "'x fenv \<Rightarrow> (int \<Rightarrow> function_row) \<Rightarrow> ('x, function_row) fop" where
  "function_create E mk = sql E (\<lambda>now d.
     if gf_rid (mk now) \<in> gf_rid ` set (fd_functions d) then (Inl integrity_error, d)
     else (Inr (mk now), d\<lparr>fd_functions := fd_functions d @ [mk now]\<rparr>))"

definition function_get_by_rid :: "'x fenv \<Rightarrow> string \<Rightarrow> string \<Rightarrow> ('x, function_row option) fop" where
  "function_get_by_rid E rid tenant =
     sql E (\<lambda>now d. (one_or_none (filter (is_function rid tenant) (fd_functions d)), d))"

definition function_get_by_api_name :: "'x fenv \<Rightarrow> string \<Rightarrow> string \<Rightarrow> ('x, function_row option) fop" where
  "function_get_by_api_name E api tenant =
     sql E (\<lambda>now d. (one_or_none (filter (\<lambda>f. gf_api_name f = api \<and> gf_tenant f = tenant) (fd_functions d)), d))"

text \<open>The columns an update request can name, and the version the registry sets.\<close>

record function_fields =
  ff_name :: "string option"
  ff_descr :: "string option"
  ff_params :: "pyval option"
  ff_impl :: "pyval option"
  ff_version :: int

definition set_if :: "'a option \<Rightarrow> 'a \<Rightarrow> 'a" where
  "set_if new old = (case new of Some x \<Rightarrow> x | None \<Rightarrow> old)"

definition function_assign :: "function_fields \<Rightarrow> int \<Rightarrow> function_row \<Rightarrow> function_row" where
  "function_assign c now f =
     f\<lparr>gf_name := set_if (ff_name c) (gf_name f), gf_descr := or_else (ff_descr c) (gf_descr f),
       gf_params := set_if (ff_params c) (gf_params f), gf_impl := set_if (ff_impl c) (gf_impl f),
       gf_version := ff_version c, gf_updated := now\<rparr>"

definition function_update_fields :: "'x fenv \<Rightarrow> string \<Rightarrow> string \<Rightarrow> function_fields \<Rightarrow> ('x, function_row option) fop" where
  "function_update_fields E rid tenant c =
     bindC (sql E (\<lambda>now d. (Inr (), d\<lparr>fd_functions :=
        map (\<lambda>f. if is_function rid tenant f then function_assign c now f else f) (fd_functions d)\<rparr>))) (\<lambda>_.
     function_get_by_rid E rid tenant)"

definition function_delete :: "'x fenv \<Rightarrow> string \<Rightarrow> string \<Rightarrow> ('x, bool) fop" where
  "function_delete E rid tenant =
     bindC (function_get_by_rid E rid tenant) (\<lambda>f.
     case f of
       None \<Rightarrow> retC False
     | Some _ \<Rightarrow> sql E (\<lambda>now d. (Inr True, d\<lparr>fd_functions := filter (\<lambda>f. gf_rid f \<noteq> rid) (fd_functions d)\<rparr>)))"

definition function_list_by_tenant :: "string \<Rightarrow> nat \<Rightarrow> nat \<Rightarrow> bool option \<Rightarrow> fundb \<Rightarrow> function_row list \<times> nat" where
  "function_list_by_tenant tenant offset limit active d =
     newest gf_created offset limit
       (filter (\<lambda>f. gf_tenant f = tenant \<and> (case active of Some b \<Rightarrow> gf_active f = b | None \<Rightarrow> True)) (fd_functions d))"

definition function_count_by_tenant :: "string \<Rightarrow> fundb \<Rightarrow> nat" where
  "function_count_by_tenant tenant d = length (filter (\<lambda>f. gf_tenant f = tenant \<and> gf_active f) (fd_functions d))"

end
