(* ===== verification/Function_Workflows.thy ===== *)
theory Function_Workflows
  imports Function_Store Workflow_Run
begin

section \<open>Stored workflows\<close>

text \<open>
  \<open>workflows/repository.py\<close> and \<open>workflows/service.py\<close>: the table of workflows, their validation by
  the schemas, the aggregate safety level and every operation of the service. A workflow is executed
  without a node executor, the way the service calls the engine.
\<close>

subsection \<open>Reading the stored definition\<close>

definition opt_str :: "pyval \<Rightarrow> string option option" where
  "opt_str v = (case v of PNone \<Rightarrow> Some None | PStr s \<Rightarrow> Some (Some s) | _ \<Rightarrow> None)"

definition is_float_like :: "pyval \<Rightarrow> bool" where
  "is_float_like v \<longleftrightarrow> is_number v \<or> (case v of PStr s \<Rightarrow> float_of_text s \<noteq> None | _ \<Rightarrow> False)"

definition parse_node :: "pyval \<Rightarrow> wf_node option" where
  "parse_node v =
     (case v of
        PDict d \<Rightarrow>
          (case (pget d ''node_id'', pget d ''type'', opt_str (pget d ''capability_rid''),
                 dget_or d ''input_mappings'' (PDict []), dget_or d ''position'' (PDict []), opt_str (pget d ''label'')) of
             (PStr i, PStr t, Some cap, PDict m, PDict pos, Some _) \<Rightarrow>
               if list_all (\<lambda>kv. is_float_like (snd kv)) pos
               then Some \<lparr>nd_id = i, nd_type = t, nd_capability = cap, nd_inputs = m\<rparr> else None
           | _ \<Rightarrow> None)
      | _ \<Rightarrow> None)"

definition parse_edge :: "pyval \<Rightarrow> wf_edge option" where
  "parse_edge v =
     (case v of
        PDict d \<Rightarrow>
          (case (pget d ''source_node_id'', pget d ''target_node_id'', opt_str (pget d ''condition'')) of
             (PStr s, PStr t, Some c) \<Rightarrow> Some \<lparr>ed_src = s, ed_tgt = t, ed_cond = c\<rparr>
           | _ \<Rightarrow> None)
      | _ \<Rightarrow> None)"

definition those_of :: "(pyval \<Rightarrow> 'b option) \<Rightarrow> pyval \<Rightarrow> 'b list option" where
  "those_of f v = (case v of PList xs \<Rightarrow> those (map f xs) | _ \<Rightarrow> None)"

text \<open>\<open>WorkflowDefinition.model_validate\<close>\<close>

definition parse_definition :: "pyval dict \<Rightarrow> wf_definition res" where
  "parse_definition d =
     (case (those_of parse_node (dget_or d ''nodes'' (PList [])), those_of parse_edge (dget_or d ''edges'' (PList []))) of
        (Some ns, Some es) \<Rightarrow> Inr \<lparr>wd_nodes = ns, wd_edges = es\<rparr>
      | _ \<Rightarrow> Inl (DriverError ''ValidationError''))"

definition node_level :: "wf_node \<Rightarrow> string option" where
  "node_level n = (case dget_or (nd_inputs n) ''safety_level'' (PStr ''SAFETY_READ_ONLY'') of PStr s \<Rightarrow> Some s | _ \<Rightarrow> None)"

definition recompute_safety_level :: "pyval dict \<Rightarrow> string res" where
  "recompute_safety_level d =
     bindE (parse_definition d) (\<lambda>p. Inr (compute_safety_level (List.map_filter node_level (wd_nodes p))))"

subsection \<open>The table\<close>

definition is_workflow :: "string \<Rightarrow> string \<Rightarrow> workflow_row \<Rightarrow> bool" where
  "is_workflow rid tenant w \<longleftrightarrow> wf_rid w = rid \<and> wf_tenant w = tenant"

definition workflow_create :: "'x fenv \<Rightarrow> (int \<Rightarrow> workflow_row) \<Rightarrow> ('x, workflow_row) fop" where
  "workflow_create E mk = sql E (\<lambda>now d.
     if wf_rid (mk now) \<in> wf_rid ` set (fd_workflows d) then (Inl integrity_error, d)
     else (Inr (mk now), d\<lparr>fd_workflows := fd_workflows d @ [mk now]\<rparr>))"

definition workflow_get_by_rid :: "'x fenv \<Rightarrow> string \<Rightarrow> string \<Rightarrow> ('x, workflow_row option) fop" where
  "workflow_get_by_rid E rid tenant =
     sql E (\<lambda>now d. (one_or_none (filter (is_workflow rid tenant) (fd_workflows d)), d))"

record workflow_fields =
  wu_name :: "string option"
  wu_descr :: "string option"
  wu_active :: "bool option"
  wu_defn :: "pyval dict option"
  wu_safety :: "string option"

definition workflow_assign :: "workflow_fields \<Rightarrow> int \<Rightarrow> workflow_row \<Rightarrow> workflow_row" where
  "workflow_assign c now w =
     w\<lparr>wf_name := set_if (wu_name c) (wf_name w), wf_descr := or_else (wu_descr c) (wf_descr w),
       wf_active := set_if (wu_active c) (wf_active w), wf_defn := set_if (wu_defn c) (wf_defn w),
       wf_safety := set_if (wu_safety c) (wf_safety w), wf_updated := now\<rparr>"

definition workflow_update_fields :: "'x fenv \<Rightarrow> string \<Rightarrow> string \<Rightarrow> workflow_fields \<Rightarrow> ('x, workflow_row option) fop" where
  "workflow_update_fields E rid tenant c =
     bindC (sql E (\<lambda>now d. (Inr (), d\<lparr>fd_workflows :=
        map (\<lambda>w. if is_workflow rid tenant w then workflow_assign c now w else w) (fd_workflows d)\<rparr>))) (\<lambda>_.
     workflow_get_by_rid E rid tenant)"

definition workflow_delete :: "'x fenv \<Rightarrow> string \<Rightarrow> string \<Rightarrow> ('x, bool) fop" where
  "workflow_delete E rid tenant =
     bindC (workflow_get_by_rid E rid tenant) (\<lambda>w.
     case w of
       None \<Rightarrow> retC False
     | Some _ \<Rightarrow> sql E (\<lambda>now d. (Inr True, d\<lparr>fd_workflows := filter (\<lambda>w. wf_rid w \<noteq> rid) (fd_workflows d)\<rparr>)))"

text \<open>The parameter \<open>status\<close> is accepted and not used.\<close>

definition workflow_list_by_tenant :: "string \<Rightarrow> nat \<Rightarrow> nat \<Rightarrow> bool option \<Rightarrow> string option \<Rightarrow> fundb \<Rightarrow>
    workflow_row list \<times> nat" where
  "workflow_list_by_tenant tenant offset limit active status d =
     newest wf_created offset limit
       (filter (\<lambda>w. wf_tenant w = tenant \<and> (case active of Some b \<Rightarrow> wf_active w = b | None \<Rightarrow> True)) (fd_workflows d))"

definition workflow_count_by_tenant :: "string \<Rightarrow> fundb \<Rightarrow> nat" where
  "workflow_count_by_tenant tenant d = length (filter (\<lambda>w. wf_tenant w = tenant \<and> wf_active w) (fd_workflows d))"

subsection \<open>The service\<close>

record workflow_response =
  wp_rid :: string
  wp_api_name :: string
  wp_name :: string
  wp_descr :: "string option"
  wp_nodes :: pyval
  wp_edges :: pyval
  wp_safety :: string
  wp_status :: string
  wp_version :: int
  wp_active :: bool

definition workflow_to_response :: "workflow_row \<Rightarrow> workflow_response" where
  "workflow_to_response w =
     \<lparr>wp_rid = wf_rid w, wp_api_name = wf_api_name w, wp_name = wf_name w, wp_descr = wf_descr w,
      wp_nodes = dget_or (wf_defn w) ''nodes'' (PList []), wp_edges = dget_or (wf_defn w) ''edges'' (PList []),
      wp_safety = wf_safety w, wp_status = (if wf_active w then ''active'' else ''draft''),
      wp_version = wf_version w, wp_active = wf_active w\<rparr>"

definition hex12 :: "string \<Rightarrow> string" where
  "hex12 uuid = take 12 (filter (\<lambda>c. c \<noteq> CHR ''-'') uuid)"

definition no_workflow :: "string \<Rightarrow> exn" where
  "no_workflow rid = AppError FUNCTION_NOT_FOUND (''Workflow '' @ rid @ '' not found'') []"

definition create_workflow :: "'x fenv \<Rightarrow> ctx \<Rightarrow> string \<Rightarrow> string \<Rightarrow> string option \<Rightarrow> pyval list \<Rightarrow> pyval list \<Rightarrow>
    string \<Rightarrow> ('x, workflow_response) fop" where
  "create_workflow E c api_name nm descr nodes edges status =
     bindC (liftC (get_tenant_id c)) (\<lambda>tenant.
     bindC (fuuid E) (\<lambda>uuid.
     let defn = [(''nodes'', PList nodes), (''edges'', PList edges)] in
     bindC (liftC (recompute_safety_level defn)) (\<lambda>safety.
     bindC (workflow_create E (\<lambda>now. \<lparr>wf_rid = ''ri.workflow.'' @ hex12 uuid, wf_tenant = tenant,
       wf_api_name = api_name, wf_name = nm, wf_descr = descr, wf_params = PList [], wf_defn = defn,
       wf_safety = safety, wf_side_effects = PList [], wf_version = 1, wf_active = True,
       wf_created = now, wf_updated = now\<rparr>)) (\<lambda>w.
     bindC fcommit (\<lambda>_. retC (workflow_to_response w))))))"

definition get_workflow :: "'x fenv \<Rightarrow> ctx \<Rightarrow> string \<Rightarrow> ('x, workflow_response) fop" where
  "get_workflow E c rid =
     bindC (liftC (get_tenant_id c)) (\<lambda>tenant.
     bindC (workflow_get_by_rid E rid tenant) (\<lambda>w.
     case w of None \<Rightarrow> raiseC (no_workflow rid) | Some w \<Rightarrow> retC (workflow_to_response w)))"

text \<open>The keys of the request that are set.\<close>

record workflow_updates =
  wx_name :: "string option"
  wx_descr :: "string option"
  wx_status :: "string option"
  wx_nodes :: "pyval list option"
  wx_edges :: "pyval list option"

definition update_workflow :: "'x fenv \<Rightarrow> ctx \<Rightarrow> string \<Rightarrow> workflow_updates \<Rightarrow> ('x, workflow_response) fop" where
  "update_workflow E c rid u =
     bindC (liftC (get_tenant_id c)) (\<lambda>tenant.
     bindC (workflow_get_by_rid E rid tenant) (\<lambda>found.
     case found of
       None \<Rightarrow> raiseC (no_workflow rid)
     | Some w \<Rightarrow>
         bindC (if wx_nodes u = None \<and> wx_edges u = None then retC (None, None)
                else
                  (let defn = [(''nodes'', set_if (map_option PList (wx_nodes u)) (dget_or (wf_defn w) ''nodes'' (PList []))),
                               (''edges'', set_if (map_option PList (wx_edges u)) (dget_or (wf_defn w) ''edges'' (PList [])))]
                   in bindC (liftC (recompute_safety_level defn)) (\<lambda>s. retC (Some defn, Some s)))) (\<lambda>(defn, safety).
         bindC (workflow_update_fields E rid tenant
           \<lparr>wu_name = wx_name u, wu_descr = wx_descr u, wu_active = map_option (\<lambda>s. s = ''active'') (wx_status u),
            wu_defn = defn, wu_safety = safety\<rparr>) (\<lambda>updated.
         bindC fcommit (\<lambda>_.
         case updated of
           None \<Rightarrow> raiseC (AppError FUNCTION_NOT_FOUND (''Workflow '' @ rid @ '' not found after update'') [])
         | Some w' \<Rightarrow> retC (workflow_to_response w'))))))"

definition delete_workflow :: "'x fenv \<Rightarrow> ctx \<Rightarrow> string \<Rightarrow> ('x, unit) fop" where
  "delete_workflow E c rid =
     bindC (liftC (get_tenant_id c)) (\<lambda>tenant.
     bindC (workflow_delete E rid tenant) (\<lambda>deleted.
     if \<not> deleted then raiseC (no_workflow rid) else fcommit))"

definition query_workflows :: "'x fenv \<Rightarrow> ctx \<Rightarrow> nat \<Rightarrow> nat \<Rightarrow> string option \<Rightarrow> ('x, workflow_response list \<times> nat) fop" where
  "query_workflows E c offset limit status =
     bindC (liftC (get_tenant_id c)) (\<lambda>tenant.
     bindC (sql E (\<lambda>now d. (Inr (workflow_list_by_tenant tenant offset limit None status d), d))) (\<lambda>(ws, total).
     retC (map workflow_to_response ws, total)))"

record workflow_execution =
  we_id :: string
  we_rid :: string
  we_result :: wf_result
  we_started :: int
  we_completed :: int

text \<open>None where the engine does not return.\<close>

definition run_stored_workflow :: "sleeper \<Rightarrow> 'x fenv \<Rightarrow> ctx \<Rightarrow> string \<Rightarrow> pyval dict \<Rightarrow> ('x, workflow_execution option) fop" where
  "run_stored_workflow sleep E c rid inputs =
     bindC (liftC (get_tenant_id c)) (\<lambda>tenant.
     bindC (fuuid E) (\<lambda>uuid.
     bindC (workflow_get_by_rid E rid tenant) (\<lambda>found.
     case found of
       None \<Rightarrow> raiseC (no_workflow rid)
     | Some w \<Rightarrow>
         bindC (liftC (parse_definition (wf_defn w))) (\<lambda>defn.
         bindC (fclock E) (\<lambda>started.
         case execute_workflow sleep None defn inputs of
           None \<Rightarrow> retC None
         | Some (Inl e) \<Rightarrow> raiseC e
         | Some (Inr r) \<Rightarrow>
             bindC (fclock E) (\<lambda>completed.
             retC (Some \<lparr>we_id = ''exec_'' @ hex12 uuid, we_rid = rid, we_result = r,
               we_started = started, we_completed = completed\<rparr>)))))))"

end
