(* ===== verification/Function_Actions.thy ===== *)
theory Function_Actions
  imports Function_Workflows
begin

section \<open>Executing actions and functions\<close>

text \<open>
  \<open>function/service.py\<close> with what it calls: the registry of global functions (\<open>globals/registry.py\<close>,
  \<open>executor.py\<close>, \<open>builtins.py\<close>), the audit log (\<open>audit/logger.py\<close>), the loading of actions and the
  resolution of their parameters, and the pipeline with its confirmation, batch and background
  variants. Confirming an execution is three steps with commits between them, so it is defined as
  the composition of \<open>confirm_check\<close>, \<open>execute_action\<close> and \<open>confirm_record\<close>.
\<close>

subsection \<open>Audit log\<close>

definition log_start :: "'x fenv \<Rightarrow> string \<Rightarrow> string \<Rightarrow> string \<Rightarrow> string \<Rightarrow> string \<Rightarrow> pyval dict \<Rightarrow> pyval \<Rightarrow> pyval \<Rightarrow>
    string \<Rightarrow> string option \<Rightarrow> ('x, execution_row) fop" where
  "log_start E eid tenant ctype crid status params safety_level side_effects user branch =
     execution_create E (\<lambda>now. \<lparr>ex_id = eid, ex_tenant = tenant, ex_ctype = ctype, ex_crid = crid,
       ex_status = status, ex_params = params, ex_result = None, ex_safety = safety_level,
       ex_side_effects = side_effects, ex_user = user, ex_branch = branch, ex_started = now,
       ex_completed = None, ex_confirmed = None, ex_confirmed_by = None\<rparr>)"

definition log_complete :: "'x fenv \<Rightarrow> string \<Rightarrow> string \<Rightarrow> string \<Rightarrow> pyval option \<Rightarrow> string option \<Rightarrow>
    ('x, execution_row option) fop" where
  "log_complete E eid tenant status result confirmed_by =
     bindC (fclock E) (\<lambda>now.
     execution_update_status E eid tenant \<lparr>xc_status = status, xc_result = result, xc_completed = Some now,
       xc_confirmed = None, xc_confirmed_by = confirmed_by\<rparr>)"

subsection \<open>Loading and parameters\<close>

definition load_action :: "'x fenv \<Rightarrow> ctx \<Rightarrow> string \<Rightarrow> ('x, action_definition) fop" where
  "load_action E c rid =
     bindC (liftC (get_tenant_id c)) (\<lambda>tenant.
     bindC (ext_read (fe_object_type E rid tenant)) (\<lambda>node.
     liftC (parse_action rid node)))"

text \<open>\<open>_resolve_instance\<close>\<close>

definition resolve_instance :: "'x fenv \<Rightarrow> pyval \<Rightarrow> pyval \<Rightarrow> string \<Rightarrow> string \<Rightarrow> ('x, pyval dict) fop" where
  "resolve_instance E type_rid raw tenant name =
     (case raw of
        PDict d \<Rightarrow>
          bindC (ext_call (fe_instance E type_rid tenant (dget_or d ''primary_key'' raw))) (\<lambda>row.
          case row of
            None \<Rightarrow> raiseC (AppError FUNCTION_PARAM_INSTANCE_NOT_FOUND (''Instance not found for parameter '' @ repr_str name) [])
          | Some r \<Rightarrow> retC r)
      | _ \<Rightarrow> raiseC (AppError FUNCTION_PARAM_INVALID (''Parameter '' @ [apostrophe] @ name @ [apostrophe] @ '' expects {primary_key: ...}'') []))"

type_synonym resolved = "pyval dict \<times> instances"

definition resolve_param :: "'x fenv \<Rightarrow> string \<Rightarrow> pyval dict \<Rightarrow> pyval \<Rightarrow> resolved \<Rightarrow> ('x, resolved) fop" where
  "resolve_param E tenant raw_params param_def acc =
     bindC (liftC (bindE (item param_def ''api_name'') as_key)) (\<lambda>api_name.
     bindC (liftC (as_dict param_def)) (\<lambda>pd.
     let raw = pget raw_params api_name; source = dget_or pd ''definition_source'' (PStr ''explicit_type'') in
     if raw = PNone then
       (if py_truthy (dget_or pd ''required'' (PBool False))
        then raiseC (AppError FUNCTION_PARAM_INVALID
               (''Required parameter '' @ [apostrophe] @ api_name @ [apostrophe] @ '' is missing'') [])
        else retC acc)
     else if source = PStr ''derived_from_object_type_rid'' \<or> source = PStr ''derived_from_link_type_rid'' then
       bindC (resolve_instance E (dget_or pd ''type_rid'' (PStr [])) raw tenant api_name) (\<lambda>inst.
       retC (dput api_name raw (fst acc), dput api_name inst (snd acc)))
     else if source = PStr ''derived_from_interface_type_rid'' then
       (case raw of
          PDict d \<Rightarrow>
            (case dget d ''type_rid'' of
               Some ty \<Rightarrow>
                 bindC (resolve_instance E ty raw tenant api_name) (\<lambda>inst.
                 retC (dput api_name raw (fst acc), dput api_name inst (snd acc)))
             | None \<Rightarrow> raiseC (AppError FUNCTION_PARAM_INVALID (''Parameter '' @ [apostrophe] @ api_name @ [apostrophe] @
                        '' with interface source requires {{type_rid, primary_key}}'') []))
        | _ \<Rightarrow> raiseC (AppError FUNCTION_PARAM_INVALID (''Parameter '' @ [apostrophe] @ api_name @ [apostrophe] @
                        '' with interface source requires {{type_rid, primary_key}}'') []))
     else retC (dput api_name raw (fst acc), snd acc)))"

fun foldC :: "('a \<Rightarrow> 'b \<Rightarrow> ('s, 'e, 'b) comp) \<Rightarrow> 'a list \<Rightarrow> 'b \<Rightarrow> ('s, 'e, 'b) comp" where
  "foldC f [] acc = retC acc"
| "foldC f (x # xs) acc = bindC (f x acc) (foldC f xs)"

definition resolve_params :: "'x fenv \<Rightarrow> ctx \<Rightarrow> pyval \<Rightarrow> pyval dict \<Rightarrow> ('x, resolved) fop" where
  "resolve_params E c param_defs raw_params =
     bindC (liftC (get_tenant_id c)) (\<lambda>tenant.
     bindC (liftC (iterate param_defs)) (\<lambda>defs.
     foldC (resolve_param E tenant raw_params) defs ([], [])))"

subsection \<open>Write-back\<close>

definition editlog_create :: "'x fenv \<Rightarrow> editlog_row \<Rightarrow> ('x, string) fop" where
  "editlog_create E row = sql E (\<lambda>now d.
     if el_id row \<in> el_id ` set (fd_editlogs d) then (Inl integrity_error, d)
     else (Inr (el_id row), d\<lparr>fd_editlogs := fd_editlogs d @ [row]\<rparr>))"

definition EDIT_OPERATIONS :: "string list" where
  "EDIT_OPERATIONS = [''create'', ''update'', ''delete'']"

text \<open>\<open>make_entry\<close>: identifier, then instant, then the check of the operation.\<close>

definition make_entry :: "'x fenv \<Rightarrow> string \<Rightarrow> pyval \<Rightarrow> pyval \<Rightarrow> pyval \<Rightarrow> pyval \<Rightarrow> string \<Rightarrow> string option \<Rightarrow> string \<Rightarrow>
    ('x, editlog_row) fop" where
  "make_entry E tenant type_rid key operation vals user action branch =
     bindC (fuuid E) (\<lambda>eid.
     bindC (fclock E) (\<lambda>now.
     case operation of
       PStr oper \<Rightarrow>
         if oper \<in> set EDIT_OPERATIONS
         then (case type_rid of
             PStr ty \<Rightarrow> retC \<lparr>el_id = eid, el_tenant = tenant, el_type = ty, el_key = key, el_operation = oper,
               el_values = vals, el_user = user, el_action = action, el_branch = branch, el_created = now\<rparr>
           | _ \<Rightarrow> raiseC (DriverError ''DataError''))
         else raiseC (ValueError (''Invalid operation: '' @ repr_str oper @
                ''. Must be 'create', 'update', or 'delete'.''))
     | v \<Rightarrow> raiseC (ValueError (''Invalid operation: '' @ py_repr v @
                ''. Must be 'create', 'update', or 'delete'.''))))"

text \<open>\<open>DataServiceImpl.write_editlog\<close> with the PostgreSQL store; it commits.\<close>

definition write_editlog :: "'x fenv \<Rightarrow> ctx \<Rightarrow> pyval \<Rightarrow> pyval \<Rightarrow> pyval \<Rightarrow> pyval \<Rightarrow> string \<Rightarrow> string option \<Rightarrow> string \<Rightarrow>
    ('x, string) fop" where
  "write_editlog E c type_rid key operation vals user action branch =
     bindC (liftC (get_tenant_id c)) (\<lambda>tenant.
     bindC (make_entry E tenant type_rid key operation vals user action branch) (\<lambda>entry.
     bindC (editlog_create E entry) (\<lambda>eid.
     bindC fcommit (\<lambda>_. retC eid))))"

definition truthy_branch :: "string option \<Rightarrow> string" where
  "truthy_branch b = (case b of Some s \<Rightarrow> if s = [] then ''main'' else s | None \<Rightarrow> ''main'')"

definition writeback_output :: "'x fenv \<Rightarrow> ctx \<Rightarrow> engine_result \<Rightarrow> instances \<Rightarrow> string \<Rightarrow> string \<Rightarrow> string option \<Rightarrow>
    pyval \<Rightarrow> pyval list \<Rightarrow> ('x, pyval list) fop" where
  "writeback_output E c result insts user action branch out acc =
     bindC (liftC (as_dict out)) (\<lambda>d.
     if \<not> py_truthy (dget_or d ''writeback'' (PBool False)) then retC acc
     else
       let target = dget_or d ''target_param'' (PStr []); operation = dget_or d ''operation'' (PStr ''update'');
           output_name = dget_or d ''name'' (PStr []) in
       bindC (liftC (as_key output_name)) (\<lambda>oname.
       bindC (liftC (as_key target)) (\<lambda>tname.
       case dget insts tname of
         None \<Rightarrow> retC acc
       | Some inst \<Rightarrow>
           if inst = [] then retC acc
           else
             bindC (write_editlog E c (dget_or inst ''_type_rid'' (PStr [])) (dget_or inst ''_primary_key'' (PDict []))
               operation (dget_or (er_computed result) oname (PDict [])) user (Some action) (truthy_branch branch)) (\<lambda>eid.
             retC (acc @ [PDict [(''output'', output_name), (''entry_id'', PStr eid), (''operation'', operation),
               (''target_param'', target)]])))))"

fun any_writeback :: "pyval list \<Rightarrow> bool res" where
  "any_writeback [] = Inr False"
| "any_writeback (x # xs) =
     bindE (as_dict x) (\<lambda>d. if py_truthy (dget_or d ''writeback'' (PBool False)) then Inr True else any_writeback xs)"

definition process_writeback :: "'x fenv \<Rightarrow> ctx \<Rightarrow> pyval list \<Rightarrow> engine_result \<Rightarrow> instances \<Rightarrow> string \<Rightarrow> string \<Rightarrow>
    string option \<Rightarrow> ('x, pyval list) fop" where
  "process_writeback E c outputs result insts user action branch =
     foldC (writeback_output E c result insts user action branch) outputs []"

subsection \<open>The pipeline\<close>

definition execute_engine :: "'x fenv \<Rightarrow> ctx \<Rightarrow> pyval \<Rightarrow> pyval dict \<Rightarrow> instances \<Rightarrow> ('x, engine_result) fop" where
  "execute_engine E c execution params insts =
     bindC (liftC (as_dict execution)) (\<lambda>d.
     let ty = dget_or d ''type'' (PStr ''native_crud'');
         config = (\<lambda>k. dget_or d k (PDict [])) in
     if ty = PStr ''native_crud'' then
       bindC (fclock E) (\<lambda>now. liftC (native_crud (fe_iso E now) (get_user_id c) (config ''native_crud_json'') params insts))
     else if ty = PStr ''python_venv'' then
       ext_call (python_venv (fe_outside E) (config ''python_script'') params insts)
     else if ty = PStr ''sql_runner'' then
       liftC (sql_runner (config ''sql_template'') params insts)
     else if ty = PStr ''webhook'' then
       ext_call (webhook (fe_outside E) (get_user_id c) (config ''webhook_config_json'') params insts)
     else raiseC (AppError FUNCTION_EXECUTION_FAILED (''Unsupported engine type: '' @ py_str ty) []))"

record execution_response =
  xr_id :: string
  xr_status :: string
  xr_result :: "pyval option"
  xr_confirmation :: "pyval option"
  xr_started :: "int option"
  xr_completed :: "int option"

definition opt_msg :: "string option \<Rightarrow> pyval" where
  "opt_msg m = (case m of Some s \<Rightarrow> PStr s | None \<Rightarrow> PNone)"

text \<open>Stages 4 and 5: the engine, the write-back, the two log entries.\<close>

definition run_action :: "'x fenv \<Rightarrow> ctx \<Rightarrow> string \<Rightarrow> string \<Rightarrow> string \<Rightarrow> action_definition \<Rightarrow> resolved \<Rightarrow> pyval dict \<Rightarrow>
    string option \<Rightarrow> bool \<Rightarrow> ('x, execution_response) fop" where
  "run_action E c tenant user eid ad resolved params branch skip =
     bindC (execute_engine E c (ad_execution ad) (fst resolved) (snd resolved)) (\<lambda>result.
     bindC (liftC (iterate (ad_outputs ad))) (\<lambda>outputs.
     bindC (liftC (any_writeback outputs)) (\<lambda>has.
     bindC (if has then process_writeback E c outputs result (snd resolved) user (ad_rid ad) branch else retC []) (\<lambda>written.
     bindC (log_start E eid tenant ''action'' (ad_rid ad) ''success'' params (ad_safety_level ad) (ad_side_effects ad) user branch) (\<lambda>_.
     let data = PDict ([(''data'', er_data result), (''computed_values'', PDict (er_computed result))] @
                  (if written = [] then [] else [(''writeback'', PList written)])) in
     bindC (log_complete E eid tenant ''success'' (Some data) (if skip then Some ''copilot_interrupt'' else None)) (\<lambda>_.
     bindC fcommit (\<lambda>_.
     bindC (fclock E) (\<lambda>started.
     bindC (fclock E) (\<lambda>completed.
     retC \<lparr>xr_id = eid, xr_status = ''success'', xr_result = Some data, xr_confirmation = None,
       xr_started = Some started, xr_completed = Some completed\<rparr>)))))))))"

definition ask_confirmation :: "'x fenv \<Rightarrow> string \<Rightarrow> string \<Rightarrow> string \<Rightarrow> action_definition \<Rightarrow> safety_decision \<Rightarrow> pyval dict \<Rightarrow>
    string option \<Rightarrow> ('x, execution_response) fop" where
  "ask_confirmation E tenant user eid ad decision params branch =
     bindC (log_start E eid tenant ''action'' (ad_rid ad) ''pending_confirmation'' params (ad_safety_level ad)
       (ad_side_effects ad) user branch) (\<lambda>_.
     bindC fcommit (\<lambda>_.
     bindC (fclock E) (\<lambda>started.
     retC \<lparr>xr_id = eid, xr_status = ''pending_confirmation'', xr_result = None,
       xr_confirmation = Some (PDict [(''message'', opt_msg (sd_message decision)), (''safety_level'', ad_safety_level ad),
         (''affected_outputs'', PList (sd_outputs decision)), (''side_effects'', sd_side_effects decision),
         (''confirm_url'', PStr (''/function/v1/executions/'' @ eid @ ''/confirm'')),
         (''cancel_url'', PStr (''/function/v1/executions/'' @ eid @ ''/cancel''))]),
       xr_started = Some started, xr_completed = None\<rparr>)))"

definition new_execution_id :: "'x fenv \<Rightarrow> ('x, string) fop" where
  "new_execution_id E = bindC (fuuid E) (\<lambda>u. retC (''exec_'' @ hex12 u))"

definition execute_action :: "'x fenv \<Rightarrow> ctx \<Rightarrow> string \<Rightarrow> pyval dict \<Rightarrow> string option \<Rightarrow> bool \<Rightarrow> ('x, execution_response) fop" where
  "execute_action E c rid params branch skip =
     bindC (liftC (get_tenant_id c)) (\<lambda>tenant.
     bindC (liftC (get_user_id c)) (\<lambda>user.
     bindC (new_execution_id E) (\<lambda>eid.
     bindC (load_action E c rid) (\<lambda>ad.
     bindC (resolve_params E c (ad_parameters ad) params) (\<lambda>resolved.
     bindC (liftC (safety_check (ad_safety_level ad) (ad_outputs ad) (ad_side_effects ad) skip)) (\<lambda>decision.
     if sd_confirm decision then ask_confirmation E tenant user eid ad decision params branch
     else run_action E c tenant user eid ad resolved params branch skip))))))"

subsection \<open>Batches and background executions\<close>

record batch_item =
  bi_index :: nat
  bi_status :: string
  bi_id :: "string option"
  bi_error :: "string option"

record batch_summary =
  bs_total :: nat
  bs_success :: nat
  bs_failure :: nat
  bs_results :: "batch_item list"

text \<open>An application error of one item is its result; any other exception ends the batch.\<close>

fun batch_loop :: "'x fenv \<Rightarrow> ctx \<Rightarrow> string \<Rightarrow> string option \<Rightarrow> bool \<Rightarrow> nat \<Rightarrow> pyval dict list \<Rightarrow> ('x, batch_item list) fop" where
  "batch_loop E c rid branch skip i [] = retC []"
| "batch_loop E c rid branch skip i (params # rest) =
     (\<lambda>w. case execute_action E c rid params branch skip w of
        (Inr r, w') \<Rightarrow>
          bindC (batch_loop E c rid branch skip (Suc i) rest) (\<lambda>items.
          retC (\<lparr>bi_index = i, bi_status = xr_status r, bi_id = Some (xr_id r), bi_error = None\<rparr> # items)) w'
      | (Inl (AppError code m ds), w') \<Rightarrow>
          bindC (batch_loop E c rid branch skip (Suc i) rest) (\<lambda>items.
          retC (\<lparr>bi_index = i, bi_status = ''failed'', bi_id = None, bi_error = Some m\<rparr> # items)) w'
      | (Inl e, w') \<Rightarrow> (Inl e, w'))"

definition execute_action_batch :: "'x fenv \<Rightarrow> ctx \<Rightarrow> string \<Rightarrow> pyval dict list \<Rightarrow> string option \<Rightarrow> bool \<Rightarrow>
    ('x, batch_summary) fop" where
  "execute_action_batch E c rid batch branch skip =
     bindC (batch_loop E c rid branch skip 0 batch) (\<lambda>items.
     retC \<lparr>bs_total = length batch,
       bs_success = length (filter (\<lambda>b. bi_status b = ''success'') items),
       bs_failure = length (filter (\<lambda>b. bi_status b \<noteq> ''success'') items), bs_results = items\<rparr>)"

text \<open>\<open>create_task\<close>: the task starts when the request gives up the processor, with its context.\<close>

definition schedule :: "async_task \<Rightarrow> ('x, unit) fop" where
  "schedule t w = (Inr (), w\<lparr>fw_tasks := fw_tasks w @ [t]\<rparr>)"

definition execute_action_async :: "'x fenv \<Rightarrow> ctx \<Rightarrow> string \<Rightarrow> pyval dict \<Rightarrow> string option \<Rightarrow> bool \<Rightarrow>
    ('x, execution_response) fop" where
  "execute_action_async E c rid params branch skip =
     bindC (liftC (get_tenant_id c)) (\<lambda>tenant.
     bindC (liftC (get_user_id c)) (\<lambda>user.
     bindC (new_execution_id E) (\<lambda>eid.
     bindC (log_start E eid tenant ''action'' rid ''running'' params (PStr ''unknown'') (PList []) user branch) (\<lambda>_.
     bindC fcommit (\<lambda>_.
     bindC (schedule \<lparr>at_id = eid, at_action = rid, at_params = params, at_ctx = c, at_branch = branch\<rparr>) (\<lambda>_.
     bindC (fclock E) (\<lambda>started.
     retC \<lparr>xr_id = eid, xr_status = ''running'', xr_result = None, xr_confirmation = None,
       xr_started = Some started, xr_completed = None\<rparr>)))))))"

text \<open>
  \<open>_execute_async_background\<close>, with its own sessions. The confirmation is always skipped. An
  exception abandons the first session and is recorded in a second one; an exception there is logged
  and dropped.
\<close>

definition tenant_of_task :: "async_task \<Rightarrow> string" where
  "tenant_of_task t = (case ctx_tenant_id (at_ctx t) of Some s \<Rightarrow> s | None \<Rightarrow> [])"

definition background_success :: "'x fenv \<Rightarrow> async_task \<Rightarrow> ('x, unit) fop" where
  "background_success E t =
     bindC (execute_action E (at_ctx t) (at_action t) (at_params t) (at_branch t) True) (\<lambda>r.
     bindC (fclock E) (\<lambda>now.
     bindC (execution_update_status E (at_id t) (tenant_of_task t)
       \<lparr>xc_status = ''success'', xc_result = xr_result r, xc_completed = Some now, xc_confirmed = None,
        xc_confirmed_by = None\<rparr>) (\<lambda>_. fcommit)))"

definition background_failure :: "'x fenv \<Rightarrow> async_task \<Rightarrow> exn \<Rightarrow> ('x, unit) fop" where
  "background_failure E t e =
     bindC (fclock E) (\<lambda>now.
     bindC (execution_update_status E (at_id t) (tenant_of_task t)
       \<lparr>xc_status = ''failed'', xc_result = Some (PDict [(''error'', PStr (exn_str e))]), xc_completed = Some now,
        xc_confirmed = None, xc_confirmed_by = None\<rparr>) (\<lambda>_. fcommit))"

definition run_background :: "'x fenv \<Rightarrow> async_task \<Rightarrow> 'x fworld \<Rightarrow> 'x fworld" where
  "run_background E t w =
     (case background_success E t w of
        (Inr _, w') \<Rightarrow> w'
      | (Inl e, w') \<Rightarrow> (case background_failure E t e (frollback w') of
            (Inr _, w'') \<Rightarrow> w''
          | (Inl _, w'') \<Rightarrow> frollback w''))"

subsection \<open>Confirmation and cancellation\<close>

text \<open>Ten minutes, in microseconds.\<close>

definition CONFIRMATION_TTL :: int where "CONFIRMATION_TTL = 10 * 60 * 1000000"

definition no_execution :: "string \<Rightarrow> exn" where
  "no_execution eid = AppError FUNCTION_NOT_FOUND (''Execution '' @ eid @ '' not found'') []"

definition not_pending :: "string \<Rightarrow> exn" where
  "not_pending eid = AppError COMMON_INVALID_INPUT (''Execution '' @ eid @ '' is not pending confirmation'') []"

definition confirmation_expired :: exn where
  "confirmation_expired = AppError FUNCTION_CONFIRMATION_EXPIRED ''Confirmation window has expired'' []"

definition pending_execution :: "'x fenv \<Rightarrow> string \<Rightarrow> string \<Rightarrow> ('x, execution_row) fop" where
  "pending_execution E tenant eid =
     bindC (execution_get_by_id E eid tenant) (\<lambda>found.
     case found of
       None \<Rightarrow> raiseC (no_execution eid)
     | Some e \<Rightarrow> if ex_status e \<noteq> ''pending_confirmation'' then raiseC (not_pending eid) else retC e)"

definition confirm_check :: "'x fenv \<Rightarrow> string \<Rightarrow> string \<Rightarrow> ('x, execution_row) fop" where
  "confirm_check E tenant eid =
     bindC (pending_execution E tenant eid) (\<lambda>e.
     bindC (fclock E) (\<lambda>now.
     if now > ex_started e + CONFIRMATION_TTL then
       bindC (log_complete E eid tenant ''expired'' None None) (\<lambda>_.
       bindC fcommit (\<lambda>_. raiseC confirmation_expired))
     else retC e))"

definition confirm_record :: "'x fenv \<Rightarrow> string \<Rightarrow> string \<Rightarrow> execution_response \<Rightarrow> ('x, execution_response) fop" where
  "confirm_record E tenant eid r =
     bindC (fclock E) (\<lambda>completed.
     bindC (fclock E) (\<lambda>confirmed.
     bindC (execution_update_status E eid tenant \<lparr>xc_status = ''success'',
       xc_result = Some (PDict [(''delegated_to'', PStr (xr_id r))]), xc_completed = Some completed,
       xc_confirmed = Some confirmed, xc_confirmed_by = Some ''user''\<rparr>) (\<lambda>_.
     bindC fcommit (\<lambda>_. retC r))))"

definition confirm_execution :: "'x fenv \<Rightarrow> ctx \<Rightarrow> string \<Rightarrow> ('x, execution_response) fop" where
  "confirm_execution E c eid =
     bindC (liftC (get_tenant_id c)) (\<lambda>tenant.
     bindC (confirm_check E tenant eid) (\<lambda>e.
     bindC (execute_action E c (ex_crid e) (ex_params e) (ex_branch e) True) (\<lambda>r.
     confirm_record E tenant eid r)))"

definition cancel_execution :: "'x fenv \<Rightarrow> ctx \<Rightarrow> string \<Rightarrow> ('x, execution_response) fop" where
  "cancel_execution E c eid =
     bindC (liftC (get_tenant_id c)) (\<lambda>tenant.
     bindC (pending_execution E tenant eid) (\<lambda>e.
     bindC (log_complete E eid tenant ''cancelled'' None None) (\<lambda>_.
     bindC fcommit (\<lambda>_.
     bindC (fclock E) (\<lambda>completed.
     retC \<lparr>xr_id = eid, xr_status = ''cancelled'', xr_result = None, xr_confirmation = None,
       xr_started = None, xr_completed = Some completed\<rparr>)))))"

definition get_execution :: "'x fenv \<Rightarrow> ctx \<Rightarrow> string \<Rightarrow> ('x, execution_row) fop" where
  "get_execution E c eid =
     bindC (liftC (get_tenant_id c)) (\<lambda>tenant.
     bindC (execution_get_by_id E eid tenant) (\<lambda>found.
     case found of None \<Rightarrow> raiseC (no_execution eid) | Some e \<Rightarrow> retC e))"

definition query_executions :: "'x fenv \<Rightarrow> ctx \<Rightarrow> nat \<Rightarrow> nat \<Rightarrow> string option \<Rightarrow> string option \<Rightarrow>
    ('x, execution_row list \<times> nat) fop" where
  "query_executions E c offset limit ctype status =
     bindC (liftC (get_tenant_id c)) (\<lambda>tenant.
     sql E (\<lambda>now d. (Inr (execution_list_by_tenant tenant offset limit ctype status d), d)))"

subsection \<open>Global functions\<close>

definition no_function :: "string \<Rightarrow> exn" where
  "no_function rid = AppError FUNCTION_NOT_FOUND (''Function '' @ rid @ '' not found'') []"

definition register_function :: "'x fenv \<Rightarrow> ctx \<Rightarrow> string \<Rightarrow> string \<Rightarrow> string option \<Rightarrow> pyval \<Rightarrow> pyval \<Rightarrow> ('x, function_row) fop" where
  "register_function E c api_name nm descr params impl =
     bindC (liftC (get_tenant_id c)) (\<lambda>tenant.
     bindC (function_get_by_api_name E api_name tenant) (\<lambda>existing.
     if existing \<noteq> None
     then raiseC (AppError COMMON_CONFLICT
            (''Function with api_name '' @ [apostrophe] @ api_name @ [apostrophe] @ '' already exists'') [])
     else
       bindC (fuuid E) (\<lambda>uuid.
       bindC (liftC (generate_rid uuid ''func'')) (\<lambda>rid.
       bindC (function_create E (\<lambda>now. \<lparr>gf_rid = rid, gf_tenant = tenant, gf_api_name = api_name, gf_name = nm,
         gf_descr = descr, gf_params = params, gf_impl = impl, gf_version = 1, gf_active = True,
         gf_created = now, gf_updated = now\<rparr>)) (\<lambda>f.
       bindC fcommit (\<lambda>_. retC f))))))"

definition get_function :: "'x fenv \<Rightarrow> ctx \<Rightarrow> string \<Rightarrow> ('x, function_row) fop" where
  "get_function E c rid =
     bindC (liftC (get_tenant_id c)) (\<lambda>tenant.
     bindC (function_get_by_rid E rid tenant) (\<lambda>f.
     case f of None \<Rightarrow> raiseC (no_function rid) | Some f \<Rightarrow> retC f))"

definition update_function :: "'x fenv \<Rightarrow> ctx \<Rightarrow> string \<Rightarrow> function_fields \<Rightarrow> ('x, function_row) fop" where
  "update_function E c rid u =
     bindC (liftC (get_tenant_id c)) (\<lambda>tenant.
     bindC (function_get_by_rid E rid tenant) (\<lambda>existing.
     case existing of
       None \<Rightarrow> raiseC (no_function rid)
     | Some old \<Rightarrow>
         bindC (function_update_fields E rid tenant (u\<lparr>ff_version := gf_version old + 1\<rparr>)) (\<lambda>f.
         bindC fcommit (\<lambda>_. retC (case f of Some g \<Rightarrow> g | None \<Rightarrow> old)))))"

definition remove_function :: "'x fenv \<Rightarrow> ctx \<Rightarrow> string \<Rightarrow> ('x, unit) fop" where
  "remove_function E c rid =
     bindC (liftC (get_tenant_id c)) (\<lambda>tenant.
     bindC (function_delete E rid tenant) (\<lambda>deleted.
     if \<not> deleted then raiseC (no_function rid) else fcommit))"

definition query_functions :: "'x fenv \<Rightarrow> ctx \<Rightarrow> nat \<Rightarrow> nat \<Rightarrow> ('x, function_row list \<times> nat) fop" where
  "query_functions E c offset limit =
     bindC (liftC (get_tenant_id c)) (\<lambda>tenant.
     sql E (\<lambda>now d. (Inr (function_list_by_tenant tenant offset limit (Some True) d), d)))"

text \<open>The built-in handlers.\<close>

definition opt_dict :: "pyval dict option \<Rightarrow> pyval" where
  "opt_dict r = (case r of Some d \<Rightarrow> PDict d | None \<Rightarrow> PNone)"

definition as_rid :: "pyval \<Rightarrow> string res" where
  "as_rid v = (case v of PStr s \<Rightarrow> Inr s | _ \<Rightarrow> Inl (DriverError ''CypherTypeError''))"

definition run_builtin :: "'x fenv \<Rightarrow> string \<Rightarrow> pyval dict \<Rightarrow> string \<Rightarrow> ('x, pyval) fop" where
  "run_builtin E handler params tenant =
     (if handler = ''query_instances'' then
        (let filters = (case dget_or params ''filters'' (PDict []) of PDict d \<Rightarrow> d | _ \<Rightarrow> []) in
         ext_call (fe_instances E (dget_or params ''object_type_rid'' (PStr [])) tenant filters
           (dget_or params ''offset'' (PInt 0)) (dget_or params ''limit'' (PInt 100))))
      else if handler = ''get_instance'' then
        bindC (ext_call (fe_instance E (dget_or params ''type_rid'' (PStr [])) tenant (dget_or params ''primary_key'' (PDict []))))
          (\<lambda>r. retC (opt_dict r))
      else if handler = ''list_object_types'' then
        retC (PDict [(''message'', PStr ''list_object_types not yet fully implemented'')])
      else if handler = ''list_link_types'' then
        retC (PDict [(''message'', PStr ''list_link_types not yet fully implemented'')])
      else if handler = ''get_object_type'' then
        bindC (liftC (as_rid (dget_or params ''rid'' (PStr [])))) (\<lambda>rid.
        bindC (ext_read (fe_object_type E rid tenant)) (\<lambda>r. retC (opt_dict r)))
      else if handler = ''get_link_type'' then
        bindC (liftC (as_rid (dget_or params ''rid'' (PStr [])))) (\<lambda>rid.
        bindC (ext_read (fe_link_type E rid tenant)) (\<lambda>r. retC (opt_dict r)))
      else retC (PDict [(''error'', PStr (''Unknown builtin handler: '' @ handler))]))"

text \<open>\<open>GlobalFunctionExecutor.execute\<close>\<close>

definition execute_implementation :: "'x fenv \<Rightarrow> ctx \<Rightarrow> pyval \<Rightarrow> pyval dict \<Rightarrow> string \<Rightarrow> ('x, pyval) fop" where
  "execute_implementation E c impl params tenant =
     bindC (liftC (as_dict impl)) (\<lambda>d.
     let ty = dget_or d ''type'' (PStr []) in
     if ty = PStr ''builtin'' then
       bindC (liftC (as_key (dget_or d ''handler'' (PStr [])))) (\<lambda>h. run_builtin E h params tenant)
     else if ty = PStr ''python'' then
       bindC (ext_call (python_venv (fe_outside E)
         (PDict [(''script'', dget_or d ''script'' (PStr [])), (''timeout'', dget_or d ''timeout'' (PInt 30))]) params []))
         (\<lambda>r. retC (er_data r))
     else if ty = PStr ''webhook'' then
       bindC (ext_call (webhook (fe_outside E) (get_user_id c) (PDict (dfilter (\<lambda>k. k \<noteq> ''type'') d)) params []))
         (\<lambda>r. retC (er_data r))
     else raiseC (AppError FUNCTION_EXECUTION_FAILED (''Unknown function implementation type: '' @ py_str ty) []))"

text \<open>An application error is recorded and raised again; another exception rolls the record back.\<close>

definition finish_function :: "'x fenv \<Rightarrow> string \<Rightarrow> string \<Rightarrow> pyval \<Rightarrow> ('x, execution_response) fop" where
  "finish_function E tenant eid v =
     bindC (log_complete E eid tenant ''success'' (Some (PDict [(''data'', v)])) None) (\<lambda>_.
     bindC fcommit (\<lambda>_.
     bindC (fclock E) (\<lambda>started.
     bindC (fclock E) (\<lambda>completed.
     retC \<lparr>xr_id = eid, xr_status = ''success'', xr_result = Some (PDict [(''data'', v)]), xr_confirmation = None,
       xr_started = Some started, xr_completed = Some completed\<rparr>))))"

definition execute_function :: "'x fenv \<Rightarrow> ctx \<Rightarrow> string \<Rightarrow> pyval dict \<Rightarrow> string option \<Rightarrow> ('x, execution_response) fop" where
  "execute_function E c rid params branch =
     bindC (liftC (get_tenant_id c)) (\<lambda>tenant.
     bindC (liftC (get_user_id c)) (\<lambda>user.
     bindC (new_execution_id E) (\<lambda>eid.
     bindC (get_function E c rid) (\<lambda>f.
     bindC (log_start E eid tenant ''function'' rid ''running'' params (PStr ''SAFETY_READ_ONLY'') (PList []) user branch) (\<lambda>_.
     (\<lambda>w. case bindC (execute_implementation E c (gf_impl f) params tenant) (finish_function E tenant eid) w of
        (Inl (AppError code m ds), w') \<Rightarrow>
          bindC (log_complete E eid tenant ''failed'' None None) (\<lambda>_.
          bindC fcommit (\<lambda>_. raiseC (AppError code m ds))) w'
      | other \<Rightarrow> other))))))"

end
