(* ===== verification/Function_Catalog.thy ===== *)
theory Function_Catalog
  imports Function_Actions
begin

section \<open>Capability catalog and overview\<close>

text \<open>
  \<open>list_capabilities\<close> and \<open>get_overview\<close> of the function service. The section of the actions and that
  of the workflows are each guarded by \<open>except Exception\<close>: an entry that cannot be described ends its
  section, with what was listed before it kept.
\<close>

record capability =
  cp_type :: string
  cp_rid :: string
  cp_api_name :: string
  cp_name :: string
  cp_descr :: "string option"
  cp_params :: pyval
  cp_safety :: string
  cp_side_effects :: pyval

definition function_capability :: "function_row \<Rightarrow> capability" where
  "function_capability f =
     \<lparr>cp_type = ''function'', cp_rid = gf_rid f, cp_api_name = gf_api_name f, cp_name = gf_name f,
      cp_descr = gf_descr f, cp_params = gf_params f, cp_safety = ''SAFETY_READ_ONLY'', cp_side_effects = PList []\<rparr>"

definition is_dict_list :: "pyval \<Rightarrow> bool" where
  "is_dict_list v = (case v of PList xs \<Rightarrow> list_all (\<lambda>x. case x of PDict _ \<Rightarrow> True | _ \<Rightarrow> False) xs | _ \<Rightarrow> False)"

definition action_params :: "pyval dict \<Rightarrow> pyval" where
  "action_params node =
     (let raw = (case dget_or node ''parameters'' (PList []) of
            PStr s \<Rightarrow> (case json_loads s of Some v \<Rightarrow> v | None \<Rightarrow> PList [])
          | v \<Rightarrow> v)
      in case raw of PList xs \<Rightarrow> PList xs | _ \<Rightarrow> PList [])"

definition action_capability :: "pyval dict \<Rightarrow> capability option" where
  "action_capability node =
     (case (dget_or node ''rid'' (PStr []), dget_or node ''api_name'' (PStr []), dget_or node ''display_name'' (PStr []),
            opt_str (pget node ''description''), dget_or node ''safety_level'' (PStr ''SAFETY_READ_ONLY'')) of
        (PStr rid, PStr api, PStr nm, Some descr, PStr level) \<Rightarrow>
          if is_dict_list (action_params node)
          then Some \<lparr>cp_type = ''action'', cp_rid = rid, cp_api_name = api, cp_name = nm, cp_descr = descr,
            cp_params = action_params node, cp_safety = level, cp_side_effects = PList []\<rparr>
          else None
      | _ \<Rightarrow> None)"

definition list_or_empty :: "pyval \<Rightarrow> pyval" where
  "list_or_empty v = (case v of PList xs \<Rightarrow> PList xs | _ \<Rightarrow> PList [])"

definition workflow_capability :: "workflow_row \<Rightarrow> capability option" where
  "workflow_capability w =
     (if is_dict_list (list_or_empty (wf_params w)) \<and> is_dict_list (list_or_empty (wf_side_effects w))
      then Some \<lparr>cp_type = ''workflow'', cp_rid = wf_rid w, cp_api_name = wf_api_name w, cp_name = wf_name w,
        cp_descr = wf_descr w, cp_params = list_or_empty (wf_params w),
        cp_safety = (if wf_safety w = [] then ''SAFETY_READ_ONLY'' else wf_safety w),
        cp_side_effects = list_or_empty (wf_side_effects w)\<rparr>
      else None)"

text \<open>The entries up to the first one that cannot be described.\<close>

fun until_error :: "('a \<Rightarrow> 'b option) \<Rightarrow> 'a list \<Rightarrow> 'b list" where
  "until_error f [] = []"
| "until_error f (x # xs) = (case f x of None \<Rightarrow> [] | Some y \<Rightarrow> y # until_error f xs)"

definition wants :: "string option \<Rightarrow> string \<Rightarrow> bool" where
  "wants ctype ty \<longleftrightarrow> ctype = None \<or> ctype = Some ty"

definition list_capabilities :: "'x fenv \<Rightarrow> ctx \<Rightarrow> string option \<Rightarrow> ('x, capability list) fop" where
  "list_capabilities E c ctype =
     bindC (liftC (get_tenant_id c)) (\<lambda>tenant.
     bindC (if wants ctype ''function''
            then sql E (\<lambda>now d. (Inr (map function_capability (fst (function_list_by_tenant tenant 0 1000 (Some True) d))), d))
            else retC []) (\<lambda>funs.
     bindC (if wants ctype ''action''
            then (\<lambda>w. case fe_action_types E tenant 0 1000 (fw_ext w) of
                    Inr (nodes, _) \<Rightarrow> (Inr (until_error action_capability nodes), w)
                  | Inl _ \<Rightarrow> (Inr [], w))
            else retC []) (\<lambda>actions.
     bindC (if wants ctype ''workflow''
            then sql E (\<lambda>now d. (Inr (until_error workflow_capability
                   (fst (workflow_list_by_tenant tenant 0 1000 (Some True) None d))), d))
            else retC []) (\<lambda>wfs.
     retC (funs @ actions @ wfs)))))"

record function_overview =
  fo_actions :: nat
  fo_functions :: nat
  fo_workflows :: nat
  fo_total_24h :: nat
  fo_by_status :: "nat dict"

text \<open>One day, in microseconds.\<close>

definition ONE_DAY :: int where "ONE_DAY = 24 * 60 * 60 * 1000000"

definition function_overview_of :: "'x fenv \<Rightarrow> ctx \<Rightarrow> ('x, function_overview) fop" where
  "function_overview_of E c =
     bindC (liftC (get_tenant_id c)) (\<lambda>tenant.
     bindC (sql E (\<lambda>now d. (Inr (function_count_by_tenant tenant d), d))) (\<lambda>funs.
     bindC (fclock E) (\<lambda>now.
     bindC (sql E (\<lambda>_ d. (Inr (execution_count_recent tenant (now - ONE_DAY) d), d))) (\<lambda>by_status.
     bindC (\<lambda>w. case fe_action_types E tenant 0 1 (fw_ext w) of
              Inr (_, n) \<Rightarrow> (Inr n, w) | Inl _ \<Rightarrow> (Inr 0, w)) (\<lambda>actions.
     bindC (sql E (\<lambda>_ d. (Inr (workflow_count_by_tenant tenant d), d))) (\<lambda>wfs.
     retC \<lparr>fo_actions = actions, fo_functions = funs, fo_workflows = wfs,
       fo_total_24h = sum_list (map snd by_status), fo_by_status = by_status\<rparr>))))))"

subsection \<open>The status counts add up\<close>

lemma sum_dput:
  "distinct (map fst acc) \<Longrightarrow>
     sum_list (map snd (dput k (dget_or acc k (0 :: nat) + 1) acc)) = Suc (sum_list (map snd acc))"
proof (induction acc)
  case Nil
  show ?case by (simp add: dget_or_def)
next
  case (Cons kv acc)
  then show ?case by (cases kv) (auto simp: dget_or_def split: option.splits)
qed

lemma count_recent_total:
  "sum_list (map snd (execution_count_recent tenant since d)) =
     length (filter (\<lambda>e. ex_tenant e = tenant \<and> since \<le> ex_started e) (fd_executions d))"
proof -
  have add: "distinct (map fst acc) \<Longrightarrow>
      sum_list (map snd (fold (\<lambda>e acc. dput (ex_status e) (dget_or acc (ex_status e) (0 :: nat) + 1) acc) es acc)) =
      length es + sum_list (map snd acc)" for es acc
    by (induction es arbitrary: acc) (simp_all add: sum_dput [simplified] distinct_update)
  show ?thesis unfolding execution_count_recent_def by (subst add) simp_all
qed

end
