(* ===== verification/Function_Frames.thy ===== *)
theory Function_Frames
  imports Function_Catalog
begin

section \<open>Reasoning about operations with several commits\<close>

text \<open>
  A small program logic for computations that may raise: \<open>spec P m Q X\<close> says that from a state with
  \<open>P\<close> the computation returns in a state with \<open>Q\<close> (for its value) or raises in one with \<open>X\<close>. An
  invariant of the tables holds of the committed ones and of those the transaction sees
  (\<open>on_both\<close>); the locale \<open>table_invariant\<close> collects what keeps it, whatever the operation does
  between its commits.
\<close>

definition spec :: "('s \<Rightarrow> bool) \<Rightarrow> ('s, 'e, 'a) comp \<Rightarrow> ('a \<Rightarrow> 's \<Rightarrow> bool) \<Rightarrow> ('s \<Rightarrow> bool) \<Rightarrow> bool" where
  "spec P m Q X \<longleftrightarrow>
     (\<forall>s. P s \<longrightarrow> (case m s of (Inr x, t) \<Rightarrow> Q x t | (Inl e, t) \<Rightarrow> X t))"

abbreviation steady :: "('s \<Rightarrow> bool) \<Rightarrow> ('s, 'e, 'a) comp \<Rightarrow> bool" where
  "steady P m \<equiv> spec P m (\<lambda>_. P) P"

named_theorems spec_rules \<open>computations that keep a predicate\<close>

lemma specD:
  "spec P m Q X \<Longrightarrow> P s \<Longrightarrow> m s = (Inr x, t) \<Longrightarrow> Q x t"
  "spec P m Q X \<Longrightarrow> P s \<Longrightarrow> m s = (Inl e, t) \<Longrightarrow> X t"
  by (fastforce simp: spec_def)+

lemma stable_snd: "steady P m \<Longrightarrow> P s \<Longrightarrow> P (snd (m s))"
  by (cases "m s"; cases "fst (m s)") (auto dest: specD)

lemma spec_bindC:
  assumes "spec P m R X" and "\<And>x. spec (R x) (f x) Q X"
  shows "spec P (bindC m f) Q X"
  using assms by (fastforce simp: spec_def bindC_def split: prod.splits sum.splits)

lemma spec_weaken:
  assumes "spec P m Q X" and "\<And>s. P' s \<Longrightarrow> P s" and "\<And>x s. Q x s \<Longrightarrow> Q' x s" and "\<And>s. X s \<Longrightarrow> X' s"
  shows "spec P' m Q' X'"
  using assms by (fastforce simp: spec_def split: prod.splits sum.splits)

lemma spec_assume: "(\<And>s. P s \<Longrightarrow> spec (\<lambda>t. t = s) m Q X) \<Longrightarrow> spec P m Q X"
  by (simp add: spec_def)

lemma stable_pure [spec_rules]:
  "steady P (retC x)" "steady P (raiseC e)" "steady P (liftC r)" "steady P (readC g)" "steady P (unlessC b e)"
  by (auto simp: spec_def split: sum.splits)

lemma stable_bindC [spec_rules]: "steady P m \<Longrightarrow> (\<And>x. steady P (f x)) \<Longrightarrow> steady P (bindC m f)"
  by (rule spec_bindC)

lemma stable_foldC: "(\<And>x acc. steady P (f x acc)) \<Longrightarrow> steady P (foldC f xs acc)"
  by (induction xs arbitrary: acc) (auto intro!: spec_rules)

lemma stable_if [spec_rules]: "(b \<Longrightarrow> steady P m) \<Longrightarrow> (\<not> b \<Longrightarrow> steady P n) \<Longrightarrow> steady P (if b then m else n)"
  by simp

subsection \<open>Predicates on both copies of the tables\<close>

text \<open>\<open>T\<close> are the background tasks not yet run.\<close>

definition on_both :: "(fundb \<Rightarrow> bool) \<Rightarrow> async_task list \<Rightarrow> 'x fworld \<Rightarrow> bool" where
  "on_both I T w \<longleftrightarrow> I (fw_tx w) \<and> I (fw_db w) \<and> fw_tasks w = T"

lemma sql_run:
  obtains now w' where "sql E f w = (fst (f now (fw_tx w)), w')" and "fw_tx w' = snd (f now (fw_tx w))"
    and "fw_db w' = fw_db w" and "fw_tasks w' = fw_tasks w" and "fw_ext w' = fw_ext w"
proof (cases "fw_began w")
  case None
  show thesis
    by (rule that [of "fe_now E (fw_ticks w)" "snd (sql E f w)"])
       (simp_all add: sql_def None Let_def case_prod_beta)
next
  case (Some t)
  show thesis
    by (rule that [of t "snd (sql E f w)"]) (simp_all add: sql_def Some case_prod_beta)
qed

lemma both_sql: "(\<And>now d. I d \<Longrightarrow> I (snd (f now d))) \<Longrightarrow> steady (on_both I T) (sql E f)"
  by (auto simp: spec_def on_both_def sql_def Let_def split: option.splits prod.splits sum.splits) (metis snd_conv)+

lemma both_quiet [spec_rules]:
  "steady (on_both I T) (fclock E)" "steady (on_both I T) (fuuid E)" "steady (on_both I T) fcommit"
  "steady (on_both I T) (ext_read g)" "steady (on_both I T) (ext_call h)"
  by (auto simp: spec_def on_both_def fclock_def fuuid_def fcommit_def ext_read_def ext_call_def
      split: prod.splits sum.splits)

lemma both_rollback: "on_both I T w \<Longrightarrow> on_both I T (frollback w)"
  by (simp add: on_both_def frollback_def)

lemma both_lookup [spec_rules]:
  "steady (on_both I T) (execution_get_by_id E eid tenant)"
  "steady (on_both I T) (function_get_by_rid E rid tenant)"
  "steady (on_both I T) (function_get_by_api_name E api tenant)"
  "steady (on_both I T) (workflow_get_by_rid E rid tenant)"
  by (auto simp: execution_get_by_id_def function_get_by_rid_def function_get_by_api_name_def workflow_get_by_rid_def
      intro!: both_sql)

lemma both_read [spec_rules]: "steady (on_both I T) (sql E (\<lambda>now d. (f now d, d)))"
  by (rule both_sql) simp

text \<open>What an execution does besides its log entry changes no table but the edit logs.\<close>

definition blind_to_logs :: "(fundb \<Rightarrow> bool) \<Rightarrow> bool" where
  "blind_to_logs I \<longleftrightarrow> (\<forall>d ls. I d \<longrightarrow> I (d\<lparr>fd_editlogs := ls\<rparr>))"

lemma engine_stable: "steady (on_both I T) (execute_engine E c conf params insts)"
  unfolding execute_engine_def by (auto intro!: spec_rules simp: Let_def)

lemma new_id_stable: "steady (on_both I T) (new_execution_id E)"
  unfolding new_execution_id_def by (intro spec_rules)

lemma load_stable: "steady (on_both I T) (load_action E c rid)"
  unfolding load_action_def by (intro spec_rules)

lemma instance_stable: "steady (on_both I T) (resolve_instance E ty raw tenant nm)"
  unfolding resolve_instance_def by (auto intro!: spec_rules split: pyval.splits option.splits)

lemma param_stable: "steady (on_both I T) (resolve_param E tenant raw pd acc)"
  unfolding resolve_param_def
  by (auto intro!: spec_rules instance_stable simp: Let_def split: pyval.splits option.splits)

lemma params_stable: "steady (on_both I T) (resolve_params E c defs raw)"
  unfolding resolve_params_def by (intro spec_rules stable_foldC param_stable)

lemma make_entry_stable: "steady (on_both I T) (make_entry E tenant ty key oper vals user action branch)"
  unfolding make_entry_def by (auto intro!: spec_rules split: pyval.splits)

lemma writeback_stable:
  assumes "blind_to_logs I"
  shows "steady (on_both I T) (process_writeback E c outputs result insts user action branch)"
proof -
  have "steady (on_both I T) (editlog_create E row)" for row
    unfolding editlog_create_def using assms by (intro both_sql) (auto simp: blind_to_logs_def)
  then have "steady (on_both I T) (write_editlog E c ty key oper vals user action br)" for ty key oper vals user action br
    unfolding write_editlog_def by (intro spec_rules make_entry_stable)
  then have "steady (on_both I T) (writeback_output E c result insts user action branch out acc)" for out acc
    unfolding writeback_output_def by (auto intro!: spec_rules simp: Let_def split: option.splits)
  then show ?thesis unfolding process_writeback_def by (rule stable_foldC)
qed

lemmas pipeline_stable = engine_stable new_id_stable load_stable params_stable writeback_stable

lemma schedule_spec: "spec (on_both I T) (schedule t) (\<lambda>_. on_both I (T @ [t])) X"
  by (simp add: spec_def on_both_def schedule_def)

lemma steady_and: "steady P m \<Longrightarrow> steady (\<lambda>w. P w \<and> b) m"
  by (fastforce simp: spec_def split: prod.splits sum.splits)

subsection \<open>Rows of executions\<close>

text \<open>
  A row is in one of the two open states or in one of the four closed ones. Open rows carry no outcome,
  and a row records a confirmation only with its completion.
\<close>

definition OPEN :: "string set" where "OPEN = {''pending_confirmation'', ''running''}"

definition CLOSED :: "string set" where "CLOSED = {''success'', ''failed'', ''cancelled'', ''expired''}"

definition row_ok :: "execution_row \<Rightarrow> bool" where
  "row_ok e \<longleftrightarrow>
     ex_status e \<in> OPEN \<union> CLOSED \<and> ex_ctype e \<in> {''action'', ''function''} \<and>
     (ex_status e \<in> OPEN \<longrightarrow> ex_result e = None \<and> ex_completed e = None \<and> ex_confirmed e = None \<and> ex_confirmed_by e = None) \<and>
     (ex_confirmed e \<noteq> None \<longrightarrow> ex_completed e \<noteq> None \<and> ex_confirmed_by e \<noteq> None)"

definition change_ok :: "execution_change \<Rightarrow> bool" where
  "change_ok ch \<longleftrightarrow> xc_status ch \<in> CLOSED \<and> (xc_confirmed ch \<noteq> None \<longrightarrow> xc_completed ch \<noteq> None \<and> xc_confirmed_by ch \<noteq> None)"

definition executions_ok :: "fundb \<Rightarrow> bool" where
  "executions_ok d \<longleftrightarrow> distinct (map ex_id (fd_executions d)) \<and> (\<forall>e \<in> set (fd_executions d). row_ok e)"

definition rows :: "execution_row set \<Rightarrow> async_task list \<Rightarrow> 'x fworld \<Rightarrow> bool" where
  "rows S T = on_both (\<lambda>d. S \<subseteq> set (fd_executions d) \<and> executions_ok d) T"

definition fresh_in :: "execution_row set \<Rightarrow> async_task list \<Rightarrow> string \<Rightarrow> 'x fworld \<Rightarrow> bool" where
  "fresh_in S T eid w \<longleftrightarrow> rows S T w \<and> eid \<notin> ex_id ` S"

text \<open>All rows are as they were but possibly one, of which some change was recorded.\<close>

definition moved_row :: "string \<Rightarrow> string set \<Rightarrow> execution_row set \<Rightarrow> fundb \<Rightarrow> bool" where
  "moved_row eid A S d \<longleftrightarrow>
     executions_ok d \<and>
     (\<forall>e \<in> S. e \<in> set (fd_executions d) \<or>
        (ex_id e = eid \<and> (\<exists>ch. xc_status ch \<in> A \<and> execution_assign ch e \<in> set (fd_executions d))))"

lemma rows_blind: "blind_to_logs (\<lambda>d. S \<subseteq> set (fd_executions d) \<and> executions_ok d)"
  by (simp add: blind_to_logs_def executions_ok_def)

lemma open_closed: "CLOSED \<inter> OPEN = {}"
  by (simp add: CLOSED_def OPEN_def)

lemma assign_ok: "row_ok e \<Longrightarrow> change_ok ch \<Longrightarrow> row_ok (execution_assign ch e)"
  using open_closed by (auto simp: row_ok_def change_ok_def execution_assign_def or_else_def split: option.splits)

lemma assign_id [simp]: "ex_id (execution_assign ch e) = ex_id e" "ex_tenant (execution_assign ch e) = ex_tenant e"
  by (simp_all add: execution_assign_def)

lemma updated_ids:
  "map ex_id (map (\<lambda>e. if is_execution eid tenant e then execution_assign ch e else e) es) = map ex_id es"
  by simp

lemma executions_set: "fd_executions (d\<lparr>fd_executions := es\<rparr>) = es"
  by simp

lemma updated_ok:
  assumes "executions_ok d" and "change_ok ch"
  shows "executions_ok (d\<lparr>fd_executions :=
    map (\<lambda>e. if is_execution eid tenant e then execution_assign ch e else e) (fd_executions d)\<rparr>)"
  unfolding executions_ok_def executions_set updated_ids
  using assms by (auto simp: executions_ok_def intro: assign_ok)

lemma updated_keeps:
  assumes "S \<subseteq> set es" and "eid \<notin> ex_id ` S"
  shows "S \<subseteq> set (map (\<lambda>e. if is_execution eid tenant e then execution_assign ch e else e) es)"
proof
  fix e assume e: "e \<in> S"
  then have "\<not> is_execution eid tenant e" using assms(2) by (auto simp: is_execution_def)
  then show "e \<in> set (map (\<lambda>e. if is_execution eid tenant e then execution_assign ch e else e) es)"
    using e assms(1) by (force intro: image_eqI [where x = e])
qed

lemma rows_create:
  assumes "\<And>now. ex_id (mk now) = eid" and "\<And>now. row_ok (mk now)"
  shows "spec (rows S T) (execution_create E mk) (\<lambda>_. fresh_in S T eid) (rows S T)"
  unfolding spec_def
proof (intro allI impI)
  fix w :: "'a fworld"
  assume w: "rows S T w"
  let ?f = "\<lambda>now d. if ex_id (mk now) \<in> ex_id ` set (fd_executions d) then (Inl integrity_error, d)
     else (Inr (mk now), d\<lparr>fd_executions := fd_executions d @ [mk now]\<rparr>)"
  obtain now w' where run: "sql E ?f w = (fst (?f now (fw_tx w)), w')" and tx: "fw_tx w' = snd (?f now (fw_tx w))"
    and rest: "fw_db w' = fw_db w" "fw_tasks w' = fw_tasks w"
    by (rule sql_run)
  show "case execution_create E mk w of (Inl e, t) \<Rightarrow> rows S T t | (Inr x, t) \<Rightarrow> fresh_in S T eid t"
  proof (cases "eid \<in> ex_id ` set (fd_executions (fw_tx w))")
    case True
    then show ?thesis using run tx rest w assms
      by (simp add: execution_create_def rows_def on_both_def)
  next
    case False
    then have "eid \<notin> ex_id ` S" using w by (auto simp: rows_def on_both_def)
    moreover have "rows S T w'"
      using False tx rest w assms by (auto simp: rows_def on_both_def executions_ok_def)
    ultimately show ?thesis using False run assms
      by (simp add: execution_create_def fresh_in_def)
  qed
qed

lemma fresh_update:
  assumes "change_ok ch"
  shows "steady (fresh_in S T eid) (execution_update_status E eid tenant ch)"
proof -
  have up: "steady (on_both (\<lambda>d. S \<subseteq> set (fd_executions d) \<and> executions_ok d) T)
      (sql E (\<lambda>now d. (Inr (), d\<lparr>fd_executions :=
        map (\<lambda>e. if is_execution eid tenant e then execution_assign ch e else e) (fd_executions d)\<rparr>)))"
    if "eid \<notin> ex_id ` S"
  proof (rule both_sql)
    fix d assume d: "S \<subseteq> set (fd_executions d) \<and> executions_ok d"
    have "S \<subseteq> set (map (\<lambda>e. if is_execution eid tenant e then execution_assign ch e else e) (fd_executions d))"
      using d that by (blast intro: updated_keeps [THEN subsetD])
    then show "S \<subseteq> set (fd_executions (snd (Inr (), d\<lparr>fd_executions :=
        map (\<lambda>e. if is_execution eid tenant e then execution_assign ch e else e) (fd_executions d)\<rparr>))) \<and>
      executions_ok (snd (Inr (), d\<lparr>fd_executions :=
        map (\<lambda>e. if is_execution eid tenant e then execution_assign ch e else e) (fd_executions d)\<rparr>))"
      using d assms by (simp only: snd_conv executions_set updated_ok)
  qed
  show ?thesis
  proof (cases "eid \<in> ex_id ` S")
    case True
    then show ?thesis by (simp add: spec_def fresh_in_def)
  next
    case False
    then show ?thesis
      unfolding fresh_in_def rows_def execution_update_status_def
      by (intro steady_and spec_rules up)
  qed
qed

lemma fresh_log:
  assumes "st \<in> CLOSED"
  shows "steady (fresh_in S T eid) (log_complete E eid tenant st r b)"
proof -
  have "steady (fresh_in S T eid) (fclock E)"
    unfolding fresh_in_def rows_def by (intro steady_and spec_rules)
  then show ?thesis unfolding log_complete_def
    by (intro stable_bindC fresh_update) (simp_all add: change_ok_def assms)
qed

lemma fresh_quiet:
  "steady (fresh_in S T eid) (fclock E)" "steady (fresh_in S T eid) fcommit"
  unfolding fresh_in_def rows_def by (intro steady_and spec_rules)+

lemma spec_from_steady: "steady P m \<Longrightarrow> (\<And>s. P s \<Longrightarrow> R s) \<Longrightarrow> spec P m (\<lambda>_. R) R"
  by (erule spec_weaken) auto

lemma fresh_rows: "fresh_in S T eid w \<Longrightarrow> rows S T w"
  by (simp add: fresh_in_def)

lemma log_start_rows:
  assumes "st \<in> OPEN \<union> CLOSED" and "ct \<in> {''action'', ''function''}"
  shows "spec (rows S T) (log_start E eid tenant ct cr st ps sl se us br) (\<lambda>_. fresh_in S T eid) (rows S T)"
  unfolding log_start_def by (rule rows_create) (use assms in \<open>simp_all add: row_ok_def\<close>)

lemma started_rows:
  assumes "st \<in> OPEN \<union> CLOSED" and "ct \<in> {''action'', ''function''}" and "\<And>x. steady (fresh_in S T eid) (f x)"
  shows "steady (rows S T) (bindC (log_start E eid tenant ct cr st ps sl se us br) f)"
proof (rule spec_bindC [OF log_start_rows [OF assms(1,2)]])
  fix x
  show "spec (fresh_in S T eid) (f x) (\<lambda>_. rows S T) (rows S T)"
    by (rule spec_from_steady [OF assms(3) fresh_rows])
qed

lemma action_rows: "steady (rows S T) (execute_action E c rid params branch skip)"
proof -
  have ask: "steady (rows S T) (ask_confirmation E tenant user eid ad dec ps br)" for tenant user eid ad dec ps br
    unfolding ask_confirmation_def by (intro started_rows stable_bindC fresh_quiet stable_pure) (simp_all add: OPEN_def)
  have run: "steady (rows S T) (run_action E c tenant user eid ad res ps br sk)" for tenant user eid ad res ps br sk
  proof -
    have tail: "steady (rows S T) (bindC (log_start E eid tenant ''action'' (ad_rid ad) ''success'' ps (ad_safety_level ad) (ad_side_effects ad) user br) (\<lambda>_.
     let data = PDict ([(''data'', er_data result), (''computed_values'', PDict (er_computed result))] @
                  (if written = [] then [] else [(''writeback'', PList written)])) in
     bindC (log_complete E eid tenant ''success'' (Some data) (if sk then Some ''copilot_interrupt'' else None)) (\<lambda>_.
     bindC fcommit (\<lambda>_.
     bindC (fclock E) (\<lambda>started.
     bindC (fclock E) (\<lambda>completed.
     retC \<lparr>xr_id = eid, xr_status = ''success'', xr_result = Some data, xr_confirmation = None,
       xr_started = Some started, xr_completed = Some completed\<rparr>))))))" for result written
      unfolding Let_def by (intro started_rows stable_bindC fresh_quiet fresh_log stable_pure) (simp_all add: CLOSED_def)
    show ?thesis
      unfolding run_action_def
      by (intro stable_bindC tail stable_if)
         (auto simp: rows_def intro!: pipeline_stable rows_blind stable_pure)
  qed
  show ?thesis
    unfolding execute_action_def
    by (intro stable_bindC stable_if ask run) (auto simp: rows_def intro!: pipeline_stable stable_pure)
qed

end
