(* ===== verification/Function_Lifecycle.thy ===== *)
theory Function_Lifecycle
  imports Function_Frames
begin

section \<open>The life of an execution\<close>

text \<open>
  The requests of the function package and its background tasks as a state machine. A request works
  in one database session, with commits on its way; a background task is run once, at any later
  moment. The main fact is that the row of an execution only ever makes one of five moves.
\<close>

subsection \<open>Requests\<close>

datatype frequest =
    Execute_action string "pyval dict" "string option" bool
  | Execute_batch string "pyval dict list" "string option" bool
  | Execute_async string "pyval dict" "string option" bool
  | Confirm_execution string
  | Cancel_execution string
  | Execute_function string "pyval dict" "string option"
  | Register_function string string "string option" pyval pyval
  | Update_function string function_fields
  | Delete_function string
  | Create_workflow string string "string option" "pyval list" "pyval list" string
  | Update_workflow string workflow_updates
  | Delete_workflow string

definition no_result :: "('x, 'a) fop \<Rightarrow> ('x, unit) fop" where
  "no_result m = bindC m (\<lambda>_. retC ())"

fun fserve :: "'x fenv \<Rightarrow> ctx \<Rightarrow> frequest \<Rightarrow> ('x, unit) fop" where
  "fserve E c (Execute_action rid ps br sk) = no_result (execute_action E c rid ps br sk)"
| "fserve E c (Execute_batch rid pss br sk) = no_result (execute_action_batch E c rid pss br sk)"
| "fserve E c (Execute_async rid ps br sk) = no_result (execute_action_async E c rid ps br sk)"
| "fserve E c (Confirm_execution eid) = no_result (confirm_execution E c eid)"
| "fserve E c (Cancel_execution eid) = no_result (cancel_execution E c eid)"
| "fserve E c (Execute_function rid ps br) = no_result (execute_function E c rid ps br)"
| "fserve E c (Register_function api nm ds ps im) = no_result (register_function E c api nm ds ps im)"
| "fserve E c (Update_function rid u) = no_result (update_function E c rid u)"
| "fserve E c (Delete_function rid) = no_result (remove_function E c rid)"
| "fserve E c (Create_workflow api nm ds ns es st) = no_result (create_workflow E c api nm ds ns es st)"
| "fserve E c (Update_workflow rid u) = no_result (update_workflow E c rid u)"
| "fserve E c (Delete_workflow rid) = no_result (delete_workflow E c rid)"

text \<open>The end of the session: commit, or roll back what is not yet committed.\<close>

definition ffinish :: "unit res \<times> 'x fworld \<Rightarrow> 'x fworld" where
  "ffinish rw = (case rw of (Inr _, w) \<Rightarrow> snd (fcommit w) | (Inl _, w) \<Rightarrow> frollback w)"

inductive fstep :: "'x fenv \<Rightarrow> 'x fworld \<Rightarrow> 'x fworld \<Rightarrow> bool" for E where
  request: "fstep E w (ffinish (fserve E c q w))"
| background: "t \<in> set (fw_tasks w) \<Longrightarrow> fstep E w (run_background E t (w\<lparr>fw_tasks := remove1 t (fw_tasks w)\<rparr>))"
| outside: "fstep E w (w\<lparr>fw_ext := x, fw_ticks := fw_ticks w + n\<rparr>)"

definition at_rest :: "'x fworld \<Rightarrow> bool" where
  "at_rest w \<longleftrightarrow> fw_tx w = fw_db w \<and> fw_began w = None"

inductive freachable :: "'x fenv \<Rightarrow> 'x fworld \<Rightarrow> bool" for E where
  start: "at_rest w \<Longrightarrow> fw_db w = empty_fundb \<Longrightarrow> fw_tasks w = [] \<Longrightarrow> freachable E w"
| step: "freachable E w \<Longrightarrow> fstep E w w' \<Longrightarrow> freachable E w'"

subsection \<open>What each request does to the rows\<close>

text \<open>Operations that never touch an existing row.\<close>

lemma rows_steady:
  "steady (rows S T) (fclock E)" "steady (rows S T) fcommit" "steady (rows S T) (retC x)"
  "steady (rows S T) (raiseC e)" "steady (rows S T) (liftC r)"
  unfolding rows_def by (intro spec_rules)+

lemma batch_rows: "steady (rows S T) (batch_loop E c rid br sk i pss)"
proof (induction pss arbitrary: i)
  case Nil
  show ?case by (simp only: batch_loop.simps rows_steady)
next
  case (Cons ps pss)
  let ?rest = "batch_loop E c rid br sk (Suc i) pss"
  have after: "steady (rows S T) (bindC ?rest (\<lambda>items. retC (f items)))" for f :: "batch_item list \<Rightarrow> batch_item list"
    by (intro stable_bindC Cons.IH rows_steady)
  show ?case
    unfolding spec_def
  proof (intro allI impI)
    fix w :: "'a fworld" assume w: "rows S T w"
    have w': "rows S T (snd (execute_action E c rid ps br sk w))"
      by (rule stable_snd [OF action_rows w])
    show "case batch_loop E c rid br sk i (ps # pss) w of (Inl e, t) \<Rightarrow> rows S T t | (Inr x, t) \<Rightarrow> rows S T t"
    proof (cases "execute_action E c rid ps br sk w")
      case (Pair r w1)
      have w1: "rows S T w1" using w' Pair by simp
      have ok: "case bindC ?rest (\<lambda>items. retC (f items)) w1 of (Inl e, t) \<Rightarrow> rows S T t | (Inr x, t) \<Rightarrow> rows S T t"
        for f :: "batch_item list \<Rightarrow> batch_item list"
        using after [of f] w1 by (simp add: spec_def)
      show ?thesis
      proof (cases r)
        case (Inr x)
        then show ?thesis using Pair ok by simp
      next
        case (Inl e)
        then show ?thesis using Pair ok w1 by (cases e) simp_all
      qed
    qed
  qed
qed

lemma function_rows: "steady (rows S T) (execute_function E c rid ps br)"
proof -
  have impl: "steady (on_both I T) (execute_implementation E c im ps tn)" for I im tn
  proof -
    have "steady (on_both I T) (run_builtin E h ps tn)" for h
      unfolding run_builtin_def by (auto intro!: spec_rules simp: Let_def)
    then show ?thesis unfolding execute_implementation_def by (auto intro!: spec_rules simp: Let_def)
  qed
  have impl': "steady (fresh_in S T eid) (execute_implementation E c im ps tn)" for eid im tn
    unfolding fresh_in_def rows_def by (intro steady_and impl)
  have fin: "steady (fresh_in S T eid) (finish_function E tn eid v)" for tn eid v
    unfolding finish_function_def by (intro stable_bindC fresh_log fresh_quiet stable_pure) (simp add: CLOSED_def)
  have tail: "steady (fresh_in S T eid) (\<lambda>w. case bindC (execute_implementation E c im ps tn) (finish_function E tn eid) w of
        (Inl (AppError code m ds), w') \<Rightarrow>
          bindC (log_complete E eid tn ''failed'' None None) (\<lambda>_.
          bindC fcommit (\<lambda>_. raiseC (AppError code m ds))) w'
      | other \<Rightarrow> other)" for eid im tn
    unfolding spec_def
  proof (intro allI impI)
    fix w :: "'a fworld" assume w: "fresh_in S T eid w"
    let ?m = "bindC (execute_implementation E c im ps tn) (finish_function E tn eid)"
    let ?fail = "\<lambda>code m ds. bindC (log_complete E eid tn ''failed'' None None) (\<lambda>_.
          bindC fcommit (\<lambda>_. raiseC (AppError code m ds)))"
    obtain r w1 where m: "?m w = (r, w1)" by (cases "?m w")
    have "steady (fresh_in S T eid) ?m" by (intro stable_bindC impl' fin)
    then have w1: "fresh_in S T eid w1" using stable_snd [of "fresh_in S T eid" ?m w] w m by simp
    have "steady (fresh_in S T eid) (?fail code m ds :: ('a, execution_response) fop)" for code m ds
      by (intro stable_bindC fresh_log fresh_quiet stable_pure) (simp add: CLOSED_def)
    then have f: "case (?fail code m ds w1 :: (exn + execution_response) \<times> 'a fworld) of
        (Inl e, t) \<Rightarrow> fresh_in S T eid t | (Inr x, t) \<Rightarrow> fresh_in S T eid t" for code m ds
      using w1 by (simp add: spec_def)
    show "case (case ?m w of (Inl (AppError code m ds), w') \<Rightarrow> ?fail code m ds w' | other \<Rightarrow> other) of
        (Inl e, t) \<Rightarrow> fresh_in S T eid t | (Inr x, t) \<Rightarrow> fresh_in S T eid t"
    proof (cases r)
      case (Inl e)
      then show ?thesis using m f w1 by (cases e) simp_all
    next
      case (Inr x)
      then show ?thesis using m w1 by simp
    qed
  qed
  show ?thesis
    unfolding execute_function_def
    by (intro stable_bindC started_rows tail)
       (auto simp: rows_def get_function_def OPEN_def intro!: spec_rules pipeline_stable split: option.splits)
qed

lemma other_tables:
  assumes "\<And>now d. fd_executions (snd (f now d)) = fd_executions d"
  shows "steady (rows S T) (sql E f)"
  unfolding rows_def by (rule both_sql) (simp add: assms executions_ok_def)

lemma registry_rows:
  "steady (rows S T) (register_function E c api nm ds ps im)"
  "steady (rows S T) (update_function E c rid u)"
  "steady (rows S T) (remove_function E c rid)"
proof -
  have look: "steady (rows S T) (function_get_by_rid E rid t)" "steady (rows S T) (function_get_by_api_name E a t)"
    "steady (rows S T) (fuuid E)" for rid t a
    unfolding rows_def by (intro spec_rules)+
  show "steady (rows S T) (register_function E c api nm ds ps im)"
    unfolding register_function_def function_create_def
    by (intro stable_bindC stable_if rows_steady look other_tables) simp
  show "steady (rows S T) (update_function E c rid u)"
    unfolding update_function_def function_update_fields_def
    by (intro stable_bindC rows_steady look) (auto intro!: stable_bindC rows_steady look other_tables split: option.splits)
  show "steady (rows S T) (remove_function E c rid)"
    unfolding remove_function_def function_delete_def
    by (intro stable_bindC rows_steady look) (auto intro!: stable_bindC rows_steady look other_tables split: option.splits)
qed

lemma workflow_rows:
  "steady (rows S T) (create_workflow E c api nm ds ns es st)"
  "steady (rows S T) (update_workflow E c rid u)"
  "steady (rows S T) (delete_workflow E c rid)"
proof -
  have look: "steady (rows S T) (workflow_get_by_rid E rid t)" "steady (rows S T) (fuuid E)" for rid t
    unfolding rows_def by (intro spec_rules)+
  show "steady (rows S T) (create_workflow E c api nm ds ns es st)"
    unfolding create_workflow_def workflow_create_def Let_def
    by (intro stable_bindC stable_if rows_steady look other_tables) simp
  show "steady (rows S T) (update_workflow E c rid u)"
    unfolding update_workflow_def workflow_update_fields_def Let_def
    by (intro stable_bindC rows_steady look)
       (auto intro!: stable_bindC rows_steady look other_tables split: option.splits prod.splits)
  show "steady (rows S T) (delete_workflow E c rid)"
    unfolding delete_workflow_def workflow_delete_def
    by (intro stable_bindC rows_steady look) (auto intro!: stable_bindC rows_steady look other_tables split: option.splits)
qed

subsection \<open>Closing an open execution\<close>

lemma one_execution:
  assumes "distinct (map ex_id es)"
  shows "\<exists>x. one_or_none (filter (is_execution eid tenant) es) = Inr x \<and> (\<forall>e. x = Some e \<longrightarrow> e \<in> set es \<and> is_execution eid tenant e)"
  using assms
proof (induction es)
  case Nil
  show ?case by (simp add: one_or_none_def)
next
  case (Cons a es)
  show ?case
  proof (cases "is_execution eid tenant a")
    case True
    then have "filter (is_execution eid tenant) es = []"
      using Cons.prems by (auto simp: is_execution_def filter_empty_conv) (metis imageI)
    then show ?thesis using True by (simp add: one_or_none_def)
  next
    case False
    then show ?thesis using Cons by fastforce
  qed
qed

lemma updated_moves:
  assumes "S \<subseteq> set (fd_executions d)" and "executions_ok d" and "change_ok ch"
  shows "moved_row eid {xc_status ch} S (d\<lparr>fd_executions :=
    map (\<lambda>e. if is_execution eid tenant e then execution_assign ch e else e) (fd_executions d)\<rparr>)"
  unfolding moved_row_def executions_set
proof (intro conjI ballI)
  show "executions_ok (d\<lparr>fd_executions :=
      map (\<lambda>e. if is_execution eid tenant e then execution_assign ch e else e) (fd_executions d)\<rparr>)"
    by (rule updated_ok [OF assms(2,3)])
  fix e assume "e \<in> S"
  then have "e \<in> set (fd_executions d)" using assms(1) by auto
  then have i: "(if is_execution eid tenant e then execution_assign ch e else e)
      \<in> set (map (\<lambda>e. if is_execution eid tenant e then execution_assign ch e else e) (fd_executions d))"
    unfolding set_map by (rule imageI)
  show "e \<in> set (map (\<lambda>e. if is_execution eid tenant e then execution_assign ch e else e) (fd_executions d)) \<or>
      ex_id e = eid \<and> (\<exists>ch'. xc_status ch' \<in> {xc_status ch} \<and> execution_assign ch' e
        \<in> set (map (\<lambda>e. if is_execution eid tenant e then execution_assign ch e else e) (fd_executions d)))"
  proof (cases "is_execution eid tenant e")
    case True
    then show ?thesis using i by (auto simp: is_execution_def)
  next
    case False
    then show ?thesis using i by (simp only: if_False simp_thms)
  qed
qed

lemma rows_moved: "S \<subseteq> set (fd_executions d) \<and> executions_ok d \<Longrightarrow> moved_row eid A S d"
  by (auto simp: moved_row_def)

lemma moved_mono: "moved_row eid A S d \<Longrightarrow> A \<subseteq> B \<Longrightarrow> moved_row eid B S d"
  by (auto simp: moved_row_def) blast

text \<open>The update of an open row cannot fail; what is committed stays as it was.\<close>

lemma update_moves:
  assumes "change_ok ch"
  shows "spec (rows S T) (execution_update_status E eid tenant ch) (\<lambda>_. on_both (moved_row eid {xc_status ch} S) T) (\<lambda>_. False)"
  unfolding spec_def
proof (intro allI impI)
  fix w :: "'a fworld" assume w: "rows S T w"
  let ?f = "\<lambda>now d. (Inr () :: unit res, d\<lparr>fd_executions :=
        map (\<lambda>e. if is_execution eid tenant e then execution_assign ch e else e) (fd_executions d)\<rparr>)"
  let ?g = "\<lambda>now d. (one_or_none (filter (is_execution eid tenant) (fd_executions d)), d)"
  obtain now w1 where f: "sql E ?f w = (fst (?f now (fw_tx w)), w1)" "fw_tx w1 = snd (?f now (fw_tx w))"
    "fw_db w1 = fw_db w" "fw_tasks w1 = fw_tasks w"
    by (rule sql_run)
  obtain now' w2 where g: "sql E ?g w1 = (fst (?g now' (fw_tx w1)), w2)" "fw_tx w2 = snd (?g now' (fw_tx w1))"
    "fw_db w2 = fw_db w1" "fw_tasks w2 = fw_tasks w1"
    by (rule sql_run)
  have m: "moved_row eid {xc_status ch} S (fw_tx w1)"
    using f(2) w assms by (simp add: rows_def on_both_def updated_moves)
  obtain x where x: "one_or_none (filter (is_execution eid tenant) (fd_executions (fw_tx w1))) = Inr x"
    using one_execution m by (metis moved_row_def executions_ok_def)
  have run: "execution_update_status E eid tenant ch w = (Inr x, w2)"
    using f(1) g(1) x by (simp add: execution_update_status_def execution_get_by_id_def bindC_def)
  have "on_both (moved_row eid {xc_status ch} S) T w2"
    unfolding on_both_def
    using m g f(3,4) w by (simp add: rows_def on_both_def rows_moved)
  then show "case execution_update_status E eid tenant ch w of (Inl e, t) \<Rightarrow> False
      | (Inr r, t) \<Rightarrow> on_both (moved_row eid {xc_status ch} S) T t"
    unfolding run by simp
qed

lemma sure:
  "spec P (fclock E) (\<lambda>_. P') X" if "\<And>w n. P w \<Longrightarrow> P' (w\<lparr>fw_ticks := n\<rparr>)"
  using that by (simp add: spec_def fclock_def)

lemma sure_rows: "spec (rows S T) (fclock E) (\<lambda>_. rows S T) X"
  by (rule sure) (simp add: rows_def on_both_def)

lemma sure_both:
  "spec (on_both I T) (fclock E) (\<lambda>_. on_both I T) X" "spec (on_both I T) fcommit (\<lambda>_. on_both I T) X"
  "spec P (retC x) (\<lambda>_. P) X"
  by (auto simp: spec_def on_both_def fclock_def fcommit_def)

lemma log_moves:
  assumes "st \<in> CLOSED"
  shows "spec (rows S T) (log_complete E eid tenant st r b) (\<lambda>_. on_both (moved_row eid {st} S) T) (\<lambda>_. False)"
  unfolding log_complete_def
  by (rule spec_bindC [OF sure_rows], rule spec_weaken [OF update_moves])
     (use assms in \<open>simp_all add: change_ok_def\<close>)

text \<open>
  All rows are as they were, but for those that may take the step the execution has made.
\<close>

definition proceeds :: "(execution_row \<Rightarrow> string \<Rightarrow> bool) \<Rightarrow> execution_row set \<Rightarrow> fundb \<Rightarrow> bool" where
  "proceeds M S d \<longleftrightarrow> executions_ok d \<and>
     (\<forall>e \<in> S. e \<in> set (fd_executions d) \<or> (\<exists>ch. M e (xc_status ch) \<and> execution_assign ch e \<in> set (fd_executions d)))"

definition answered :: "execution_row \<Rightarrow> string \<Rightarrow> bool" where
  "answered e st \<longleftrightarrow> ex_status e = ''pending_confirmation'' \<and> st \<in> {''success'', ''cancelled'', ''expired''}"

definition completed_task :: "string \<Rightarrow> execution_row \<Rightarrow> string \<Rightarrow> bool" where
  "completed_task eid e st \<longleftrightarrow> ex_id e = eid \<and> st \<in> {''success'', ''failed''}"

lemma rows_proceed: "rows S T w \<Longrightarrow> on_both (proceeds M S) T w"
  by (auto simp: rows_def on_both_def proceeds_def)

lemma moved_proceed:
  assumes "on_both (moved_row eid A S) T w" and "\<And>e st. e \<in> S \<Longrightarrow> ex_id e = eid \<Longrightarrow> st \<in> A \<Longrightarrow> M e st"
  shows "on_both (proceeds M S) T w"
  using assms unfolding on_both_def moved_row_def proceeds_def by blast

lemma spec_fact: "(b \<Longrightarrow> spec P m Q X) \<Longrightarrow> spec (\<lambda>w. P w \<and> b) m Q X"
  by (simp add: spec_def)

lemma spec_post: "spec P m Q X \<Longrightarrow> (\<And>x s. Q x s \<Longrightarrow> Q' x s) \<Longrightarrow> (\<And>s. X s \<Longrightarrow> X' s) \<Longrightarrow> spec P m Q' X'"
  by (rule spec_weaken)

definition awaits :: "execution_row set \<Rightarrow> string \<Rightarrow> bool" where
  "awaits S eid \<longleftrightarrow> (\<forall>e \<in> S. ex_id e = eid \<longrightarrow> ex_status e = ''pending_confirmation'')"

lemma same_row:
  "executions_ok d \<Longrightarrow> e \<in> set (fd_executions d) \<Longrightarrow> e' \<in> set (fd_executions d) \<Longrightarrow> ex_id e = ex_id e' \<Longrightarrow> e = e'"
  unfolding executions_ok_def distinct_map by (auto dest: inj_onD)

lemma found_pending:
  "spec (rows S T) (pending_execution E tenant eid) (\<lambda>_ w. rows S T w \<and> awaits S eid) (rows S T)"
  unfolding spec_def
proof (intro allI impI)
  fix w :: "'a fworld" assume w: "rows S T w"
  let ?g = "\<lambda>now d. (one_or_none (filter (is_execution eid tenant) (fd_executions d)), d)"
  obtain now w1 where g: "sql E ?g w = (fst (?g now (fw_tx w)), w1)" "fw_tx w1 = snd (?g now (fw_tx w))"
    "fw_db w1 = fw_db w" "fw_tasks w1 = fw_tasks w"
    by (rule sql_run)
  have ok: "executions_ok (fw_tx w)" "S \<subseteq> set (fd_executions (fw_tx w))" using w by (simp_all add: rows_def on_both_def)
  have w1: "rows S T w1" using w g by (simp add: rows_def on_both_def)
  obtain x where x: "one_or_none (filter (is_execution eid tenant) (fd_executions (fw_tx w))) = Inr x"
    and found: "\<And>e. x = Some e \<Longrightarrow> e \<in> set (fd_executions (fw_tx w)) \<and> is_execution eid tenant e"
    using one_execution ok(1) by (metis executions_ok_def)
  have run: "execution_get_by_id E eid tenant w = (Inr x, w1)"
    using g(1) x by (simp add: execution_get_by_id_def)
  have "awaits S eid" if "x = Some e" and "ex_status e = ''pending_confirmation''" for e
    unfolding awaits_def
  proof (intro ballI impI)
    fix e' assume "e' \<in> S" and "ex_id e' = eid"
    moreover have "e \<in> set (fd_executions (fw_tx w))" "ex_id e = eid"
      using found [OF that(1)] by (simp_all add: is_execution_def)
    ultimately have "e' = e" using ok by (intro same_row [of "fw_tx w"]) auto
    then show "ex_status e' = ''pending_confirmation''" using that(2) by simp
  qed
  then show "case pending_execution E tenant eid w of (Inl e, t) \<Rightarrow> rows S T t
      | (Inr e, t) \<Rightarrow> rows S T t \<and> awaits S eid"
    using w1 run by (auto simp: pending_execution_def bindC_def split: option.splits)
qed

lemma awaits_answer: "awaits S eid \<Longrightarrow> A \<subseteq> {''success'', ''cancelled'', ''expired''} \<Longrightarrow>
    on_both (moved_row eid A S) T w \<Longrightarrow> on_both (proceeds answered S) T w"
  by (rule moved_proceed) (auto simp: awaits_def answered_def)

lemma closing_spec:
  assumes "st \<in> {''cancelled'', ''expired''}" and "awaits S eid"
    and "\<And>I. spec (on_both I T) f (\<lambda>x w. on_both I T w \<and> R x) (on_both I T)"
  shows "spec (rows S T) (bindC (log_complete E eid tenant st r b) (\<lambda>_. bindC fcommit (\<lambda>_. f)))
    (\<lambda>x w. on_both (proceeds answered S) T w \<and> R x) (on_both (proceeds answered S) T)"
proof (rule spec_bindC)
  have "st \<in> CLOSED" using assms(1) by (auto simp: CLOSED_def)
  then show "spec (rows S T) (log_complete E eid tenant st r b) (\<lambda>_. on_both (moved_row eid {st} S) T) (on_both (proceeds answered S) T)"
    by (rule spec_post [OF log_moves]) simp_all
next
  fix x
  have "spec (on_both (moved_row eid {st} S) T) (bindC fcommit (\<lambda>_. f))
      (\<lambda>x w. on_both (moved_row eid {st} S) T w \<and> R x) (on_both (moved_row eid {st} S) T)"
    by (rule spec_bindC [OF both_quiet(3)]) (rule assms(3))
  then show "spec (on_both (moved_row eid {st} S) T) (bindC fcommit (\<lambda>_. f)) (\<lambda>x w. on_both (proceeds answered S) T w \<and> R x)
      (on_both (proceeds answered S) T)"
    by (rule spec_post) (use assms in \<open>auto intro: awaits_answer\<close>)
qed

lemma confirm_rows:
  "spec (rows S T) (confirm_execution E c eid) (\<lambda>_. on_both (proceeds answered S) T) (on_both (proceeds answered S) T)"
proof -
  let ?G = "on_both (proceeds answered S) T"
  have lift: "spec P (liftC r) (\<lambda>_. P) X" if "\<And>w. P w \<Longrightarrow> X w" for P X :: "'a fworld \<Rightarrow> bool" and r :: "string res"
    using that by (auto simp: spec_def split: sum.splits)
  have check: "spec (rows S T) (confirm_check E tenant eid) (\<lambda>_ w. rows S T w \<and> awaits S eid) ?G" for tenant
    unfolding confirm_check_def
  proof (rule spec_bindC [OF spec_post [OF found_pending]], assumption, erule rows_proceed, rule spec_fact)
    fix e :: execution_row assume aw: "awaits S eid"
    show "spec (rows S T) (bindC (fclock E) (\<lambda>now. if now > ex_started e + CONFIRMATION_TTL then
       bindC (log_complete E eid tenant ''expired'' None None) (\<lambda>_.
       bindC fcommit (\<lambda>_. raiseC confirmation_expired)) else retC e)) (\<lambda>_ w. rows S T w \<and> awaits S eid) ?G"
    proof (rule spec_bindC [OF sure_rows])
      fix now
      have "spec (rows S T) (bindC (log_complete E eid tenant ''expired'' None None) (\<lambda>_.
          bindC fcommit (\<lambda>_. raiseC confirmation_expired)) :: ('a, execution_row) fop) (\<lambda>x w. ?G w \<and> False) ?G"
        by (rule closing_spec [OF _ aw]) (simp_all add: spec_def)
      then have "spec (rows S T) (bindC (log_complete E eid tenant ''expired'' None None) (\<lambda>_.
          bindC fcommit (\<lambda>_. raiseC confirmation_expired)) :: ('a, execution_row) fop) (\<lambda>_ w. rows S T w \<and> awaits S eid) ?G"
        by (rule spec_post) simp_all
      moreover have "spec (rows S T) (retC e :: ('a, execution_row) fop) (\<lambda>_ w. rows S T w \<and> awaits S eid) ?G"
        using aw by (simp add: spec_def)
      ultimately show "spec (rows S T) (if now > ex_started e + CONFIRMATION_TTL then
          bindC (log_complete E eid tenant ''expired'' None None) (\<lambda>_.
          bindC fcommit (\<lambda>_. raiseC confirmation_expired)) else retC e) (\<lambda>_ w. rows S T w \<and> awaits S eid) ?G"
        by simp
    qed
  qed
  have record': "spec (rows S T) (confirm_record E tenant eid r) (\<lambda>_. ?G) ?G" if "awaits S eid" for tenant r
    unfolding confirm_record_def
  proof (intro spec_bindC [OF sure_rows])
    fix completed confirmed
    let ?ch = "\<lparr>xc_status = ''success'', xc_result = Some (PDict [(''delegated_to'', PStr (xr_id r))]),
      xc_completed = Some completed, xc_confirmed = Some confirmed, xc_confirmed_by = Some ''user''\<rparr>"
    have up: "spec (rows S T) (execution_update_status E eid tenant ?ch) (\<lambda>_. ?G) ?G"
      by (rule spec_post [OF update_moves]) (use that in \<open>auto simp: change_ok_def CLOSED_def intro: awaits_answer\<close>)
    show "spec (rows S T) (bindC (execution_update_status E eid tenant ?ch) (\<lambda>_. bindC fcommit (\<lambda>_. retC r))) (\<lambda>_. ?G) ?G"
      by (rule spec_bindC [OF up]) (intro stable_bindC both_quiet stable_pure)
  qed
  show ?thesis
    unfolding confirm_execution_def
  proof (rule spec_bindC [OF lift], erule rows_proceed, rule spec_bindC [OF check], rule spec_fact)
    fix tenant e assume aw: "awaits S eid"
    show "spec (rows S T) (bindC (execute_action E c (ex_crid e) (ex_params e) (ex_branch e) True) (confirm_record E tenant eid)) (\<lambda>_. ?G) ?G"
      by (rule spec_bindC [OF spec_post [OF action_rows]], assumption, erule rows_proceed) (rule record' [OF aw])
  qed
qed

lemma cancel_rows:
  "spec (rows S T) (cancel_execution E c eid) (\<lambda>_. on_both (proceeds answered S) T) (on_both (proceeds answered S) T)"
proof -
  let ?G = "on_both (proceeds answered S) T"
  show ?thesis
    unfolding cancel_execution_def
  proof (rule spec_bindC [where R = "\<lambda>_. rows S T"])
    show "spec (rows S T) (liftC (get_tenant_id c)) (\<lambda>_. rows S T) ?G"
      by (rule spec_post [OF stable_pure(3)]) (assumption, rule rows_proceed)
  next
    fix tenant
    show "spec (rows S T) (bindC (pending_execution E tenant eid) (\<lambda>e.
     bindC (log_complete E eid tenant ''cancelled'' None None) (\<lambda>_.
     bindC fcommit (\<lambda>_.
     bindC (fclock E) (\<lambda>completed.
     retC \<lparr>xr_id = eid, xr_status = ''cancelled'', xr_result = None, xr_confirmation = None,
       xr_started = None, xr_completed = Some completed\<rparr>))))) (\<lambda>_. ?G) ?G"
    proof (rule spec_bindC [OF spec_post [OF found_pending]], assumption, erule rows_proceed, rule spec_fact)
      fix e assume aw: "awaits S eid"
      have tail: "steady (on_both I T) (bindC (fclock E) (\<lambda>completed. retC (r completed)))" for r :: "int \<Rightarrow> execution_response" and I
        by (intro stable_bindC both_quiet stable_pure)
      show "spec (rows S T) (bindC (log_complete E eid tenant ''cancelled'' None None) (\<lambda>_.
         bindC fcommit (\<lambda>_.
         bindC (fclock E) (\<lambda>completed.
         retC \<lparr>xr_id = eid, xr_status = ''cancelled'', xr_result = None, xr_confirmation = None,
           xr_started = None, xr_completed = Some completed\<rparr>)))) (\<lambda>_. ?G) ?G"
        by (rule spec_post [OF closing_spec [where R = "\<lambda>_. True"]]) (use aw tail in simp_all)
    qed
  qed
qed

subsection \<open>Background tasks\<close>

definition runs :: "execution_row \<Rightarrow> async_task \<Rightarrow> bool" where
  "runs e t \<longleftrightarrow> ex_id e = at_id t \<and> ex_tenant e = tenant_of_task t \<and> ex_status e = ''running''"

definition scheduled :: "execution_row set \<Rightarrow> async_task list \<Rightarrow> 'x fworld \<Rightarrow> bool" where
  "scheduled S T w \<longleftrightarrow> (\<exists>e t. rows (insert e S) (T @ [t]) w \<and> runs e t \<and> ex_id e \<notin> ex_id ` S)"

lemma created_spec:
  "spec (rows S T) (execution_create E mk)
     (\<lambda>e w. fresh_in S T (ex_id e) w \<and> e \<in> set (fd_executions (fw_tx w)) \<and> (\<exists>now. e = mk now)) (rows S T)"
  if "\<And>now. ex_id (mk now) = eid" and "\<And>now. row_ok (mk now)"
  unfolding spec_def
proof (intro allI impI)
  fix w :: "'a fworld" assume w: "rows S T w"
  let ?f = "\<lambda>now d. if ex_id (mk now) \<in> ex_id ` set (fd_executions d) then (Inl integrity_error, d)
     else (Inr (mk now), d\<lparr>fd_executions := fd_executions d @ [mk now]\<rparr>)"
  obtain now w' where run: "sql E ?f w = (fst (?f now (fw_tx w)), w')" and tx: "fw_tx w' = snd (?f now (fw_tx w))"
    by (rule sql_run)
  have run': "execution_create E mk w = (fst (?f now (fw_tx w)), w')" using run by (simp add: execution_create_def)
  have both: "case execution_create E mk w of (Inl e, t) \<Rightarrow> rows S T t | (Inr x, t) \<Rightarrow> fresh_in S T eid t"
    using rows_create [OF that, of S T E] w by (simp add: spec_def)
  show "case execution_create E mk w of (Inl e, t) \<Rightarrow> rows S T t
      | (Inr e, t) \<Rightarrow> fresh_in S T (ex_id e) t \<and> e \<in> set (fd_executions (fw_tx t)) \<and> (\<exists>now. e = mk now)"
    using both tx that(1) unfolding run' by (auto split: if_splits)
qed

lemma async_rows:
  "spec (rows S T) (execute_action_async E c rid ps br sk) (\<lambda>_. scheduled S T) (rows S T)"
proof -
  have commit: "spec (\<lambda>w. fresh_in S T (ex_id e) w \<and> e \<in> set (fd_executions (fw_tx w)) \<and> b) fcommit
      (\<lambda>_ w. rows (insert e S) T w \<and> ex_id e \<notin> ex_id ` S \<and> b) X" for e b X
    by (auto simp: spec_def fcommit_def fresh_in_def rows_def on_both_def)
  have plan: "spec (\<lambda>w. rows (insert e S) T w \<and> ex_id e \<notin> ex_id ` S \<and> runs e t) (schedule t) (\<lambda>_. scheduled S T) X" for e t X
    by (auto simp: spec_def schedule_def scheduled_def rows_def on_both_def)
  have rest: "spec (scheduled S T) (bindC (fclock E) (\<lambda>started. retC (r started))) (\<lambda>_. scheduled S T) X"
    for r :: "int \<Rightarrow> execution_response" and X
    by (auto simp: spec_def fclock_def bindC_def scheduled_def rows_def on_both_def)
  show ?thesis
    unfolding execute_action_async_def log_start_def
  proof (rule spec_bindC [where R = "\<lambda>tenant w. rows S T w \<and> ctx_tenant_id c = Some tenant"])
    show "spec (rows S T) (liftC (get_tenant_id c)) (\<lambda>tenant w. rows S T w \<and> ctx_tenant_id c = Some tenant) (rows S T)"
      by (auto simp: spec_def get_tenant_id_def split: sum.splits option.splits)
  next
    fix tenant
    have user: "spec P (liftC (get_user_id c)) (\<lambda>_. P) P" for P :: "'a fworld \<Rightarrow> bool" by (rule stable_pure)
    have ident: "steady (rows S T) (new_execution_id E)" unfolding rows_def by (rule new_id_stable)
    show "spec (\<lambda>w. rows S T w \<and> ctx_tenant_id c = Some tenant) (bindC (liftC (get_user_id c)) (\<lambda>user.
     bindC (new_execution_id E) (\<lambda>eid.
     bindC (execution_create E (\<lambda>now. \<lparr>ex_id = eid, ex_tenant = tenant, ex_ctype = ''action'', ex_crid = rid,
       ex_status = ''running'', ex_params = ps, ex_result = None, ex_safety = PStr ''unknown'',
       ex_side_effects = PList [], ex_user = user, ex_branch = br, ex_started = now,
       ex_completed = None, ex_confirmed = None, ex_confirmed_by = None\<rparr>)) (\<lambda>_.
     bindC fcommit (\<lambda>_.
     bindC (schedule \<lparr>at_id = eid, at_action = rid, at_params = ps, at_ctx = c, at_branch = br\<rparr>) (\<lambda>_.
     bindC (fclock E) (\<lambda>started.
     retC \<lparr>xr_id = eid, xr_status = ''running'', xr_result = None, xr_confirmation = None,
       xr_started = Some started, xr_completed = None\<rparr>)))))))
     (\<lambda>_. scheduled S T) (rows S T)"
    proof (rule spec_fact, intro spec_bindC [OF user] spec_bindC [OF ident], rule spec_bindC [OF created_spec])
      fix user eid e
      assume c: "ctx_tenant_id c = Some tenant"
      let ?t = "\<lparr>at_id = eid, at_action = rid, at_params = ps, at_ctx = c, at_branch = br\<rparr>"
      let ?mk = "\<lambda>now. \<lparr>ex_id = eid, ex_tenant = tenant, ex_ctype = ''action'', ex_crid = rid,
       ex_status = ''running'', ex_params = ps, ex_result = None, ex_safety = PStr ''unknown'',
       ex_side_effects = PList [], ex_user = user, ex_branch = br, ex_started = now,
       ex_completed = None, ex_confirmed = None, ex_confirmed_by = None\<rparr>"
      have t: "runs (?mk now) ?t" for now using c by (simp add: runs_def tenant_of_task_def)
      have "spec (\<lambda>w. fresh_in S T (ex_id e) w \<and> e \<in> set (fd_executions (fw_tx w)) \<and> runs e ?t)
         (bindC fcommit (\<lambda>_. bindC (schedule ?t) (\<lambda>_. bindC (fclock E) (\<lambda>started. retC (r started))))) (\<lambda>_. scheduled S T) (rows S T)"
        for r :: "int \<Rightarrow> execution_response"
        by (rule spec_bindC [OF commit], rule spec_bindC [OF plan], rule rest)
      then show "spec (\<lambda>w. fresh_in S T (ex_id e) w \<and> e \<in> set (fd_executions (fw_tx w)) \<and> (\<exists>now. e = ?mk now))
         (bindC fcommit (\<lambda>_. bindC (schedule ?t) (\<lambda>_. bindC (fclock E) (\<lambda>started.
            retC \<lparr>xr_id = eid, xr_status = ''running'', xr_result = None, xr_confirmation = None,
              xr_started = Some started, xr_completed = None\<rparr>)))) (\<lambda>_. scheduled S T) (rows S T)"
        by (rule spec_weaken) (use t in auto)
    qed (simp_all add: row_ok_def OPEN_def)
  qed
qed

lemma task_rows:
  "spec (rows S T) (background_success E t)
     (\<lambda>_ w. on_both (moved_row (at_id t) {''success''} S) T w \<and> at_rest w) (rows S T)"
  "spec (rows S T) (background_failure E t e)
     (\<lambda>_ w. on_both (moved_row (at_id t) {''failed''} S) T w \<and> at_rest w) (\<lambda>_. False)"
proof -
  have commit: "spec (on_both I T) fcommit (\<lambda>_ w. on_both I T w \<and> at_rest w) X" for I X
    by (auto simp: spec_def fcommit_def on_both_def at_rest_def)
  show "spec (rows S T) (background_success E t)
     (\<lambda>_ w. on_both (moved_row (at_id t) {''success''} S) T w \<and> at_rest w) (rows S T)"
    unfolding background_success_def
  proof (rule spec_bindC [OF action_rows], rule spec_bindC [OF sure_rows])
    fix r now
    let ?ch = "\<lparr>xc_status = ''success'', xc_result = xr_result r, xc_completed = Some now, xc_confirmed = None,
        xc_confirmed_by = None\<rparr>"
    have "spec (rows S T) (execution_update_status E (at_id t) (tenant_of_task t) ?ch)
        (\<lambda>_. on_both (moved_row (at_id t) {''success''} S) T) (rows S T)"
      by (rule spec_post [OF update_moves]) (simp_all add: change_ok_def CLOSED_def)
    then show "spec (rows S T) (bindC (execution_update_status E (at_id t) (tenant_of_task t) ?ch) (\<lambda>_. fcommit))
        (\<lambda>_ w. on_both (moved_row (at_id t) {''success''} S) T w \<and> at_rest w) (rows S T)"
      by (rule spec_bindC) (rule commit)
  qed
  show "spec (rows S T) (background_failure E t e)
     (\<lambda>_ w. on_both (moved_row (at_id t) {''failed''} S) T w \<and> at_rest w) (\<lambda>_. False)"
    unfolding background_failure_def
  proof (rule spec_bindC [OF sure_rows])
    fix now
    let ?ch = "\<lparr>xc_status = ''failed'', xc_result = Some (PDict [(''error'', PStr (exn_str e))]), xc_completed = Some now,
        xc_confirmed = None, xc_confirmed_by = None\<rparr>"
    have "spec (rows S T) (execution_update_status E (at_id t) (tenant_of_task t) ?ch)
        (\<lambda>_. on_both (moved_row (at_id t) {''failed''} S) T) (\<lambda>_. False)"
      by (rule spec_post [OF update_moves]) (simp_all add: change_ok_def CLOSED_def)
    then show "spec (rows S T) (bindC (execution_update_status E (at_id t) (tenant_of_task t) ?ch) (\<lambda>_. fcommit))
        (\<lambda>_ w. on_both (moved_row (at_id t) {''failed''} S) T w \<and> at_rest w) (\<lambda>_. False)"
      by (rule spec_bindC) (rule commit)
  qed
qed

lemma rows_rollback: "rows S T w \<Longrightarrow> rows S T (frollback w)"
  unfolding rows_def by (rule both_rollback)

lemma background_rows:
  assumes "rows S T w"
  shows "on_both (proceeds (completed_task (at_id t)) S) T (run_background E t w) \<and> at_rest (run_background E t w)"
proof -
  have done_by: "on_both (moved_row (at_id t) A S) T v \<Longrightarrow> A \<subseteq> {''success'', ''failed''} \<Longrightarrow>
      on_both (proceeds (completed_task (at_id t)) S) T v" for A v
    by (erule moved_proceed) (auto simp: completed_task_def)
  obtain r w1 where m: "background_success E t w = (r, w1)" by (cases "background_success E t w")
  show ?thesis
  proof (cases r)
    case (Inr x)
    then have "on_both (moved_row (at_id t) {''success''} S) T w1 \<and> at_rest w1"
      using m assms specD(1) [OF task_rows(1)] by blast
    then show ?thesis using m Inr done_by [of "{''success''}" w1] by (simp add: run_background_def)
  next
    case (Inl e)
    then have "background_success E t w = (Inl e, w1)" using m by simp
    then have w1: "rows S T (frollback w1)"
      by (intro rows_rollback specD(2) [OF task_rows(1) assms])
    obtain r' w2 where f: "background_failure E t e (frollback w1) = (r', w2)"
      by (cases "background_failure E t e (frollback w1)")
    show ?thesis
    proof (cases r')
      case (Inr x)
      then have "on_both (moved_row (at_id t) {''failed''} S) T w2 \<and> at_rest w2"
        using f w1 specD(1) [OF task_rows(2)] by blast
      then show ?thesis using m Inl f Inr done_by [of "{''failed''}" w2] by (simp add: run_background_def)
    next
      case (Inl e')
      then show ?thesis using f w1 specD(2) [OF task_rows(2)] by blast
    qed
  qed
qed

subsection \<open>One step\<close>

lemma no_result_spec: "spec P m (\<lambda>_. Q) X \<Longrightarrow> spec P (no_result m) (\<lambda>_. Q) X"
  unfolding no_result_def by (rule spec_bindC) (auto simp: spec_def)

lemma serve_rows:
  "spec (rows S T) (fserve E c q) (\<lambda>_ w. on_both (proceeds answered S) T w \<or> scheduled S T w) (on_both (proceeds answered S) T)"
proof -
  have keeps: "spec (rows S T) (no_result m) (\<lambda>_ w. on_both (proceeds answered S) T w \<or> scheduled S T w)
      (on_both (proceeds answered S) T)" if "steady (rows S T) m" for m :: "('b, 'c) fop" and E :: "'b fenv"
    by (rule spec_post [OF no_result_spec [OF that]]) (auto intro: rows_proceed)
  have answers: "spec (rows S T) (no_result m) (\<lambda>_ w. on_both (proceeds answered S) T w \<or> scheduled S T w)
      (on_both (proceeds answered S) T)"
    if "spec (rows S T) m (\<lambda>_. on_both (proceeds answered S) T) (on_both (proceeds answered S) T)" for m :: "('b, 'c) fop"
    by (rule spec_post [OF no_result_spec [OF that]]) auto
  have "steady (rows S T) (execute_action_batch E c rid pss br sk)" for rid pss br sk
    unfolding execute_action_batch_def by (intro stable_bindC batch_rows rows_steady)
  moreover have "spec (rows S T) (no_result (execute_action_async E c rid ps br sk))
      (\<lambda>_ w. on_both (proceeds answered S) T w \<or> scheduled S T w) (on_both (proceeds answered S) T)" for rid ps br sk
    by (rule spec_post [OF no_result_spec [OF async_rows]]) (auto intro: rows_proceed)
  ultimately show ?thesis
    by (cases q) (simp_all add: keeps answers action_rows confirm_rows cancel_rows function_rows registry_rows workflow_rows)
qed

lemma finish_rows:
  assumes "rows S T w"
  shows "at_rest (ffinish (fserve E c q w)) \<and>
    (on_both (proceeds answered S) T (ffinish (fserve E c q w)) \<or> scheduled S T (ffinish (fserve E c q w)))"
proof (cases "fserve E c q w")
  case (Pair r w1)
  show ?thesis
  proof (cases r)
    case (Inl e)
    then have "fserve E c q w = (Inl e, w1)" using Pair by simp
    then have "on_both (proceeds answered S) T (frollback w1)"
      by (intro both_rollback specD(2) [OF serve_rows assms])
    then show ?thesis using Pair Inl by (simp add: ffinish_def frollback_def at_rest_def)
  next
    case (Inr x)
    then have "fserve E c q w = (Inr x, w1)" using Pair by simp
    then have "on_both (proceeds answered S) T w1 \<or> scheduled S T w1"
      by (rule specD(1) [OF serve_rows assms])
    then show ?thesis using Pair Inr
      by (auto simp: ffinish_def fcommit_def at_rest_def on_both_def scheduled_def rows_def)
  qed
qed

subsection \<open>The invariant\<close>

definition executions_inv :: "'x fworld \<Rightarrow> bool" where
  "executions_inv w \<longleftrightarrow>
     at_rest w \<and> executions_ok (fw_db w) \<and> distinct (map at_id (fw_tasks w)) \<and>
     (\<forall>t \<in> set (fw_tasks w). \<exists>e \<in> set (fd_executions (fw_db w)). runs e t)"

definition lifecycle :: "execution_row \<Rightarrow> string \<Rightarrow> bool" where
  "lifecycle e st \<longleftrightarrow>
     (ex_status e = ''pending_confirmation'' \<and> st \<in> {''success'', ''cancelled'', ''expired''}) \<or>
     (ex_status e = ''running'' \<and> st \<in> {''success'', ''failed''})"

lemma rest_rows: "executions_inv w \<Longrightarrow> rows (set (fd_executions (fw_db w))) (fw_tasks w) w"
  by (simp add: executions_inv_def rows_def on_both_def at_rest_def)

lemma proceeds_lifecycle:
  assumes "on_both (proceeds M S) T w" and "\<And>e st. e \<in> S \<Longrightarrow> M e st \<Longrightarrow> lifecycle e st"
  shows "proceeds lifecycle S (fw_db w)"
  using assms unfolding on_both_def proceeds_def by blast

lemma kept_tasks:
  assumes p: "on_both (proceeds M S) T w" and rest: "at_rest w" and "distinct (map at_id T)"
    and run: "\<And>t. t \<in> set T \<Longrightarrow> \<exists>e \<in> S. runs e t \<and> (\<forall>st. \<not> M e st)"
  shows "executions_inv w"
proof -
  have "\<exists>e \<in> set (fd_executions (fw_db w)). runs e t" if t: "t \<in> set T" for t
  proof -
    obtain e where "e \<in> S" "runs e t" "\<forall>st. \<not> M e st" using run [OF t] by blast
    then show ?thesis using p unfolding on_both_def proceeds_def by blast
  qed
  then show ?thesis using assms by (simp add: executions_inv_def on_both_def proceeds_def)
qed

lemma request_keeps:
  assumes inv: "executions_inv w"
  shows "executions_inv (ffinish (fserve E c q w))"
    and "proceeds lifecycle (set (fd_executions (fw_db w))) (fw_db (ffinish (fserve E c q w)))"
proof -
  let ?S = "set (fd_executions (fw_db w))" and ?T = "fw_tasks w" and ?w = "ffinish (fserve E c q w)"
  have rest: "at_rest ?w" and cases: "on_both (proceeds answered ?S) ?T ?w \<or> scheduled ?S ?T ?w"
    using finish_rows [OF rest_rows [OF inv]] by blast+
  have run: "\<exists>e \<in> ?S. runs e t \<and> (\<forall>st. \<not> answered e st)" if "t \<in> set ?T" for t
    using inv that by (fastforce simp: executions_inv_def runs_def answered_def)
  have d: "distinct (map at_id ?T)" using inv by (simp add: executions_inv_def)
  from cases show "executions_inv ?w"
  proof
    assume "on_both (proceeds answered ?S) ?T ?w"
    then show ?thesis by (rule kept_tasks [OF _ rest d run])
  next
    assume "scheduled ?S ?T ?w"
    then obtain e t where r: "rows (insert e ?S) (?T @ [t]) ?w" and e: "runs e t" "ex_id e \<notin> ex_id ` ?S"
      unfolding scheduled_def by blast
    have "at_id t \<notin> at_id ` set ?T"
    proof
      assume "at_id t \<in> at_id ` set ?T"
      then obtain t' e' where "t' \<in> set ?T" "at_id t = at_id t'" "e' \<in> ?S" "runs e' t'"
        using inv unfolding executions_inv_def by blast
      then show False using e by (auto simp: runs_def image_iff)
    qed
    then have d': "distinct (map at_id (?T @ [t]))" using d by simp
    have run': "\<exists>e' \<in> insert e ?S. runs e' t' \<and> (\<forall>st. \<not> False)" if "t' \<in> set (?T @ [t])" for t'
      using run that e(1) by (cases "t' = t") auto
    show ?thesis
      by (rule kept_tasks [OF rows_proceed [OF r] rest d']) (use run' in auto)
  qed
  from cases show "proceeds lifecycle ?S (fw_db ?w)"
  proof
    assume "on_both (proceeds answered ?S) ?T ?w"
    then show ?thesis by (rule proceeds_lifecycle) (auto simp: answered_def lifecycle_def)
  next
    assume "scheduled ?S ?T ?w"
    then show ?thesis by (auto simp: scheduled_def rows_def on_both_def proceeds_def)
  qed
qed

lemma remove_task: "distinct (map at_id ts) \<Longrightarrow> t \<in> set ts \<Longrightarrow> t' \<in> set (remove1 t ts) \<Longrightarrow> at_id t' \<noteq> at_id t"
  by (induction ts) (auto split: if_splits, metis imageI)

lemma background_keeps:
  assumes inv: "executions_inv w" and t: "t \<in> set (fw_tasks w)"
    and w': "w' = run_background E t (w\<lparr>fw_tasks := remove1 t (fw_tasks w)\<rparr>)"
  shows "executions_inv w'" and "proceeds lifecycle (set (fd_executions (fw_db w))) (fw_db w')"
proof -
  let ?S = "set (fd_executions (fw_db w))" and ?T = "remove1 t (fw_tasks w)"
  have "rows ?S ?T (w\<lparr>fw_tasks := ?T\<rparr>)"
    using rest_rows [OF inv] by (simp add: rows_def on_both_def)
  then have p: "on_both (proceeds (completed_task (at_id t)) ?S) ?T w'" and rest: "at_rest w'"
    unfolding w' using background_rows by blast+
  have d: "distinct (map at_id (fw_tasks w))" using inv by (simp add: executions_inv_def)
  then have d': "distinct (map at_id ?T)"
    by (simp add: distinct_map distinct_remove1) (blast intro: inj_on_subset)
  have run: "\<exists>e \<in> ?S. runs e t' \<and> (\<forall>st. \<not> completed_task (at_id t) e st)" if t': "t' \<in> set ?T" for t'
  proof -
    have "t' \<in> set (fw_tasks w)" using t' by (rule subsetD [OF set_remove1_subset])
    then obtain e where "e \<in> ?S" "runs e t'" using inv unfolding executions_inv_def by blast
    then show ?thesis using remove_task [OF d t t'] by (auto simp: runs_def completed_task_def)
  qed
  show "executions_inv w'" by (rule kept_tasks [OF p rest d' run])
  obtain e where e: "e \<in> ?S" "runs e t" using inv t unfolding executions_inv_def by blast
  have ok: "executions_ok (fw_db w)" using inv by (simp add: executions_inv_def)
  show "proceeds lifecycle ?S (fw_db w')"
  proof (rule proceeds_lifecycle [OF p])
    fix e' st assume e': "e' \<in> ?S" "completed_task (at_id t) e' st"
    then have "e' = e" using same_row [OF ok] e by (simp add: runs_def completed_task_def)
    then show "lifecycle e' st" using e e' by (simp add: lifecycle_def runs_def completed_task_def)
  qed
qed

lemma step_keeps:
  assumes "executions_inv w" and "fstep E w w'"
  shows "executions_inv w'" and "proceeds lifecycle (set (fd_executions (fw_db w))) (fw_db w')"
proof -
  have "executions_inv w' \<and> proceeds lifecycle (set (fd_executions (fw_db w))) (fw_db w')"
    using assms(2,1)
  proof (cases rule: fstep.cases)
    case (request c q)
    then show ?thesis using request_keeps assms(1) by blast
  next
    case (background t)
    then show ?thesis using background_keeps assms(1) by blast
  next
    case (outside x n)
    then show ?thesis using assms(1) by (simp add: executions_inv_def at_rest_def proceeds_def)
  qed
  then show "executions_inv w'" and "proceeds lifecycle (set (fd_executions (fw_db w))) (fw_db w')" by blast+
qed

lemma reachable_inv: "freachable E w \<Longrightarrow> executions_inv w"
proof (induction rule: freachable.induct)
  case (start w)
  then show ?case by (simp add: executions_inv_def empty_fundb_def executions_ok_def)
next
  case (step w w')
  then show ?case using step_keeps(1) by blast
qed

lemma closed_stays:
  assumes "(fstep E)\<^sup>*\<^sup>* w w'" and "executions_inv w" and "e \<in> set (fd_executions (fw_db w))" and "ex_status e \<in> CLOSED"
  shows "executions_inv w' \<and> e \<in> set (fd_executions (fw_db w'))"
  using assms
proof (induction rule: rtranclp_induct)
  case base
  then show ?case by blast
next
  case (step w' w'')
  then have inv: "executions_inv w'" and e: "e \<in> set (fd_executions (fw_db w'))" by blast+
  have "\<not> lifecycle e st" for st using step.prems(3) by (auto simp: lifecycle_def CLOSED_def)
  then have "e \<in> set (fd_executions (fw_db w''))"
    using step_keeps(2) [OF inv step.hyps(2)] e unfolding proceeds_def by blast
  then show ?case using step_keeps(1) [OF inv step.hyps(2)] by blast
qed

end
