(* ===== verification/Function_Safety.thy ===== *)
theory Function_Safety
  imports Function_Lifecycle Graph_Repo
begin

section \<open>What the execution of actions and functions guarantees\<close>

text \<open>
  The properties of the function package: the life of executions over all interleavings of requests
  and background tasks, the confirmation of unsafe actions and its window, batches, and what becomes
  of the loading of actions with the lookup the ontology package offers.
\<close>

subsection \<open>A concrete world for the witnesses\<close>

definition quiet_outside :: "unit outside" where
  "quiet_outside = \<lparr>os_http = (\<lambda>_ x. (Http_timeout, x)), os_run = (\<lambda>_ _ _ x. (Killed, x)), os_getenv = (\<lambda>_. None),
     os_json_error = (\<lambda>_. [])\<rparr>"

definition sample_action :: "pyval dict" where
  "sample_action = [(''rid'', PStr ''a''), (''safety_level'', PStr ''SAFETY_CRITICAL''),
     (''execution'', PDict [(''type'', PStr ''native_crud'')])]"

definition sample_env :: "unit fenv" where
  "sample_env = \<lparr>fe_uuid = (\<lambda>n. if n = 0 then ''000000000000'' else ''111111111111''), fe_now = int, fe_iso = (\<lambda>_. []),
     fe_object_type = (\<lambda>_ _ _. Inr (Some sample_action)), fe_link_type = (\<lambda>_ _ _. Inr None),
     fe_action_types = (\<lambda>_ _ _ _. Inr ([], 0)), fe_instance = (\<lambda>_ _ _ x. (Inr None, x)),
     fe_instances = (\<lambda>_ _ _ _ _ x. (Inr PNone, x)), fe_outside = quiet_outside\<rparr>"

definition sample_ctx :: ctx where
  "sample_ctx = \<lparr>ctx_user_id = Some ''u'', ctx_tenant_id = Some ''t'', ctx_role = None, ctx_request_id = None\<rparr>"

definition sample_world :: "unit fworld" where
  "sample_world = \<lparr>fw_db = empty_fundb, fw_tx = empty_fundb, fw_began = None, fw_ext = (), fw_tasks = [], fw_draws = 0, fw_ticks = 0\<rparr>"

subsection \<open>The life of an execution\<close>




text \<open>A request that asks for confirmation, and what cancelling it later does.\<close>

definition asked_world :: "unit fworld" where
  "asked_world = ffinish (fserve sample_env sample_ctx (Execute_action ''a'' [] None False) sample_world)"

definition cancelled_world :: "unit fworld" where
  "cancelled_world = ffinish (fserve sample_env sample_ctx (Cancel_execution ''exec_000000000000'') asked_world)"

lemma asked_reachable: "freachable sample_env asked_world"
  unfolding asked_world_def
  by (rule freachable.step [OF freachable.start fstep.request]) (simp_all add: sample_world_def at_rest_def)

definition asked_row :: execution_row where
  "asked_row = \<lparr>ex_id = ''exec_000000000000'', ex_tenant = ''t'', ex_ctype = ''action'', ex_crid = ''a'',
     ex_status = ''pending_confirmation'', ex_params = [], ex_result = None, ex_safety = PStr ''SAFETY_CRITICAL'',
     ex_side_effects = PList [], ex_user = ''u'', ex_branch = None, ex_started = 0, ex_completed = None,
     ex_confirmed = None, ex_confirmed_by = None\<rparr>"

lemma asked_rows:
  "fd_executions (fw_db asked_world) = [asked_row]"
  "fd_executions (fw_db cancelled_world) = [asked_row\<lparr>ex_status := ''cancelled'', ex_completed := Some 3\<rparr>]"
  by code_simp+



subsection \<open>Confirmation\<close>

text \<open>The engines are behind \<open>fe_outside\<close>; nothing else of a request that asks reads it.\<close>

lemma other_outside:
  "sql (E\<lparr>fe_outside := W\<rparr>) = (sql E :: (int \<Rightarrow> fundb \<Rightarrow> 'a res \<times> fundb) \<Rightarrow> ('x, 'a) fop)"
  "fclock (E\<lparr>fe_outside := W\<rparr>) = fclock E" "fuuid (E\<lparr>fe_outside := W\<rparr>) = fuuid E"
  by (simp_all add: fun_eq_iff sql_def fclock_def fuuid_def cong: option.case_cong)

lemma ask_outside:
  "new_execution_id (E\<lparr>fe_outside := W\<rparr>) = new_execution_id E"
  "load_action (E\<lparr>fe_outside := W\<rparr>) = load_action E"
  "resolve_params (E\<lparr>fe_outside := W\<rparr>) = resolve_params E"
  "ask_confirmation (E\<lparr>fe_outside := W\<rparr>) = ask_confirmation E"
proof -
  have inst: "resolve_instance (E\<lparr>fe_outside := W\<rparr>) = resolve_instance E"
    by (intro ext) (simp add: resolve_instance_def cong: pyval.case_cong)
  have param: "resolve_param (E\<lparr>fe_outside := W\<rparr>) = resolve_param E"
    by (intro ext) (unfold resolve_param_def inst, rule refl)
  show "resolve_params (E\<lparr>fe_outside := W\<rparr>) = resolve_params E"
    by (intro ext) (unfold resolve_params_def param, rule refl)
  show "new_execution_id (E\<lparr>fe_outside := W\<rparr>) = new_execution_id E"
    by (simp add: new_execution_id_def other_outside)
  show "load_action (E\<lparr>fe_outside := W\<rparr>) = load_action E"
    by (intro ext) (simp add: load_action_def)
  show "ask_confirmation (E\<lparr>fe_outside := W\<rparr>) = ask_confirmation E"
    by (intro ext) (simp add: ask_confirmation_def log_start_def execution_create_def other_outside)
qed

text \<open>The request when its action is not direct.\<close>

definition asking :: "'x fenv \<Rightarrow> ctx \<Rightarrow> string \<Rightarrow> pyval dict \<Rightarrow> string option \<Rightarrow> ('x, execution_response) fop" where
  "asking E c rid params branch =
     bindC (liftC (get_tenant_id c)) (\<lambda>tenant.
     bindC (liftC (get_user_id c)) (\<lambda>user.
     bindC (new_execution_id E) (\<lambda>eid.
     bindC (load_action E c rid) (\<lambda>ad.
     bindC (resolve_params E c (ad_parameters ad) params) (\<lambda>resolved.
     bindC (liftC (safety_check (ad_safety_level ad) (ad_outputs ad) (ad_side_effects ad) False)) (\<lambda>decision.
     ask_confirmation E tenant user eid ad decision params branch))))))"

lemma asks: "is_direct level \<noteq> Inr True \<Longrightarrow> safety_check level outs se False = Inr dec \<Longrightarrow> sd_confirm dec"
  by (auto simp: safety_check_def bindE_def split: sum.splits if_splits)

definition needs_confirmation :: "'x fenv \<Rightarrow> string \<Rightarrow> string \<Rightarrow> 'x fworld \<Rightarrow> bool" where
  "needs_confirmation E rid tenant w \<longleftrightarrow>
     (\<forall>ad. bindE (fe_object_type E rid tenant (fw_ext w)) (parse_action rid) = Inr ad \<longrightarrow>
        is_direct (ad_safety_level ad) \<noteq> Inr True)"

lemma bindC_cong_left:
  "(\<And>x t. m s = (Inr x, t) \<Longrightarrow> f x t = g x t) \<Longrightarrow> bindC m f s = bindC m g s"
  by (auto simp: bindC_def split: prod.splits sum.splits)

lemma unsafe_asks:
  assumes "ctx_tenant_id c = Some tenant" and "needs_confirmation E rid tenant w"
  shows "execute_action E c rid params branch False w = asking E c rid params branch w"
  unfolding execute_action_def asking_def
proof (rule bindC_cong_left, rule bindC_cong_left, rule bindC_cong_left, rule bindC_cong_left, rule bindC_cong_left, rule bindC_cong_left)
  fix tn user eid ad res dec and w1 w2 w3 w4 w5 w6 :: "'a fworld"
  assume r: "liftC (get_tenant_id c) w = (Inr tn, w1)" "liftC (get_user_id c) w1 = (Inr user, w2)"
    "new_execution_id E w2 = (Inr eid, w3)" "load_action E c rid w3 = (Inr ad, w4)"
    "liftC (safety_check (ad_safety_level ad) (ad_outputs ad) (ad_side_effects ad) False) w5 = (Inr dec, w6)"
  have "fw_ext w3 = fw_ext w"
    using r(1,2,3) by (auto simp: new_execution_id_def fuuid_def bindC_def split: sum.splits)
  then have "bindE (fe_object_type E rid tenant (fw_ext w)) (parse_action rid) = Inr ad"
    using r(4) assms(1) by (auto simp: load_action_def get_tenant_id_def ext_read_def bindC_def bindE_def split: sum.splits)
  then have "sd_confirm dec"
    using assms(2) asks r(5) unfolding needs_confirmation_def by (auto split: sum.splits)
  then show "(if sd_confirm dec then ask_confirmation E tn user eid ad dec params branch
      else run_action E c tn user eid ad res params branch False) w6 = ask_confirmation E tn user eid ad dec params branch w6"
    by simp
qed

definition waits_for :: "string \<Rightarrow> pyval dict \<Rightarrow> string option \<Rightarrow> execution_response \<Rightarrow> 'x fworld \<Rightarrow> bool" where
  "waits_for rid params branch r w \<longleftrightarrow> xr_status r = ''pending_confirmation'' \<and>
     (\<exists>e \<in> set (fd_executions (fw_db w)). ex_id e = xr_id r \<and> ex_status e = ''pending_confirmation'' \<and> ex_crid e = rid \<and>
        ex_params e = params \<and> ex_branch e = branch)"

abbreviation anywhere :: "'s \<Rightarrow> bool" where "anywhere \<equiv> \<lambda>_. True"

lemma any_spec: "spec anywhere m (\<lambda>_. anywhere) anywhere"
  by (auto simp: spec_def split: prod.splits sum.splits)

lemma loaded_rid: "spec anywhere (load_action E c rid) (\<lambda>ad w. ad_rid ad = rid) anywhere"
  by (auto simp: spec_def load_action_def parse_action_def bindE_def ext_read_def bindC_def Let_def
      split: prod.splits sum.splits option.splits if_splits)

lemma asking_waits: "spec anywhere (asking E c rid params branch) (\<lambda>r w. waits_for rid params branch r w) anywhere"
proof -
  have create: "spec anywhere (execution_create E mk) (\<lambda>e w. e \<in> set (fd_executions (fw_tx w)) \<and> (\<exists>now. e = mk now)) anywhere" for mk
    unfolding spec_def
  proof (intro allI impI)
    fix w :: "'a fworld"
    let ?f = "\<lambda>now d. if ex_id (mk now) \<in> ex_id ` set (fd_executions d) then (Inl integrity_error, d)
       else (Inr (mk now), d\<lparr>fd_executions := fd_executions d @ [mk now]\<rparr>)"
    obtain now w' where run: "sql E ?f w = (fst (?f now (fw_tx w)), w')" and tx: "fw_tx w' = snd (?f now (fw_tx w))"
      by (rule sql_run)
    then show "case execution_create E mk w of (Inl e, t) \<Rightarrow> True
        | (Inr e, t) \<Rightarrow> e \<in> set (fd_executions (fw_tx t)) \<and> (\<exists>now. e = mk now)"
      unfolding execution_create_def run by (auto split: if_splits)
  qed
  have tail: "spec (\<lambda>w. e \<in> set (fd_executions (fw_tx w)) \<and> b) (bindC fcommit (\<lambda>_. bindC (fclock E) (\<lambda>started. retC (r started))))
      (\<lambda>x w. e \<in> set (fd_executions (fw_db w)) \<and> b \<and> (\<exists>started. x = r started)) anywhere" for e b and r :: "int \<Rightarrow> execution_response"
    by (auto simp: spec_def fcommit_def fclock_def bindC_def)
  show ?thesis
    unfolding asking_def ask_confirmation_def log_start_def
    by (rule spec_bindC [OF any_spec], rule spec_bindC [OF any_spec], rule spec_bindC [OF any_spec],
        rule spec_bindC [OF loaded_rid], rule spec_fact [of _ anywhere, simplified], rule spec_bindC [OF any_spec], rule spec_bindC [OF any_spec],
        rule spec_bindC [OF create], rule spec_post [OF tail]) (auto simp: waits_for_def, erule rev_bexI, simp)
qed

lemma asking_logs:
  assumes "fw_tx w = fw_db w"
  shows "fd_editlogs (fw_db (snd (asking E c rid params branch w))) = fd_editlogs (fw_db w)"
proof -
  let ?I = "\<lambda>d. fd_editlogs d = fd_editlogs (fw_db w)"
  have create: "steady (on_both ?I T) (execution_create E mk)" for mk T
    unfolding execution_create_def by (rule both_sql) (auto split: if_splits)
  have "steady (on_both ?I T) (asking E c rid params branch)" for T
    unfolding asking_def ask_confirmation_def log_start_def
    by (intro stable_bindC pipeline_stable(2-4) create both_quiet stable_pure)
  moreover have "on_both ?I (fw_tasks w) w" using assms by (simp add: on_both_def)
  ultimately have "on_both ?I (fw_tasks w) (snd (asking E c rid params branch w))" by (rule stable_snd)
  then show ?thesis by (simp add: on_both_def)
qed

text \<open>
C28. An action whose safety level is not one of the two direct ones, called without leave to skip the
confirmation, never reaches its engine: the answer and the new state are the same for every HTTP
client and every operating system, nothing is written back, and when the call returns it has
committed a row that waits for confirmation with the parameters of the call.
\<close>

theorem unsafe_actions_wait:
  assumes "ctx_tenant_id c = Some tenant" and "needs_confirmation E rid tenant w" and "fw_tx w = fw_db w"
  shows "execute_action (E\<lparr>fe_outside := W\<rparr>) c rid params branch False w = execute_action E c rid params branch False w \<and>
    fd_editlogs (fw_db (snd (execute_action E c rid params branch False w))) = fd_editlogs (fw_db w) \<and>
    (\<forall>r w'. execute_action E c rid params branch False w = (Inr r, w') \<longrightarrow> waits_for rid params branch r w')"
proof -
  have "needs_confirmation (E\<lparr>fe_outside := W\<rparr>) rid tenant w" using assms(2) by (simp add: needs_confirmation_def)
  then have "execute_action (E\<lparr>fe_outside := W\<rparr>) c rid params branch False w = asking (E\<lparr>fe_outside := W\<rparr>) c rid params branch w"
    by (rule unsafe_asks [OF assms(1)])
  also have "\<dots> = asking E c rid params branch w" unfolding asking_def ask_outside by (rule refl)
  finally have a: "execute_action (E\<lparr>fe_outside := W\<rparr>) c rid params branch False w = asking E c rid params branch w" .
  have "waits_for rid params branch r w'" if "asking E c rid params branch w = (Inr r, w')" for r w'
    by (rule specD(1) [OF asking_waits TrueI that])
  then show ?thesis using a asking_logs [OF assms(3)] by (simp add: unsafe_asks [OF assms(1,2)])
qed

theorem unsafe_actions_wait_witness:
  "fd_editlogs (fw_db (snd (execute_action sample_env sample_ctx ''a'' [] None False sample_world))) = [] \<and>
   map ex_status (fd_executions (fw_db (snd (execute_action sample_env sample_ctx ''a'' [] None False sample_world)))) =
     [''pending_confirmation'']"
proof -
  have n: "needs_confirmation sample_env ''a'' ''t'' sample_world"
  proof -
    have "bindE (fe_object_type sample_env ''a'' ''t'' (fw_ext sample_world)) (parse_action ''a'') = Inr ad \<Longrightarrow>
        ad_safety_level ad = PStr ''SAFETY_CRITICAL''" for ad
      by (auto simp: sample_env_def sample_action_def parse_action_def extract_outputs_def config_key_of_def as_dict_def
          as_key_def CONFIG_KEY_MAP_def bindE_def dget_or_def Let_def)
    moreover have "is_direct (PStr ''SAFETY_CRITICAL'') = Inr False" by code_simp
    ultimately show ?thesis unfolding needs_confirmation_def by fastforce
  qed
  have "fd_editlogs (fw_db (snd (execute_action sample_env sample_ctx ''a'' [] None False sample_world))) = []"
    using unsafe_actions_wait [OF _ n, of sample_ctx quiet_outside "[]" None]
    by (simp add: sample_ctx_def sample_world_def empty_fundb_def)
  moreover have "map ex_status (fd_executions (fw_db (snd (execute_action sample_env sample_ctx ''a'' [] None False sample_world)))) =
     [''pending_confirmation'']" by code_simp
  ultimately show ?thesis by blast
qed

subsection \<open>The window of a confirmation\<close>

lemma only_execution:
  assumes "distinct (map ex_id es)" and "e \<in> set es"
  shows "filter (is_execution (ex_id e) (ex_tenant e)) es = [e]"
  using assms
proof (induction es)
  case (Cons a es)
  show ?case
  proof (cases "e = a")
    case True
    then have "filter (is_execution (ex_id e) (ex_tenant e)) es = []"
      using Cons.prems by (auto simp: filter_empty_conv is_execution_def image_iff)
    moreover have "is_execution (ex_id e) (ex_tenant e) a" using True by (simp add: is_execution_def)
    ultimately show ?thesis using True by simp
  next
    case False
    then have "\<not> is_execution (ex_id e) (ex_tenant e) a" using Cons.prems by (auto simp: is_execution_def)
    then show ?thesis using False Cons by simp
  qed
qed simp

definition set_row :: "execution_row \<Rightarrow> execution_change \<Rightarrow> fundb \<Rightarrow> fundb" where
  "set_row e ch d = d\<lparr>fd_executions :=
     map (\<lambda>x. if is_execution (ex_id e) (ex_tenant e) x then execution_assign ch x else x) (fd_executions d)\<rparr>"

lemma find_row:
  assumes "executions_ok (fw_tx w)" and "e \<in> set (fd_executions (fw_tx w))" and "fw_began w = None"
  shows "execution_get_by_id E (ex_id e) (ex_tenant e) w =
    (Inr (Some e), w\<lparr>fw_began := Some (fe_now E (fw_ticks w)), fw_ticks := Suc (fw_ticks w)\<rparr>)"
  using only_execution [of "fd_executions (fw_tx w)" e] assms
  by (simp add: execution_get_by_id_def sql_def executions_ok_def one_or_none_def)

lemma update_row:
  assumes "executions_ok (fw_tx w)" and "e \<in> set (fd_executions (fw_tx w))" and "fw_began w = Some t"
  shows "execution_update_status E (ex_id e) (ex_tenant e) ch w =
    (Inr (Some (execution_assign ch e)), w\<lparr>fw_tx := set_row e ch (fw_tx w)\<rparr>)"
proof -
  have "filter (is_execution (ex_id e) (ex_tenant e)) (map (\<lambda>x. if is_execution (ex_id e) (ex_tenant e) x then execution_assign ch x else x) es)
      = map (execution_assign ch) (filter (is_execution (ex_id e) (ex_tenant e)) es)" for es
    by (induction es) (auto simp: is_execution_def)
  then show ?thesis
    using only_execution [of "fd_executions (fw_tx w)" e] assms
    by (simp add: execution_update_status_def execution_get_by_id_def sql_def bindC_def executions_ok_def one_or_none_def set_row_def)
qed

text \<open>
C29. Confirming an execution that waits is decided by the second reading of the clock. Up to ten
minutes after its start the recorded action is run, without a further question, and then its row is
closed; later the row becomes expired, nothing outside is touched and the caller gets an error.
\<close>

theorem confirmation_window:
  assumes "freachable E w" and "e \<in> set (fd_executions (fw_db w))" and "ex_status e = ''pending_confirmation''"
    and "ctx_tenant_id c = Some (ex_tenant e)"
  shows "if fe_now E (Suc (fw_ticks w)) > ex_started e + 600000000
    then \<exists>w'. confirm_execution E c (ex_id e) w = (Inl confirmation_expired, w') \<and> fw_ext w' = fw_ext w \<and>
      fw_tasks w' = fw_tasks w \<and>
      fw_db w' = set_row e \<lparr>xc_status = ''expired'', xc_result = None, xc_completed = Some (fe_now E (Suc (Suc (fw_ticks w)))),
        xc_confirmed = None, xc_confirmed_by = None\<rparr> (fw_db w)
    else confirm_execution E c (ex_id e) w =
      bindC (execute_action E c (ex_crid e) (ex_params e) (ex_branch e) True) (confirm_record E (ex_tenant e) (ex_id e))
        (w\<lparr>fw_began := Some (fe_now E (fw_ticks w)), fw_ticks := Suc (Suc (fw_ticks w))\<rparr>)"
proof -
  have inv: "executions_ok (fw_tx w)" "fw_began w = None" "fw_tx w = fw_db w"
    using reachable_inv [OF assms(1)] by (simp_all add: executions_inv_def at_rest_def)
  let ?w = "w\<lparr>fw_began := Some (fe_now E (fw_ticks w)), fw_ticks := Suc (Suc (fw_ticks w))\<rparr>"
  have found: "execution_get_by_id E (ex_id e) (ex_tenant e) w =
      (Inr (Some e), w\<lparr>fw_began := Some (fe_now E (fw_ticks w)), fw_ticks := Suc (fw_ticks w)\<rparr>)"
    using find_row inv assms(2) by metis
  have checked: "confirm_check E (ex_tenant e) (ex_id e) w =
      (if fe_now E (Suc (fw_ticks w)) > ex_started e + 600000000
       then bindC (log_complete E (ex_id e) (ex_tenant e) ''expired'' None None) (\<lambda>_.
         bindC fcommit (\<lambda>_. raiseC confirmation_expired)) ?w
       else (Inr e, ?w))"
    using found assms(3) by (simp add: confirm_check_def pending_execution_def bindC_def fclock_def CONFIRMATION_TTL_def)
  show ?thesis
  proof (cases "fe_now E (Suc (fw_ticks w)) > ex_started e + 600000000")
    case True
    let ?u = "?w\<lparr>fw_ticks := Suc (Suc (Suc (fw_ticks w)))\<rparr>"
    let ?ch = "\<lparr>xc_status = ''expired'', xc_result = None, xc_completed = Some (fe_now E (Suc (Suc (fw_ticks w)))),
      xc_confirmed = None, xc_confirmed_by = None\<rparr>"
    have "execution_update_status E (ex_id e) (ex_tenant e) ?ch ?u =
        (Inr (Some (execution_assign ?ch e)), ?u\<lparr>fw_tx := set_row e ?ch (fw_tx ?u)\<rparr>)"
      by (rule update_row) (use inv assms(2) in simp_all)
    then have "confirm_check E (ex_tenant e) (ex_id e) w =
        (Inl confirmation_expired, snd (fcommit (?u\<lparr>fw_tx := set_row e ?ch (fw_tx ?u)\<rparr>)))"
      unfolding checked using True by (simp add: log_complete_def bindC_def fclock_def fcommit_def)
    then show ?thesis
      using True assms(4) inv(3) by (simp add: confirm_execution_def get_tenant_id_def bindC_def fcommit_def)
  next
    case False
    then show ?thesis
      using checked assms(4) by (simp add: confirm_execution_def get_tenant_id_def bindC_def)
  qed
qed

theorem confirmation_window_witness:
  "confirm_execution sample_env sample_ctx ''exec_000000000000'' asked_world =
     bindC (execute_action sample_env sample_ctx ''a'' [] None True) (confirm_record sample_env ''t'' ''exec_000000000000'')
       (asked_world\<lparr>fw_began := Some 2, fw_ticks := 4\<rparr>)"
proof -
  have "asked_row \<in> set (fd_executions (fw_db asked_world))" by (simp add: asked_rows)
  moreover have "fw_ticks asked_world = 2" by code_simp
  ultimately show ?thesis
    using confirmation_window [OF asked_reachable, of asked_row sample_ctx]
    by (simp add: asked_row_def sample_ctx_def sample_env_def numeral_eq_Suc)
qed

subsection \<open>Loading actions\<close>

text \<open>
C30. With the lookup the ontology package offers - published versions of object types - an action
cannot be executed: where the graph knows the identifier as one of an action type only, the answer is
FUNCTION_NOT_FOUND, whatever the safety level, and no table is changed.
\<close>

theorem action_types_do_not_load:
  assumes "fe_object_type E rid tenant (fw_ext w) = Inr (get_active_node ''ObjectType'' rid tenant g)"
    and "\<And>n. n \<in> set (gnodes g) \<Longrightarrow> node_is n ''rid'' (PStr rid) \<Longrightarrow> nlabel n = ''ActionType''"
    and "ctx_tenant_id c = Some tenant" and "ctx_user_id c = Some user"
  shows "\<exists>w'. execute_action E c rid params branch skip w =
      (Inl (AppError FUNCTION_NOT_FOUND (''ActionType '' @ rid @ '' not found'') []), w') \<and>
    fw_db w' = fw_db w \<and> fw_tx w' = fw_tx w \<and> fw_ext w' = fw_ext w"
proof -
  have "match_nodes g ''ObjectType'' (identity_conds rid tenant @
      [(''is_draft'', PBool False), (''is_staging'', PBool False), (''is_active'', PBool True)]) = []"
    using assms(2) by (auto simp: match_nodes_def identity_conds_def node_all_def filter_empty_conv)
  then have "get_active_node ''ObjectType'' rid tenant g = None"
    by (simp add: get_active_node_def single_def)
  then have "load_action E c rid (w\<lparr>fw_draws := n\<rparr>) =
      (Inl (AppError FUNCTION_NOT_FOUND (''ActionType '' @ rid @ '' not found'') []), w\<lparr>fw_draws := n\<rparr>)" for n
    using assms(1,3) by (simp add: load_action_def get_tenant_id_def ext_read_def bindC_def parse_action_def)
  then show ?thesis
    using assms(3,4)
    by (simp add: execute_action_def get_tenant_id_def get_user_id_def new_execution_id_def fuuid_def bindC_def)
qed

definition action_node :: gnode where
  "action_node = \<lparr>nid = 0, nlabel = ''ActionType'',
     nprops = [(''rid'', PStr ''a''), (''tenant_id'', PStr ''t''), (''is_draft'', PBool False), (''is_staging'', PBool False), (''is_active'', PBool True)]\<rparr>"

theorem action_types_do_not_load_witness:
  "\<exists>w'. execute_action (sample_env\<lparr>fe_object_type := (\<lambda>rid tenant _.
       Inr (get_active_node ''ObjectType'' rid tenant \<lparr>gnodes = [action_node], gedges = [], gnext = 1\<rparr>))\<rparr>)
     sample_ctx ''a'' [] None True sample_world = (Inl (AppError FUNCTION_NOT_FOUND ''ActionType a not found'' []), w') \<and>
   fw_db w' = fw_db sample_world"
proof -
  let ?g = "\<lparr>gnodes = [action_node], gedges = [], gnext = 1\<rparr>"
  let ?E = "sample_env\<lparr>fe_object_type := (\<lambda>rid tenant _. Inr (get_active_node ''ObjectType'' rid tenant ?g))\<rparr>"
  show ?thesis
    using action_types_do_not_load [of ?E "''a''" "''t''" sample_world ?g sample_ctx "''u''" "[]" None True]
    by (auto simp: sample_ctx_def action_node_def)
qed

end
