(* ===== verification/Data_Pipeline.thy ===== *)
theory Data_Pipeline
  imports Function_External
begin

section \<open>From schemas to rows\<close>

text \<open>
  \<open>data/pipeline\<close>: compliance masking (\<open>masking.py\<close>), virtual fields (\<open>virtual_eval.py\<close>), the
  description of a type for queries (\<open>schema_loader.py\<close>, the loading part), the translation of names
  to columns (\<open>query_engine.py\<close>) and the replay of edit logs on rows (\<open>merge.py\<close>). Values of a row
  are JSON values. The parser of Python expressions and the arithmetic of Python values are
  parameters (\<open>pyops\<close>); the evaluation of a parsed expression is the code's.
\<close>

subsection \<open>Masking\<close>

definition mask_value :: "pyval \<Rightarrow> pyval \<Rightarrow> pyval" where
  "mask_value value strategy =
     (if value = PNone then PNone
      else if strategy = PStr ''MASK_NONE'' then value
      else if strategy = PStr ''MASK_NULLIFY'' then PNone
      else if strategy = PStr ''MASK_REDACT_FULL'' then PStr ''***''
      else if strategy = PStr ''SHOW_LAST_4'' then
        (let s = py_str value in if length s \<le> 4 then PStr ''***'' else PStr (''***'' @ drop (length s - 4) s))
      else if strategy = PStr ''MASK_PHONE_MIDDLE'' then
        (let s = py_str value in
         if length s \<ge> 7 then PStr (take 3 s @ ''****'' @ drop (length s - 4) s) else PStr ''***'')
      else PStr ''***'')"

definition mask_field :: "string \<times> pyval \<Rightarrow> pyval dict \<Rightarrow> pyval dict" where
  "mask_field rule masked =
     (case dget masked (fst rule) of
        Some v \<Rightarrow> dput (fst rule) (mask_value v (snd rule)) masked
      | None \<Rightarrow> masked)"

definition apply_masking :: "pyval dict list \<Rightarrow> pyval dict \<Rightarrow> pyval dict list" where
  "apply_masking rows rules = (if rules = [] then rows else map (fold mask_field rules) rows)"

text \<open>The strategy a property type prescribes, if its compliance asks for one.\<close>

definition prescribed :: "pyval dict \<Rightarrow> pyval option res" where
  "prescribed pt =
     (let compliance = pget pt ''compliance'' in
      if \<not> py_truthy compliance then Inr None
      else bindE (as_dict compliance) (\<lambda>c.
        let sensitivity = dget_or c ''sensitivity'' (PStr ''PUBLIC''); strategy = dget_or c ''masking_strategy'' (PStr ''MASK_NONE'') in
        Inr (if sensitivity \<noteq> PStr ''PUBLIC'' \<and> strategy \<noteq> PStr ''MASK_NONE'' then Some strategy else None)))"

definition masking_rule :: "pyval dict \<Rightarrow> pyval dict \<Rightarrow> pyval dict res" where
  "masking_rule pt rules =
     bindE (prescribed pt) (\<lambda>s.
     case s of
       None \<Rightarrow> Inr rules
     | Some strategy \<Rightarrow> bindE (as_key (dget_or pt ''api_name'' (PStr []))) (\<lambda>name. Inr (dput name strategy rules)))"

definition build_masking_rules :: "pyval dict list \<Rightarrow> pyval dict res" where
  "build_masking_rules property_types = foldE masking_rule property_types []"

subsection \<open>Virtual fields\<close>

datatype vop = VAdd | VSub | VMult | VDiv | VOther_op

text \<open>What \<open>_eval_node\<close> distinguishes of a parsed expression.\<close>

datatype vexpr =
    VConst pyval
  | VName string
  | VBin vop vexpr vexpr
  | VNeg vexpr
  | VCall string "vexpr list"
  | VOther

text \<open>\<open>None\<close> is an exception.\<close>

record pyops =
  vo_parse :: "string \<Rightarrow> vexpr option"
  vo_binop :: "vop \<Rightarrow> pyval \<Rightarrow> pyval \<Rightarrow> pyval option"
  vo_neg :: "pyval \<Rightarrow> pyval option"
  vo_abs :: "pyval \<Rightarrow> pyval option"
  vo_int :: "pyval \<Rightarrow> int option"
  vo_round :: "pyval \<Rightarrow> int \<Rightarrow> pyval option"

definition call_builtin :: "pyops \<Rightarrow> string \<Rightarrow> pyval list \<Rightarrow> pyval option" where
  "call_builtin P func_name args =
     (if func_name = ''CONCAT'' then Some (PStr (concat (map py_str (filter (\<lambda>a. a \<noteq> PNone) args))))
      else if func_name = ''IF'' \<and> length args = 3 then Some (if py_truthy (args ! 0) then args ! 1 else args ! 2)
      else if func_name = ''ABS'' \<and> length args = 1 \<and> args ! 0 \<noteq> PNone then vo_abs P (args ! 0)
      else if func_name = ''ROUND'' \<and> length args \<ge> 1 \<and> args ! 0 \<noteq> PNone then
        (case (if length args > 1 \<and> args ! 1 \<noteq> PNone then vo_int P (args ! 1) else Some 0) of
           None \<Rightarrow> None
         | Some n \<Rightarrow> vo_round P (args ! 0) n)
      else Some PNone)"

fun eval_node :: "pyops \<Rightarrow> vexpr \<Rightarrow> pyval dict \<Rightarrow> pyval option"
  and eval_args :: "pyops \<Rightarrow> vexpr list \<Rightarrow> pyval dict \<Rightarrow> pyval list option" where
  "eval_node P (VConst v) row = Some v"
| "eval_node P (VName x) row = Some (pget row x)"
| "eval_node P (VBin bop l r) row =
     (case eval_node P l row of
        None \<Rightarrow> None
      | Some a \<Rightarrow>
          (case eval_node P r row of
             None \<Rightarrow> None
           | Some b \<Rightarrow> if bop \<noteq> VOther_op \<and> a \<noteq> PNone \<and> b \<noteq> PNone then vo_binop P bop a b else Some PNone))"
| "eval_node P (VNeg e) row =
     (case eval_node P e row of
        None \<Rightarrow> None
      | Some a \<Rightarrow> if a \<noteq> PNone then vo_neg P a else Some PNone)"
| "eval_node P (VCall f es) row =
     (case eval_args P es row of None \<Rightarrow> None | Some args \<Rightarrow> call_builtin P (upper f) args)"
| "eval_node P VOther row = Some PNone"
| "eval_args P [] row = Some []"
| "eval_args P (e # es) row =
     (case eval_node P e row of
        None \<Rightarrow> None
      | Some a \<Rightarrow> (case eval_args P es row of None \<Rightarrow> None | Some as \<Rightarrow> Some (a # as)))"

definition evaluate_expression :: "pyops \<Rightarrow> pyval \<Rightarrow> pyval dict \<Rightarrow> pyval" where
  "evaluate_expression P expression row =
     (case expression of
        PStr s \<Rightarrow>
          (case vo_parse P s of
             None \<Rightarrow> PNone
           | Some e \<Rightarrow> (case eval_node P e row of None \<Rightarrow> PNone | Some v \<Rightarrow> v))
      | _ \<Rightarrow> PNone)"

definition virtual_field :: "pyops \<Rightarrow> string \<times> pyval \<Rightarrow> pyval dict \<Rightarrow> pyval dict" where
  "virtual_field P f enriched = dput (fst f) (evaluate_expression P (snd f) enriched) enriched"

definition apply_virtual_fields :: "pyops \<Rightarrow> pyval dict list \<Rightarrow> pyval dict \<Rightarrow> pyval dict list" where
  "apply_virtual_fields P rows vfields = (if vfields = [] then rows else map (fold (virtual_field P) vfields) rows)"

subsection \<open>Schemas\<close>

record schema_info =
  si_type_rid :: string
  si_property_types :: "pyval dict list"
  si_asset_mapping :: pyval
  si_physical_columns :: "pyval list"
  si_virtual_fields :: "pyval dict"
  si_sortable :: "pyval list"
  si_filterable :: "pyval list"
  si_masked :: "string list"
  si_primary_key :: "string list"

definition empty_schema :: "string \<Rightarrow> pyval dict list \<Rightarrow> pyval \<Rightarrow> schema_info" where
  "empty_schema type_rid property_types asset_mapping =
     \<lparr>si_type_rid = type_rid, si_property_types = property_types, si_asset_mapping = asset_mapping,
      si_physical_columns = [], si_virtual_fields = [], si_sortable = [], si_filterable = [], si_masked = [],
      si_primary_key = []\<rparr>"

definition add_column :: "pyval dict \<Rightarrow> schema_info \<Rightarrow> schema_info res" where
  "add_column pt s =
     (let col = pget pt ''physical_column''; expr = pget pt ''virtual_expression'' in
      if py_truthy col then Inr (s\<lparr>si_physical_columns := si_physical_columns s @ [col]\<rparr>)
      else if py_truthy expr then
        bindE (as_key (dget_or pt ''api_name'' (PStr []))) (\<lambda>name. Inr (s\<lparr>si_virtual_fields := dput name expr (si_virtual_fields s)\<rparr>))
      else Inr s)"

definition add_compliance :: "pyval dict \<Rightarrow> schema_info \<Rightarrow> schema_info res" where
  "add_compliance pt s =
     (let api_name = dget_or pt ''api_name'' (PStr []) in
      bindE (prescribed pt) (\<lambda>strategy.
      case strategy of
        Some _ \<Rightarrow>
          bindE (as_key api_name) (\<lambda>name.
          Inr (if name \<in> set (si_masked s) then s else s\<lparr>si_masked := si_masked s @ [name]\<rparr>))
      | None \<Rightarrow>
          Inr (if py_truthy (pget pt ''physical_column'')
               then s\<lparr>si_sortable := si_sortable s @ [api_name], si_filterable := si_filterable s @ [api_name]\<rparr>
               else s)))"

definition load_schema :: "string \<Rightarrow> pyval dict list \<Rightarrow> pyval \<Rightarrow> schema_info res" where
  "load_schema type_rid property_types asset_mapping =
     foldE (\<lambda>pt s. bindE (add_column pt s) (add_compliance pt)) property_types
       (empty_schema type_rid property_types asset_mapping)"

subsection \<open>Names and columns\<close>

definition column_of :: "pyval dict \<Rightarrow> pyval dict \<Rightarrow> pyval dict res" where
  "column_of pt col_map =
     (let col = pget pt ''physical_column'' in
      if py_truthy col
      then bindE (as_key (dget_or pt ''api_name'' (PStr []))) (\<lambda>name. Inr (dput name col col_map))
      else Inr col_map)"

definition build_column_map :: "schema_info \<Rightarrow> pyval dict res" where
  "build_column_map schema = foldE column_of (si_property_types schema) []"

definition validation_error :: exn where "validation_error = DriverError ''ValidationError''"

definition as_field :: "pyval \<Rightarrow> string res" where
  "as_field v = (case v of PStr s \<Rightarrow> Inr s | _ \<Rightarrow> Inl validation_error)"

fun translate_filters :: "filter_spec list \<Rightarrow> pyval dict \<Rightarrow> string list \<Rightarrow> filter_spec list res" where
  "translate_filters [] col_map masked = Inr []"
| "translate_filters (f # fs) col_map masked =
     (if flt_field f \<in> set masked
      then Inl (AppError DATA_MASKED_FIELD_NOT_SORTABLE (''Cannot filter on masked field: '' @ flt_field f) [])
      else if \<not> py_truthy (pget col_map (flt_field f)) then translate_filters fs col_map masked
      else
        bindE (as_field (pget col_map (flt_field f))) (\<lambda>col.
        bindE (translate_filters fs col_map masked) (\<lambda>rest.
        Inr (f\<lparr>flt_field := col\<rparr> # rest))))"

fun translate_sort :: "sort_spec list \<Rightarrow> pyval dict \<Rightarrow> string list \<Rightarrow> sort_spec list res" where
  "translate_sort [] col_map masked = Inr []"
| "translate_sort (s # ss) col_map masked =
     (if srt_field s \<in> set masked
      then Inl (AppError DATA_MASKED_FIELD_NOT_SORTABLE (''Cannot sort on masked field: '' @ srt_field s) [])
      else if \<not> py_truthy (pget col_map (srt_field s)) then translate_sort ss col_map masked
      else
        bindE (as_field (pget col_map (srt_field s))) (\<lambda>col.
        bindE (translate_sort ss col_map masked) (\<lambda>rest.
        Inr (s\<lparr>srt_field := col\<rparr> # rest))))"

text \<open>\<open>{v: k for k, v in col_map.items()}\<close>\<close>

definition reverse_columns :: "pyval dict \<Rightarrow> string dict res" where
  "reverse_columns col_map = foldE (\<lambda>kv acc. bindE (as_key (snd kv)) (\<lambda>c. Inr (dput c (fst kv) acc))) col_map []"

definition rename_row :: "string dict \<Rightarrow> pyval dict \<Rightarrow> pyval dict" where
  "rename_row names row = fold (\<lambda>(k, v) acc. dput (dget_or names k k) v acc) row []"

text \<open>The operations of a connector, on a state \<open>'x\<close> of what lies outside.\<close>

record 'x connector =
  co_query :: "pyval \<Rightarrow> pyval list \<Rightarrow> filter_spec list \<Rightarrow> sort_spec list \<Rightarrow> pyval \<Rightarrow> pyval \<Rightarrow> 'x \<Rightarrow>
    (pyval dict list \<times> pyval) res \<times> 'x"
  co_row :: "pyval \<Rightarrow> (pyval \<times> pyval) list \<Rightarrow> pyval list \<Rightarrow> 'x \<Rightarrow> pyval dict option res \<times> 'x"

record query_result =
  qr_rows :: "pyval dict list"
  qr_total :: pyval
  qr_columns :: "string list"

definition engine_query :: "'x connector \<Rightarrow> schema_info \<Rightarrow> pyval \<Rightarrow> filter_spec list \<Rightarrow> sort_spec list \<Rightarrow> pyval \<Rightarrow> pyval \<Rightarrow>
    'x \<Rightarrow> query_result res \<times> 'x" where
  "engine_query C schema table_path filters sorting offset limit x =
     (case bindE (build_column_map schema) (\<lambda>col_map.
           bindE (translate_filters filters col_map (si_masked schema)) (\<lambda>fs.
           bindE (translate_sort sorting col_map (si_masked schema)) (\<lambda>ss. Inr (col_map, fs, ss)))) of
        Inl e \<Rightarrow> (Inl e, x)
      | Inr (col_map, fs, ss) \<Rightarrow>
          (case co_query C table_path (map snd col_map) fs ss offset limit x of
             (Inl e, x') \<Rightarrow> (Inl e, x')
           | (Inr (rows, matching), x') \<Rightarrow>
               (bindE (reverse_columns col_map) (\<lambda>names.
                Inr \<lparr>qr_rows = map (rename_row names) rows, qr_total = matching, qr_columns = map fst col_map\<rparr>), x')))"

text \<open>The parts of the key that are mapped to a column, in the order of the request.\<close>

definition physical_key :: "pyval dict \<Rightarrow> pyval dict \<Rightarrow> (pyval \<times> pyval) list" where
  "physical_key col_map primary_key =
     fold (\<lambda>(name, v) acc.
       let col = pget col_map name in
       if py_truthy col then AList.update col v acc else acc) primary_key []"

definition engine_row :: "'x connector \<Rightarrow> schema_info \<Rightarrow> pyval \<Rightarrow> pyval dict \<Rightarrow> 'x \<Rightarrow> pyval dict option res \<times> 'x" where
  "engine_row C schema table_path primary_key x =
     (case build_column_map schema of
        Inl e \<Rightarrow> (Inl e, x)
      | Inr col_map \<Rightarrow>
          (case co_row C table_path (physical_key col_map primary_key) (map snd col_map) x of
             (Inl e, x') \<Rightarrow> (Inl e, x')
           | (Inr None, x') \<Rightarrow> (Inr None, x')
           | (Inr (Some row), x') \<Rightarrow>
               (if row = [] then (Inr None, x')
                else (bindE (reverse_columns col_map) (\<lambda>names. Inr (Some (rename_row names row))), x'))))"

end
