(* ===== verification/Data_Connector.thy ===== *)
theory Data_Connector
  imports Data_Pipeline
begin

section \<open>The PostgreSQL connector\<close>

text \<open>
  \<open>data/connectors/postgresql.py\<close>: the SQL text and its parameters are the code's, running it is a
  parameter (\<open>pg_client\<close>, what \<open>asyncpg\<close> offers for a configuration: connecting, one value, rows).
\<close>

record 'x pg_client =
  pc_connect :: "pyval dict \<Rightarrow> 'x \<Rightarrow> unit res \<times> 'x"
  pc_value :: "pyval dict \<Rightarrow> string \<Rightarrow> pyval list \<Rightarrow> 'x \<Rightarrow> pyval res \<times> 'x"
  pc_rows :: "pyval dict \<Rightarrow> string \<Rightarrow> pyval list \<Rightarrow> 'x \<Rightarrow> pyval dict list res \<times> 'x"

subsection \<open>Identifiers and operators\<close>

definition is_identifier_char :: "char \<Rightarrow> bool" where
  "is_identifier_char c \<longleftrightarrow> is_name_start c \<or> is_digit c"

text \<open>The pattern ends with \<open>$\<close>, which also matches before a final line feed.\<close>

definition safe_identifier :: "string \<Rightarrow> bool" where
  "safe_identifier s \<longleftrightarrow>
     (let t = (if s \<noteq> [] \<and> last s = CHR 0x0A then butlast s else s) in
      t \<noteq> [] \<and> is_name_start (hd t) \<and> list_all is_identifier_char (tl t) \<and> length t \<le> 63)"

definition validate_identifier :: "pyval \<Rightarrow> string \<Rightarrow> string res" where
  "validate_identifier name label =
     (case name of
        PStr s \<Rightarrow> if safe_identifier s then Inr s
          else Inl (ValueError (''Invalid SQL '' @ label @ '': '' @ repr_str s))
      | _ \<Rightarrow> Inl type_error)"

fun FILTER_OPS :: "filter_operator \<Rightarrow> string" where
  "FILTER_OPS EQ = ''=''"
| "FILTER_OPS NEQ = ''!=''"
| "FILTER_OPS GT = ''>''"
| "FILTER_OPS GTE = ''>=''"
| "FILTER_OPS LT = ''<''"
| "FILTER_OPS LTE = ''<=''"
| "FILTER_OPS CONTAINS = ''LIKE''"
| "FILTER_OPS IN_OP = ''=''"

definition quoted :: "string \<Rightarrow> string" where
  "quoted s = quote # s @ [quote]"

definition placeholder :: "nat \<Rightarrow> string" where
  "placeholder i = CHR ''$'' # nat_str i"

definition where_part :: "nat \<Rightarrow> filter_spec \<Rightarrow> string" where
  "where_part i f =
     (case flt_operator f of
        CONTAINS \<Rightarrow> quoted (flt_field f) @ '' LIKE '' @ placeholder i
      | IN_OP \<Rightarrow> quoted (flt_field f) @ '' = ANY('' @ placeholder i @ '')''
      | bop \<Rightarrow> quoted (flt_field f) @ '' '' @ FILTER_OPS bop @ '' '' @ placeholder i)"

definition where_param :: "filter_spec \<Rightarrow> pyval" where
  "where_param f =
     (case flt_operator f of
        CONTAINS \<Rightarrow> PStr (''%'' @ py_str (flt_value f) @ ''%'')
      | IN_OP \<Rightarrow> (case flt_value f of PList xs \<Rightarrow> PList xs | v \<Rightarrow> PList [v])
      | _ \<Rightarrow> flt_value f)"

fun where_parts :: "nat \<Rightarrow> filter_spec list \<Rightarrow> string list" where
  "where_parts i [] = []"
| "where_parts i (f # fs) = where_part i f # where_parts (Suc i) fs"

definition sort_text :: "sort_order \<Rightarrow> string" where
  "sort_text d = (case d of ASC \<Rightarrow> ''ASC'' | DESC \<Rightarrow> ''DESC'')"

definition joined :: "string \<Rightarrow> string list \<Rightarrow> string \<Rightarrow> string" where
  "joined sep parts otherwise = (if parts = [] then otherwise else join sep parts)"

subsection \<open>Statements\<close>

definition schema_name :: "pyval dict \<Rightarrow> string" where
  "schema_name config = py_str (dget_or config ''schema'' (PStr ''public''))"

definition table_ref :: "pyval dict \<Rightarrow> string \<Rightarrow> string" where
  "table_ref config table = quoted (schema_name config) @ ''.'' @ quoted table"

definition count_sql :: "pyval dict \<Rightarrow> string \<Rightarrow> filter_spec list \<Rightarrow> string" where
  "count_sql config table filters =
     ''SELECT COUNT(*) FROM '' @ table_ref config table @ '' WHERE '' @ joined '' AND '' (where_parts 1 filters) ''TRUE''"

definition data_sql :: "pyval dict \<Rightarrow> string \<Rightarrow> string list \<Rightarrow> filter_spec list \<Rightarrow> sort_spec list \<Rightarrow> string" where
  "data_sql config table columns filters sorting =
     ''SELECT '' @ joined '', '' (map quoted columns) ''*'' @ '' FROM '' @ table_ref config table @
     '' WHERE '' @ joined '' AND '' (where_parts 1 filters) ''TRUE'' @
     '' ORDER BY '' @ joined '', '' (map (\<lambda>s. quoted (srt_field s) @ '' '' @ sort_text (srt_order s)) sorting) ''1'' @
     '' OFFSET '' @ placeholder (Suc (length filters)) @ '' LIMIT '' @ placeholder (Suc (Suc (length filters)))"

fun key_parts :: "nat \<Rightarrow> (string \<times> pyval) list \<Rightarrow> string list" where
  "key_parts i [] = []"
| "key_parts i (kv # kvs) = (quoted (fst kv) @ '' = '' @ placeholder i) # key_parts (Suc i) kvs"

definition row_sql :: "pyval dict \<Rightarrow> string \<Rightarrow> string list \<Rightarrow> (string \<times> pyval) list \<Rightarrow> string" where
  "row_sql config table columns key =
     ''SELECT '' @ joined '', '' (map quoted columns) ''*'' @ '' FROM '' @ table_ref config table @
     '' WHERE '' @ join '' AND '' (key_parts 1 key) @ '' LIMIT 1''"

text \<open>\<open>_get_pool\<close>: host and database have to be configured.\<close>

definition missing_setting :: "pyval dict \<Rightarrow> string option" where
  "missing_setting config =
     (if dget config ''host'' = None then Some ''host''
      else if dget config ''database'' = None then Some ''database'' else None)"

definition get_pool :: "'x pg_client \<Rightarrow> pyval dict \<Rightarrow> 'x \<Rightarrow> unit res \<times> 'x" where
  "get_pool P config x = (if missing_setting config \<noteq> None then (Inl key_error, x) else pc_connect P config x)"

definition plan_query :: "pyval dict \<Rightarrow> pyval \<Rightarrow> pyval list \<Rightarrow> filter_spec list \<Rightarrow> sort_spec list \<Rightarrow> (string \<times> string) res" where
  "plan_query config table_path columns filters sorting =
     bindE (validate_identifier table_path ''table_path'') (\<lambda>table.
     bindE (mapE (\<lambda>c. validate_identifier c ''column'') columns) (\<lambda>cols.
     bindE (mapE (\<lambda>s. validate_identifier (PStr (srt_field s)) ''sort field'') sorting) (\<lambda>_.
     Inr (count_sql config table filters, data_sql config table cols filters sorting))))"

definition execute_query :: "'x pg_client \<Rightarrow> pyval dict \<Rightarrow> pyval \<Rightarrow> pyval list \<Rightarrow> filter_spec list \<Rightarrow> sort_spec list \<Rightarrow>
    pyval \<Rightarrow> pyval \<Rightarrow> 'x \<Rightarrow> (pyval dict list \<times> pyval) res \<times> 'x" where
  "execute_query P config table_path columns filters sorting offset limit x =
     (case get_pool P config x of
        (Inl e, x1) \<Rightarrow> (Inl e, x1)
      | (Inr _, x1) \<Rightarrow>
          (case plan_query config table_path columns filters sorting of
             Inl e \<Rightarrow> (Inl e, x1)
           | Inr (counting, reading) \<Rightarrow>
               (let params = map where_param filters in
                case pc_value P config counting params x1 of
                  (Inl e, x2) \<Rightarrow> (Inl e, x2)
                | (Inr total_row, x2) \<Rightarrow>
                    (case pc_rows P config reading (params @ [offset, limit]) x2 of
                       (Inl e, x3) \<Rightarrow> (Inl e, x3)
                     | (Inr rows, x3) \<Rightarrow> (Inr (rows, if py_truthy total_row then total_row else PInt 0), x3)))))"

definition plan_row :: "pyval dict \<Rightarrow> pyval \<Rightarrow> (pyval \<times> pyval) list \<Rightarrow> pyval list \<Rightarrow> (string \<times> pyval list) res" where
  "plan_row config table_path primary_key columns =
     bindE (validate_identifier table_path ''table_path'') (\<lambda>table.
     bindE (mapE (\<lambda>c. validate_identifier c ''column'') columns) (\<lambda>cols.
     bindE (mapE (\<lambda>(k, v). bindE (validate_identifier k ''primary key column'') (\<lambda>c. Inr (c, v))) primary_key) (\<lambda>key.
     Inr (row_sql config table cols key, map snd key))))"

definition get_row :: "'x pg_client \<Rightarrow> pyval dict \<Rightarrow> pyval \<Rightarrow> (pyval \<times> pyval) list \<Rightarrow> pyval list \<Rightarrow> 'x \<Rightarrow>
    pyval dict option res \<times> 'x" where
  "get_row P config table_path primary_key columns x =
     (case get_pool P config x of
        (Inl e, x1) \<Rightarrow> (Inl e, x1)
      | (Inr _, x1) \<Rightarrow>
          (case plan_row config table_path primary_key columns of
             Inl e \<Rightarrow> (Inl e, x1)
           | Inr (reading, params) \<Rightarrow>
               (case pc_rows P config reading params x1 of
                  (Inl e, x2) \<Rightarrow> (Inl e, x2)
                | (Inr rows, x2) \<Rightarrow> (Inr (case rows of [] \<Rightarrow> None | r # _ \<Rightarrow> Some r), x2))))"

definition pg_connector :: "'x pg_client \<Rightarrow> pyval dict \<Rightarrow> 'x connector" where
  "pg_connector P config = \<lparr>co_query = execute_query P config, co_row = get_row P config\<rparr>"

text \<open>\<open>test_connection\<close>: the version, or the text of the error. The latency is left out.\<close>

definition test_server :: "'x pg_client \<Rightarrow> pyval dict \<Rightarrow> 'x \<Rightarrow> (string + string option) \<times> 'x" where
  "test_server P config x =
     (case missing_setting config of
        Some k \<Rightarrow> (Inl ([apostrophe] @ k @ [apostrophe]), x)
      | None \<Rightarrow>
          (case pc_connect P config x of
             (Inl e, x1) \<Rightarrow> (Inl (exn_str e), x1)
           | (Inr _, x1) \<Rightarrow>
               (case pc_value P config ''SELECT version()'' [] x1 of
                  (Inl e, x2) \<Rightarrow> (Inl (exn_str e), x2)
                | (Inr v, x2) \<Rightarrow> (Inr (if py_truthy v then Some (py_str v) else None), x2))))"

end
