(* ===== verification/Data_Branches.thy ===== *)
theory Data_Branches
  imports Function_External
begin

section \<open>Data branches\<close>

text \<open>
  \<open>data/branch/nessie_client.py\<close>: the requests sent to the Nessie server and what is made of its
  answers. One HTTP exchange is the parameter \<open>os_http\<close> on the state \<open>'x\<close> outside; the names of branches
  are those the requests admit (letters, digits, \<open>-\<close>, \<open>_\<close>), which need no encoding in a URL.
\<close>

type_synonym ('x, 'a) nessie = "('x, exn, 'a) comp"

definition exchange :: "'x outside \<Rightarrow> http_request \<Rightarrow> ('x, nat \<times> string) nessie" where
  "exchange W rq x =
     (case os_http W rq x of
        (Answered status ctype body, x') \<Rightarrow> (Inr (status, body), x')
      | (Http_timeout, x') \<Rightarrow> (Inl (DriverError ''TimeoutException''), x')
      | (Http_fault m, x') \<Rightarrow> (Inl (DriverError ''HTTPError''), x')
      | (Http_other e, x') \<Rightarrow> (Inl e, x'))"

definition raise_for_status :: "nat \<Rightarrow> ('x, unit) nessie" where
  "raise_for_status status = unlessC (200 \<le> status \<and> status < 300) (DriverError ''HTTPStatusError'')"

definition response_json :: "'x outside \<Rightarrow> string \<Rightarrow> ('x, pyval) nessie" where
  "response_json W body = liftC (case json_loads body of Some v \<Rightarrow> Inr v | None \<Rightarrow> Inl (ValueError (os_json_error W body)))"

definition get_request :: "string \<Rightarrow> http_request" where
  "get_request url = \<lparr>hr_method = ''GET'', hr_url = url, hr_headers = [], hr_body = PNone\<rparr>"

definition trees :: "string \<Rightarrow> string" where
  "trees base = rev (dropWhile (\<lambda>c. c = CHR ''/'') (rev base)) @ ''/trees''"

definition if_match :: "pyval \<Rightarrow> string \<times> string" where
  "if_match h = (''If-Match'', quote # py_str h @ [quote])"

text \<open>\<open>_to_branch_dict\<close>\<close>

definition to_branch :: "pyval \<Rightarrow> pyval dict res" where
  "to_branch ref =
     bindE (as_dict ref) (\<lambda>d. Inr [(''name'', dget_or d ''name'' (PStr [])), (''hash'', dget_or d ''hash'' (PStr [])),
       (''metadata'', pget d ''metadata'')])"

definition branch_not_found :: "string \<Rightarrow> exn" where
  "branch_not_found name = AppError DATA_BRANCH_NOT_FOUND (''Branch '' @ [apostrophe] @ name @ [apostrophe] @ '' not found'') []"

definition branch_conflict :: "string \<Rightarrow> exn" where
  "branch_conflict m = AppError DATA_BRANCH_CONFLICT m []"

definition nessie_list_branches :: "'x outside \<Rightarrow> string \<Rightarrow> ('x, pyval dict list) nessie" where
  "nessie_list_branches W base =
     bindC (exchange W (get_request (trees base))) (\<lambda>(status, body).
     bindC (raise_for_status status) (\<lambda>_.
     bindC (response_json W body) (\<lambda>data.
     bindC (liftC (bindE (as_dict data) (\<lambda>d. iterate (dget_or d ''references'' (PList []))))) (\<lambda>refs.
     liftC (foldE (\<lambda>ref acc.
       bindE (as_dict ref) (\<lambda>d.
       if pget d ''type'' = PStr ''BRANCH'' then bindE (to_branch ref) (\<lambda>b. Inr (acc @ [b])) else Inr acc)) refs [])))))"

definition nessie_get_branch :: "'x outside \<Rightarrow> string \<Rightarrow> string \<Rightarrow> ('x, pyval dict) nessie" where
  "nessie_get_branch W base name =
     bindC (exchange W (get_request (trees base @ ''/'' @ name))) (\<lambda>(status, body).
     bindC (unlessC (status \<noteq> 404) (branch_not_found name)) (\<lambda>_.
     bindC (raise_for_status status) (\<lambda>_.
     bindC (response_json W body) (\<lambda>v. liftC (to_branch v)))))"

definition create_branch_request :: "string \<Rightarrow> string \<Rightarrow> http_request" where
  "create_branch_request base name =
     \<lparr>hr_method = ''POST'', hr_url = trees base @ ''?name='' @ name @ ''&type=BRANCH'',
      hr_headers = [(''Content-Type'', ''application/json'')],
      hr_body = PDict [(''type'', PStr ''BRANCH''), (''name'', PStr name)]\<rparr>"

definition nessie_create_branch :: "'x outside \<Rightarrow> string \<Rightarrow> string \<Rightarrow> string \<Rightarrow> ('x, pyval dict) nessie" where
  "nessie_create_branch W base name from_ref =
     bindC (nessie_get_branch W base from_ref) (\<lambda>source.
     bindC (exchange W (create_branch_request base name)) (\<lambda>(status, body).
     bindC (unlessC (status \<noteq> 409) (branch_conflict (''Branch '' @ [apostrophe] @ name @ [apostrophe] @ '' already exists''))) (\<lambda>_.
     bindC (raise_for_status status) (\<lambda>_.
     bindC (response_json W body) (\<lambda>v. liftC (to_branch v))))))"

definition nessie_delete_branch :: "'x outside \<Rightarrow> string \<Rightarrow> string \<Rightarrow> pyval \<Rightarrow> ('x, unit) nessie" where
  "nessie_delete_branch W base name expected_hash =
     bindC (unlessC (name \<noteq> ''main'') (branch_conflict ''Cannot delete the main branch'')) (\<lambda>_.
     bindC (exchange W \<lparr>hr_method = ''DELETE'', hr_url = trees base @ ''/'' @ name, hr_headers = [if_match expected_hash],
       hr_body = PNone\<rparr>) (\<lambda>(status, body).
     bindC (unlessC (status \<noteq> 404) (branch_not_found name)) (\<lambda>_.
     bindC (unlessC (status \<noteq> 409) (branch_conflict (''Branch '' @ [apostrophe] @ name @ [apostrophe] @
       '' was modified concurrently (hash mismatch)''))) (\<lambda>_.
     raise_for_status status))))"

definition nessie_merge_branch :: "'x outside \<Rightarrow> string \<Rightarrow> string \<Rightarrow> string \<Rightarrow> ('x, pyval) nessie" where
  "nessie_merge_branch W base source target =
     bindC (nessie_get_branch W base source) (\<lambda>s.
     bindC (nessie_get_branch W base target) (\<lambda>t.
     bindC (exchange W \<lparr>hr_method = ''POST'', hr_url = trees base @ ''/'' @ target @ ''/merge'',
       hr_headers = [(''Content-Type'', ''application/json''), if_match (pget t ''hash'')],
       hr_body = PDict [(''fromRefName'', PStr source), (''fromHash'', pget s ''hash'')]\<rparr>) (\<lambda>(status, body).
     bindC (unlessC (status \<noteq> 409) (branch_conflict (''Merge conflict: cannot merge '' @ [apostrophe] @ source @ [apostrophe] @
       '' into '' @ [apostrophe] @ target @ [apostrophe]))) (\<lambda>_.
     bindC (raise_for_status status) (\<lambda>_. response_json W body)))))"

definition nessie_diff_branches :: "'x outside \<Rightarrow> string \<Rightarrow> string \<Rightarrow> string \<Rightarrow> ('x, pyval) nessie" where
  "nessie_diff_branches W base from_ref to_ref =
     bindC (nessie_get_branch W base from_ref) (\<lambda>_.
     bindC (nessie_get_branch W base to_ref) (\<lambda>_.
     bindC (exchange W (get_request (trees base @ ''/'' @ from_ref @ ''/diff/'' @ to_ref))) (\<lambda>(status, body).
     bindC (raise_for_status status) (\<lambda>_.
     bindC (response_json W body) (\<lambda>v.
     liftC (bindE (as_dict v) (\<lambda>d. Inr (dget_or d ''diffs'' (PList [])))))))))"

end
