(* ===== verification/Data_Service.thy ===== *)
theory Data_Service
  imports Data_Connector Data_Branches Function_Actions
begin

section \<open>The data service\<close>

text \<open>
  \<open>data/service.py\<close> with the repository of connections (\<open>data/repository/connection_repo.py\<close>), the
  cache of the schema loader (\<open>data/pipeline/schema_loader.py\<close>) and the responses. Besides the
  database the service keeps two dicts in the process: the connectors made so far and the schemas
  loaded in the last five minutes.
\<close>

subsection \<open>Repository\<close>

definition is_connection :: "string \<Rightarrow> string \<Rightarrow> connection_row \<Rightarrow> bool" where
  "is_connection rid tenant c \<longleftrightarrow> cn_rid c = rid \<and> cn_tenant c = tenant"

definition connection_create :: "'x fenv \<Rightarrow> (int \<Rightarrow> connection_row) \<Rightarrow> ('x, connection_row) fop" where
  "connection_create E mk = sql E (\<lambda>now d.
     if cn_rid (mk now) \<in> cn_rid ` set (fd_connections d) then (Inl integrity_error, d)
     else (Inr (mk now), d\<lparr>fd_connections := fd_connections d @ [mk now]\<rparr>))"

definition connection_get_by_rid :: "'x fenv \<Rightarrow> string \<Rightarrow> string \<Rightarrow> ('x, connection_row option) fop" where
  "connection_get_by_rid E rid tenant =
     sql E (\<lambda>now d. (one_or_none (filter (is_connection rid tenant) (fd_connections d)), d))"

definition connection_list_by_tenant :: "string \<Rightarrow> nat \<Rightarrow> nat \<Rightarrow> string option \<Rightarrow> fundb \<Rightarrow> connection_row list \<times> nat" where
  "connection_list_by_tenant tenant offset limit ctype d =
     newest cn_created offset limit
       (filter (\<lambda>c. cn_tenant c = tenant \<and> (case ctype of Some t \<Rightarrow> t = [] \<or> cn_type c = t | None \<Rightarrow> True)) (fd_connections d))"

text \<open>The columns an update request names, or those a test writes.\<close>

datatype connection_change =
    Set_fields "string option" "pyval dict option" "string option"
  | Set_tested string "string option" int

fun connection_assign :: "connection_change \<Rightarrow> int \<Rightarrow> connection_row \<Rightarrow> connection_row" where
  "connection_assign (Set_fields nm config credentials) now c =
     c\<lparr>cn_name := set_if nm (cn_name c), cn_config := set_if config (cn_config c),
       cn_credentials := or_else credentials (cn_credentials c), cn_updated := now\<rparr>"
| "connection_assign (Set_tested status message tested) now c =
     c\<lparr>cn_status := status, cn_message := message, cn_tested := Some tested, cn_updated := now\<rparr>"

definition connection_update_fields :: "'x fenv \<Rightarrow> string \<Rightarrow> string \<Rightarrow> connection_change \<Rightarrow> ('x, connection_row option) fop" where
  "connection_update_fields E rid tenant ch =
     bindC (fclock E) (\<lambda>now.
     bindC (sql E (\<lambda>_ d. (Inr (), d\<lparr>fd_connections :=
        map (\<lambda>c. if is_connection rid tenant c then connection_assign ch now c else c) (fd_connections d)\<rparr>))) (\<lambda>_.
     connection_get_by_rid E rid tenant))"

definition connection_delete :: "'x fenv \<Rightarrow> string \<Rightarrow> string \<Rightarrow> ('x, bool) fop" where
  "connection_delete E rid tenant =
     bindC (connection_get_by_rid E rid tenant) (\<lambda>c.
     case c of
       None \<Rightarrow> retC False
     | Some _ \<Rightarrow> sql E (\<lambda>now d. (Inr True, d\<lparr>fd_connections := filter (\<lambda>c. cn_rid c \<noteq> rid) (fd_connections d)\<rparr>)))"

definition connection_count_by_tenant :: "string \<Rightarrow> fundb \<Rightarrow> nat" where
  "connection_count_by_tenant tenant d = length (filter (\<lambda>c. cn_tenant c = tenant) (fd_connections d))"

subsection \<open>State of the service\<close>

record cache_entry =
  ce_schema :: schema_info
  ce_expires :: int

record 'x dworld =
  dw_f :: "'x fworld"
  dw_connectors :: "pyval dict dict"
  dw_schemas :: "cache_entry dict"

text \<open>The ontology as the loader reads it, the monotonic clock in microseconds, the Nessie server.\<close>

record 'x denv =
  de_fenv :: "'x fenv"
  de_pg :: "'x pg_client"
  de_pyops :: pyops
  de_property_types :: "string \<Rightarrow> string \<Rightarrow> 'x \<Rightarrow> pyval dict list res"
  de_asset_mapping :: "string \<Rightarrow> string \<Rightarrow> 'x \<Rightarrow> pyval res"
  de_mono :: "nat \<Rightarrow> int"
  de_nessie :: "string option"

type_synonym ('x, 'a) dop = "('x dworld, exn, 'a) comp"

definition on_f :: "('x, 'a) fop \<Rightarrow> ('x, 'a) dop" where
  "on_f m w = (case m (dw_f w) of (r, f) \<Rightarrow> (r, w\<lparr>dw_f := f\<rparr>))"

subsection \<open>Responses\<close>

definition SENSITIVE_KEYS :: "string list" where
  "SENSITIVE_KEYS = [''password'', ''secret'', ''token'', ''api_key'', ''private_key'', ''secret_key'', ''access_key'',
     ''s3_secret_key'']"

definition scrub_config :: "pyval dict \<Rightarrow> pyval dict" where
  "scrub_config config = map (\<lambda>(k, v). (k, if lower k \<in> set SENSITIVE_KEYS then PStr ''***'' else v)) config"

record connection_response =
  cr_rid :: string
  cr_name :: string
  cr_type :: string
  cr_config :: "pyval dict"
  cr_status :: string
  cr_message :: "string option"
  cr_tested :: "int option"
  cr_created :: int
  cr_updated :: int

text \<open>The response as it is serialised.\<close>

definition connection_to_response :: "connection_row \<Rightarrow> connection_response" where
  "connection_to_response c =
     \<lparr>cr_rid = cn_rid c, cr_name = cn_name c, cr_type = cn_type c, cr_config = scrub_config (cn_config c),
      cr_status = cn_status c, cr_message = cn_message c, cr_tested = cn_tested c, cr_created = cn_created c,
      cr_updated = cn_updated c\<rparr>"

subsection \<open>Connections\<close>

definition no_connection :: "string \<Rightarrow> exn" where
  "no_connection rid = AppError DATA_SOURCE_NOT_FOUND (''Connection '' @ rid @ '' not found'') []"

definition create_connection :: "'x denv \<Rightarrow> ctx \<Rightarrow> string \<Rightarrow> string \<Rightarrow> pyval dict \<Rightarrow> string option \<Rightarrow>
    ('x, connection_response) dop" where
  "create_connection D c nm ctype config credentials = on_f (
     bindC (liftC (get_tenant_id c)) (\<lambda>tenant.
     bindC (fuuid (de_fenv D)) (\<lambda>uuid.
     bindC (liftC (generate_rid uuid ''conn'')) (\<lambda>rid.
     bindC (connection_create (de_fenv D) (\<lambda>now. \<lparr>cn_rid = rid, cn_tenant = tenant, cn_name = nm, cn_type = ctype,
       cn_config = config, cn_credentials = credentials, cn_status = ''disconnected'', cn_message = None,
       cn_tested = None, cn_created = now, cn_updated = now\<rparr>)) (\<lambda>conn.
     bindC fcommit (\<lambda>_. retC (connection_to_response conn)))))))"

definition get_connection :: "'x denv \<Rightarrow> ctx \<Rightarrow> string \<Rightarrow> ('x, connection_response) dop" where
  "get_connection D c rid = on_f (
     bindC (liftC (get_tenant_id c)) (\<lambda>tenant.
     bindC (connection_get_by_rid (de_fenv D) rid tenant) (\<lambda>conn.
     case conn of None \<Rightarrow> raiseC (no_connection rid) | Some r \<Rightarrow> retC (connection_to_response r))))"

text \<open>\<open>self._connectors.pop(rid, None)\<close>\<close>

definition drop_connector :: "string \<Rightarrow> ('x, unit) dop" where
  "drop_connector rid w = (Inr (), w\<lparr>dw_connectors := dfilter (\<lambda>k. k \<noteq> rid) (dw_connectors w)\<rparr>)"

definition update_connection :: "'x denv \<Rightarrow> ctx \<Rightarrow> string \<Rightarrow> string option \<Rightarrow> pyval dict option \<Rightarrow> string option \<Rightarrow>
    ('x, connection_response) dop" where
  "update_connection D c rid nm config credentials =
     bindC (on_f (liftC (get_tenant_id c))) (\<lambda>tenant.
     bindC (on_f (connection_update_fields (de_fenv D) rid tenant (Set_fields nm config credentials))) (\<lambda>conn.
     case conn of
       None \<Rightarrow> raiseC (no_connection rid)
     | Some r \<Rightarrow> bindC (on_f fcommit) (\<lambda>_. bindC (drop_connector rid) (\<lambda>_. retC (connection_to_response r)))))"

definition delete_connection :: "'x denv \<Rightarrow> ctx \<Rightarrow> string \<Rightarrow> ('x, unit) dop" where
  "delete_connection D c rid =
     bindC (on_f (liftC (get_tenant_id c))) (\<lambda>tenant.
     bindC (on_f (connection_delete (de_fenv D) rid tenant)) (\<lambda>deleted.
     if \<not> deleted then raiseC (no_connection rid)
     else bindC (on_f fcommit) (\<lambda>_. drop_connector rid)))"

definition query_connections :: "'x denv \<Rightarrow> ctx \<Rightarrow> string option \<Rightarrow> nat \<Rightarrow> nat \<Rightarrow> ('x, connection_response list \<times> nat) dop" where
  "query_connections D c ctype offset limit = on_f (
     bindC (liftC (get_tenant_id c)) (\<lambda>tenant.
     sql (de_fenv D) (\<lambda>now d.
       (case connection_list_by_tenant tenant offset limit ctype d of (cs, n) \<Rightarrow> (Inr (map connection_to_response cs, n), d)))))"

text \<open>The configuration a connector is made with.\<close>

definition connector_config :: "connection_row \<Rightarrow> pyval dict" where
  "connector_config conn =
     (case cn_credentials conn of
        Some s \<Rightarrow> if s = [] then cn_config conn else dput ''password'' (PStr s) (cn_config conn)
      | None \<Rightarrow> cn_config conn)"

definition get_or_create_connector :: "connection_row \<Rightarrow> ('x, pyval dict) dop" where
  "get_or_create_connector conn w =
     (case dget (dw_connectors w) (cn_rid conn) of
        Some config \<Rightarrow> (Inr config, w)
      | None \<Rightarrow>
          if cn_type conn = ''postgresql''
          then (Inr (connector_config conn), w\<lparr>dw_connectors := dput (cn_rid conn) (connector_config conn) (dw_connectors w)\<rparr>)
          else (Inl (AppError DATA_SOURCE_UNREACHABLE (''Unsupported connection type: '' @ cn_type conn) []), w))"

record test_response =
  tr_success :: bool
  tr_version :: "string option"
  tr_error :: "string option"

definition test_connection :: "'x denv \<Rightarrow> ctx \<Rightarrow> string \<Rightarrow> ('x, test_response) dop" where
  "test_connection D c rid =
     bindC (on_f (liftC (get_tenant_id c))) (\<lambda>tenant.
     bindC (on_f (connection_get_by_rid (de_fenv D) rid tenant)) (\<lambda>found.
     case found of
       None \<Rightarrow> raiseC (no_connection rid)
     | Some conn \<Rightarrow>
         bindC (get_or_create_connector conn) (\<lambda>config.
         bindC (on_f (ext_call (\<lambda>x. case test_server (de_pg D) config x of (r, x') \<Rightarrow> (Inr r, x')))) (\<lambda>outcome.
         let error = (case outcome of Inl m \<Rightarrow> Some m | Inr _ \<Rightarrow> None) in
         bindC (on_f (fclock (de_fenv D))) (\<lambda>tested.
         bindC (on_f (connection_update_fields (de_fenv D) rid tenant
           (Set_tested (if error = None then ''connected'' else ''error'') error tested))) (\<lambda>_.
         bindC (on_f fcommit) (\<lambda>_.
         retC \<lparr>tr_success = (error = None), tr_version = (case outcome of Inr v \<Rightarrow> v | Inl _ \<Rightarrow> None), tr_error = error\<rparr>)))))))"

definition data_overview :: "'x denv \<Rightarrow> ctx \<Rightarrow> ('x, nat) dop" where
  "data_overview D c = on_f (
     bindC (liftC (get_tenant_id c)) (\<lambda>tenant.
     sql (de_fenv D) (\<lambda>now d. (Inr (connection_count_by_tenant tenant d), d))))"

subsection \<open>Schemas\<close>

text \<open>Five minutes, in microseconds.\<close>

definition CACHE_TTL :: int where "CACHE_TTL = 300 * 1000000"

definition cache_key :: "string \<Rightarrow> string \<Rightarrow> string" where
  "cache_key tenant type_rid = tenant @ '':'' @ type_rid"

definition monotonic :: "'x denv \<Rightarrow> ('x, int) dop" where
  "monotonic D = on_f (\<lambda>f. (Inr (de_mono D (fw_ticks f)), f\<lparr>fw_ticks := Suc (fw_ticks f)\<rparr>))"

definition read_schema :: "'x denv \<Rightarrow> string \<Rightarrow> string \<Rightarrow> ('x, schema_info) dop" where
  "read_schema D type_rid tenant =
     bindC (on_f (ext_read (de_property_types D type_rid tenant))) (\<lambda>property_types.
     bindC (on_f (ext_read (de_asset_mapping D type_rid tenant))) (\<lambda>asset_mapping.
     liftC (load_schema type_rid property_types asset_mapping)))"

definition get_schema :: "'x denv \<Rightarrow> string \<Rightarrow> string \<Rightarrow> ('x, schema_info) dop" where
  "get_schema D type_rid tenant =
     bindC (monotonic D) (\<lambda>now.
     bindC (readC (\<lambda>w. dget (dw_schemas w) (cache_key tenant type_rid))) (\<lambda>entry.
     case entry of
       Some e \<Rightarrow>
         if ce_expires e > now then retC (ce_schema e)
         else bindC (read_schema D type_rid tenant) (\<lambda>schema.
              bindC (modifyC (\<lambda>w. w\<lparr>dw_schemas := dput (cache_key tenant type_rid)
                 \<lparr>ce_schema = schema, ce_expires = now + CACHE_TTL\<rparr> (dw_schemas w)\<rparr>)) (\<lambda>_. retC schema))
     | None \<Rightarrow>
         bindC (read_schema D type_rid tenant) (\<lambda>schema.
         bindC (modifyC (\<lambda>w. w\<lparr>dw_schemas := dput (cache_key tenant type_rid)
            \<lparr>ce_schema = schema, ce_expires = now + CACHE_TTL\<rparr> (dw_schemas w)\<rparr>)) (\<lambda>_. retC schema))))"

definition invalidate_schema_cache :: "string \<Rightarrow> 'x dworld \<Rightarrow> 'x dworld" where
  "invalidate_schema_cache tenant w = w\<lparr>dw_schemas := dfilter (\<lambda>k. \<not> is_prefix (tenant @ '':'') k) (dw_schemas w)\<rparr>"

subsection \<open>Instances\<close>

definition get_connector_by_rid :: "pyval \<Rightarrow> string \<Rightarrow> ('x, pyval dict) dop" where
  "get_connector_by_rid conn_rid tenant =
     bindC (liftC (as_key conn_rid)) (\<lambda>rid.
     bindC (readC (\<lambda>w. dget (dw_connectors w) rid)) (\<lambda>found.
     case found of
       Some config \<Rightarrow> retC config
     | None \<Rightarrow> raiseC (AppError DATA_SOURCE_NOT_FOUND (''Connection '' @ rid @ '' not found or not initialized'') [])))"

text \<open>Schema, table and connector of a type.\<close>

definition locate :: "'x denv \<Rightarrow> string \<Rightarrow> string \<Rightarrow> ('x, schema_info \<times> pyval \<times> 'x connector) dop" where
  "locate D type_rid tenant =
     bindC (get_schema D type_rid tenant) (\<lambda>schema.
     if \<not> py_truthy (si_asset_mapping schema)
     then raiseC (AppError DATA_ASSET_NOT_MAPPED (''No asset mapping configured for '' @ type_rid) [])
     else
       bindC (liftC (as_dict (si_asset_mapping schema))) (\<lambda>asset.
       bindC (get_connector_by_rid (dget_or asset ''read_connection_id'' (PStr [])) tenant) (\<lambda>config.
       retC (schema, dget_or asset ''read_asset_path'' (PStr []), pg_connector (de_pg D) config))))"

text \<open>Virtual fields first, masking after them.\<close>

definition finish_rows :: "pyops \<Rightarrow> schema_info \<Rightarrow> pyval dict list \<Rightarrow> pyval dict list res" where
  "finish_rows P schema rows =
     bindE (build_masking_rules (si_property_types schema)) (\<lambda>rules.
     Inr (apply_masking (apply_virtual_fields P rows (si_virtual_fields schema)) rules))"

definition data_query_instances :: "'x denv \<Rightarrow> string \<Rightarrow> string \<Rightarrow> filter_spec list \<Rightarrow> sort_spec list \<Rightarrow> pyval \<Rightarrow> pyval \<Rightarrow>
    ('x, query_result) dop" where
  "data_query_instances D type_rid tenant filters sorting offset limit =
     bindC (locate D type_rid tenant) (\<lambda>(schema, table_path, connector).
     bindC (on_f (ext_call (engine_query connector schema table_path filters sorting offset limit))) (\<lambda>result.
     bindC (liftC (finish_rows (de_pyops D) schema (qr_rows result))) (\<lambda>rows.
     retC (result\<lparr>qr_rows := rows\<rparr>))))"

definition data_get_instance :: "'x denv \<Rightarrow> string \<Rightarrow> string \<Rightarrow> pyval dict \<Rightarrow> ('x, pyval dict option) dop" where
  "data_get_instance D type_rid tenant primary_key =
     bindC (locate D type_rid tenant) (\<lambda>(schema, table_path, connector).
     bindC (on_f (ext_call (engine_row connector schema table_path primary_key))) (\<lambda>found.
     case found of
       None \<Rightarrow> retC None
     | Some row \<Rightarrow>
         if row = [] then retC None
         else bindC (liftC (finish_rows (de_pyops D) schema [row])) (\<lambda>rows. retC (single rows))))"

subsection \<open>Branches\<close>

definition require_nessie :: "'x denv \<Rightarrow> ('x, string) dop" where
  "require_nessie D =
     liftC (case de_nessie D of
        Some url \<Rightarrow> Inr url
      | None \<Rightarrow> Inl (AppError DATA_BRANCH_UNAVAILABLE ''Branch management is not configured (Nessie URL not set)'' []))"

definition on_ext :: "('x, 'a) nessie \<Rightarrow> ('x, 'a) dop" where
  "on_ext m = on_f (ext_call m)"

definition list_branches :: "'x denv \<Rightarrow> ('x, pyval dict list) dop" where
  "list_branches D = bindC (require_nessie D) (\<lambda>url. on_ext (nessie_list_branches (fe_outside (de_fenv D)) url))"

definition get_branch :: "'x denv \<Rightarrow> string \<Rightarrow> ('x, pyval dict) dop" where
  "get_branch D name = bindC (require_nessie D) (\<lambda>url. on_ext (nessie_get_branch (fe_outside (de_fenv D)) url name))"

definition create_branch :: "'x denv \<Rightarrow> string \<Rightarrow> string \<Rightarrow> ('x, pyval dict) dop" where
  "create_branch D name from_ref =
     bindC (require_nessie D) (\<lambda>url. on_ext (nessie_create_branch (fe_outside (de_fenv D)) url name from_ref))"

definition delete_branch :: "'x denv \<Rightarrow> string \<Rightarrow> ('x, unit) dop" where
  "delete_branch D name =
     bindC (require_nessie D) (\<lambda>url.
     bindC (on_ext (nessie_get_branch (fe_outside (de_fenv D)) url name)) (\<lambda>branch.
     on_ext (nessie_delete_branch (fe_outside (de_fenv D)) url name (pget branch ''hash''))))"

definition merge_branch :: "'x denv \<Rightarrow> string \<Rightarrow> string \<Rightarrow> ('x, pyval) dop" where
  "merge_branch D source target =
     bindC (require_nessie D) (\<lambda>url. on_ext (nessie_merge_branch (fe_outside (de_fenv D)) url source target))"

definition diff_branches :: "'x denv \<Rightarrow> string \<Rightarrow> string \<Rightarrow> ('x, pyval) dop" where
  "diff_branches D from_ref to_ref =
     bindC (require_nessie D) (\<lambda>url. on_ext (nessie_diff_branches (fe_outside (de_fenv D)) url from_ref to_ref))"

end
