(* ===== verification/Data_Writeback.thy ===== *)
theory Data_Writeback
  imports Function_Actions
begin

section \<open>Edit logs and their two stores\<close>

text \<open>
  \<open>data/writeback\<close> and the replay of \<open>data/pipeline/merge.py\<close>. The store in PostgreSQL
  (\<open>fdb_client.py\<close>) is the table \<open>edit_logs\<close>; the one in FoundationDB (\<open>fdb_store.py\<close>) is an ordered
  map from tuples of strings to JSON texts. What the merger needs of a store is the locale
  \<open>edit_log\<close> (\<open>interface.py\<close>); both stores are interpretations of it.
\<close>

subsection \<open>Replay\<close>

definition apply_edit :: "editlog_row \<Rightarrow> pyval dict option \<Rightarrow> pyval dict option" where
  "apply_edit e row =
     (let vals = (case el_values e of PDict d \<Rightarrow> d | _ \<Rightarrow> []) in
      if el_operation e = ''create'' then Some vals
      else if el_operation e = ''update'' then
        (case row of None \<Rightarrow> Some vals | Some r \<Rightarrow> Some (dupdate r vals))
      else if el_operation e = ''delete'' then None
      else row)"

definition merge_row :: "editlog_row list \<Rightarrow> pyval dict option \<Rightarrow> pyval dict option" where
  "merge_row entries base_row = (if entries = [] then base_row else fold apply_edit entries base_row)"

text \<open>\<open>read\<close> gives the entries of a key; a row without a value for the key stays as it is.\<close>

definition merge_rows :: "(pyval \<Rightarrow> editlog_row list) \<Rightarrow> string \<Rightarrow> pyval dict list \<Rightarrow> pyval dict list" where
  "merge_rows read_entries pk_field base_rows =
     concat (map (\<lambda>row.
       let pk = pget row pk_field in
       if pk = PNone then [row]
       else (case merge_row (read_entries (PDict [(pk_field, pk)])) (Some row) of None \<Rightarrow> [] | Some r \<Rightarrow> [r])) base_rows)"

subsection \<open>The contract of a store\<close>

locale edit_log =
  fixes put :: "editlog_row \<Rightarrow> 's \<Rightarrow> 's"
    and entries :: "'s \<Rightarrow> string \<Rightarrow> string \<Rightarrow> pyval \<Rightarrow> string \<Rightarrow> editlog_row list"
    and same :: "pyval \<Rightarrow> pyval \<Rightarrow> bool"
    and later :: "'s \<Rightarrow> editlog_row \<Rightarrow> bool"
  assumes read_after_write: "later s e \<Longrightarrow> entries (put e s) tenant ty key branch =
    (if el_tenant e = tenant \<and> el_type e = ty \<and> same (el_key e) key \<and> el_branch e = branch
     then entries s tenant ty key branch @ [e] else entries s tenant ty key branch)"
begin

definition concerns :: "string \<Rightarrow> string \<Rightarrow> pyval \<Rightarrow> string \<Rightarrow> editlog_row \<Rightarrow> bool" where
  "concerns tenant ty key branch e \<longleftrightarrow>
     el_tenant e = tenant \<and> el_type e = ty \<and> same (el_key e) key \<and> el_branch e = branch"

lemma merge_after_write:
  assumes "later s e"
  shows "merge_row (entries (put e s) tenant ty key branch) base =
    (if concerns tenant ty key branch e then apply_edit e (merge_row (entries s tenant ty key branch) base)
     else merge_row (entries s tenant ty key branch) base)"
  using read_after_write [OF assms] by (simp add: concerns_def merge_row_def)

text \<open>What a store returns after a history of writes, each later than what was there.\<close>

fun in_order :: "'s \<Rightarrow> editlog_row list \<Rightarrow> bool" where
  "in_order s [] = True"
| "in_order s (e # es) = (later s e \<and> in_order (put e s) es)"

lemma entries_history:
  "in_order s es \<Longrightarrow>
     entries (fold put es s) tenant ty key branch = entries s tenant ty key branch @ filter (concerns tenant ty key branch) es"
  by (induction es arbitrary: s) (simp_all add: read_after_write concerns_def)

end

subsection \<open>The table in PostgreSQL\<close>

text \<open>The statement of \<open>read_by_key\<close>; entries of the same instant come in the order of the table.\<close>

definition concerns_key :: "string \<Rightarrow> string \<Rightarrow> pyval \<Rightarrow> string \<Rightarrow> editlog_row \<Rightarrow> bool" where
  "concerns_key tenant ty key branch e \<longleftrightarrow>
     el_tenant e = tenant \<and> el_type e = ty \<and> py_eq (el_key e) key \<and> el_branch e = branch"

definition read_by_key :: "editlog_row list \<Rightarrow> string \<Rightarrow> string \<Rightarrow> pyval \<Rightarrow> string \<Rightarrow> editlog_row list" where
  "read_by_key rows tenant ty key branch = sort_key el_created (filter (concerns_key tenant ty key branch) rows)"

definition read_recent :: "editlog_row list \<Rightarrow> string \<Rightarrow> string \<Rightarrow> nat \<Rightarrow> editlog_row list" where
  "read_recent rows tenant branch limit =
     take limit (sort_desc el_created (filter (\<lambda>e. el_tenant e = tenant \<and> el_branch e = branch) rows))"

definition pg_write :: "editlog_row \<Rightarrow> editlog_row list \<Rightarrow> editlog_row list" where
  "pg_write e rows = rows @ [e]"

definition newest_yet :: "editlog_row list \<Rightarrow> editlog_row \<Rightarrow> bool" where
  "newest_yet rows e \<longleftrightarrow> (\<forall>r \<in> set rows. el_created r \<le> el_created e)"

lemma sort_key_last:
  "(\<forall>x \<in> set xs. f x \<le> f e) \<Longrightarrow> sort_key f (xs @ [e]) = sort_key f xs @ [e]"
proof (induction xs)
  case (Cons x xs)
  have "insort_key f x (ys @ [e]) = insort_key f x ys @ [e]" if "f x \<le> f e" for ys
    using that by (induction ys) auto
  then show ?case using Cons by simp
qed simp

interpretation pg: edit_log pg_write read_by_key py_eq newest_yet
proof
  fix rows e tenant ty key branch
  assume "newest_yet rows e"
  then show "read_by_key (pg_write e rows) tenant ty key branch =
      (if el_tenant e = tenant \<and> el_type e = ty \<and> py_eq (el_key e) key \<and> el_branch e = branch
       then read_by_key rows tenant ty key branch @ [e] else read_by_key rows tenant ty key branch)"
    by (auto simp: read_by_key_def pg_write_def concerns_key_def newest_yet_def intro!: sort_key_last)
qed

subsection \<open>The ordered map in FoundationDB\<close>

text \<open>SHA-256 in hexadecimal, \<open>isoformat\<close> and \<open>fromisoformat\<close> of instants.\<close>

record fdb_env =
  fb_sha256 :: "string \<Rightarrow> string"
  fb_iso :: "int \<Rightarrow> string"
  fb_from_iso :: "string \<Rightarrow> int option"

type_synonym fdb_key = "string \<times> string \<times> string \<times> string"

type_synonym fdb_store = "(fdb_key \<times> string) list"

text \<open>\<open>json.dumps(v, sort_keys=True)\<close>\<close>

fun sort_keys :: "pyval \<Rightarrow> pyval" where
  "sort_keys (PList xs) = PList (map sort_keys xs)"
| "sort_keys (PDict d) = PDict (sort_key fst (map (\<lambda>kv. (fst kv, sort_keys (snd kv))) d))"
| "sort_keys v = v"

definition pk_hash :: "fdb_env \<Rightarrow> pyval \<Rightarrow> string" where
  "pk_hash F key = take 16 (fb_sha256 F (json_dumps (sort_keys key)))"

definition fdb_key_of :: "fdb_env \<Rightarrow> editlog_row \<Rightarrow> fdb_key" where
  "fdb_key_of F e = (el_tenant e, el_type e, pk_hash F (el_key e), fb_iso F (el_created e))"

definition opt_str_val :: "string option \<Rightarrow> pyval" where
  "opt_str_val s = (case s of Some t \<Rightarrow> PStr t | None \<Rightarrow> PNone)"

definition entry_data :: "fdb_env \<Rightarrow> editlog_row \<Rightarrow> pyval dict" where
  "entry_data F e =
     [(''entry_id'', PStr (el_id e)), (''tenant_id'', PStr (el_tenant e)), (''type_rid'', PStr (el_type e)),
      (''operation'', PStr (el_operation e)), (''primary_key'', el_key e), (''field_values'', el_values e),
      (''user_id'', PStr (el_user e)), (''action_type_rid'', opt_str_val (el_action e)), (''branch'', PStr (el_branch e)),
      (''created_at'', PStr (fb_iso F (el_created e)))]"

text \<open>One key-value pair per entry; an equal key is overwritten.\<close>

definition fdb_write :: "fdb_env \<Rightarrow> editlog_row \<Rightarrow> fdb_store \<Rightarrow> fdb_store" where
  "fdb_write F e store = AList.update (fdb_key_of F e) (json_dumps (PDict (entry_data F e))) store"

text \<open>\<open>_data_to_entry\<close>, for what \<open>write\<close> stores; \<open>None\<close> for any other text.\<close>

definition data_to_entry :: "fdb_env \<Rightarrow> pyval \<Rightarrow> editlog_row option" where
  "data_to_entry F v =
     (case v of
        PDict d \<Rightarrow>
          (case (dget d ''entry_id'', dget_or d ''tenant_id'' (PStr []), dget_or d ''type_rid'' (PStr []), dget d ''primary_key'',
                 dget d ''operation'', dget d ''field_values'', dget d ''user_id'', dget_or d ''branch'' (PStr ''main''),
                 pget d ''created_at'') of
             (Some (PStr eid), PStr tenant, PStr ty, Some key, Some (PStr oper), Some vals, Some (PStr user), PStr branch, PStr created) \<Rightarrow>
               map_option (\<lambda>t. \<lparr>el_id = eid, el_tenant = tenant, el_type = ty, el_key = key, el_operation = oper,
                 el_values = vals, el_user = user,
                 el_action = (case pget d ''action_type_rid'' of PStr a \<Rightarrow> Some a | _ \<Rightarrow> None),
                 el_branch = branch, el_created = t\<rparr>) (fb_from_iso F created)
           | _ \<Rightarrow> None)
      | _ \<Rightarrow> None)"

definition decode_entry :: "fdb_env \<Rightarrow> string \<Rightarrow> editlog_row option" where
  "decode_entry F text = Option.bind (json_loads text) (data_to_entry F)"

definition fdb_read_by_key :: "fdb_env \<Rightarrow> fdb_store \<Rightarrow> string \<Rightarrow> string \<Rightarrow> pyval \<Rightarrow> string \<Rightarrow> editlog_row list" where
  "fdb_read_by_key F store tenant ty key branch =
     filter (\<lambda>e. el_branch e = branch)
       (List.map_filter (\<lambda>kv. decode_entry F (snd kv))
         (sort_key fst (filter (\<lambda>((t, y, h, i), text). t = tenant \<and> y = ty \<and> h = pk_hash F key) store)))"

text \<open>At most twice the limit is read, in the reverse order of the keys.\<close>

definition fdb_read_recent :: "fdb_env \<Rightarrow> fdb_store \<Rightarrow> string \<Rightarrow> string \<Rightarrow> nat \<Rightarrow> editlog_row list" where
  "fdb_read_recent F store tenant branch limit =
     take limit (filter (\<lambda>e. el_branch e = branch)
       (List.map_filter (\<lambda>kv. decode_entry F (snd kv))
         (take (limit * 2) (rev (sort_key fst (filter (\<lambda>((t, y, h, i), text). t = tenant) store))))))"

text \<open>
  The contract holds for entries that the JSON text gives back and whose instant is later than those
  stored for the same hash.
\<close>

definition storable :: "fdb_env \<Rightarrow> editlog_row \<Rightarrow> bool" where
  "storable F e \<longleftrightarrow> json_ok (el_key e) \<and> json_ok (el_values e) \<and> fb_from_iso F (fb_iso F (el_created e)) = Some (el_created e)"

definition after_stored :: "fdb_env \<Rightarrow> fdb_store \<Rightarrow> editlog_row \<Rightarrow> bool" where
  "after_stored F store e \<longleftrightarrow> storable F e \<and>
     (\<forall>((t, y, h, i), text) \<in> set store. t = el_tenant e \<and> y = el_type e \<and> h = pk_hash F (el_key e) \<longrightarrow> i < fb_iso F (el_created e))"

lemma decode_stored: "storable F e \<Longrightarrow> decode_entry F (json_dumps (PDict (entry_data F e))) = Some e"
proof -
  assume e: "storable F e"
  have "json_ok (opt_str_val (el_action e))" by (simp add: opt_str_val_def split: option.split)
  then have "json_ok (PDict (entry_data F e))"
    using e by (simp add: entry_data_def storable_def)
  then have "json_loads (json_dumps (PDict (entry_data F e))) = Some (PDict (entry_data F e))"
    by (rule json_loads_dumps)
  moreover have "(case opt_str_val (el_action e) of PStr a \<Rightarrow> Some a | _ \<Rightarrow> None) = el_action e"
    by (simp add: opt_str_val_def split: option.split)
  ultimately show ?thesis
    using e by (simp add: decode_entry_def data_to_entry_def entry_data_def dget_or_def pget_def storable_def)
qed

lemma update_new: "k \<notin> fst ` set d \<Longrightarrow> AList.update k v d = d @ [(k, v)]"
  by (induction d) auto

lemma update_subset: "set (AList.update k v d) \<subseteq> insert (k, v) (set d)"
  by (induction d) auto

lemma map_filter_snoc: "List.map_filter f (xs @ [x]) = List.map_filter f xs @ (case f x of None \<Rightarrow> [] | Some y \<Rightarrow> [y])"
  by (auto simp: List.map_filter_def split: option.split)

abbreviation same_hash :: "fdb_env \<Rightarrow> pyval \<Rightarrow> pyval \<Rightarrow> bool" where
  "same_hash F k k' \<equiv> pk_hash F k = pk_hash F k'"

interpretation fdb: edit_log "fdb_write F" "fdb_read_by_key F" "same_hash F" "after_stored F" for F
proof
  fix store e key and tenant ty branch :: string
  assume a: "after_stored F store e"
  let ?P = "\<lambda>((t, y, h, i), text). t = tenant \<and> y = ty \<and> h = pk_hash F key"
  have new: "fdb_key_of F e \<notin> fst ` set store"
    using a by (fastforce simp: after_stored_def fdb_key_of_def)
  have w: "fdb_write F e store = store @ [(fdb_key_of F e, json_dumps (PDict (entry_data F e)))]"
    unfolding fdb_write_def by (rule update_new [OF new])
  have e: "decode_entry F (json_dumps (PDict (entry_data F e))) = Some e"
    using a by (intro decode_stored) (simp add: after_stored_def)
  show "fdb_read_by_key F (fdb_write F e store) tenant ty key branch =
      (if el_tenant e = tenant \<and> el_type e = ty \<and> same_hash F (el_key e) key \<and> el_branch e = branch
       then fdb_read_by_key F store tenant ty key branch @ [e] else fdb_read_by_key F store tenant ty key branch)"
  proof (cases "el_tenant e = tenant \<and> el_type e = ty \<and> same_hash F (el_key e) key")
    case False
    then have "filter ?P (fdb_write F e store) = filter ?P store" by (auto simp: w fdb_key_of_def)
    then show ?thesis using False by (auto simp: fdb_read_by_key_def)
  next
    case True
    then have f: "filter ?P (fdb_write F e store) = filter ?P store @ [(fdb_key_of F e, json_dumps (PDict (entry_data F e)))]"
      by (simp add: w fdb_key_of_def)
    have "sort_key fst (filter ?P (fdb_write F e store)) =
        sort_key fst (filter ?P store) @ [(fdb_key_of F e, json_dumps (PDict (entry_data F e)))]"
      unfolding f by (rule sort_key_last) (use a True in \<open>fastforce simp: after_stored_def fdb_key_of_def less_eq_prod_def\<close>)
    then show ?thesis using True e by (simp add: fdb_read_by_key_def map_filter_snoc)
  qed
qed

subsection \<open>Replay and last writes\<close>

text \<open>The value of a field looked for backwards, from the newest entry.\<close>

fun last_write :: "editlog_row list \<Rightarrow> pyval dict option \<Rightarrow> string \<Rightarrow> pyval option" where
  "last_write [] base f = (case base of None \<Rightarrow> None | Some r \<Rightarrow> dget r f)"
| "last_write (e # es) base f =
     (let vals = (case el_values e of PDict d \<Rightarrow> d | _ \<Rightarrow> []) in
      if el_operation e = ''delete'' then None
      else case dget vals f of
        Some v \<Rightarrow> Some v
      | None \<Rightarrow> if el_operation e = ''create'' then None else last_write es base f)"

definition valid_entry :: "editlog_row \<Rightarrow> bool" where
  "valid_entry e \<longleftrightarrow> el_operation e \<in> set EDIT_OPERATIONS \<and> (\<exists>d. el_values e = PDict d \<and> dict_ok d)"

lemma merge_snoc: "merge_row (es @ [e]) base = apply_edit e (merge_row es base)"
  by (simp add: merge_row_def)

lemma replay_fields:
  assumes "list_all valid_entry es"
  shows "(case merge_row es base of None \<Rightarrow> None | Some r \<Rightarrow> dget r f) = last_write (rev es) base f"
  using assms
proof (induction es rule: rev_induct)
  case Nil
  show ?case by (simp add: merge_row_def)
next
  case (snoc e es)
  obtain d where d: "el_values e = PDict d" "dict_ok d" using snoc.prems by (auto simp: valid_entry_def)
  have op: "el_operation e \<in> {''create'', ''update'', ''delete''}"
    using snoc.prems by (auto simp: valid_entry_def EDIT_OPERATIONS_def)
  have ih: "(case merge_row es base of None \<Rightarrow> None | Some r \<Rightarrow> dget r f) = last_write (rev es) base f"
    using snoc by simp
  show ?case
    unfolding merge_snoc using op d ih
    by (auto simp: apply_edit_def dget_dupdate_ok split: option.splits)
qed

end
