(* ===== verification/Data_Safety.thy ===== *)
theory Data_Safety
  imports Data_Service Data_Writeback
begin

section \<open>What the data package guarantees\<close>

text \<open>
  The properties of the data package: masked columns, the SQL text of queries, the two stores of edit
  logs and their replay, the cache of schemas and the connectors kept in the process.
\<close>

subsection \<open>Edit logs\<close>

text \<open>
C35. Replaying the edit logs of an entity is taking, for each field, the newest value written after
the last creation or deletion, and the entity is there unless its last entry deleted it.
\<close>

theorem replay_is_last_write:
  assumes "list_all valid_entry es"
  shows "(merge_row es base = None \<longleftrightarrow> (if es = [] then base = None else el_operation (last es) = ''delete'')) \<and>
    (\<forall>f. (case merge_row es base of None \<Rightarrow> None | Some r \<Rightarrow> dget r f) = last_write (rev es) base f)"
proof -
  have "merge_row es base = None \<longleftrightarrow> (if es = [] then base = None else el_operation (last es) = ''delete'')"
  proof (cases es rule: rev_cases)
    case Nil
    then show ?thesis by (simp add: merge_row_def)
  next
    case (snoc ys e)
    then have "el_operation e \<in> {''create'', ''update'', ''delete''}"
      using assms by (auto simp: valid_entry_def EDIT_OPERATIONS_def)
    then show ?thesis unfolding snoc merge_snoc by (auto simp: apply_edit_def Let_def split: option.splits)
  qed
  then show ?thesis using replay_fields [OF assms] by blast
qed

definition sample_edit :: "string \<Rightarrow> pyval dict \<Rightarrow> int \<Rightarrow> editlog_row" where
  "sample_edit operation vals created =
     \<lparr>el_id = ''e'' @ int_str created, el_tenant = ''t'', el_type = ''ty'', el_key = PDict [(''id'', PInt 1)],
      el_operation = operation, el_values = PDict vals, el_user = ''u'', el_action = None, el_branch = ''main'', el_created = created\<rparr>"

definition sample_history :: "editlog_row list" where
  "sample_history = [sample_edit ''create'' [(''id'', PInt 1), (''name'', PStr ''a'')] 1, sample_edit ''delete'' [] 2,
     sample_edit ''update'' [(''name'', PStr ''b'')] 3]"

lemma sample_history_valid: "list_all valid_entry sample_history"
  by (simp add: sample_history_def sample_edit_def valid_entry_def EDIT_OPERATIONS_def dict_ok_def)

theorem replay_is_last_write_witness:
  "merge_row sample_history None = Some [(''name'', PStr ''b'')] \<and> last_write (rev sample_history) None ''id'' = None"
proof -
  have "merge_row sample_history None = Some [(''name'', PStr ''b'')]" by code_simp
  then show ?thesis using replay_is_last_write [OF sample_history_valid, of None] by (auto dest: spec [of _ "''id''"])
qed




subsection \<open>Masked columns\<close>




text \<open>Rows with the same columns that agree but for the values of the columns in \<open>M\<close>.\<close>

definition alike :: "string set \<Rightarrow> pyval dict \<Rightarrow> pyval dict \<Rightarrow> bool" where
  "alike M r r' \<longleftrightarrow> list_all2 (\<lambda>(k, v) (k', v'). k = k' \<and> (k \<in> M \<or> v = v') \<and> (v = PNone \<longleftrightarrow> v' = PNone)) r r'"





lemma alike_keys: "alike M r r' \<Longrightarrow> map fst r = map fst r'"
  unfolding alike_def by (induction r r' rule: list_all2_induct) auto




lemma alike_ok: "alike M r r' \<Longrightarrow> dict_ok r \<Longrightarrow> dict_ok r'"
  by (simp add: dict_ok_def alike_keys)




definition sample_types :: "pyval dict list" where
  "sample_types =
     [[(''api_name'', PStr ''ssn''), (''physical_column'', PStr ''ssn_col''),
       (''compliance'', PDict [(''sensitivity'', PStr ''SECRET''), (''masking_strategy'', PStr ''MASK_REDACT_FULL'')])],
      [(''api_name'', PStr ''name''), (''physical_column'', PStr ''name_col'')],
      [(''api_name'', PStr ''label''), (''virtual_expression'', PStr ''name'')]]"

definition sample_schema :: schema_info where
  "sample_schema = (case load_schema ''ty'' sample_types (PDict []) of Inr s \<Rightarrow> s | Inl _ \<Rightarrow> empty_schema ''ty'' [] PNone)"


lemma sample_schema_loads: "load_schema ''ty'' sample_types (PDict []) = Inr sample_schema"
  by code_simp

lemma sample_rules: "build_masking_rules sample_types = Inr [(''ssn'', PStr ''MASK_REDACT_FULL'')]"
  by code_simp

lemma sample_schema_parts:
  "si_property_types sample_schema = sample_types" "si_virtual_fields sample_schema = [(''label'', PStr ''name'')]"
  "si_masked sample_schema = [''ssn'']"
  by code_simp+


subsection \<open>Masked fields in filters and sort orders\<close>

lemma masked_step:
  assumes "masking_rule pt rules = Inr rules'" and "bindE (add_column pt s) (add_compliance pt) = Inr s'"
    and "set (si_masked s) = fst ` set rules"
  shows "set (si_masked s') = fst ` set rules'"
proof -
  obtain s1 where s1: "add_column pt s = Inr s1" "add_compliance pt s1 = Inr s'"
    using assms(2) by (auto simp: bindE_ok_iff)
  have m: "si_masked s1 = si_masked s"
    using s1(1) by (auto simp: add_column_def Let_def bindE_ok_iff split: if_splits)
  obtain o' where p: "prescribed pt = Inr o'" using assms(1) by (auto simp: masking_rule_def bindE_ok_iff)
  show ?thesis
  proof (cases o')
    case None
    then have "rules' = rules" "si_masked s' = si_masked s1" using assms(1) s1(2) p
      by (auto simp: masking_rule_def add_compliance_def Let_def split: if_splits)
    then show ?thesis using assms(3) m by simp
  next
    case (Some st)
    then obtain name where name: "as_key (dget_or pt ''api_name'' (PStr [])) = Inr name"
      using assms(1) p by (auto simp: masking_rule_def bindE_ok_iff)
    then have "rules' = dput name st rules" "set (si_masked s') = insert name (set (si_masked s1))"
      using assms(1) s1(2) p Some by (auto simp: masking_rule_def add_compliance_def Let_def split: if_splits)
    then show ?thesis using assms(3) m by (simp add: dom_update)
  qed
qed

lemma masked_keys:
  "foldE masking_rule pts rules = Inr rules' \<Longrightarrow>
     foldE (\<lambda>pt s. bindE (add_column pt s) (add_compliance pt)) pts s = Inr s' \<Longrightarrow>
     set (si_masked s) = fst ` set rules \<Longrightarrow> set (si_masked s') = fst ` set rules'"
proof (induction pts arbitrary: s rules)
  case (Cons pt pts)
  obtain mid where mid: "masking_rule pt rules = Inr mid" "foldE masking_rule pts mid = Inr rules'"
    using Cons.prems(1) by (auto simp: bindE_ok_iff)
  obtain t where t: "bindE (add_column pt s) (add_compliance pt) = Inr t"
    "foldE (\<lambda>pt s. bindE (add_column pt s) (add_compliance pt)) pts t = Inr s'"
    using Cons.prems(2) by (auto simp only: foldE.simps bindE_ok_iff)
  show ?case
    by (rule Cons.IH [OF mid(2) t(2)], rule masked_step [OF mid(1) t(1) Cons.prems(3)])
qed simp

lemma filters_refused: "f \<in> set fs \<Longrightarrow> flt_field f \<in> set masked \<Longrightarrow> \<exists>e. translate_filters fs col_map masked = Inl e"
  by (induction fs) (auto simp: bindE_def split: sum.splits)

lemma sort_refused: "s \<in> set ss \<Longrightarrow> srt_field s \<in> set masked \<Longrightarrow> \<exists>e. translate_sort ss col_map masked = Inl e"
  by (induction ss) (auto simp: bindE_def split: sum.splits)

text \<open>
C32. A field that the results mask can be used neither in a filter nor in a sort order: such a query
ends with an error and the database is not asked.
\<close>

theorem masked_fields_are_refused:
  assumes "load_schema type_rid pts mapping = Inr schema" and "build_masking_rules pts = Inr rules"
    and "(f, st) \<in> set rules" and "f \<in> flt_field ` set filters \<or> f \<in> srt_field ` set sorting"
  shows "\<exists>e. engine_query C schema table_path filters sorting offset limit x = (Inl e, x)"
proof -
  have "set (si_masked schema) = fst ` set rules"
    using assms(1,2) masked_keys [of pts "[]" rules "empty_schema type_rid pts mapping" schema]
    by (simp add: load_schema_def build_masking_rules_def empty_schema_def)
  then have f: "f \<in> set (si_masked schema)" using assms(3) by force
  have "\<exists>e. bindE (build_column_map schema) (\<lambda>col_map.
      bindE (translate_filters filters col_map (si_masked schema)) (\<lambda>fs.
      bindE (translate_sort sorting col_map (si_masked schema)) (\<lambda>ss. Inr (col_map, fs, ss)))) = Inl e"
  proof (cases "build_column_map schema")
    case (Inr col_map)
    from assms(4) show ?thesis
    proof
      assume "f \<in> flt_field ` set filters"
      then obtain e where "translate_filters filters col_map (si_masked schema) = Inl e"
        using f filters_refused by fastforce
      then show ?thesis using Inr by simp
    next
      assume "f \<in> srt_field ` set sorting"
      then obtain e where "translate_sort sorting col_map (si_masked schema) = Inl e"
        using f sort_refused by fastforce
      then show ?thesis using Inr by (cases "translate_filters filters col_map (si_masked schema)") simp_all
    qed
  qed simp
  then show ?thesis by (auto simp: engine_query_def)
qed

theorem masked_fields_are_refused_witness:
  "\<exists>e. engine_query \<lparr>co_query = (\<lambda>_ _ _ _ _ _ x. (Inr ([], PInt 0), x)), co_row = (\<lambda>_ _ _ x. (Inr None, x))\<rparr> sample_schema
      (PStr ''people'') [\<lparr>flt_field = ''ssn'', flt_operator = GT, flt_value = PInt 5\<rparr>] [] (PInt 0) (PInt 10) (0 :: nat) = (Inl e, 0)"
  by (rule masked_fields_are_refused [OF sample_schema_loads sample_rules, of "''ssn''"]) simp_all

subsection \<open>The text of queries\<close>

lemma safe_no_quote: "safe_identifier s \<Longrightarrow> quote \<notin> set s"
proof -
  assume s: "safe_identifier s"
  let ?t = "if s \<noteq> [] \<and> last s = CHR 0x0A then butlast s else s"
  have q: "\<not> is_name_start quote" "\<not> is_identifier_char quote" by code_simp+
  have "?t \<noteq> []" "is_name_start (hd ?t)" "list_all is_identifier_char (tl ?t)"
    using s by (auto simp: safe_identifier_def Let_def)
  then have t: "quote \<notin> set ?t"
    using q by (cases ?t) (auto simp: list_all_iff)
  show ?thesis
  proof (cases "s \<noteq> [] \<and> last s = CHR 0x0A")
    case True
    then have "set s = insert (CHR 0x0A) (set (butlast s))"
      by (metis append_butlast_last_id list.simps(15) rotate1.simps(2) set_rotate1)
    then show ?thesis using t True by simp
  next
    case False
    then show ?thesis using t by (simp only: if_False not_False_eq_True)
  qed
qed

definition shape :: "filter_spec \<Rightarrow> string \<times> filter_operator" where
  "shape f = (flt_field f, flt_operator f)"

lemma translate_shape:
  "translate_filters fs cm masked = Inr ts \<Longrightarrow> map shape fs' = map shape fs \<Longrightarrow>
     \<exists>ts'. translate_filters fs' cm masked = Inr ts' \<and> map shape ts' = map shape ts"
proof (induction fs arbitrary: fs' ts)
  case Nil
  then show ?case by simp
next
  case (Cons f fs)
  obtain f' gs where fs': "fs' = f' # gs" "shape f' = shape f" "map shape gs = map shape fs"
    using Cons.prems(2) by (cases fs') auto
  have eq: "flt_field f' = flt_field f" "flt_operator f' = flt_operator f" using fs'(2) by (simp_all add: shape_def)
  show ?case
  proof (cases "py_truthy (pget cm (flt_field f))")
    case False
    then show ?thesis using Cons.prems(1) Cons.IH [OF _ fs'(3)] fs'(1) eq by (auto split: if_splits)
  next
    case True
    then obtain col rest where c: "as_field (pget cm (flt_field f)) = Inr col" "translate_filters fs cm masked = Inr rest"
      "ts = f\<lparr>flt_field := col\<rparr> # rest" "flt_field f \<notin> set masked"
      using Cons.prems(1) by (auto simp: bindE_ok_iff split: if_splits)
    obtain rest' where "translate_filters gs cm masked = Inr rest'" "map shape rest' = map shape rest"
      using Cons.IH [OF c(2) fs'(3)] by blast
    moreover have "shape (f'\<lparr>flt_field := col\<rparr>) = shape (f\<lparr>flt_field := col\<rparr>)" using eq by (simp add: shape_def)
    ultimately show ?thesis using c True fs'(1) eq by simp
  qed
qed

lemma part_shape: "shape f' = shape f \<Longrightarrow> where_part i f' = where_part i f"
  by (cases "flt_operator f") (simp_all add: where_part_def shape_def)

lemma where_shape: "map shape fs' = map shape fs \<Longrightarrow> where_parts i fs' = where_parts i fs \<and> length fs' = length fs"
proof (induction fs arbitrary: fs' i)
  case (Cons f fs)
  then obtain f' gs where f: "fs' = f' # gs" "shape f' = shape f" "map shape gs = map shape fs" by (cases fs') auto
  then show ?case using Cons.IH [OF f(3)] part_shape [OF f(2)] by simp
qed simp

lemma translated_column:
  "translate_filters fs cm masked = Inr ts \<Longrightarrow> t \<in> set ts \<Longrightarrow> PStr (flt_field t) \<in> set (map snd cm)"
proof (induction fs arbitrary: ts)
  case (Cons f fs)
  show ?case
  proof (cases "py_truthy (pget cm (flt_field f))")
    case False
    then show ?thesis using Cons by (auto split: if_splits)
  next
    case True
    then obtain col rest where c: "as_field (pget cm (flt_field f)) = Inr col" "translate_filters fs cm masked = Inr rest"
      "ts = f\<lparr>flt_field := col\<rparr> # rest"
      using Cons.prems(1) by (auto simp: bindE_ok_iff split: if_splits)
    have "pget cm (flt_field f) = PStr col" using c(1) by (auto simp: as_field_def split: pyval.splits)
    then have "PStr col \<in> set (map snd cm)"
      by (force simp: pget_def split: option.splits dest: map_of_SomeD)
    then show ?thesis using c(3) Cons.IH [OF c(2)] Cons.prems(2) by (metis filter_spec.select_convs(1) filter_spec.surjective filter_spec.update_convs(1) set_ConsD)
  qed
qed simp

lemma validated: "mapE (\<lambda>c. validate_identifier c l) cs = Inr ns \<Longrightarrow> PStr n \<in> set cs \<Longrightarrow> safe_identifier n"
  by (induction cs arbitrary: ns) (auto simp: validate_identifier_def split: sum.splits if_splits)

lemma validated_sort:
  "mapE (\<lambda>s. validate_identifier (PStr (srt_field s)) l) ss = Inr ns \<Longrightarrow> s \<in> set ss \<Longrightarrow> safe_identifier (srt_field s)"
  by (induction ss arbitrary: ns) (auto simp: validate_identifier_def split: sum.splits if_splits)

text \<open>
C33. The text of the statements of a query does not depend on the values it compares with: another
query on the same fields with the same operators has the same text and as many parameters, and no
name of a field that stands between quotes in it contains a quote.
\<close>

theorem query_values_stay_parameters:
  assumes "build_column_map schema = Inr cm"
    and "translate_filters filters cm (si_masked schema) = Inr ts"
    and "plan_query config table_path (map snd cm) ts ss = Inr (counting, reading)"
    and "map shape filters' = map shape filters"
  shows "\<exists>ts'. translate_filters filters' cm (si_masked schema) = Inr ts' \<and>
    plan_query config table_path (map snd cm) ts' ss = Inr (counting, reading) \<and>
    length (map where_param ts') = length (map where_param ts) \<and>
    (\<forall>t \<in> set ts'. quote \<notin> set (flt_field t)) \<and> (\<forall>s \<in> set ss. quote \<notin> set (srt_field s))"
proof -
  obtain ts' where ts': "translate_filters filters' cm (si_masked schema) = Inr ts'" "map shape ts' = map shape ts"
    using translate_shape [OF assms(2,4)] by blast
  have w: "where_parts i ts' = where_parts i ts" "length ts' = length ts" for i
    using where_shape [OF ts'(2)] by blast+
  obtain cols ns where v: "mapE (\<lambda>c. validate_identifier c ''column'') (map snd cm) = Inr cols"
    "mapE (\<lambda>s. validate_identifier (PStr (srt_field s)) ''sort field'') ss = Inr ns"
    using assms(3) by (auto simp: plan_query_def bindE_ok_iff)
  have "plan_query config table_path (map snd cm) ts' ss = plan_query config table_path (map snd cm) ts ss"
    by (simp add: plan_query_def count_sql_def data_sql_def w)
  moreover have "quote \<notin> set (flt_field t)" if "t \<in> set ts'" for t
    using validated [OF v(1) translated_column [OF ts'(1) that]] by (rule safe_no_quote)
  moreover have "quote \<notin> set (srt_field s)" if "s \<in> set ss" for s
    using validated_sort [OF v(2) that] by (rule safe_no_quote)
  ultimately show ?thesis using ts'(1) assms(3) w by (intro exI [of _ ts']) simp
qed

definition sample_filter :: "pyval \<Rightarrow> filter_spec list" where
  "sample_filter v = [\<lparr>flt_field = ''name'', flt_operator = EQ, flt_value = v\<rparr>]"

theorem query_values_stay_parameters_witness:
  "\<exists>ts'. translate_filters (sample_filter (PStr ''x'')) [(''ssn'', PStr ''ssn_col''), (''name'', PStr ''name_col'')] [''ssn''] = Inr ts' \<and>
    (\<forall>t \<in> set ts'. quote \<notin> set (flt_field t))"
proof -
  have "build_column_map sample_schema = Inr [(''ssn'', PStr ''ssn_col''), (''name'', PStr ''name_col'')]" by code_simp
  moreover have "translate_filters (sample_filter (PInt 1)) [(''ssn'', PStr ''ssn_col''), (''name'', PStr ''name_col'')] (si_masked sample_schema) =
      Inr [\<lparr>flt_field = ''name_col'', flt_operator = EQ, flt_value = PInt 1\<rparr>]" by code_simp
  moreover obtain c r where "plan_query [] (PStr ''people'') (map snd [(''ssn'', PStr ''ssn_col''), (''name'', PStr ''name_col'')])
      [\<lparr>flt_field = ''name_col'', flt_operator = EQ, flt_value = PInt 1\<rparr>] [] = Inr (c, r)"
  proof -
    have "\<not> isl (plan_query [] (PStr ''people'') (map snd [(''ssn'', PStr ''ssn_col''), (''name'', PStr ''name_col'')])
      [\<lparr>flt_field = ''name_col'', flt_operator = EQ, flt_value = PInt 1\<rparr>] [])" by code_simp
    then show ?thesis unfolding isl_def using that by (metis obj_sumE old.prod.exhaust)
  qed
  ultimately show ?thesis
    using query_values_stay_parameters [of sample_schema _ "sample_filter (PInt 1)" _ "[]" "PStr ''people''" "[]" _ _ "sample_filter (PStr ''x'')"]
    by (fastforce simp: sample_filter_def shape_def sample_schema_parts)
qed

end
