(* ===== verification/Copilot_Store.thy ===== *)
theory Copilot_Store
  imports Function_Catalog
begin

section \<open>Tables of the copilot package\<close>

text \<open>
  The five tables of \<open>copilot/models.py\<close>, the repository of sessions (\<open>copilot/sessions\<close>) and the
  managers of models, skills, tool servers and sub-agents (\<open>copilot/infra\<close>). They live in the database
  of the function package: a request has one session, and one commit for both. The four managers repeat
  the same statements, which are written once for any table whose rows have an identifier, a tenant and
  a time of creation; the locale \<open>tenant_table\<close> (in \<open>Copilot_Machine\<close>) says what reading gives after writing.
\<close>

subsection \<open>Rows\<close>

record session_row =
  cs_id :: string
  cs_tenant :: string
  cs_user :: string
  cs_mode :: string
  cs_title :: "string option"
  cs_context :: "pyval dict"
  cs_model :: "string option"
  cs_status :: string
  cs_created :: int
  cs_active :: int

record model_row =
  md_rid :: string
  md_tenant :: string
  md_api_name :: string
  md_name :: string
  md_provider :: string
  md_connection :: pyval
  md_parameters :: pyval
  md_default :: bool
  md_created :: int
  md_updated :: int

record skill_row =
  sk_rid :: string
  sk_tenant :: string
  sk_api_name :: string
  sk_name :: string
  sk_descr :: "string option"
  sk_prompt :: "string option"
  sk_tools :: pyval
  sk_enabled :: bool
  sk_created :: int
  sk_updated :: int

record mcp_row =
  mc_rid :: string
  mc_tenant :: string
  mc_api_name :: string
  mc_name :: string
  mc_descr :: "string option"
  mc_transport :: "pyval dict"
  mc_auth :: "pyval dict option"
  mc_tools :: pyval
  mc_status :: string
  mc_enabled :: bool
  mc_created :: int
  mc_updated :: int

record agent_row =
  ag_rid :: string
  ag_tenant :: string
  ag_api_name :: string
  ag_name :: string
  ag_descr :: "string option"
  ag_model :: "string option"
  ag_prompt :: "string option"
  ag_tools :: pyval
  ag_safety :: pyval
  ag_enabled :: bool
  ag_created :: int
  ag_updated :: int

record copdb =
  cd_sessions :: "session_row list"
  cd_models :: "model_row list"
  cd_skills :: "skill_row list"
  cd_mcps :: "mcp_row list"
  cd_agents :: "agent_row list"

definition empty_copdb :: copdb where
  "empty_copdb = \<lparr>cd_sessions = [], cd_models = [], cd_skills = [], cd_mcps = [], cd_agents = []\<rparr>"

subsection \<open>The session of a request\<close>

text \<open>
  The world of the function package, the committed tables and what the open transaction sees, and the
  counter of the renderer that all message streams share.
\<close>

record 'x cworld =
  cw_f :: "'x fworld"
  cw_db :: copdb
  cw_tx :: copdb
  cw_events :: nat

type_synonym ('x, 'a) cop = "('x cworld, exn, 'a) comp"

text \<open>A call into the function package, which finds no uncommitted change of these tables.\<close>

definition on_c :: "('x, 'a) fop \<Rightarrow> ('x, 'a) cop" where
  "on_c m w = (case m (cw_f w) of (r, f) \<Rightarrow> (r, w\<lparr>cw_f := f\<rparr>))"

definition csql :: "'x fenv \<Rightarrow> (int \<Rightarrow> copdb \<Rightarrow> 'a res \<times> copdb) \<Rightarrow> ('x, 'a) cop" where
  "csql E f =
     bindC (on_c (sql E (\<lambda>now d. (Inr now, d)))) (\<lambda>now w.
     case f now (cw_tx w) of (r, d) \<Rightarrow> (r, w\<lparr>cw_tx := d\<rparr>))"

definition ccommit :: "('x, unit) cop" where
  "ccommit w = (Inr (), w\<lparr>cw_db := cw_tx w, cw_f := snd (fcommit (cw_f w))\<rparr>)"

definition crollback :: "'x cworld \<Rightarrow> 'x cworld" where
  "crollback w = w\<lparr>cw_tx := cw_db w, cw_f := frollback (cw_f w)\<rparr>"

definition new_rid :: "'x fenv \<Rightarrow> string \<Rightarrow> ('x, string) cop" where
  "new_rid E ty = bindC (on_c (fuuid E)) (\<lambda>uuid. liftC (generate_rid uuid ty))"

subsection \<open>Sessions\<close>

text \<open>
  The tables and the clock. \<open>cv_naive\<close> is what the driver does with an instant that carries a time
  zone when the column (\<open>last_active_at\<close>) is declared without one.
\<close>

record 'x cenv =
  cv_f :: "'x fenv"
  cv_naive :: "int \<Rightarrow> int res"

definition is_session :: "string \<Rightarrow> string \<Rightarrow> session_row \<Rightarrow> bool" where
  "is_session sid tenant s \<longleftrightarrow> cs_id s = sid \<and> cs_tenant s = tenant"

definition session_get_by_id :: "'x cenv \<Rightarrow> string \<Rightarrow> string \<Rightarrow> ('x, session_row option) cop" where
  "session_get_by_id V sid tenant =
     csql (cv_f V) (\<lambda>now d.
       (one_or_none (filter (\<lambda>s. is_session sid tenant s \<and> cs_status s = ''active'') (cd_sessions d)), d))"

definition session_create :: "'x cenv \<Rightarrow> (int \<Rightarrow> session_row) \<Rightarrow> ('x, session_row) cop" where
  "session_create V mk = csql (cv_f V) (\<lambda>now d.
     if cs_id (mk now) \<in> cs_id ` set (cd_sessions d) then (Inl integrity_error, d)
     else (Inr (mk now), d\<lparr>cd_sessions := cd_sessions d @ [mk now]\<rparr>))"

definition session_update_fields :: "'x cenv \<Rightarrow> string \<Rightarrow> string \<Rightarrow> (session_row \<Rightarrow> session_row) \<Rightarrow> ('x, session_row option) cop" where
  "session_update_fields V sid tenant assign =
     bindC (csql (cv_f V) (\<lambda>now d. (Inr (), d\<lparr>cd_sessions :=
        map (\<lambda>s. if is_session sid tenant s then assign s else s) (cd_sessions d)\<rparr>))) (\<lambda>_.
     session_get_by_id V sid tenant)"

definition session_soft_delete :: "'x cenv \<Rightarrow> string \<Rightarrow> string \<Rightarrow> ('x, bool) cop" where
  "session_soft_delete V sid tenant =
     bindC (session_get_by_id V sid tenant) (\<lambda>found.
     case found of
       None \<Rightarrow> retC False
     | Some _ \<Rightarrow> csql (cv_f V) (\<lambda>now d. (Inr True, d\<lparr>cd_sessions :=
          map (\<lambda>s. if is_session sid tenant s then s\<lparr>cs_status := ''deleted''\<rparr> else s) (cd_sessions d)\<rparr>)))"

definition session_list_by_user :: "string \<Rightarrow> string \<Rightarrow> nat \<Rightarrow> nat \<Rightarrow> copdb \<Rightarrow> session_row list \<times> nat" where
  "session_list_by_user tenant user offset limit d =
     newest cs_active offset limit
       (filter (\<lambda>s. cs_tenant s = tenant \<and> cs_user s = user \<and> cs_status s = ''active'') (cd_sessions d))"

subsection \<open>The session manager\<close>

definition no_session :: "string \<Rightarrow> exn" where
  "no_session sid = AppError COPILOT_SESSION_NOT_FOUND (''Session '' @ sid @ '' not found'') []"

definition sm_create_session :: "'x cenv \<Rightarrow> ctx \<Rightarrow> string \<Rightarrow> pyval dict \<Rightarrow> ('x, session_row) cop" where
  "sm_create_session V c mode context =
     bindC (liftC (get_tenant_id c)) (\<lambda>tenant.
     bindC (liftC (get_user_id c)) (\<lambda>user.
     bindC (new_rid (cv_f V) ''session'') (\<lambda>sid.
     bindC (session_create V (\<lambda>now. \<lparr>cs_id = sid, cs_tenant = tenant, cs_user = user, cs_mode = mode, cs_title = None,
       cs_context = context, cs_model = None, cs_status = ''active'', cs_created = now, cs_active = now\<rparr>)) (\<lambda>s.
     bindC ccommit (\<lambda>_. retC s)))))"

definition sm_get_session :: "'x cenv \<Rightarrow> ctx \<Rightarrow> string \<Rightarrow> ('x, session_row) cop" where
  "sm_get_session V c sid =
     bindC (liftC (get_tenant_id c)) (\<lambda>tenant.
     bindC (session_get_by_id V sid tenant) (\<lambda>found.
     case found of None \<Rightarrow> raiseC (no_session sid) | Some s \<Rightarrow> retC s))"

text \<open>\<open>datetime.now(tz=UTC)\<close> bound to the column.\<close>

definition stamp :: "'x cenv \<Rightarrow> ('x, int) cop" where
  "stamp V = bindC (on_c (fclock (cv_f V))) (\<lambda>t. liftC (cv_naive V t))"

definition sm_update_context :: "'x cenv \<Rightarrow> ctx \<Rightarrow> string \<Rightarrow> pyval dict \<Rightarrow> ('x, session_row) cop" where
  "sm_update_context V c sid context =
     bindC (liftC (get_tenant_id c)) (\<lambda>tenant.
     bindC (stamp V) (\<lambda>t.
     bindC (session_update_fields V sid tenant (\<lambda>s. s\<lparr>cs_context := context, cs_active := t\<rparr>)) (\<lambda>updated.
     case updated of
       None \<Rightarrow> raiseC (no_session sid)
     | Some s \<Rightarrow> bindC ccommit (\<lambda>_. retC s))))"

definition sm_update_title :: "'x cenv \<Rightarrow> ctx \<Rightarrow> string \<Rightarrow> string \<Rightarrow> ('x, unit) cop" where
  "sm_update_title V c sid title =
     bindC (liftC (get_tenant_id c)) (\<lambda>tenant.
     bindC (session_update_fields V sid tenant (\<lambda>s. s\<lparr>cs_title := Some title\<rparr>)) (\<lambda>_. ccommit))"

definition sm_touch :: "'x cenv \<Rightarrow> ctx \<Rightarrow> string \<Rightarrow> ('x, unit) cop" where
  "sm_touch V c sid =
     bindC (liftC (get_tenant_id c)) (\<lambda>tenant.
     bindC (stamp V) (\<lambda>t.
     bindC (session_update_fields V sid tenant (\<lambda>s. s\<lparr>cs_active := t\<rparr>)) (\<lambda>_. ccommit)))"

definition sm_delete_session :: "'x cenv \<Rightarrow> ctx \<Rightarrow> string \<Rightarrow> ('x, unit) cop" where
  "sm_delete_session V c sid =
     bindC (liftC (get_tenant_id c)) (\<lambda>tenant.
     bindC (session_soft_delete V sid tenant) (\<lambda>deleted.
     if deleted then ccommit else raiseC (no_session sid)))"

definition sm_query_sessions :: "'x cenv \<Rightarrow> ctx \<Rightarrow> nat \<Rightarrow> nat \<Rightarrow> ('x, session_row list \<times> nat) cop" where
  "sm_query_sessions V c offset limit =
     bindC (liftC (get_tenant_id c)) (\<lambda>tenant.
     bindC (liftC (get_user_id c)) (\<lambda>user.
     csql (cv_f V) (\<lambda>now d. (Inr (session_list_by_user tenant user offset limit d), d))))"

end
