(* ===== verification/Copilot_Managers.thy ===== *)
theory Copilot_Managers
  imports Copilot_Store
begin

section \<open>Managers of models, skills, tool servers and sub-agents\<close>

text \<open>
  \<open>copilot/infra/models.py\<close>, \<open>skills.py\<close>, \<open>mcp.py\<close> (the table; the protocol is in \<open>Copilot_Mcp\<close>) and
  \<open>subagents.py\<close>. A table is given by how to read and replace its rows and by the columns every
  manager uses.
\<close>

subsection \<open>Tables with a tenant\<close>

record 'r table =
  tb_rows :: "copdb \<Rightarrow> 'r list"
  tb_put :: "'r list \<Rightarrow> copdb \<Rightarrow> copdb"
  tb_rid :: "'r \<Rightarrow> string"
  tb_tenant :: "'r \<Rightarrow> string"
  tb_created :: "'r \<Rightarrow> int"

definition is_row :: "'r table \<Rightarrow> string \<Rightarrow> string \<Rightarrow> 'r \<Rightarrow> bool" where
  "is_row T rid tenant r \<longleftrightarrow> tb_rid T r = rid \<and> tb_tenant T r = tenant"

definition tb_change :: "'r table \<Rightarrow> ('r \<Rightarrow> bool) \<Rightarrow> ('r \<Rightarrow> 'r) \<Rightarrow> copdb \<Rightarrow> copdb" where
  "tb_change T which change d = tb_put T (map (\<lambda>r. if which r then change r else r) (tb_rows T d)) d"

text \<open>\<open>session.add\<close> and \<open>flush\<close>; a \<open>SELECT\<close> by identifier and tenant; a page of the newest rows.\<close>

definition tb_insert :: "'r table \<Rightarrow> 'r \<Rightarrow> copdb \<Rightarrow> 'r res \<times> copdb" where
  "tb_insert T r d =
     (if tb_rid T r \<in> tb_rid T ` set (tb_rows T d) then (Inl integrity_error, d)
      else (Inr r, tb_put T (tb_rows T d @ [r]) d))"

definition tb_find :: "'r table \<Rightarrow> string \<Rightarrow> string \<Rightarrow> copdb \<Rightarrow> 'r option res" where
  "tb_find T rid tenant d = one_or_none (filter (is_row T rid tenant) (tb_rows T d))"

definition tb_page :: "'r table \<Rightarrow> string \<Rightarrow> nat \<Rightarrow> nat \<Rightarrow> copdb \<Rightarrow> 'r list \<times> nat" where
  "tb_page T tenant offset limit d = newest (tb_created T) offset limit (filter (\<lambda>r. tb_tenant T r = tenant) (tb_rows T d))"

text \<open>What a manager does to the other rows of the tenant before it writes one, mostly nothing.\<close>

definition unprepared :: "int \<Rightarrow> string \<Rightarrow> copdb \<Rightarrow> copdb" where
  "unprepared now tenant d = d"

definition register_row :: "'x fenv \<Rightarrow> 'r table \<Rightarrow> (int \<Rightarrow> string \<Rightarrow> copdb \<Rightarrow> copdb) \<Rightarrow> ctx \<Rightarrow> string \<Rightarrow>
    (string \<Rightarrow> string \<Rightarrow> int \<Rightarrow> 'r) \<Rightarrow> ('x, 'r) cop" where
  "register_row E T prepare c ty mk =
     bindC (liftC (get_tenant_id c)) (\<lambda>tenant.
     bindC (csql E (\<lambda>now d. (Inr (), prepare now tenant d))) (\<lambda>_.
     bindC (new_rid E ty) (\<lambda>rid.
     bindC (csql E (\<lambda>now d. tb_insert T (mk rid tenant now) d)) (\<lambda>r.
     bindC ccommit (\<lambda>_. retC r)))))"

definition missing_row :: "string \<Rightarrow> string \<Rightarrow> exn" where
  "missing_row what rid = AppError COMMON_NOT_FOUND (what @ '' '' @ rid @ '' not found'') []"

definition get_row_of :: "'x fenv \<Rightarrow> 'r table \<Rightarrow> string \<Rightarrow> ctx \<Rightarrow> string \<Rightarrow> ('x, 'r) cop" where
  "get_row_of E T what c rid =
     bindC (liftC (get_tenant_id c)) (\<lambda>tenant.
     bindC (csql E (\<lambda>now d. (tb_find T rid tenant d, d))) (\<lambda>found.
     case found of None \<Rightarrow> raiseC (missing_row what rid) | Some r \<Rightarrow> retC r))"

definition update_row_of :: "'x fenv \<Rightarrow> 'r table \<Rightarrow> (int \<Rightarrow> string \<Rightarrow> copdb \<Rightarrow> copdb) \<Rightarrow> string \<Rightarrow> ctx \<Rightarrow> string \<Rightarrow>
    (int \<Rightarrow> 'r \<Rightarrow> 'r) \<Rightarrow> ('x, 'r) cop" where
  "update_row_of E T prepare what c rid change =
     bindC (liftC (get_tenant_id c)) (\<lambda>tenant.
     bindC (csql E (\<lambda>now d. (Inr (), tb_change T (is_row T rid tenant) (change now) (prepare now tenant d)))) (\<lambda>_.
     bindC ccommit (\<lambda>_. get_row_of E T what c rid)))"

definition delete_row_of :: "'x fenv \<Rightarrow> 'r table \<Rightarrow> string \<Rightarrow> ctx \<Rightarrow> string \<Rightarrow> ('x, unit) cop" where
  "delete_row_of E T what c rid =
     bindC (get_row_of E T what c rid) (\<lambda>r.
     bindC (csql E (\<lambda>now d. (Inr (), tb_put T (filter (\<lambda>r'. tb_rid T r' \<noteq> tb_rid T r) (tb_rows T d)) d))) (\<lambda>_.
     ccommit))"

definition query_rows_of :: "'x fenv \<Rightarrow> 'r table \<Rightarrow> ctx \<Rightarrow> nat \<Rightarrow> nat \<Rightarrow> ('x, 'r list \<times> nat) cop" where
  "query_rows_of E T c offset limit =
     bindC (liftC (get_tenant_id c)) (\<lambda>tenant.
     csql E (\<lambda>now d. (Inr (tb_page T tenant offset limit d), d)))"

subsection \<open>Models\<close>

definition models_table :: "model_row table" where
  "models_table = \<lparr>tb_rows = cd_models, tb_put = (\<lambda>rs d. d\<lparr>cd_models := rs\<rparr>), tb_rid = md_rid, tb_tenant = md_tenant,
     tb_created = md_created\<rparr>"

text \<open>No model of the tenant is the default any more; the column \<open>updated_at\<close> changes with every update.\<close>

definition clear_default :: "int \<Rightarrow> string \<Rightarrow> copdb \<Rightarrow> copdb" where
  "clear_default now tenant d =
     tb_change models_table (\<lambda>m. md_tenant m = tenant \<and> md_default m) (\<lambda>m. m\<lparr>md_default := False, md_updated := now\<rparr>) d"

definition model_register :: "'x fenv \<Rightarrow> ctx \<Rightarrow> string \<Rightarrow> string \<Rightarrow> string \<Rightarrow> pyval \<Rightarrow> pyval \<Rightarrow> bool \<Rightarrow> ('x, model_row) cop" where
  "model_register E c api nm provider connection parameters is_default =
     register_row E models_table (if is_default then clear_default else unprepared) c ''model''
       (\<lambda>rid tenant now. \<lparr>md_rid = rid, md_tenant = tenant, md_api_name = api, md_name = nm, md_provider = provider,
         md_connection = connection, md_parameters = parameters, md_default = is_default, md_created = now, md_updated = now\<rparr>)"

definition model_get :: "'x fenv \<Rightarrow> ctx \<Rightarrow> string \<Rightarrow> ('x, model_row) cop" where
  "model_get E = get_row_of E models_table ''Model''"

text \<open>The columns a request names.\<close>

record model_fields =
  mf_name :: "string option"
  mf_provider :: "string option"
  mf_connection :: "pyval option"
  mf_parameters :: "pyval option"
  mf_default :: "bool option"

definition model_assign :: "model_fields \<Rightarrow> int \<Rightarrow> model_row \<Rightarrow> model_row" where
  "model_assign f now m =
     m\<lparr>md_name := set_if (mf_name f) (md_name m), md_provider := set_if (mf_provider f) (md_provider m),
       md_connection := set_if (mf_connection f) (md_connection m), md_parameters := set_if (mf_parameters f) (md_parameters m),
       md_default := set_if (mf_default f) (md_default m), md_updated := now\<rparr>"

definition model_update :: "'x fenv \<Rightarrow> ctx \<Rightarrow> string \<Rightarrow> model_fields \<Rightarrow> ('x, model_row) cop" where
  "model_update E c rid f =
     update_row_of E models_table (if mf_default f = Some True then clear_default else unprepared) ''Model'' c rid (model_assign f)"

definition model_delete :: "'x fenv \<Rightarrow> ctx \<Rightarrow> string \<Rightarrow> ('x, unit) cop" where
  "model_delete E = delete_row_of E models_table ''Model''"

definition model_query :: "'x fenv \<Rightarrow> ctx \<Rightarrow> nat \<Rightarrow> nat \<Rightarrow> ('x, model_row list \<times> nat) cop" where
  "model_query E = query_rows_of E models_table"

definition model_get_default :: "'x fenv \<Rightarrow> ctx \<Rightarrow> ('x, model_row option) cop" where
  "model_get_default E c =
     bindC (liftC (get_tenant_id c)) (\<lambda>tenant.
     csql E (\<lambda>now d. (one_or_none (filter (\<lambda>m. md_tenant m = tenant \<and> md_default m) (cd_models d)), d)))"

subsection \<open>Skills\<close>

definition skills_table :: "skill_row table" where
  "skills_table = \<lparr>tb_rows = cd_skills, tb_put = (\<lambda>rs d. d\<lparr>cd_skills := rs\<rparr>), tb_rid = sk_rid, tb_tenant = sk_tenant,
     tb_created = sk_created\<rparr>"

definition skill_register :: "'x fenv \<Rightarrow> ctx \<Rightarrow> string \<Rightarrow> string \<Rightarrow> string option \<Rightarrow> string \<Rightarrow> pyval \<Rightarrow> bool \<Rightarrow> ('x, skill_row) cop" where
  "skill_register E c api nm descr prompt tools enabled =
     register_row E skills_table unprepared c ''skill''
       (\<lambda>rid tenant now. \<lparr>sk_rid = rid, sk_tenant = tenant, sk_api_name = api, sk_name = nm, sk_descr = descr,
         sk_prompt = Some prompt, sk_tools = tools, sk_enabled = enabled, sk_created = now, sk_updated = now\<rparr>)"

definition skill_get :: "'x fenv \<Rightarrow> ctx \<Rightarrow> string \<Rightarrow> ('x, skill_row) cop" where
  "skill_get E = get_row_of E skills_table ''Skill''"

record skill_fields =
  sf_name :: "string option"
  sf_descr :: "string option"
  sf_prompt :: "string option"
  sf_tools :: "pyval option"
  sf_enabled :: "bool option"

definition skill_assign :: "skill_fields \<Rightarrow> int \<Rightarrow> skill_row \<Rightarrow> skill_row" where
  "skill_assign f now s =
     s\<lparr>sk_name := set_if (sf_name f) (sk_name s), sk_descr := or_else (sf_descr f) (sk_descr s),
       sk_prompt := or_else (sf_prompt f) (sk_prompt s), sk_tools := set_if (sf_tools f) (sk_tools s),
       sk_enabled := set_if (sf_enabled f) (sk_enabled s), sk_updated := now\<rparr>"

definition skill_update :: "'x fenv \<Rightarrow> ctx \<Rightarrow> string \<Rightarrow> skill_fields \<Rightarrow> ('x, skill_row) cop" where
  "skill_update E c rid f = update_row_of E skills_table unprepared ''Skill'' c rid (skill_assign f)"

definition skill_delete :: "'x fenv \<Rightarrow> ctx \<Rightarrow> string \<Rightarrow> ('x, unit) cop" where
  "skill_delete E = delete_row_of E skills_table ''Skill''"

definition skill_query :: "'x fenv \<Rightarrow> ctx \<Rightarrow> nat \<Rightarrow> nat \<Rightarrow> ('x, skill_row list \<times> nat) cop" where
  "skill_query E = query_rows_of E skills_table"

definition skill_set_enabled :: "'x fenv \<Rightarrow> ctx \<Rightarrow> string \<Rightarrow> bool \<Rightarrow> ('x, skill_row) cop" where
  "skill_set_enabled E c rid enabled =
     skill_update E c rid \<lparr>sf_name = None, sf_descr = None, sf_prompt = None, sf_tools = None, sf_enabled = Some enabled\<rparr>"

subsection \<open>Tool servers\<close>

definition mcps_table :: "mcp_row table" where
  "mcps_table = \<lparr>tb_rows = cd_mcps, tb_put = (\<lambda>rs d. d\<lparr>cd_mcps := rs\<rparr>), tb_rid = mc_rid, tb_tenant = mc_tenant,
     tb_created = mc_created\<rparr>"

definition mcp_connect :: "'x fenv \<Rightarrow> ctx \<Rightarrow> string \<Rightarrow> string \<Rightarrow> string option \<Rightarrow> pyval dict \<Rightarrow> pyval dict option \<Rightarrow>
    ('x, mcp_row) cop" where
  "mcp_connect E c api nm descr transport auth =
     register_row E mcps_table unprepared c ''mcp''
       (\<lambda>rid tenant now. \<lparr>mc_rid = rid, mc_tenant = tenant, mc_api_name = api, mc_name = nm, mc_descr = descr,
         mc_transport = transport, mc_auth = auth, mc_tools = PList [], mc_status = ''disconnected'', mc_enabled = True,
         mc_created = now, mc_updated = now\<rparr>)"

definition mcp_get :: "'x fenv \<Rightarrow> ctx \<Rightarrow> string \<Rightarrow> ('x, mcp_row) cop" where
  "mcp_get E = get_row_of E mcps_table ''MCP connection''"

text \<open>A request names the first five columns, the discovery of tools the last two.\<close>

record mcp_fields =
  xf_name :: "string option"
  xf_descr :: "string option"
  xf_transport :: "pyval dict option"
  xf_auth :: "pyval dict option"
  xf_enabled :: "bool option"
  xf_tools :: "pyval option"
  xf_status :: "string option"

definition mcp_assign :: "mcp_fields \<Rightarrow> int \<Rightarrow> mcp_row \<Rightarrow> mcp_row" where
  "mcp_assign f now m =
     m\<lparr>mc_name := set_if (xf_name f) (mc_name m), mc_descr := or_else (xf_descr f) (mc_descr m),
       mc_transport := set_if (xf_transport f) (mc_transport m), mc_auth := or_else (xf_auth f) (mc_auth m),
       mc_enabled := set_if (xf_enabled f) (mc_enabled m), mc_tools := set_if (xf_tools f) (mc_tools m),
       mc_status := set_if (xf_status f) (mc_status m), mc_updated := now\<rparr>"

definition no_mcp_fields :: mcp_fields where
  "no_mcp_fields = \<lparr>xf_name = None, xf_descr = None, xf_transport = None, xf_auth = None, xf_enabled = None,
     xf_tools = None, xf_status = None\<rparr>"

definition mcp_update :: "'x fenv \<Rightarrow> ctx \<Rightarrow> string \<Rightarrow> mcp_fields \<Rightarrow> ('x, mcp_row) cop" where
  "mcp_update E c rid f = update_row_of E mcps_table unprepared ''MCP connection'' c rid (mcp_assign f)"

definition mcp_delete :: "'x fenv \<Rightarrow> ctx \<Rightarrow> string \<Rightarrow> ('x, unit) cop" where
  "mcp_delete E = delete_row_of E mcps_table ''MCP connection''"

definition mcp_query :: "'x fenv \<Rightarrow> ctx \<Rightarrow> nat \<Rightarrow> nat \<Rightarrow> ('x, mcp_row list \<times> nat) cop" where
  "mcp_query E = query_rows_of E mcps_table"

subsection \<open>Sub-agents\<close>

definition agents_table :: "agent_row table" where
  "agents_table = \<lparr>tb_rows = cd_agents, tb_put = (\<lambda>rs d. d\<lparr>cd_agents := rs\<rparr>), tb_rid = ag_rid, tb_tenant = ag_tenant,
     tb_created = ag_created\<rparr>"

definition agent_register :: "'x fenv \<Rightarrow> ctx \<Rightarrow> string \<Rightarrow> string \<Rightarrow> string option \<Rightarrow> string option \<Rightarrow> string option \<Rightarrow> pyval \<Rightarrow>
    pyval \<Rightarrow> bool \<Rightarrow> ('x, agent_row) cop" where
  "agent_register E c api nm descr model prompt tools safety enabled =
     register_row E agents_table unprepared c ''subagent''
       (\<lambda>rid tenant now. \<lparr>ag_rid = rid, ag_tenant = tenant, ag_api_name = api, ag_name = nm, ag_descr = descr,
         ag_model = model, ag_prompt = prompt, ag_tools = tools, ag_safety = safety, ag_enabled = enabled,
         ag_created = now, ag_updated = now\<rparr>)"

definition agent_get :: "'x fenv \<Rightarrow> ctx \<Rightarrow> string \<Rightarrow> ('x, agent_row) cop" where
  "agent_get E = get_row_of E agents_table ''Sub-agent''"

record agent_fields =
  af_name :: "string option"
  af_descr :: "string option"
  af_model :: "string option"
  af_prompt :: "string option"
  af_tools :: "pyval option"
  af_safety :: "pyval option"
  af_enabled :: "bool option"

definition agent_assign :: "agent_fields \<Rightarrow> int \<Rightarrow> agent_row \<Rightarrow> agent_row" where
  "agent_assign f now a =
     a\<lparr>ag_name := set_if (af_name f) (ag_name a), ag_descr := or_else (af_descr f) (ag_descr a),
       ag_model := or_else (af_model f) (ag_model a), ag_prompt := or_else (af_prompt f) (ag_prompt a),
       ag_tools := set_if (af_tools f) (ag_tools a), ag_safety := set_if (af_safety f) (ag_safety a),
       ag_enabled := set_if (af_enabled f) (ag_enabled a), ag_updated := now\<rparr>"

definition agent_update :: "'x fenv \<Rightarrow> ctx \<Rightarrow> string \<Rightarrow> agent_fields \<Rightarrow> ('x, agent_row) cop" where
  "agent_update E c rid f = update_row_of E agents_table unprepared ''Sub-agent'' c rid (agent_assign f)"

definition agent_delete :: "'x fenv \<Rightarrow> ctx \<Rightarrow> string \<Rightarrow> ('x, unit) cop" where
  "agent_delete E = delete_row_of E agents_table ''Sub-agent''"

definition agent_query :: "'x fenv \<Rightarrow> ctx \<Rightarrow> nat \<Rightarrow> nat \<Rightarrow> ('x, agent_row list \<times> nat) cop" where
  "agent_query E = query_rows_of E agents_table"

definition agent_set_enabled :: "'x fenv \<Rightarrow> ctx \<Rightarrow> string \<Rightarrow> bool \<Rightarrow> ('x, agent_row) cop" where
  "agent_set_enabled E c rid enabled =
     agent_update E c rid \<lparr>af_name = None, af_descr = None, af_model = None, af_prompt = None, af_tools = None,
       af_safety = None, af_enabled = Some enabled\<rparr>"

text \<open>\<open>load_as_tool\<close>\<close>

definition load_as_tool :: "agent_row \<Rightarrow> pyval dict" where
  "load_as_tool a =
     [(''name'', PStr (''subagent_'' @ ag_api_name a)),
      (''description'', PStr (case ag_descr a of
          Some t \<Rightarrow> if t = [] then ''Delegate to sub-agent: '' @ ag_name a else t
        | None \<Rightarrow> ''Delegate to sub-agent: '' @ ag_name a)),
      (''parameters'', PDict [(''type'', PStr ''object''),
         (''properties'', PDict [(''input'', PDict [(''type'', PStr ''string''),
            (''description'', PStr ''The task or question to delegate to this sub-agent.'')])]),
         (''required'', PList [PStr ''input''])]),
      (''metadata'', PDict [(''type'', PStr ''subagent''), (''rid'', PStr (ag_rid a)), (''model_rid'', opt_msg (ag_model a)),
         (''system_prompt'', opt_msg (ag_prompt a)), (''tool_bindings'', ag_tools a), (''safety_policy'', ag_safety a)])]"

end
