(* ===== verification/Copilot_Mcp.thy ===== *)
theory Copilot_Mcp
  imports Copilot_Managers
begin

section \<open>Tool servers\<close>

text \<open>
  \<open>copilot/infra/mcp.py\<close>, the protocol: one JSON-RPC request to a tool server, over the standard input
  of a process or as an HTTP request, and what the discovery of tools and the test make of its answer.
  Starting a process and one exchange over HTTP are parameters.
\<close>

datatype spawn_outcome =
    Not_found string
  | Os_fault string
  | Timed_out
  | Finished int string string
  | Spawn_other exn

datatype mcp_answer =
    Mcp_answered nat string
  | Mcp_timeout
  | Mcp_refused string
  | Mcp_other exn

record 'x mcp_io =
  mi_spawn :: "pyval list \<Rightarrow> string \<Rightarrow> 'x \<Rightarrow> spawn_outcome \<times> 'x"
  mi_post :: "http_request \<Rightarrow> 'x \<Rightarrow> mcp_answer \<times> 'x"

definition DISCOVER_TIMEOUT :: string where "DISCOVER_TIMEOUT = ''30.0''"

definition TEST_TIMEOUT :: string where "TEST_TIMEOUT = ''10.0''"

definition make_jsonrpc_request :: "string \<Rightarrow> pyval" where
  "make_jsonrpc_request rpc =
     PDict [(''jsonrpc'', PStr ''2.0''), (''id'', PInt 1), (''method'', PStr rpc), (''params'', PDict [])]"

definition mcp_failed :: "string \<Rightarrow> pyval dict \<Rightarrow> exn" where
  "mcp_failed m details = AppError COPILOT_MCP_CONNECTION_FAILED m details"

text \<open>\<open>"error" in v\<close>\<close>

definition mentions_error :: "pyval \<Rightarrow> bool res" where
  "mentions_error v =
     (case v of
        PDict d \<Rightarrow> Inr (dget d ''error'' \<noteq> None)
      | PList xs \<Rightarrow> Inr (PStr ''error'' \<in> set xs)
      | PStr s \<Rightarrow> Inr (contains ''error'' s)
      | _ \<Rightarrow> Inl type_error)"

text \<open>The end of both exchanges: an error the server reports, or the result.\<close>

definition rpc_result :: "pyval \<Rightarrow> pyval res" where
  "rpc_result response =
     bindE (mentions_error response) (\<lambda>b.
     if b then
       bindE (item response ''error'') (\<lambda>rpc_error.
       bindE (as_dict rpc_error) (\<lambda>d.
       Inl (mcp_failed (''MCP JSON-RPC error: '' @ py_str (dget_or d ''message'' (PStr ''unknown''))) [(''rpc_error'', rpc_error)])))
     else bindE (as_dict response) (\<lambda>d. Inr (dget_or d ''result'' (PDict []))))"

definition send_stdio_jsonrpc :: "'x mcp_io \<Rightarrow> pyval list \<Rightarrow> string \<Rightarrow> string \<Rightarrow> 'x \<Rightarrow> pyval res \<times> 'x" where
  "send_stdio_jsonrpc I command rpc timeout x =
     (case mi_spawn I command (json_dumps (make_jsonrpc_request rpc) @ [CHR 0x0A]) x of
        (Not_found m, x') \<Rightarrow>
          (Inl (mcp_failed (''MCP command not found: '' @ py_str (hd command)) [(''command'', hd command), (''error'', PStr m)]), x')
      | (Os_fault m, x') \<Rightarrow>
          (Inl (mcp_failed (''Failed to start MCP process: '' @ m) [(''command'', PList command), (''error'', PStr m)]), x')
      | (Timed_out, x') \<Rightarrow>
          (Inl (mcp_failed (''MCP stdio request timed out after '' @ timeout @ ''s'')
             [(''command'', PList command), (''method'', PStr rpc)]), x')
      | (Spawn_other e, x') \<Rightarrow> (Inl e, x')
      | (Finished code out err, x') \<Rightarrow>
          ((if code \<noteq> 0
            then Inl (mcp_failed (''MCP process exited with code '' @ int_str code)
                   [(''stderr'', PStr (take 500 (strip err))), (''command'', PList command)])
            else (case json_loads out of
                None \<Rightarrow> Inl (mcp_failed ''Invalid JSON response from MCP server'' [(''raw_output'', PStr (take 500 out))])
              | Some response \<Rightarrow> rpc_result response)), x'))"

text \<open>The header a configured authentication adds.\<close>

definition auth_header :: "pyval dict option \<Rightarrow> string dict res" where
  "auth_header auth =
     (case auth of
        None \<Rightarrow> Inr []
      | Some a \<Rightarrow>
          (let auth_type = dget_or a ''type'' (PStr []) in
           if auth_type = PStr ''bearer'' then
             (let token = dget_or a ''token'' (PStr []) in
              Inr (if py_truthy token then [(''Authorization'', ''Bearer '' @ py_str token)] else []))
           else if auth_type = PStr ''header'' then
             (let nm = dget_or a ''header_name'' (PStr []); v = dget_or a ''header_value'' (PStr []) in
              if py_truthy nm \<and> py_truthy v
              then (case (nm, v) of (PStr n, PStr s) \<Rightarrow> Inr [(n, s)] | _ \<Rightarrow> Inl type_error)
              else Inr [])
           else Inr []))"

definition send_http_jsonrpc :: "'x mcp_io \<Rightarrow> pyval \<Rightarrow> string \<Rightarrow> string \<Rightarrow> pyval dict option \<Rightarrow> 'x \<Rightarrow> pyval res \<times> 'x" where
  "send_http_jsonrpc I url rpc timeout auth x =
     (case bindE (auth_header auth) (\<lambda>h. case url of PStr u \<Rightarrow> Inr (h, u) | _ \<Rightarrow> Inl type_error) of
        Inl e \<Rightarrow> (Inl e, x)
      | Inr (h, u) \<Rightarrow>
          (case mi_post I \<lparr>hr_method = ''POST'', hr_url = u,
                  hr_headers = dupdate [(''Content-Type'', ''application/json'')] h, hr_body = make_jsonrpc_request rpc\<rparr> x of
             (Mcp_timeout, x') \<Rightarrow>
               (Inl (mcp_failed (''MCP HTTP request timed out after '' @ timeout @ ''s'') [(''url'', url), (''method'', PStr rpc)]), x')
           | (Mcp_refused m, x') \<Rightarrow>
               (Inl (mcp_failed (''Cannot connect to MCP server at '' @ u) [(''url'', url), (''error'', PStr m)]), x')
           | (Mcp_other e, x') \<Rightarrow> (Inl e, x')
           | (Mcp_answered status body, x') \<Rightarrow>
               ((if \<not> (200 \<le> status \<and> status < 300)
                 then Inl (mcp_failed (''MCP server returned HTTP '' @ nat_str status)
                        [(''url'', url), (''status_code'', PInt (int status))])
                 else (case json_loads body of
                     None \<Rightarrow> Inl (mcp_failed ''Invalid JSON response from MCP server'' [(''url'', url)])
                   | Some v \<Rightarrow> rpc_result v)), x')))"

datatype endpoint = Stdio "pyval list" | Http pyval

definition invalid_input :: "string \<Rightarrow> exn" where
  "invalid_input m = AppError COMMON_INVALID_INPUT m []"

definition parse_transport :: "pyval dict \<Rightarrow> endpoint res" where
  "parse_transport transport =
     bindE (case dget_or transport ''type'' (PStr []) of PStr s \<Rightarrow> Inr (lower s) | _ \<Rightarrow> Inl attribute_error) (\<lambda>ty.
     if ty = ''stdio'' then
       (let command = dget_or transport ''command'' (PStr []); args = dget_or transport ''args'' (PList []) in
        if \<not> py_truthy command then Inl (invalid_input ''stdio transport requires a 'command' field'')
        else if py_truthy args then bindE (iterate args) (\<lambda>as. Inr (Stdio (command # as)))
        else Inr (Stdio [command]))
     else if ty \<in> {''sse'', ''http'', ''streamable-http''} then
       (let url = dget_or transport ''url'' (PStr []) in
        if \<not> py_truthy url then Inl (invalid_input (ty @ '' transport requires a 'url' field''))
        else Inr (Http url))
     else Inl (invalid_input (''Unsupported MCP transport type: '' @ ty @ ''. Supported: stdio, sse, http, streamable-http'')))"

text \<open>The request to the server of a row, as both operations send it.\<close>

definition ask_server :: "'x mcp_io \<Rightarrow> mcp_row \<Rightarrow> string \<Rightarrow> string \<Rightarrow> ('x, pyval) cop" where
  "ask_server I conn rpc timeout =
     bindC (liftC (parse_transport (mc_transport conn))) (\<lambda>endpoint.
     on_c (ext_call (case endpoint of
        Stdio command \<Rightarrow> send_stdio_jsonrpc I command rpc timeout
      | Http url \<Rightarrow> send_http_jsonrpc I url rpc timeout (mc_auth conn))))"

text \<open>\<open>try: m except: h\<close>\<close>

definition catchC :: "('s, 'e, 'a) comp \<Rightarrow> ('e \<Rightarrow> ('s, 'e, 'a) comp) \<Rightarrow> ('s, 'e, 'a) comp" where
  "catchC m h s = (case m s of (Inl e, t) \<Rightarrow> h e t | (Inr x, t) \<Rightarrow> (Inr x, t))"

definition as_tools :: "pyval \<Rightarrow> pyval" where
  "as_tools v = (case v of PList xs \<Rightarrow> PList xs | _ \<Rightarrow> PList [])"

text \<open>What is raised in place of an exception that is not one of the application's own.\<close>

definition discovery_error :: "string \<Rightarrow> exn \<Rightarrow> exn" where
  "discovery_error rid e =
     (case e of
        AppError code m details \<Rightarrow> e
      | _ \<Rightarrow> AppError COPILOT_MCP_DISCOVERY_FAILED (''Tool discovery failed: '' @ exn_str e) [(''rid'', PStr rid)])"

definition discover_tools :: "'x fenv \<Rightarrow> 'x mcp_io \<Rightarrow> ctx \<Rightarrow> string \<Rightarrow> ('x, pyval) cop" where
  "discover_tools E I c rid =
     bindC (mcp_get E c rid) (\<lambda>conn.
     catchC
       (bindC (ask_server I conn ''tools/list'' DISCOVER_TIMEOUT) (\<lambda>res.
        bindC (liftC (as_dict res)) (\<lambda>d.
        let tools = as_tools (dget_or d ''tools'' (PList [])) in
        bindC (mcp_update E c rid (no_mcp_fields\<lparr>xf_tools := Some tools, xf_status := Some ''connected''\<rparr>)) (\<lambda>_.
        retC tools))))
       (\<lambda>e w. (Inl (discovery_error rid e), snd (mcp_update E c rid (no_mcp_fields\<lparr>xf_status := Some ''error''\<rparr>) w))))"

definition mcp_test_connection :: "'x fenv \<Rightarrow> 'x mcp_io \<Rightarrow> ctx \<Rightarrow> string \<Rightarrow> ('x, pyval dict) cop" where
  "mcp_test_connection E I c rid =
     bindC (mcp_get E c rid) (\<lambda>conn.
     catchC
       (bindC (ask_server I conn ''initialize'' TEST_TIMEOUT) (\<lambda>res.
        liftC (bindE (as_dict res) (\<lambda>d.
          bindE (as_dict (dget_or d ''serverInfo'' (PDict []))) (\<lambda>info.
          Inr [(''rid'', PStr (mc_rid conn)), (''status'', PStr ''connected''),
               (''server_name'', dget_or info ''name'' (PStr ''unknown'')),
               (''server_version'', dget_or info ''version'' (PStr ''unknown'')),
               (''protocol_version'', dget_or d ''protocolVersion'' (PStr ''unknown'')),
               (''capabilities'', dget_or d ''capabilities'' (PDict []))])))))
       (\<lambda>e. retC (case e of
            AppError code m details \<Rightarrow>
              [(''rid'', PStr (mc_rid conn)), (''status'', PStr ''error''), (''message'', PStr m), (''details'', PDict details)]
          | _ \<Rightarrow> [(''rid'', PStr (mc_rid conn)), (''status'', PStr ''error''),
                  (''message'', PStr (''Connection test failed: '' @ exn_str e))])))"

end
