(* ===== verification/Copilot_Agent.thy ===== *)
theory Copilot_Agent
  imports Copilot_Mcp
begin

section \<open>The agent\<close>

text \<open>
  \<open>copilot/agent\<close>: the context of a session (\<open>context.py\<close>), the tools a model is offered and how a call
  of one is carried out (\<open>tools.py\<close>), and the loop between the model and its tools (\<open>graph.py\<close>). The
  function service is what the agent was given (\<open>service\<close>, the protocol of \<open>function/interface.py\<close>);
  the texts of the system prompts (\<open>prompts.py\<close>) contain characters beyond code point 255 and are
  parameters. Messages and events are dicts, as in the code.
\<close>

subsection \<open>Context and prompts\<close>

definition copy_key :: "string \<Rightarrow> pyval dict \<Rightarrow> pyval dict \<Rightarrow> pyval dict" where
  "copy_key k raw context = (case dget raw k of Some v \<Rightarrow> dput k v context | None \<Rightarrow> context)"

definition build_context :: "string \<Rightarrow> pyval dict \<Rightarrow> pyval dict" where
  "build_context mode raw =
     (let base = [(''mode'', PStr mode), (''branch'', dget_or raw ''branch'' (PStr ''main''))];
          shell = (if mode = ''shell''
            then copy_key ''entity_rid'' raw
              (base @ [(''module'', dget_or raw ''module'' (PStr [])), (''page'', dget_or raw ''page'' (PStr []))])
            else base)
      in copy_key ''active_skills'' raw (copy_key ''model_rid'' raw shell))"

record prompts =
  pr_shell :: "pyval \<Rightarrow> pyval \<Rightarrow> string \<Rightarrow> pyval \<Rightarrow> string"
  pr_agent :: "pyval \<Rightarrow> string"

definition build_system_prompt :: "prompts \<Rightarrow> pyval dict \<Rightarrow> string" where
  "build_system_prompt R context =
     (let branch = dget_or context ''branch'' (PStr ''main'') in
      if dget_or context ''mode'' (PStr ''agent'') = PStr ''shell''
      then (let entity_rid = dget_or context ''entity_rid'' (PStr []);
                entity_context = (if py_truthy entity_rid then ''Entity being viewed: '' @ py_str entity_rid else [])
            in pr_shell R (dget_or context ''module'' (PStr ''unknown'')) (dget_or context ''page'' (PStr [])) entity_context branch)
      else pr_agent R branch)"

subsection \<open>Tools\<close>

definition SHELL_MODULE_CAPABILITIES :: "string list dict" where
  "SHELL_MODULE_CAPABILITIES =
     [(''ontology'', [''function'']), (''data'', [''function'', ''action'']), (''function'', [''function'', ''action'']),
      (''setting'', [''function''])]"

definition filter_capabilities_for_shell :: "capability list \<Rightarrow> string \<Rightarrow> capability list" where
  "filter_capabilities_for_shell capabilities modul =
     (let allowed_types = dget_or SHELL_MODULE_CAPABILITIES modul [] in
      if modul = ''ontology''
      then filter (\<lambda>cap. cp_type cap \<in> set allowed_types \<and> cp_safety cap = ''SAFETY_READ_ONLY'') capabilities
      else filter (\<lambda>cap. cp_type cap \<in> set allowed_types) capabilities)"

definition param_type :: "pyval \<Rightarrow> string" where
  "param_type data_type =
     (if data_type = PStr ''DT_INTEGER'' then ''integer''
      else if data_type = PStr ''DT_BOOLEAN'' then ''boolean''
      else if data_type = PStr ''DT_DOUBLE'' then ''number''
      else ''string'')"

text \<open>The properties and the required names, one parameter after the other.\<close>

definition add_param :: "pyval \<Rightarrow> pyval dict \<times> pyval list \<Rightarrow> (pyval dict \<times> pyval list) res" where
  "add_param param acc =
     bindE (as_dict param) (\<lambda>p.
     let param_name = dget_or p ''api_name'' (PStr []);
         schema = PDict [(''type'', PStr (param_type (dget_or p ''data_type'' (PStr ''DT_STRING'')))),
           (''description'', dget_or p ''display_name'' param_name)]
     in bindE (as_key param_name) (\<lambda>k.
        Inr (dput k schema (fst acc),
          if py_truthy (dget_or p ''required'' (PBool False)) then snd acc @ [param_name] else snd acc)))"

definition make_tool_schema :: "capability \<Rightarrow> pyval dict res" where
  "make_tool_schema cap =
     bindE (iterate (cp_params cap)) (\<lambda>params.
     bindE (foldE add_param params ([], [])) (\<lambda>(properties, required).
     Inr [(''name'', PStr (cp_api_name cap)),
          (''description'', PStr (case cp_descr cap of Some t \<Rightarrow> if t = [] then cp_name cap else t | None \<Rightarrow> cp_name cap)),
          (''parameters'', PDict [(''type'', PStr ''object''), (''properties'', PDict properties), (''required'', PList required)]),
          (''metadata'', PDict [(''type'', PStr (cp_type cap)), (''rid'', PStr (cp_rid cap)),
             (''safety_level'', PStr (cp_safety cap))])]))"

definition build_tool_schemas :: "capability list \<Rightarrow> pyval dict list res" where
  "build_tool_schemas capabilities = mapE make_tool_schema capabilities"

text \<open>What the agent calls of the function service.\<close>

record 'x service =
  sv_capabilities :: "ctx \<Rightarrow> ('x, capability list) fop"
  sv_action :: "ctx \<Rightarrow> string \<Rightarrow> pyval \<Rightarrow> pyval \<Rightarrow> bool \<Rightarrow> ('x, pyval) fop"
  sv_function :: "ctx \<Rightarrow> string \<Rightarrow> pyval \<Rightarrow> pyval \<Rightarrow> ('x, pyval) fop"

definition error_dict :: "string \<Rightarrow> pyval" where
  "error_dict m = PDict [(''error'', PStr m)]"

definition execute_tool_call :: "'x service \<Rightarrow> ctx \<Rightarrow> pyval \<Rightarrow> pyval \<Rightarrow> capability list \<Rightarrow> pyval \<Rightarrow> ('x, pyval) fop" where
  "execute_tool_call S c tool_name tool_args capabilities branch =
     (case filter (\<lambda>cap. PStr (cp_api_name cap) = tool_name) capabilities of
        [] \<Rightarrow> retC (error_dict (''Unknown tool: '' @ py_str tool_name))
      | cap # _ \<Rightarrow>
          if cp_type cap = ''action'' then sv_action S c (cp_rid cap) tool_args branch True
          else if cp_type cap = ''function'' then sv_function S c (cp_rid cap) tool_args branch
          else retC (error_dict (''Unsupported capability type: '' @ cp_type cap)))"

text \<open>
  The service the program wires in, \<open>FunctionServiceImpl\<close>: its \<open>execute_action\<close> and \<open>execute_function\<close>
  have a third positional argument, the database session, which the agent does not pass.
\<close>

definition wired_service :: "'x fenv \<Rightarrow> 'x service" where
  "wired_service E =
     \<lparr>sv_capabilities = (\<lambda>c. list_capabilities E c None),
      sv_action = (\<lambda>_ _ _ _ _. raiseC type_error), sv_function = (\<lambda>_ _ _ _. raiseC type_error)\<rparr>"

subsection \<open>The loop\<close>

text \<open>A model: the chunks of a reply without tools, or a reply that may ask for tools.\<close>

record 'x provider =
  pv_chat :: "string \<Rightarrow> pyval dict list \<Rightarrow> 'x \<Rightarrow> string list res \<times> 'x"
  pv_call :: "string \<Rightarrow> pyval dict list \<Rightarrow> pyval dict list \<Rightarrow> 'x \<Rightarrow> pyval dict res \<times> 'x"

definition MAX_AGENT_ITERATIONS :: nat where "MAX_AGENT_ITERATIONS = 10"

definition text_event :: "pyval \<Rightarrow> pyval dict" where
  "text_event content = [(''type'', PStr ''text_delta''), (''content'', content)]"

definition start_event :: "pyval \<Rightarrow> pyval \<Rightarrow> pyval dict" where
  "start_event tool_name args = [(''type'', PStr ''tool_start''), (''tool_name'', tool_name), (''params'', args)]"

definition end_event :: "pyval \<Rightarrow> string \<Rightarrow> pyval dict" where
  "end_event tool_name status = [(''type'', PStr ''tool_end''), (''tool_name'', tool_name), (''status'', PStr status)]"

definition done_marker :: "pyval dict" where
  "done_marker = [(''type'', PStr ''done'')]"

definition user_message :: "string \<Rightarrow> pyval dict" where
  "user_message m = [(''role'', PStr ''user''), (''content'', PStr m)]"

text \<open>One call of a tool: an exception becomes its result.\<close>

definition tool_result :: "'x service option \<Rightarrow> ctx \<Rightarrow> pyval \<Rightarrow> pyval \<Rightarrow> capability list \<Rightarrow> pyval \<Rightarrow> ('x, pyval) fop" where
  "tool_result S c tool_name tool_args capabilities branch =
     (case S of
        None \<Rightarrow> retC (error_dict ''Function service not available'')
      | Some s \<Rightarrow> (\<lambda>w.
          (case execute_tool_call s c tool_name tool_args capabilities branch w of
             (Inl e, w') \<Rightarrow> (Inr (error_dict (exn_str e)), w')
           | (Inr v, w') \<Rightarrow> (Inr v, w'))))"

text \<open>The calls of one reply: the events, and the results in the order of the calls.\<close>

fun run_tools :: "'x service option \<Rightarrow> ctx \<Rightarrow> capability list \<Rightarrow> pyval \<Rightarrow> pyval list \<Rightarrow>
    ('x, pyval dict list \<times> pyval list) fop" where
  "run_tools S c capabilities branch [] = retC ([], [])"
| "run_tools S c capabilities branch (tc # tcs) =
     bindC (liftC (bindE (item tc ''name'') (\<lambda>nm. bindE (item tc ''args'') (\<lambda>args. Inr (nm, args))))) (\<lambda>(tool_name, tool_args).
     bindC (tool_result S c tool_name tool_args capabilities branch) (\<lambda>result.
     bindC (liftC (mentions_error result)) (\<lambda>bad.
     bindC (run_tools S c capabilities branch tcs) (\<lambda>(events, results).
     retC (start_event tool_name tool_args # end_event tool_name (if bad then ''error'' else ''success'') # events,
           PDict [(''name'', tool_name), (''result'', result)] # results)))))"

text \<open>\<open>n\<close> rounds are left; the events of the rounds so far are \<open>events\<close>.\<close>

fun agent_loop :: "'x provider \<Rightarrow> 'x service option \<Rightarrow> ctx \<Rightarrow> string \<Rightarrow> pyval dict list \<Rightarrow> capability list \<Rightarrow> pyval \<Rightarrow> nat \<Rightarrow>
    pyval dict list \<Rightarrow> pyval dict list \<Rightarrow> ('x, pyval dict list) fop" where
  "agent_loop L S c prompt tools capabilities branch 0 messages events = retC events"
| "agent_loop L S c prompt tools capabilities branch (Suc n) messages events =
     (if tools = []
      then bindC (ext_call (pv_chat L prompt messages)) (\<lambda>chunks. retC (events @ map (\<lambda>t. text_event (PStr t)) chunks))
      else
        bindC (ext_call (pv_call L prompt messages tools)) (\<lambda>response.
        let tool_calls = dget_or response ''tool_calls'' (PList []);
            response_text = dget_or response ''text'' (PStr []);
            events' = (if py_truthy response_text then events @ [text_event response_text] else events)
        in
          if \<not> py_truthy tool_calls then retC events'
          else
            bindC (liftC (iterate tool_calls)) (\<lambda>tcs.
            bindC (run_tools S c capabilities branch tcs) (\<lambda>(tool_events, results).
            agent_loop L S c prompt tools capabilities branch n
              (messages @
                [[(''role'', PStr ''assistant''), (''content'', response_text), (''tool_calls'', tool_calls)],
                 [(''role'', PStr ''user''), (''tool_results'', PList results)]])
              (events' @ tool_events)))))"

definition process_with_llm :: "'x provider \<Rightarrow> 'x service option \<Rightarrow> ctx \<Rightarrow> string \<Rightarrow> string \<Rightarrow> pyval dict list \<Rightarrow> capability list \<Rightarrow>
    pyval \<Rightarrow> ('x, pyval dict list) fop" where
  "process_with_llm L S c prompt message tools capabilities branch =
     bindC (agent_loop L S c prompt tools capabilities branch MAX_AGENT_ITERATIONS [user_message message] []) (\<lambda>events.
     retC (events @ [done_marker]))"

subsection \<open>Messages\<close>

definition get_available_tools :: "'x service option \<Rightarrow> ctx \<Rightarrow> pyval dict \<Rightarrow> ('x, capability list) fop" where
  "get_available_tools S c context =
     (case S of
        None \<Rightarrow> retC []
      | Some s \<Rightarrow>
          bindC (sv_capabilities s c) (\<lambda>capabilities.
          if dget_or context ''mode'' (PStr ''agent'') = PStr ''shell''
          then bindC (liftC (as_key (dget_or context ''module'' (PStr [])))) (\<lambda>modul.
               retC (filter_capabilities_for_shell capabilities modul))
          else retC capabilities))"

definition get_subagent_tools :: "'x fenv \<Rightarrow> ctx \<Rightarrow> ('x, pyval dict list) cop" where
  "get_subagent_tools E c =
     bindC (agent_query E c 0 100) (\<lambda>(agents, _). retC (map load_as_tool (filter ag_enabled agents)))"

text \<open>An unset tenant is the one \<open>RuntimeError\<close> the query can raise; it leaves no sub-agents.\<close>

definition load_subagents :: "'x fenv \<Rightarrow> ctx \<Rightarrow> ('x, pyval dict list) cop" where
  "load_subagents E c =
     catchC (get_subagent_tools E c) (\<lambda>e. case e of RuntimeError _ \<Rightarrow> retC [] | _ \<Rightarrow> raiseC e)"

definition setup_steps :: "string list" where
  "setup_steps =
     [''I received your message but cannot generate an AI response yet. '' @
      ''To enable full AI capabilities, please configure a model provider:'', [], ''**Setup steps:**'',
      ''1. Go to Setting -> Agent -> Models to register a model provider'',
      ''2. Supported providers: Gemini, OpenAI, Anthropic'',
      ''3. Set the environment variables: LINGSHU_COPILOT_PROVIDER, LINGSHU_COPILOT_API_KEY, LINGSHU_COPILOT_MODEL'']"

definition tool_lines :: "pyval dict list \<Rightarrow> pyval dict list \<Rightarrow> string list" where
  "tool_lines all_tools subagent_tools =
     (let names = map (\<lambda>t. py_str (dget_or t ''name'' (PStr ''?''))) (take 5 all_tools);
          remaining = length all_tools - length names;
          listed = join '', '' names @ (if remaining > 0 then '' (+'' @ nat_str remaining @ '' more)'' else [])
      in (if all_tools = [] then []
          else [[], ''**Available capabilities ('' @ nat_str (length all_tools) @ ''):** '' @ listed]) @
         (if subagent_tools = [] then []
          else [''**Sub-agents:** '' @ join '', '' (map (\<lambda>t. py_str (pget t ''name'')) subagent_tools)]))"

definition mode_label :: "pyval dict \<Rightarrow> string" where
  "mode_label context =
     (let mode = dget_or context ''mode'' (PStr ''agent''); modul = dget_or context ''module'' (PStr []) in
      upper (py_str mode) @ (if mode = PStr ''shell'' \<and> py_truthy modul then '' ('' @ py_str modul @ '')'' else []))"

definition build_fallback_response :: "pyval dict \<Rightarrow> pyval dict list \<Rightarrow> pyval dict list \<Rightarrow> string \<Rightarrow> pyval dict list" where
  "build_fallback_response context all_tools subagent_tools prompt =
     [text_event (PStr (join [CHR 0x0A] (setup_steps @ tool_lines all_tools subagent_tools @
        [[], ''Current mode: '' @ mode_label context]))),
      [(''type'', PStr ''done''), (''system_prompt_length'', PInt (int (length prompt)))]]"

text \<open>The agent of a service: its function service, its model if there is one, the prompts.\<close>

record 'x agent =
  gr_service :: "'x service option"
  gr_llm :: "'x provider option"
  gr_prompts :: prompts

definition process_message :: "'x fenv \<Rightarrow> 'x agent \<Rightarrow> ctx \<Rightarrow> pyval dict \<Rightarrow> string \<Rightarrow> ('x, pyval dict list) cop" where
  "process_message E G c context message =
     (let prompt = build_system_prompt (gr_prompts G) context; branch = dget_or context ''branch'' (PStr ''main'') in
      bindC (on_c (get_available_tools (gr_service G) c context)) (\<lambda>capabilities.
      bindC (liftC (build_tool_schemas capabilities)) (\<lambda>tools.
      bindC (load_subagents E c) (\<lambda>subagent_tools.
      case gr_llm G of
        Some L \<Rightarrow>
          on_c (process_with_llm L (gr_service G) c prompt message (tools @ subagent_tools) capabilities branch)
      | None \<Rightarrow> retC (build_fallback_response context (tools @ subagent_tools) subagent_tools prompt)))))"

subsection \<open>Sub-agents\<close>

definition bound_capabilities :: "'x service option \<Rightarrow> ctx \<Rightarrow> pyval \<Rightarrow> ('x, pyval dict list) fop" where
  "bound_capabilities S c tool_bindings =
     (case S of
        Some s \<Rightarrow>
          (if py_truthy tool_bindings then
             catchC (bindC (sv_capabilities s c) (\<lambda>capabilities.
               liftC (bindE (iterate tool_bindings) (\<lambda>bs.
                 bindE (mapE (\<lambda>b. bindE (as_dict b) (\<lambda>d. bindE (as_key (pget d ''capability_rid'')) (\<lambda>_. Inr (pget d ''capability_rid'')))) bs) (\<lambda>bound.
                 build_tool_schemas (filter (\<lambda>cap. PStr (cp_rid cap) \<in> set bound) capabilities))))))
               (\<lambda>e. retC [])
           else retC [])
      | None \<Rightarrow> retC [])"

definition prefixed :: "string \<Rightarrow> pyval dict \<Rightarrow> pyval dict list" where
  "prefixed agent_name evt =
     (if pget evt ''type'' = PStr ''text_delta''
      then [text_event (PStr (''['' @ agent_name @ ''] '' @ py_str (dget_or evt ''content'' (PStr []))))]
      else if pget evt ''type'' = PStr ''done'' then [] else [evt])"

definition execute_subagent :: "'x agent \<Rightarrow> ctx \<Rightarrow> pyval dict \<Rightarrow> string \<Rightarrow> ('x, pyval dict list) fop" where
  "execute_subagent G c tool user_input =
     bindC (liftC (as_dict (dget_or tool ''metadata'' (PDict [])))) (\<lambda>metadata.
     let system_prompt = dget_or metadata ''system_prompt'' (PStr []);
         agent_name = py_str (dget_or tool ''name'' (PStr ''unknown''));
         tool_bindings = dget_or metadata ''tool_bindings'' (PList []);
         start = start_event (PStr agent_name) (PDict [(''input'', PStr user_input)])
     in bindC (case gr_llm G of
          Some L \<Rightarrow>
            bindC (bound_capabilities (gr_service G) c tool_bindings) (\<lambda>sub_tools.
            bindC (process_with_llm L (gr_service G) c
              (if py_truthy system_prompt then py_str system_prompt
               else ''You are '' @ agent_name @ '', a specialized sub-agent.'') user_input sub_tools [] (PStr ''main'')) (\<lambda>nested.
            retC (concat (map (prefixed agent_name) nested))))
        | None \<Rightarrow>
            bindC (liftC (iterate tool_bindings)) (\<lambda>bs.
            retC [text_event (PStr (''[Sub-Agent: '' @ agent_name @ ''] Processing: '' @ user_input @ ''. '' @
              (if py_truthy system_prompt then ''System prompt length: '' @ nat_str (length (py_str system_prompt))
               else ''No system prompt configured'') @ ''. Tool bindings: '' @ nat_str (length bs) @
              ''. Full nested agent execution requires model provider configuration.''))])
        ) (\<lambda>middle. retC (start # middle @ [end_event (PStr agent_name) ''success''])))"

end
