(* ===== verification/Copilot_Providers.thy ===== *)
theory Copilot_Providers
  imports Copilot_Agent
begin

section \<open>Providers of language models\<close>

text \<open>
  \<open>copilot/agent/providers.py\<close> and \<open>llm.py\<close>: what is sent to OpenAI, Anthropic and Gemini for the
  messages and tools of the agent, and what is made of their answers. The client library of each vendor
  is a parameter: one request with its answer (\<open>None\<close> when it raises), one request with the pieces it
  streams and whether it raised after them.
\<close>

subsection \<open>OpenAI\<close>

text \<open>\<open>x.get("call_id", x["name"])\<close>, with the other entry the message needs.\<close>

definition call_parts :: "string \<Rightarrow> pyval \<Rightarrow> (pyval \<times> pyval \<times> pyval) res" where
  "call_parts entry v =
     bindE (as_dict v) (\<lambda>d.
     bindE (item v ''name'') (\<lambda>nm.
     bindE (item v entry) (\<lambda>x. Inr (dget_or d ''call_id'' nm, nm, x))))"

definition openai_result :: "pyval \<Rightarrow> pyval res" where
  "openai_result tr =
     bindE (call_parts ''result'' tr) (\<lambda>(cid, nm, r).
     Inr (PDict [(''role'', PStr ''tool''), (''tool_call_id'', cid), (''content'', PStr (json_dumps r))]))"

definition openai_call :: "pyval \<Rightarrow> pyval res" where
  "openai_call tc =
     bindE (call_parts ''args'' tc) (\<lambda>(cid, nm, args).
     Inr (PDict [(''id'', cid), (''type'', PStr ''function''),
       (''function'', PDict [(''name'', nm), (''arguments'', PStr (json_dumps args))])]))"

definition openai_message :: "pyval dict \<Rightarrow> pyval list \<Rightarrow> pyval list res" where
  "openai_message msg acc =
     (let role = dget_or msg ''role'' (PStr ''user''); content = dget_or msg ''content'' (PStr []) in
      if py_truthy (pget msg ''tool_results'')
      then bindE (iterate (pget msg ''tool_results'')) (\<lambda>trs. bindE (mapE openai_result trs) (\<lambda>rs. Inr (acc @ rs)))
      else if py_truthy (pget msg ''tool_calls'') \<and> role = PStr ''assistant''
      then bindE (iterate (pget msg ''tool_calls'')) (\<lambda>tcs. bindE (mapE openai_call tcs) (\<lambda>cs.
        Inr (acc @ [PDict ([(''role'', PStr ''assistant''), (''tool_calls'', PList cs)] @
          (if py_truthy content then [(''content'', content)] else []))])))
      else Inr (if py_truthy content then acc @ [PDict [(''role'', role), (''content'', content)]] else acc))"

definition openai_format_messages :: "string \<Rightarrow> pyval dict list \<Rightarrow> pyval list res" where
  "openai_format_messages system_prompt messages =
     foldE openai_message messages
       (if system_prompt = [] then [] else [PDict [(''role'', PStr ''system''), (''content'', PStr system_prompt)]])"

definition openai_format_tools :: "pyval dict list \<Rightarrow> pyval list res" where
  "openai_format_tools tools =
     mapE (\<lambda>t. bindE (item (PDict t) ''name'') (\<lambda>nm.
       Inr (PDict [(''type'', PStr ''function''), (''function'', PDict [(''name'', nm),
         (''description'', dget_or t ''description'' (PStr [])), (''parameters'', dget_or t ''parameters'' (PDict []))])]))) tools"

definition with_tools :: "(pyval dict list \<Rightarrow> pyval list res) \<Rightarrow> pyval dict list \<Rightarrow> pyval dict \<Rightarrow> pyval dict res" where
  "with_tools fmt tools kwargs =
     (if tools = [] then Inr kwargs else bindE (fmt tools) (\<lambda>ts. Inr (kwargs @ [(''tools'', PList ts)])))"

text \<open>The first choice of an answer: its text, and the calls with identifier, name and argument text.\<close>

record openai_choice =
  oc_content :: "string option"
  oc_calls :: "(string \<times> string \<times> string) list"

record 'x openai_sdk =
  oa_create :: "pyval dict \<Rightarrow> 'x \<Rightarrow> openai_choice option option \<times> 'x"
  oa_stream :: "pyval dict \<Rightarrow> 'x \<Rightarrow> (string list \<times> bool) \<times> 'x"

definition apology :: string where
  "apology = ''I'm sorry, I encountered an error processing your request.''"

definition reply :: "string \<Rightarrow> pyval list \<Rightarrow> pyval dict" where
  "reply t calls = [(''text'', PStr t), (''tool_calls'', PList calls)]"

definition openai_tool_call :: "string \<times> string \<times> string \<Rightarrow> pyval" where
  "openai_tool_call tc =
     (case tc of (cid, nm, arguments) \<Rightarrow>
        PDict [(''name'', PStr nm), (''args'', case json_loads arguments of Some v \<Rightarrow> v | None \<Rightarrow> PDict []), (''call_id'', PStr cid)])"

definition openai_reply :: "openai_choice option option \<Rightarrow> pyval dict" where
  "openai_reply answer =
     (case answer of
        None \<Rightarrow> reply apology []
      | Some None \<Rightarrow> reply [] []
      | Some (Some ch) \<Rightarrow>
          reply (case oc_content ch of Some t \<Rightarrow> t | None \<Rightarrow> []) (map openai_tool_call (oc_calls ch)))"

definition streamed :: "string \<Rightarrow> string list \<times> bool \<Rightarrow> string list" where
  "streamed sorry_text s = filter (\<lambda>t. t \<noteq> []) (fst s) @ (if snd s then [sorry_text] else [])"

definition openai_provider :: "'x openai_sdk \<Rightarrow> string \<Rightarrow> 'x provider" where
  "openai_provider K model =
     \<lparr>pv_chat = (\<lambda>prompt messages x.
        (case openai_format_messages prompt messages of
           Inl e \<Rightarrow> (Inl e, x)
         | Inr formatted \<Rightarrow>
             (case oa_stream K [(''model'', PStr model), (''messages'', PList formatted), (''stream'', PBool True)] x of
                (s, x') \<Rightarrow> (Inr (streamed apology s), x')))),
      pv_call = (\<lambda>prompt messages tools x.
        (case bindE (openai_format_messages prompt messages) (\<lambda>formatted.
              with_tools openai_format_tools tools [(''model'', PStr model), (''messages'', PList formatted)]) of
           Inl e \<Rightarrow> (Inl e, x)
         | Inr kwargs \<Rightarrow> (case oa_create K kwargs x of (answer, x') \<Rightarrow> (Inr (openai_reply answer), x'))))\<rparr>"

subsection \<open>Anthropic\<close>

definition anthropic_result :: "pyval \<Rightarrow> pyval res" where
  "anthropic_result tr =
     bindE (call_parts ''result'' tr) (\<lambda>(cid, nm, r).
     Inr (PDict [(''type'', PStr ''tool_result''), (''tool_use_id'', cid), (''content'', PStr (json_dumps r))]))"

definition anthropic_call :: "pyval \<Rightarrow> pyval res" where
  "anthropic_call tc =
     bindE (call_parts ''args'' tc) (\<lambda>(cid, nm, args).
     Inr (PDict [(''type'', PStr ''tool_use''), (''id'', cid), (''name'', nm), (''input'', args)]))"

definition anthropic_message :: "pyval dict \<Rightarrow> pyval list \<Rightarrow> pyval list res" where
  "anthropic_message msg acc =
     (let role = dget_or msg ''role'' (PStr ''user''); content = dget_or msg ''content'' (PStr []) in
      if py_truthy (pget msg ''tool_results'')
      then bindE (iterate (pget msg ''tool_results'')) (\<lambda>trs. bindE (mapE anthropic_result trs) (\<lambda>rs.
        Inr (acc @ [PDict [(''role'', PStr ''user''), (''content'', PList rs)]])))
      else if py_truthy (pget msg ''tool_calls'') \<and> role = PStr ''assistant''
      then bindE (iterate (pget msg ''tool_calls'')) (\<lambda>tcs. bindE (mapE anthropic_call tcs) (\<lambda>cs.
        Inr (acc @ [PDict [(''role'', PStr ''assistant''),
          (''content'', PList ((if py_truthy content then [PDict [(''type'', PStr ''text''), (''text'', content)]] else []) @ cs))]])))
      else Inr (if py_truthy content then acc @ [PDict [(''role'', role), (''content'', content)]] else acc))"

definition anthropic_format_messages :: "pyval dict list \<Rightarrow> pyval list res" where
  "anthropic_format_messages messages = foldE anthropic_message messages []"

definition anthropic_format_tools :: "pyval dict list \<Rightarrow> pyval list res" where
  "anthropic_format_tools tools =
     mapE (\<lambda>t. bindE (item (PDict t) ''name'') (\<lambda>nm.
       Inr (PDict [(''name'', nm), (''description'', dget_or t ''description'' (PStr [])),
         (''input_schema'', dget_or t ''parameters'' (PDict []))]))) tools"

text \<open>Blocks of other types are skipped.\<close>

datatype anthropic_block = Text_block string | Tool_block string string pyval | Other_block

record 'x anthropic_sdk =
  an_create :: "pyval dict \<Rightarrow> 'x \<Rightarrow> anthropic_block list option \<times> 'x"
  an_stream :: "pyval dict \<Rightarrow> 'x \<Rightarrow> (string list \<times> bool) \<times> 'x"

fun block_text :: "anthropic_block \<Rightarrow> string" where
  "block_text (Text_block t) = t"
| "block_text b = []"

fun block_calls :: "anthropic_block \<Rightarrow> pyval list" where
  "block_calls (Tool_block cid nm args) = [PDict [(''name'', PStr nm), (''args'', args), (''call_id'', PStr cid)]]"
| "block_calls b = []"

definition anthropic_reply :: "anthropic_block list option \<Rightarrow> pyval dict" where
  "anthropic_reply answer =
     (case answer of
        None \<Rightarrow> reply apology []
      | Some blocks \<Rightarrow> reply (concat (map block_text blocks)) (concat (map block_calls blocks)))"

definition anthropic_kwargs :: "string \<Rightarrow> string \<Rightarrow> pyval list \<Rightarrow> pyval dict" where
  "anthropic_kwargs model prompt formatted =
     [(''model'', PStr model), (''messages'', PList formatted), (''max_tokens'', PInt 4096)] @
     (if prompt = [] then [] else [(''system'', PStr prompt)])"

definition anthropic_provider :: "'x anthropic_sdk \<Rightarrow> string \<Rightarrow> 'x provider" where
  "anthropic_provider K model =
     \<lparr>pv_chat = (\<lambda>prompt messages x.
        (case anthropic_format_messages messages of
           Inl e \<Rightarrow> (Inl e, x)
         | Inr formatted \<Rightarrow>
             (case an_stream K (anthropic_kwargs model prompt formatted) x of
                ((chunks, failed), x') \<Rightarrow> (Inr (chunks @ (if failed then [apology] else [])), x')))),
      pv_call = (\<lambda>prompt messages tools x.
        (case bindE (anthropic_format_messages messages) (\<lambda>formatted.
              with_tools anthropic_format_tools tools (anthropic_kwargs model prompt formatted)) of
           Inl e \<Rightarrow> (Inl e, x)
         | Inr kwargs \<Rightarrow> (case an_create K kwargs x of (answer, x') \<Rightarrow> (Inr (anthropic_reply answer), x'))))\<rparr>"

subsection \<open>Gemini\<close>

definition gemini_type :: "pyval \<Rightarrow> string" where
  "gemini_type ty =
     (if ty = PStr ''integer'' then ''INTEGER'' else if ty = PStr ''number'' then ''NUMBER''
      else if ty = PStr ''boolean'' then ''BOOLEAN'' else ''STRING'')"

definition gemini_property :: "string \<times> pyval \<Rightarrow> (string \<times> pyval) res" where
  "gemini_property kv =
     bindE (as_dict (snd kv)) (\<lambda>d.
     Inr (fst kv, PDict ([(''type'', PStr (gemini_type (dget_or d ''type'' (PStr ''string''))))] @
       (if py_truthy (pget d ''description'') then [(''description'', pget d ''description'')] else []))))"

definition convert_tool_schema_to_gemini :: "pyval dict \<Rightarrow> pyval dict res" where
  "convert_tool_schema_to_gemini tool =
     bindE (as_dict (dget_or tool ''parameters'' (PDict []))) (\<lambda>params.
     bindE (as_dict (dget_or params ''properties'' (PDict []))) (\<lambda>props.
     bindE (mapE gemini_property props) (\<lambda>properties.
     let required = dget_or params ''required'' (PList []) in
     bindE (item (PDict tool) ''name'') (\<lambda>nm.
     Inr [(''name'', nm), (''description'', dget_or tool ''description'' (PStr [])),
       (''parameters'', PDict ([(''type'', PStr ''OBJECT''), (''properties'', PDict properties)] @
          (if py_truthy required then [(''required'', required)] else [])))]))))"

definition convert_tools_to_gemini :: "pyval dict list \<Rightarrow> pyval dict list res" where
  "convert_tools_to_gemini tools = mapE convert_tool_schema_to_gemini tools"

datatype gemini_part = G_text pyval | G_response pyval pyval | G_call pyval pyval

text \<open>A content is a role with its parts.\<close>

definition gemini_message :: "pyval dict \<Rightarrow> (string \<times> gemini_part list) list \<Rightarrow> (string \<times> gemini_part list) list res" where
  "gemini_message msg acc =
     (let role = dget_or msg ''role'' (PStr ''user''); gemini_role = (if role = PStr ''assistant'' then ''model'' else ''user'');
          content = dget_or msg ''content'' (PStr []) in
      if py_truthy (pget msg ''tool_results'')
      then bindE (iterate (pget msg ''tool_results'')) (\<lambda>trs.
        bindE (mapE (\<lambda>tr. bindE (item tr ''name'') (\<lambda>nm. bindE (item tr ''result'') (\<lambda>r. Inr (G_response nm r)))) trs) (\<lambda>parts.
        Inr (acc @ [(''user'', parts)])))
      else if py_truthy (pget msg ''tool_calls'')
      then bindE (iterate (pget msg ''tool_calls'')) (\<lambda>tcs.
        bindE (mapE (\<lambda>tc. bindE (item tc ''name'') (\<lambda>nm. bindE (item tc ''args'') (\<lambda>args. Inr (G_call nm args)))) tcs) (\<lambda>parts.
        Inr (acc @ [(''model'', (if py_truthy content then [G_text content] else []) @ parts)])))
      else Inr (if py_truthy content then acc @ [(gemini_role, [G_text content])] else acc))"

definition convert_messages_to_gemini :: "pyval dict list \<Rightarrow> (string \<times> gemini_part list) list res" where
  "convert_messages_to_gemini messages = foldE gemini_message messages []"

text \<open>A request: the model, the contents, the instruction and the declared functions.\<close>

record gemini_request =
  gq_model :: string
  gq_contents :: "(string \<times> gemini_part list) list"
  gq_system :: string
  gq_tools :: "pyval dict list"

datatype gemini_piece = Piece_text string | Piece_call string "pyval dict" | Piece_other

record 'x gemini_sdk =
  ge_create :: "gemini_request \<Rightarrow> 'x \<Rightarrow> gemini_piece list option \<times> 'x"
  ge_stream :: "gemini_request \<Rightarrow> 'x \<Rightarrow> (string list \<times> bool) \<times> 'x"

fun piece_text :: "gemini_piece \<Rightarrow> string" where
  "piece_text (Piece_text t) = t"
| "piece_text p = []"

fun piece_calls :: "gemini_piece \<Rightarrow> pyval list" where
  "piece_calls (Piece_call nm args) = [PDict [(''name'', PStr nm), (''args'', PDict args)]]"
| "piece_calls p = []"

definition gemini_apology :: string where
  "gemini_apology = ''I'm sorry, I encountered an error processing your request. Please try again.''"

definition gemini_reply :: "gemini_piece list option \<Rightarrow> pyval dict" where
  "gemini_reply answer =
     (case answer of
        None \<Rightarrow> reply gemini_apology []
      | Some pieces \<Rightarrow> reply (concat (map piece_text pieces)) (concat (map piece_calls pieces)))"

definition gemini_plan :: "string \<Rightarrow> string \<Rightarrow> pyval dict list \<Rightarrow> pyval dict list \<Rightarrow> gemini_request res" where
  "gemini_plan model prompt messages tools =
     bindE (convert_messages_to_gemini messages) (\<lambda>contents.
     bindE (convert_tools_to_gemini tools) (\<lambda>decls.
     Inr \<lparr>gq_model = model, gq_contents = contents, gq_system = prompt, gq_tools = decls\<rparr>))"

definition gemini_provider :: "'x gemini_sdk \<Rightarrow> string \<Rightarrow> 'x provider" where
  "gemini_provider K model =
     \<lparr>pv_chat = (\<lambda>prompt messages x.
        (case gemini_plan model prompt messages [] of
           Inl e \<Rightarrow> (Inl e, x)
         | Inr rq \<Rightarrow> (case ge_stream K rq x of (s, x') \<Rightarrow> (Inr (streamed gemini_apology s), x')))),
      pv_call = (\<lambda>prompt messages tools x.
        (case gemini_plan model prompt messages tools of
           Inl e \<Rightarrow> (Inl e, x)
         | Inr rq \<Rightarrow> (case ge_create K rq x of (answer, x') \<Rightarrow> (Inr (gemini_reply answer), x'))))\<rparr>"

subsection \<open>The choice of a provider\<close>

datatype provider_kind = Gemini_kind | Openai_kind | Anthropic_kind

definition PROVIDER_MAP :: "provider_kind dict" where
  "PROVIDER_MAP = [(''gemini'', Gemini_kind), (''openai'', Openai_kind), (''anthropic'', Anthropic_kind)]"

text \<open>Constructing a provider fails where its library is not installed.\<close>

definition create_provider :: "(provider_kind \<Rightarrow> string \<Rightarrow> string \<Rightarrow> 'x provider res) \<Rightarrow> string \<Rightarrow> string \<Rightarrow> string \<Rightarrow> 'x provider res" where
  "create_provider mk ptype api_key model =
     (case dget PROVIDER_MAP (lower ptype) of
        None \<Rightarrow> Inl (ValueError (''Unsupported provider type: '' @ ptype @ ''. Supported: anthropic, gemini, openai''))
      | Some kind \<Rightarrow> mk kind api_key model)"

record copilot_settings =
  st_provider :: string
  st_api_key :: string
  st_model :: string
  st_gemini_key :: string
  st_gemini_model :: string

definition import_error :: exn where "import_error = DriverError ''ImportError''"

fun falls_back :: "exn \<Rightarrow> bool" where
  "falls_back (ValueError m) = True"
| "falls_back e = (e = import_error)"

definition legacy_provider :: "(provider_kind \<Rightarrow> string \<Rightarrow> string \<Rightarrow> 'x provider res) \<Rightarrow> copilot_settings \<Rightarrow> 'x provider option res" where
  "legacy_provider mk s =
     (if st_gemini_key s = [] then Inr None
      else (case create_provider mk ''gemini'' (st_gemini_key s) (st_gemini_model s) of
          Inr p \<Rightarrow> Inr (Some p)
        | Inl e \<Rightarrow> if falls_back e then Inr None else Inl e))"

definition build_llm_provider :: "(provider_kind \<Rightarrow> string \<Rightarrow> string \<Rightarrow> 'x provider res) \<Rightarrow> copilot_settings option \<Rightarrow>
    'x provider option res" where
  "build_llm_provider mk settings =
     (case settings of
        None \<Rightarrow> Inr None
      | Some s \<Rightarrow>
          if st_api_key s = [] then legacy_provider mk s
          else (case create_provider mk (if st_provider s = [] then ''gemini'' else st_provider s) (st_api_key s)
                  (if st_model s = [] then st_gemini_model s else st_model s) of
              Inr p \<Rightarrow> Inr (Some p)
            | Inl e \<Rightarrow> if falls_back e then legacy_provider mk s else Inl e))"

end
