(* ===== verification/Copilot_Service.thy ===== *)
theory Copilot_Service
  imports Copilot_Providers
begin

section \<open>The copilot service\<close>

text \<open>
  \<open>copilot/service.py\<close>: messages and confirmations as streams of events (\<open>copilot/a2ui\<close>), and the
  operations that pass a request on to a manager and describe the row it returns. A stream is the events
  it gave before it ended and the exception it ended with, if any.
\<close>

subsection \<open>Events\<close>

record a2ui_event =
  ev_type :: string
  ev_data :: "pyval dict"
  ev_id :: "nat option"

definition text_delta :: "string \<Rightarrow> string \<times> pyval dict" where
  "text_delta content = (''text_delta'', [(''content'', PStr content)])"

definition error_event :: "string \<Rightarrow> string \<times> pyval dict" where
  "error_event m = (''error'', [(''message'', PStr m)])"

definition done_event :: "string \<times> pyval dict" where
  "done_event = (''done'', [])"

definition interrupt_event :: "pyval \<Rightarrow> string \<times> pyval dict" where
  "interrupt_event confirmation = (''interrupt'', [(''confirmation'', confirmation)])"

text \<open>\<open>json.dumps(v, ensure_ascii=False)\<close>: only controls, quotes and backslashes are escaped.\<close>

definition raw_esc :: "char \<Rightarrow> string" where
  "raw_esc c = (if (of_char c :: nat) < 127 then json_esc c else [c])"

definition raw_str :: "string \<Rightarrow> string" where
  "raw_str s = quote # concat (map raw_esc s) @ [quote]"

fun raw_dumps :: "pyval \<Rightarrow> string" where
  "raw_dumps PNone = ''null''"
| "raw_dumps (PBool b) = (if b then ''true'' else ''false'')"
| "raw_dumps (PInt i) = int_str i"
| "raw_dumps (PFloat s) = s"
| "raw_dumps (PStr s) = raw_str s"
| "raw_dumps (PList xs) = ''['' @ join '', '' (map raw_dumps xs) @ '']''"
| "raw_dumps (PDict d) = ''{'' @ join '', '' (map (\<lambda>(k, v). raw_str k @ '': '' @ raw_dumps v) d) @ ''}''"

definition sse_lines :: "a2ui_event \<Rightarrow> string list" where
  "sse_lines ev =
     (case ev_id ev of Some n \<Rightarrow> [''id: '' @ nat_str n] | None \<Rightarrow> []) @
     [''event: a2ui'', ''data: '' @ raw_dumps (PDict (dupdate [(''type'', PStr (ev_type ev))] (ev_data ev))), []]"

definition to_sse :: "a2ui_event \<Rightarrow> string" where
  "to_sse ev = join [CHR 0x0A] (sse_lines ev) @ [CHR 0x0A]"

text \<open>The renderer numbers the events of all streams of the service.\<close>

definition rendered :: "string \<times> pyval dict \<Rightarrow> nat \<Rightarrow> a2ui_event" where
  "rendered e n = \<lparr>ev_type = fst e, ev_data = snd e, ev_id = Some n\<rparr>"

fun numbered :: "nat \<Rightarrow> (string \<times> pyval dict) list \<Rightarrow> a2ui_event list" where
  "numbered n [] = []"
| "numbered n (e # es) = rendered e (Suc n) # numbered (Suc n) es"

type_synonym 'x stream = "'x cworld \<Rightarrow> (a2ui_event list \<times> exn option) \<times> 'x cworld"

definition emit :: "(string \<times> pyval dict) list \<Rightarrow> 'x cworld \<Rightarrow> a2ui_event list \<times> 'x cworld" where
  "emit es w = (numbered (cw_events w) es, w\<lparr>cw_events := cw_events w + length es\<rparr>)"

subsection \<open>Messages\<close>

definition pending_key :: string where "pending_key = ''_pending_interrupt''"

text \<open>What the service shows of an event of the agent; other types show nothing.\<close>

definition shown :: "pyval dict \<Rightarrow> (string \<times> pyval dict) list" where
  "shown event =
     (let ty = dget_or event ''type'' (PStr []) in
      if ty = PStr ''text_delta'' then [(''text_delta'', [(''content'', dget_or event ''content'' (PStr []))])]
      else if ty = PStr ''component'' then [(''component'', [(''component'', dget_or event ''component'' (PDict []))])]
      else if ty = PStr ''tool_start'' then
        [(''tool_start'', [(''tool_name'', dget_or event ''tool_name'' (PStr [])), (''params'', dget_or event ''params'' (PDict []))])]
      else if ty = PStr ''tool_end'' then
        [(''tool_end'', [(''tool_name'', dget_or event ''tool_name'' (PStr [])),
           (''status'', dget_or event ''status'' (PStr ''success''))])]
      else [])"

definition is_interrupt :: "pyval dict \<Rightarrow> bool" where
  "is_interrupt event \<longleftrightarrow> dget_or event ''type'' (PStr []) = PStr ''interrupt''"

text \<open>The events up to the first interrupt, and that one.\<close>

datatype message_end = Completed | Interrupted | Failed exn

definition render_events :: "'x cenv \<Rightarrow> ctx \<Rightarrow> session_row \<Rightarrow> pyval dict list \<Rightarrow> 'x cworld \<Rightarrow>
    (a2ui_event list \<times> message_end) \<times> 'x cworld" where
  "render_events V c s events w =
     (let before = takeWhile (\<lambda>e. \<not> is_interrupt e) events;
          (out, w1) = emit (concat (map shown before)) w
      in case dropWhile (\<lambda>e. \<not> is_interrupt e) events of
           [] \<Rightarrow> ((out, Completed), w1)
         | e # _ \<Rightarrow>
             (let confirmation = dget_or e ''confirmation'' (PDict []) in
              case sm_update_context V c (cs_id s) (dput pending_key confirmation (cs_context s)) w1 of
                (Inl x, w2) \<Rightarrow> ((out, Failed x), w2)
              | (Inr _, w2) \<Rightarrow>
                  (case emit [interrupt_event confirmation] w2 of (final, w3) \<Rightarrow> ((out @ final, Interrupted), w3))))"

definition message_title :: "string \<Rightarrow> string" where
  "message_title content = take 50 content @ (if length content > 50 then ''...'' else [])"

definition no_title :: "session_row \<Rightarrow> bool" where
  "no_title s \<longleftrightarrow> (case cs_title s of None \<Rightarrow> True | Some t \<Rightarrow> t = [])"

text \<open>The agent and the rendering, with what the two \<open>except\<close> clauses add.\<close>

definition answer :: "'x cenv \<Rightarrow> 'x agent \<Rightarrow> ctx \<Rightarrow> session_row \<Rightarrow> string \<Rightarrow> 'x cworld \<Rightarrow> (a2ui_event list \<times> bool) \<times> 'x cworld" where
  "answer V G c s content w =
     (case process_message (cv_f V) G c (build_context (cs_mode s) (cs_context s)) content w of
        (Inl e, w1) \<Rightarrow> (case emit [error_event (exn_str e), done_event] w1 of (out, w2) \<Rightarrow> ((out, True), w2))
      | (Inr events, w1) \<Rightarrow>
          (case render_events V c s events w1 of
             ((out, Completed), w2) \<Rightarrow> (case emit [done_event] w2 of (final, w3) \<Rightarrow> ((out @ final, True), w3))
           | ((out, Interrupted), w2) \<Rightarrow> ((out, False), w2)
           | ((out, Failed e), w2) \<Rightarrow>
               (case emit [error_event (exn_str e), done_event] w2 of (final, w3) \<Rightarrow> ((out @ final, True), w3))))"

text \<open>The rest of a stream after its events: the session is marked as used.\<close>

definition touched :: "'x cenv \<Rightarrow> ctx \<Rightarrow> string \<Rightarrow> a2ui_event list \<Rightarrow> 'x stream" where
  "touched V c sid out w =
     (case sm_touch V c sid w of (Inl e, w') \<Rightarrow> ((out, Some e), w') | (Inr _, w') \<Rightarrow> ((out, None), w'))"

definition send_message :: "'x cenv \<Rightarrow> 'x agent \<Rightarrow> ctx \<Rightarrow> string \<Rightarrow> string \<Rightarrow> 'x stream" where
  "send_message V G c sid content w =
     (case bindC (sm_get_session V c sid) (\<lambda>s.
           bindC (if no_title s then sm_update_title V c sid (message_title content) else retC ()) (\<lambda>_. retC s)) w of
        (Inl e, w1) \<Rightarrow> (([], Some e), w1)
      | (Inr s, w1) \<Rightarrow>
          (case answer V G c s content w1 of
             ((out, True), w2) \<Rightarrow> touched V c sid out w2
           | ((out, False), w2) \<Rightarrow> ((out, None), w2)))"

subsection \<open>Confirmations\<close>

definition confirm_by_id :: "'x fenv \<Rightarrow> ctx \<Rightarrow> pyval \<Rightarrow> ('x, execution_response) fop" where
  "confirm_by_id E c execution_id =
     (case execution_id of PStr eid \<Rightarrow> confirm_execution E c eid | _ \<Rightarrow> raiseC (DriverError ''DataError''))"

definition cancel_by_id :: "'x fenv \<Rightarrow> ctx \<Rightarrow> pyval \<Rightarrow> ('x, execution_response) fop" where
  "cancel_by_id E c execution_id =
     (case execution_id of PStr eid \<Rightarrow> cancel_execution E c eid | _ \<Rightarrow> raiseC (DriverError ''DataError''))"

text \<open>The events after the user's decision, and the function service's state.\<close>

definition decided :: "'x fenv \<Rightarrow> ctx \<Rightarrow> bool \<Rightarrow> pyval \<Rightarrow> 'x cworld \<Rightarrow> (string \<times> pyval dict) list \<times> 'x cworld" where
  "decided E c approved execution_id w =
     (if approved then
        (if py_truthy execution_id
         then (case on_c (confirm_by_id E c execution_id) w of
             (Inr r, w') \<Rightarrow> ([text_delta ''Operation approved. Executing...'',
                text_delta ('' Execution completed: '' @ xr_status r), done_event], w')
           | (Inl e, w') \<Rightarrow> ([text_delta ''Operation approved. Executing...'', error_event (exn_str e), done_event], w'))
         else ([text_delta ''Operation approved. Executing...'', done_event], w))
      else
        ([text_delta ''Operation cancelled by user.'', done_event],
         if py_truthy execution_id then snd (on_c (cancel_by_id E c execution_id) w) else w))"

definition resume_execution :: "'x cenv \<Rightarrow> ctx \<Rightarrow> string \<Rightarrow> bool \<Rightarrow> 'x stream" where
  "resume_execution V c sid approved w =
     (case sm_get_session V c sid w of
        (Inl e, w1) \<Rightarrow> (([], Some e), w1)
      | (Inr s, w1) \<Rightarrow>
          (let pending = pget (cs_context s) pending_key in
           if \<not> py_truthy pending
           then ((numbered 0 [text_delta ''No pending operation to resume.'', done_event], None), w1)
           else
             (case bindC (sm_update_context V c sid (dfilter (\<lambda>k. k \<noteq> pending_key) (cs_context s))) (\<lambda>_.
                   liftC (as_dict pending)) w1 of
                (Inl e, w2) \<Rightarrow> (([], Some e), w2)
              | (Inr d, w2) \<Rightarrow>
                  (case decided (cv_f V) c approved (pget d ''execution_id'') w2 of
                     (out, w3) \<Rightarrow> touched V c sid (numbered 0 out) w3))))"

subsection \<open>Descriptions of rows\<close>

text \<open>The bodies of responses; \<open>fe_iso\<close> prints an instant.\<close>

definition time_val :: "'x fenv \<Rightarrow> int \<Rightarrow> pyval" where
  "time_val E t = PStr (fe_iso E t)"

definition session_to_response :: "'x fenv \<Rightarrow> session_row \<Rightarrow> pyval dict" where
  "session_to_response E s =
     [(''session_id'', PStr (cs_id s)), (''mode'', PStr (cs_mode s)), (''title'', opt_msg (cs_title s)),
      (''context'', PDict (cs_context s)), (''model_rid'', opt_msg (cs_model s)), (''status'', PStr (cs_status s)),
      (''created_at'', time_val E (cs_created s)), (''last_active_at'', time_val E (cs_active s))]"

definition model_to_response :: "'x fenv \<Rightarrow> model_row \<Rightarrow> pyval dict" where
  "model_to_response E m =
     [(''rid'', PStr (md_rid m)), (''api_name'', PStr (md_api_name m)), (''display_name'', PStr (md_name m)),
      (''provider'', PStr (md_provider m)), (''connection'', md_connection m), (''parameters'', md_parameters m),
      (''is_default'', PBool (md_default m)), (''created_at'', time_val E (md_created m)), (''updated_at'', time_val E (md_updated m))]"

definition skill_to_response :: "'x fenv \<Rightarrow> skill_row \<Rightarrow> pyval dict" where
  "skill_to_response E s =
     [(''rid'', PStr (sk_rid s)), (''api_name'', PStr (sk_api_name s)), (''display_name'', PStr (sk_name s)),
      (''description'', opt_msg (sk_descr s)), (''system_prompt'', PStr (case sk_prompt s of Some t \<Rightarrow> t | None \<Rightarrow> [])),
      (''tool_bindings'', sk_tools s), (''enabled'', PBool (sk_enabled s)), (''created_at'', time_val E (sk_created s)),
      (''updated_at'', time_val E (sk_updated s))]"

definition mcp_to_response :: "'x fenv \<Rightarrow> mcp_row \<Rightarrow> pyval dict" where
  "mcp_to_response E m =
     [(''rid'', PStr (mc_rid m)), (''api_name'', PStr (mc_api_name m)), (''display_name'', PStr (mc_name m)),
      (''description'', opt_msg (mc_descr m)), (''transport'', PDict (mc_transport m)),
      (''auth'', case mc_auth m of Some a \<Rightarrow> PDict a | None \<Rightarrow> PNone), (''discovered_tools'', mc_tools m),
      (''status'', PStr (mc_status m)), (''enabled'', PBool (mc_enabled m)), (''created_at'', time_val E (mc_created m)),
      (''updated_at'', time_val E (mc_updated m))]"

definition subagent_to_response :: "'x fenv \<Rightarrow> agent_row \<Rightarrow> pyval dict" where
  "subagent_to_response E a =
     [(''rid'', PStr (ag_rid a)), (''api_name'', PStr (ag_api_name a)), (''display_name'', PStr (ag_name a)),
      (''description'', opt_msg (ag_descr a)), (''model_rid'', opt_msg (ag_model a)), (''system_prompt'', opt_msg (ag_prompt a)),
      (''tool_bindings'', ag_tools a), (''safety_policy'', ag_safety a), (''enabled'', PBool (ag_enabled a)),
      (''created_at'', time_val E (ag_created a)), (''updated_at'', time_val E (ag_updated a))]"

subsection \<open>Operations on rows\<close>

text \<open>\<open>return self._x_to_response(await self._x_manager.op(...))\<close>, for one row and for a page of them.\<close>

definition described :: "('r \<Rightarrow> pyval dict) \<Rightarrow> ('x, 'r) cop \<Rightarrow> ('x, pyval dict) cop" where
  "described f m = bindC m (\<lambda>r. retC (f r))"

definition described_page :: "('r \<Rightarrow> pyval dict) \<Rightarrow> ('x, 'r list \<times> nat) cop \<Rightarrow> ('x, pyval dict list \<times> nat) cop" where
  "described_page f m = bindC m (\<lambda>(rs, n). retC (map f rs, n))"

definition cop_create_session :: "'x cenv \<Rightarrow> ctx \<Rightarrow> string \<Rightarrow> pyval dict \<Rightarrow> ('x, pyval dict) cop" where
  "cop_create_session V c mode context = described (session_to_response (cv_f V)) (sm_create_session V c mode context)"

definition cop_get_session :: "'x cenv \<Rightarrow> ctx \<Rightarrow> string \<Rightarrow> ('x, pyval dict) cop" where
  "cop_get_session V c sid = described (session_to_response (cv_f V)) (sm_get_session V c sid)"

definition cop_query_sessions :: "'x cenv \<Rightarrow> ctx \<Rightarrow> nat \<Rightarrow> nat \<Rightarrow> ('x, pyval dict list \<times> nat) cop" where
  "cop_query_sessions V c offset limit = described_page (session_to_response (cv_f V)) (sm_query_sessions V c offset limit)"

definition cop_update_context :: "'x cenv \<Rightarrow> ctx \<Rightarrow> string \<Rightarrow> pyval dict \<Rightarrow> ('x, pyval dict) cop" where
  "cop_update_context V c sid context = described (session_to_response (cv_f V)) (sm_update_context V c sid context)"

definition cop_delete_session :: "'x cenv \<Rightarrow> ctx \<Rightarrow> string \<Rightarrow> ('x, unit) cop" where
  "cop_delete_session V c sid = sm_delete_session V c sid"

definition register_model :: "'x fenv \<Rightarrow> ctx \<Rightarrow> string \<Rightarrow> string \<Rightarrow> string \<Rightarrow> pyval \<Rightarrow> pyval \<Rightarrow> bool \<Rightarrow> ('x, pyval dict) cop" where
  "register_model E c api nm provider connection parameters is_default =
     described (model_to_response E) (model_register E c api nm provider connection parameters is_default)"

definition get_model :: "'x fenv \<Rightarrow> ctx \<Rightarrow> string \<Rightarrow> ('x, pyval dict) cop" where
  "get_model E c rid = described (model_to_response E) (model_get E c rid)"

definition update_model :: "'x fenv \<Rightarrow> ctx \<Rightarrow> string \<Rightarrow> model_fields \<Rightarrow> ('x, pyval dict) cop" where
  "update_model E c rid f = described (model_to_response E) (model_update E c rid f)"

definition query_models :: "'x fenv \<Rightarrow> ctx \<Rightarrow> nat \<Rightarrow> nat \<Rightarrow> ('x, pyval dict list \<times> nat) cop" where
  "query_models E c offset limit = described_page (model_to_response E) (model_query E c offset limit)"

definition register_skill :: "'x fenv \<Rightarrow> ctx \<Rightarrow> string \<Rightarrow> string \<Rightarrow> string option \<Rightarrow> string \<Rightarrow> pyval \<Rightarrow> ('x, pyval dict) cop" where
  "register_skill E c api nm descr prompt tools =
     described (skill_to_response E) (skill_register E c api nm descr prompt tools True)"

definition get_skill :: "'x fenv \<Rightarrow> ctx \<Rightarrow> string \<Rightarrow> ('x, pyval dict) cop" where
  "get_skill E c rid = described (skill_to_response E) (skill_get E c rid)"

definition update_skill :: "'x fenv \<Rightarrow> ctx \<Rightarrow> string \<Rightarrow> skill_fields \<Rightarrow> ('x, pyval dict) cop" where
  "update_skill E c rid f = described (skill_to_response E) (skill_update E c rid f)"

definition query_skills :: "'x fenv \<Rightarrow> ctx \<Rightarrow> nat \<Rightarrow> nat \<Rightarrow> ('x, pyval dict list \<times> nat) cop" where
  "query_skills E c offset limit = described_page (skill_to_response E) (skill_query E c offset limit)"

definition set_skill_enabled :: "'x fenv \<Rightarrow> ctx \<Rightarrow> string \<Rightarrow> bool \<Rightarrow> ('x, pyval dict) cop" where
  "set_skill_enabled E c rid enabled = described (skill_to_response E) (skill_set_enabled E c rid enabled)"

definition create_sub_agent :: "'x fenv \<Rightarrow> ctx \<Rightarrow> string \<Rightarrow> string \<Rightarrow> string option \<Rightarrow> string option \<Rightarrow> string option \<Rightarrow> pyval \<Rightarrow>
    pyval \<Rightarrow> bool \<Rightarrow> ('x, pyval dict) cop" where
  "create_sub_agent E c api nm descr model prompt tools safety enabled =
     described (subagent_to_response E) (agent_register E c api nm descr model prompt tools safety enabled)"

definition get_sub_agent :: "'x fenv \<Rightarrow> ctx \<Rightarrow> string \<Rightarrow> ('x, pyval dict) cop" where
  "get_sub_agent E c rid = described (subagent_to_response E) (agent_get E c rid)"

definition update_sub_agent :: "'x fenv \<Rightarrow> ctx \<Rightarrow> string \<Rightarrow> agent_fields \<Rightarrow> ('x, pyval dict) cop" where
  "update_sub_agent E c rid f = described (subagent_to_response E) (agent_update E c rid f)"

definition query_sub_agents :: "'x fenv \<Rightarrow> ctx \<Rightarrow> nat \<Rightarrow> nat \<Rightarrow> ('x, pyval dict list \<times> nat) cop" where
  "query_sub_agents E c offset limit = described_page (subagent_to_response E) (agent_query E c offset limit)"

definition connect_mcp :: "'x fenv \<Rightarrow> ctx \<Rightarrow> string \<Rightarrow> string \<Rightarrow> string option \<Rightarrow> pyval dict \<Rightarrow> pyval dict option \<Rightarrow>
    ('x, pyval dict) cop" where
  "connect_mcp E c api nm descr transport auth = described (mcp_to_response E) (mcp_connect E c api nm descr transport auth)"

definition get_mcp :: "'x fenv \<Rightarrow> ctx \<Rightarrow> string \<Rightarrow> ('x, pyval dict) cop" where
  "get_mcp E c rid = described (mcp_to_response E) (mcp_get E c rid)"

definition update_mcp :: "'x fenv \<Rightarrow> ctx \<Rightarrow> string \<Rightarrow> mcp_fields \<Rightarrow> ('x, pyval dict) cop" where
  "update_mcp E c rid f = described (mcp_to_response E) (mcp_update E c rid f)"

definition query_mcp :: "'x fenv \<Rightarrow> ctx \<Rightarrow> nat \<Rightarrow> nat \<Rightarrow> ('x, pyval dict list \<times> nat) cop" where
  "query_mcp E c offset limit = described_page (mcp_to_response E) (mcp_query E c offset limit)"

text \<open>How many sessions the user has and how many models the tenant.\<close>

definition copilot_overview :: "'x cenv \<Rightarrow> ctx \<Rightarrow> ('x, nat \<times> nat) cop" where
  "copilot_overview V c =
     bindC (sm_query_sessions V c 0 1) (\<lambda>(_, sessions).
     bindC (model_query (cv_f V) c 0 1) (\<lambda>(_, models).
     retC (sessions, models)))"

end
