(* ===== verification/Copilot_Safety.thy ===== *)
theory Copilot_Safety
  imports Copilot_Service Function_Frames
begin

section \<open>What the copilot does and does not do\<close>

text \<open>
  The calls of tools that reach no function, the loop between model and tools, and the concrete world
  in which the properties of the copilot are applied.
\<close>

subsection \<open>A concrete world for the witnesses\<close>

definition counting_env :: "nat fenv" where
  "counting_env = \<lparr>fe_uuid = nat_str, fe_now = int, fe_iso = (\<lambda>_. []),
     fe_object_type = (\<lambda>_ _ _. Inr None), fe_link_type = (\<lambda>_ _ _. Inr None),
     fe_action_types = (\<lambda>_ _ _ _. Inr ([], 0)), fe_instance = (\<lambda>_ _ _ x. (Inr None, x)),
     fe_instances = (\<lambda>_ _ _ _ _ x. (Inr PNone, x)),
     fe_outside = \<lparr>os_http = (\<lambda>_ x. (Http_timeout, x)), os_run = (\<lambda>_ _ _ x. (Killed, x)), os_getenv = (\<lambda>_. None),
       os_json_error = (\<lambda>_. [])\<rparr>\<rparr>"

definition chat_ctx :: ctx where
  "chat_ctx = \<lparr>ctx_user_id = Some ''u'', ctx_tenant_id = Some ''t'', ctx_role = None, ctx_request_id = None\<rparr>"

definition helper_row :: agent_row where
  "helper_row = \<lparr>ag_rid = ''r'', ag_tenant = ''t'', ag_api_name = ''h'', ag_name = ''Helper'', ag_descr = None, ag_model = None,
     ag_prompt = None, ag_tools = PList [], ag_safety = PDict [], ag_enabled = True, ag_created = 0, ag_updated = 0\<rparr>"

definition chat_world :: "nat cworld" where
  "chat_world =
     (let d = empty_copdb\<lparr>cd_agents := [helper_row]\<rparr> in
      \<lparr>cw_f = \<lparr>fw_db = empty_fundb, fw_tx = empty_fundb, fw_began = None, fw_ext = 0, fw_tasks = [], fw_draws = 0, fw_ticks = 0\<rparr>,
       cw_db = d, cw_tx = d, cw_events = 0\<rparr>)"

text \<open>A model that always asks for the sub-agent, and counts how often it is asked.\<close>

definition eager_model :: "nat provider" where
  "eager_model = \<lparr>pv_chat = (\<lambda>_ _ x. (Inr [''hello''], Suc x)),
     pv_call = (\<lambda>_ _ _ x. (Inr [(''text'', PStr []),
       (''tool_calls'', PList [PDict [(''name'', PStr ''subagent_h''), (''args'', PDict [])]])], Suc x))\<rparr>"

definition eager_agent :: "nat agent" where
  "eager_agent = \<lparr>gr_service = Some (wired_service counting_env), gr_llm = Some eager_model,
     gr_prompts = \<lparr>pr_shell = (\<lambda>_ _ _ _. []), pr_agent = (\<lambda>_. [])\<rparr>\<rparr>"

subsection \<open>What stays as it is\<close>

definition calm :: "'x fworld \<Rightarrow> 'x fworld \<Rightarrow> bool" where
  "calm f w \<longleftrightarrow> fw_db w = fw_db f \<and> fw_tx w = fw_tx f \<and> fw_tasks w = fw_tasks f"

definition calm_c :: "'x cworld \<Rightarrow> 'x cworld \<Rightarrow> bool" where
  "calm_c v w \<longleftrightarrow> calm (cw_f v) (cw_f w) \<and> cw_db w = cw_db v \<and> cw_tx w = cw_tx v \<and> cw_events w = cw_events v"

lemma calm_refl [simp]: "calm f f" "calm_c v v"
  by (simp_all add: calm_def calm_c_def)

lemma calm_sql [spec_rules]: "steady (calm f) (sql E (\<lambda>now d. (g now d, d)))"
  unfolding spec_def
proof (intro allI impI)
  fix w
  assume w: "calm f w"
  obtain now w' where "sql E (\<lambda>now d. (g now d, d)) w = (g now (fw_tx w), w')" and "calm f w'"
    by (rule sql_run [of E "\<lambda>now d. (g now d, d)" w]) (use w in \<open>simp add: calm_def\<close>)
  then show "case sql E (\<lambda>now d. (g now d, d)) w of (Inl e, t) \<Rightarrow> calm f t | (Inr x, t) \<Rightarrow> calm f t"
    by (simp split: sum.split)
qed

lemma calm_ext_call [spec_rules]: "steady (calm f) (ext_call g)"
  by (auto simp: spec_def ext_call_def calm_def split: prod.split sum.split)

lemma calm_fclock [spec_rules]: "steady (calm f) (fclock E)"
  by (simp add: spec_def fclock_def calm_def)

lemma spec_on_c:
  assumes "spec (calm (cw_f v)) m (\<lambda>x w. calm (cw_f v) w \<and> Q x) (calm (cw_f v))"
  shows "spec (calm_c v) (on_c m) (\<lambda>x w. calm_c v w \<and> Q x) (calm_c v)"
  using assms by (fastforce simp: spec_def on_c_def calm_c_def split: prod.splits sum.splits)

lemma calm_on_c [spec_rules]: "steady (calm (cw_f v)) m \<Longrightarrow> steady (calm_c v) (on_c m)"
  using spec_on_c [of v m "\<lambda>_. True"] by simp

lemma calm_csql [spec_rules]: "steady (calm_c v) (csql E (\<lambda>now d. (g now d, d)))"
  unfolding csql_def
proof (rule stable_bindC)
  show "steady (calm_c v) (on_c (sql E (\<lambda>now d. (Inr now, d))))" by (intro spec_rules)
  show "steady (calm_c v) (\<lambda>w. case (g now (cw_tx w), cw_tx w) of (r, d) \<Rightarrow> (r, w\<lparr>cw_tx := d\<rparr>))" for now
    by (auto simp: spec_def calm_c_def split: sum.split)
qed

lemma calm_capabilities: "steady (calm f) (list_capabilities E c ctype)"
proof -
  have "steady (calm f) (\<lambda>w. case fe_action_types E t 0 1000 (fw_ext w) of
      Inr (nodes, _) \<Rightarrow> (Inr (until_error action_capability nodes), w) | Inl _ \<Rightarrow> (Inr [], w))" for t
    by (auto simp: spec_def split: sum.split prod.split)
  then show ?thesis unfolding list_capabilities_def by (intro spec_rules)
qed

lemma calm_catchC: "spec P m Q X \<Longrightarrow> (\<And>e. spec X (h e) Q X') \<Longrightarrow> spec P (catchC m h) Q X'"
  by (fastforce simp: spec_def catchC_def split: prod.splits sum.splits)

subsection \<open>Tool calls reach no function\<close>

definition harmless :: "pyval dict \<Rightarrow> bool" where
  "harmless ev \<longleftrightarrow> \<not> is_interrupt ev \<and> (pget ev ''type'' = PStr ''tool_end'' \<longrightarrow> pget ev ''status'' = PStr ''error'')"

lemma harmless_events [simp]:
  "harmless (text_event v)" "harmless (start_event n a)" "harmless (end_event n ''error'')" "harmless done_marker"
  by (simp_all add: harmless_def is_interrupt_def text_event_def start_event_def end_event_def done_marker_def pget_def
      dget_or_def)

lemma wired_tool_result:
  "spec (calm f) (tool_result (Some (wired_service E)) c nm args caps branch) (\<lambda>v w. calm f w \<and> (\<exists>m. v = error_dict m)) (calm f)"
  by (auto simp: spec_def tool_result_def execute_tool_call_def wired_service_def split: list.split)

lemma mentions_error_dict [simp]: "mentions_error (error_dict m) = Inr True"
  by (simp add: mentions_error_def error_dict_def)

lemma wired_run_tools:
  "spec (calm f) (run_tools (Some (wired_service E)) c caps branch tcs) (\<lambda>r w. calm f w \<and> list_all harmless (fst r)) (calm f)"
proof (induction tcs)
  case Nil
  show ?case by (simp add: spec_def)
next
  case (Cons tc tcs)
  show ?case unfolding run_tools.simps
  proof (rule spec_bindC [OF stable_pure(3)], clarify, rule spec_bindC [OF wired_tool_result])
    fix nm args v
    show "spec (\<lambda>w. calm f w \<and> (\<exists>m. v = error_dict m)) (bindC (liftC (mentions_error v)) (\<lambda>bad.
        bindC (run_tools (Some (wired_service E)) c caps branch tcs) (\<lambda>(events, results).
        retC (start_event nm args # end_event nm (if bad then ''error'' else ''success'') # events,
          PDict [(''name'', nm), (''result'', v)] # results)))) (\<lambda>r w. calm f w \<and> list_all harmless (fst r)) (calm f)"
    proof (rule spec_assume, clarify)
      fix w m
      assume "calm f w"
      then show "spec (\<lambda>t. t = w) (bindC (liftC (mentions_error (error_dict m))) (\<lambda>bad.
          bindC (run_tools (Some (wired_service E)) c caps branch tcs) (\<lambda>(events, results).
          retC (start_event nm args # end_event nm (if bad then ''error'' else ''success'') # events,
            PDict [(''name'', nm), (''result'', error_dict m)] # results)))) (\<lambda>r w. calm f w \<and> list_all harmless (fst r)) (calm f)"
        using Cons.IH by (fastforce simp: spec_def bindC_def split: prod.splits sum.splits)
    qed
  qed
qed

lemma wired_agent_loop:
  "list_all harmless evs \<Longrightarrow>
     spec (calm f) (agent_loop L (Some (wired_service E)) c prompt tools caps branch n ms evs)
       (\<lambda>events w. calm f w \<and> list_all harmless events) (calm f)"
proof (induction n arbitrary: ms evs)
  case 0
  then show ?case by (simp add: spec_def)
next
  case (Suc n)
  show ?case
  proof (cases "tools = []")
    case True
    then show ?thesis using Suc.prems
      by (simp, intro spec_bindC [OF calm_ext_call]) (auto simp: spec_def list_all_iff)
  next
    case False
    let ?rest = "\<lambda>response. let tool_calls = dget_or response ''tool_calls'' (PList []);
            response_text = dget_or response ''text'' (PStr []);
            events' = (if py_truthy response_text then evs @ [text_event response_text] else evs)
        in
          if \<not> py_truthy tool_calls then retC events'
          else
            bindC (liftC (iterate tool_calls)) (\<lambda>tcs.
            bindC (run_tools (Some (wired_service E)) c caps branch tcs) (\<lambda>(tool_events, results).
            agent_loop L (Some (wired_service E)) c prompt tools caps branch n
              (ms @
                [[(''role'', PStr ''assistant''), (''content'', response_text), (''tool_calls'', tool_calls)],
                 [(''role'', PStr ''user''), (''tool_results'', PList results)]])
              (events' @ tool_events)))"
    have "spec (calm f) (?rest response) (\<lambda>events w. calm f w \<and> list_all harmless events) (calm f)" for response
    proof -
      let ?evs = "if py_truthy (dget_or response ''text'' (PStr [])) then evs @ [text_event (dget_or response ''text'' (PStr []))] else evs"
      have evs: "list_all harmless ?evs" using Suc.prems by simp
      have "spec (\<lambda>w. calm f w \<and> list_all harmless (fst r)) ((\<lambda>(tool_events, results).
            agent_loop L (Some (wired_service E)) c prompt tools caps branch n (g results) (?evs @ tool_events)) r)
          (\<lambda>events w. calm f w \<and> list_all harmless events) (calm f)" for r g
        using Suc.IH [of "?evs @ fst r" "g (snd r)"] evs by (cases r) (auto simp: spec_def)
      then show ?thesis using evs
        by (auto simp: Let_def spec_def [of _ "retC _"] simp del: list_all_append
            intro!: spec_bindC [OF stable_pure(3)] spec_bindC [OF wired_run_tools])
    qed
    then show ?thesis using False by (simp, intro spec_bindC [OF calm_ext_call])
  qed
qed

lemma wired_process:
  "spec (calm f) (process_with_llm L (Some (wired_service E)) c prompt message tools caps branch)
     (\<lambda>events w. calm f w \<and> list_all harmless events) (calm f)"
  unfolding process_with_llm_def
  by (rule spec_bindC [OF wired_agent_loop]) (simp_all add: spec_def)

lemma calm_subagents: "steady (calm_c v) (load_subagents E c)"
proof -
  have "steady (calm_c v) (agent_query E c 0 100)"
    unfolding agent_query_def query_rows_of_def by (intro spec_rules)
  then have "steady (calm_c v) (get_subagent_tools E c)"
    unfolding get_subagent_tools_def by (rule stable_bindC) (auto simp: spec_def)
  then show ?thesis unfolding load_subagents_def
    by (rule calm_catchC) (auto simp: spec_def split: exn.split)
qed

lemma calm_available: "steady (calm f) (get_available_tools (Some (wired_service E)) c context)"
proof -
  have "sv_capabilities (wired_service E) = (\<lambda>c. list_capabilities E c None)" by (simp add: wired_service_def)
  then show ?thesis unfolding get_available_tools_def
    by (auto intro!: spec_rules calm_capabilities)
qed

lemma harmless_fallback: "list_all harmless (build_fallback_response context all_tools subs prompt)"
  by (simp add: build_fallback_response_def) (simp add: harmless_def is_interrupt_def pget_def dget_or_def)

lemma wired_message:
  assumes "gr_service G = Some (wired_service E)"
  shows "spec (calm_c v) (process_message E G c context message) (\<lambda>events w. calm_c v w \<and> list_all harmless events) (calm_c v)"
proof -
  have llm: "spec (calm_c v) (on_c (process_with_llm L (Some (wired_service E)) c prompt message tools caps branch))
      (\<lambda>events w. calm_c v w \<and> list_all harmless events) (calm_c v)" for L prompt tools caps branch
    by (rule spec_on_c [OF wired_process])
  have fallback: "spec (calm_c v) (retC (build_fallback_response context a s p))
      (\<lambda>events w. calm_c v w \<and> list_all harmless events) (calm_c v)" for a s p
    by (simp add: spec_def harmless_fallback)
  show ?thesis unfolding process_message_def Let_def assms
    by (intro spec_bindC [OF calm_on_c [OF calm_available]] spec_bindC [OF stable_pure(3)] spec_bindC [OF calm_subagents])
       (simp split: option.split add: llm fallback)
qed

text \<open>
C36. The agent of the program never executes anything: a message changes no table and schedules no
task, every tool call it reports ended with an error, and it asks for no confirmation. Its calls
leave out the database session, which the function service requires.
\<close>

theorem agent_never_acts:
  assumes "gr_service G = Some (wired_service E)" and "process_message E G c context message w = (r, w')"
  shows "fw_db (cw_f w') = fw_db (cw_f w) \<and> fw_tx (cw_f w') = fw_tx (cw_f w) \<and> fw_tasks (cw_f w') = fw_tasks (cw_f w) \<and>
    cw_db w' = cw_db w \<and> cw_tx w' = cw_tx w \<and>
    (case r of Inl _ \<Rightarrow> True
     | Inr events \<Rightarrow> list_all (\<lambda>ev. \<not> is_interrupt ev \<and>
         (pget ev ''type'' = PStr ''tool_end'' \<longrightarrow> pget ev ''status'' = PStr ''error'')) events)"
proof -
  note m = wired_message [OF assms(1), of w c "context" message]
  have "calm_c w w' \<and> (case r of Inl _ \<Rightarrow> True | Inr events \<Rightarrow> list_all harmless events)"
    using assms(2) specD(1) [OF m calm_refl(2)] specD(2) [OF m calm_refl(2)] by (cases r) auto
  then show ?thesis by (auto simp: calm_c_def calm_def harmless_def [abs_def] split: sum.splits)
qed

theorem agent_never_acts_witness:
  "case process_message counting_env eager_agent chat_ctx [] ''hi'' chat_world of
     (Inr events, w) \<Rightarrow> cw_tx w = cw_tx chat_world \<and> length events = 21 \<and> pget (events ! 1) ''status'' = PStr ''error''
   | (Inl _, _) \<Rightarrow> False"
proof -
  obtain events w where run: "process_message counting_env eager_agent chat_ctx [] ''hi'' chat_world = (Inr events, w)"
      and n: "length events = 21" "pget (events ! 1) ''type'' = PStr ''tool_end''"
  proof -
    have "case process_message counting_env eager_agent chat_ctx [] ''hi'' chat_world of
        (Inr events, w) \<Rightarrow> length events = 21 \<and> pget (events ! 1) ''type'' = PStr ''tool_end'' | (Inl _, _) \<Rightarrow> False"
      by code_simp
    then show ?thesis using that by (auto split: prod.splits sum.splits)
  qed
  have "gr_service eager_agent = Some (wired_service counting_env)" by (simp add: eager_agent_def)
  then show ?thesis using agent_never_acts [OF _ run] run n by (simp add: list_all_length)
qed

subsection \<open>The loop\<close>

text \<open>Every start of a tool is followed at once by its end, and nothing is called done.\<close>

fun paired :: "pyval dict list \<Rightarrow> bool" where
  "paired [] = True"
| "paired (e # es) =
     (if pget e ''type'' = PStr ''tool_start''
      then (case es of
          [] \<Rightarrow> False
        | e' # rest \<Rightarrow> pget e' ''type'' = PStr ''tool_end'' \<and> pget e' ''tool_name'' = pget e ''tool_name'' \<and> paired rest)
      else pget e ''type'' \<notin> {PStr ''tool_end'', PStr ''done''} \<and> paired es)"

lemma paired_append: "paired xs \<Longrightarrow> paired ys \<Longrightarrow> paired (xs @ ys)"
  by (induction xs rule: paired.induct) (auto split: if_splits list.splits)

lemma paired_texts: "paired (map (\<lambda>t. text_event (PStr t)) chunks)"
  by (induction chunks) (simp_all add: text_event_def pget_def)

lemma paired_text: "paired [text_event v]"
  by (simp add: text_event_def pget_def)

lemma paired_tools: "run_tools S c caps branch tcs w = (Inr (events, results), w') \<Longrightarrow> paired events"
proof (induction tcs arbitrary: w events results)
  case (Cons tc tcs)
  then show ?case
    by (fastforce simp: bindC_ok_iff start_event_def end_event_def pget_def split: prod.splits)
qed simp

lemma paired_loop:
  "agent_loop L S c prompt tools caps branch n ms evs w = (Inr events, w') \<Longrightarrow> paired evs \<Longrightarrow> paired events"
proof (induction n arbitrary: ms evs w)
  case (Suc n)
  show ?case
  proof (cases "tools = []")
    case True
    then show ?thesis using Suc.prems by (auto simp: bindC_ok_iff intro: paired_append paired_texts)
  next
    case False
    then obtain response w1 where r: "ext_call (pv_call L prompt ms tools) w = (Inr response, w1)"
      using Suc.prems(1) by (auto simp: bindC_ok_iff)
    let ?text = "dget_or response ''text'' (PStr [])" and ?calls = "dget_or response ''tool_calls'' (PList [])"
    let ?evs = "if py_truthy ?text then evs @ [text_event ?text] else evs"
    have evs: "paired ?evs" using paired_append [OF Suc.prems(2) paired_text] Suc.prems(2) by simp
    show ?thesis
    proof (cases "py_truthy ?calls")
      case False
      then show ?thesis using Suc.prems(1) \<open>tools \<noteq> []\<close> r evs by (simp add: bindC_run Let_def)
    next
      case True
      then obtain tcs w2 te rs w3 ms' where t: "run_tools S c caps branch tcs w2 = (Inr (te, rs), w3)"
        and rest: "agent_loop L S c prompt tools caps branch n ms' (?evs @ te) w3 = (Inr events, w')"
        using Suc.prems(1) \<open>tools \<noteq> []\<close> r by (auto simp: bindC_ok_iff Let_def split del: if_split)
      then show ?thesis using Suc.IH evs paired_tools paired_append by blast
    qed
  qed
qed simp

text \<open>At most \<open>k\<close> calls of the model so far, and what the function service does adds none.\<close>

definition called :: "('x \<Rightarrow> nat) \<Rightarrow> nat \<Rightarrow> 'x fworld \<Rightarrow> bool" where
  "called calls k w \<longleftrightarrow> calls (fw_ext w) \<le> k"

definition calls_no_model :: "('x \<Rightarrow> nat) \<Rightarrow> 'x service \<Rightarrow> bool" where
  "calls_no_model calls s \<longleftrightarrow>
     (\<forall>k c rid args branch skip. steady (called calls k) (sv_action s c rid args branch skip) \<and>
        steady (called calls k) (sv_function s c rid args branch))"

lemma called_tools:
  assumes "\<And>s. S = Some s \<Longrightarrow> calls_no_model calls s"
  shows "steady (called calls k) (run_tools S c caps branch tcs)"
proof (induction tcs)
  case (Cons tc tcs)
  have "steady (called calls k) (tool_result S c nm args caps branch)" for nm args
  proof (cases S)
    case (Some s)
    have "steady (called calls k) (execute_tool_call s c nm args caps branch)"
      using assms [OF Some] by (auto simp: execute_tool_call_def calls_no_model_def intro: spec_rules split: list.split)
    then show ?thesis using Some by (fastforce simp: tool_result_def spec_def split: prod.splits sum.splits)
  qed (simp add: tool_result_def spec_def)
  then show ?case using Cons.IH
    by (auto simp del: bindC_retC intro!: spec_rules split: prod.split)
qed (simp add: spec_def)

lemma called_ext:
  assumes "\<And>x. calls (snd (g x)) \<le> Suc (calls x)" and "Suc k \<le> j"
  shows "spec (called calls k) (ext_call g) (\<lambda>_. called calls (Suc k)) (called calls j)"
  unfolding spec_def
proof (intro allI impI)
  fix w
  assume w: "called calls k w"
  obtain r x where g: "g (fw_ext w) = (r, x)" by (cases "g (fw_ext w)")
  have "calls x \<le> Suc (calls (fw_ext w))" using assms(1) [of "fw_ext w"] g by simp
  then have "calls x \<le> Suc k" using w by (simp add: called_def)
  then show "case ext_call g w of (Inl e, t) \<Rightarrow> called calls j t | (Inr y, t) \<Rightarrow> called calls (Suc k) t"
    using g assms(2) by (simp add: ext_call_def called_def split: sum.split)
qed

lemma called_up:
  assumes "steady (called calls k) m" and "k \<le> j"
  shows "spec (called calls k) m (\<lambda>_. called calls j) (called calls j)" "spec (called calls k) m (\<lambda>_. called calls k) (called calls j)"
  by (rule spec_weaken [OF assms(1)]; use assms(2) in \<open>simp add: called_def\<close>)+

lemma called_loop:
  assumes "\<And>p ms x. calls (snd (pv_chat L p ms x)) \<le> Suc (calls x)" and "\<And>p ms ts x. calls (snd (pv_call L p ms ts x)) \<le> Suc (calls x)"
    and "\<And>s. S = Some s \<Longrightarrow> calls_no_model calls s"
  shows "spec (called calls k) (agent_loop L S c prompt tools caps branch n ms evs) (\<lambda>_. called calls (k + n)) (called calls (k + n))"
proof (induction n arbitrary: k ms evs)
  case 0
  show ?case by (simp add: spec_def)
next
  case (Suc n)
  show ?case
  proof (cases "tools = []")
    case True
    have "spec (called calls k) (ext_call (pv_chat L prompt ms)) (\<lambda>_. called calls (Suc k)) (called calls (k + Suc n))"
      by (rule called_ext) (simp_all add: assms(1))
    then show ?thesis using True by (simp, elim spec_bindC) (rule called_up(1) [OF stable_pure(1)], simp)
  next
    case False
    have rest: "spec (called calls (Suc k)) (bindC (liftC (iterate v)) (\<lambda>tcs. bindC (run_tools S c caps branch tcs) (\<lambda>(te, rs).
        agent_loop L S c prompt tools caps branch n (h rs) (h' te)))) (\<lambda>_. called calls (k + Suc n)) (called calls (k + Suc n))"
      for v h h'
    proof -
      have "spec (called calls (Suc k)) ((\<lambda>(te, rs). agent_loop L S c prompt tools caps branch n (h rs) (h' te)) r)
          (\<lambda>_. called calls (k + Suc n)) (called calls (k + Suc n))" for r
        using Suc.IH [of "Suc k"] by (cases r) simp
      moreover have "spec (called calls (Suc k)) (run_tools S c caps branch tcs) (\<lambda>_. called calls (Suc k)) (called calls (k + Suc n))" for tcs
        by (rule called_up(2) [OF called_tools [OF assms(3)]]) simp_all
      moreover have "spec (called calls (Suc k)) (liftC (iterate v)) (\<lambda>_. called calls (Suc k)) (called calls (k + Suc n))"
        by (rule called_up(2) [OF stable_pure(3)]) simp
      ultimately show ?thesis by (blast intro: spec_bindC)
    qed
    have "spec (called calls k) (ext_call (pv_call L prompt ms tools)) (\<lambda>_. called calls (Suc k)) (called calls (k + Suc n))"
      by (rule called_ext) (simp_all add: assms(2))
    then show ?thesis using False
      by (simp, elim spec_bindC)
         (auto simp: Let_def simp del: bindC_retC intro!: rest [unfolded add_Suc_right] called_up(1) [OF stable_pure(1)])
  qed
qed

text \<open>
C37. A turn of the agent ends after at most ten calls of the model, whatever the model asks for, and
its events report the start of every tool followed by its end, and one end of the turn, the last
event.
\<close>

theorem agent_turn_bounded:
  assumes "\<And>p ms x. calls (snd (pv_chat L p ms x)) \<le> Suc (calls x)" and "\<And>p ms ts x. calls (snd (pv_call L p ms ts x)) \<le> Suc (calls x)"
    and "\<And>s. S = Some s \<Longrightarrow> calls_no_model calls s"
    and "process_with_llm L S c prompt message tools caps branch w = (r, w')"
  shows "calls (fw_ext w') \<le> calls (fw_ext w) + 10 \<and>
    (case r of Inl _ \<Rightarrow> True | Inr events \<Rightarrow> \<exists>front. events = front @ [done_marker] \<and> paired front)"
proof -
  have "spec (called calls (calls (fw_ext w))) (process_with_llm L S c prompt message tools caps branch)
      (\<lambda>_. called calls (calls (fw_ext w) + 10)) (called calls (calls (fw_ext w) + 10))"
    unfolding process_with_llm_def MAX_AGENT_ITERATIONS_def
    by (rule spec_bindC [OF called_loop [OF assms(1-3)]]) (auto intro: stable_pure)
  then have "called calls (calls (fw_ext w) + 10) w'"
    using assms(4) by (cases r) (fastforce simp: spec_def called_def)+
  moreover have "\<exists>front. events = front @ [done_marker] \<and> paired front" if "r = Inr events" for events
    using assms(4) that by (auto simp: process_with_llm_def bindC_ok_iff dest!: paired_loop)
  ultimately show ?thesis by (simp add: called_def split: sum.split)
qed

theorem agent_turn_bounded_witness:
  "fw_ext (snd (process_with_llm eager_model None chat_ctx [] ''hi'' [[]] [] PNone (cw_f chat_world))) \<le> 10"
proof -
  obtain r w where run: "process_with_llm eager_model None chat_ctx [] ''hi'' [[]] [] PNone (cw_f chat_world) = (r, w)"
    by fastforce
  have "fw_ext (cw_f chat_world) = 0" by (simp add: chat_world_def Let_def)
  then show ?thesis
    using agent_turn_bounded [of id eager_model None, OF _ _ _ run] run by (simp add: eager_model_def)
qed

end
