(* ===== verification/Copilot_Machine.thy ===== *)
theory Copilot_Machine
  imports Copilot_Safety
begin

section \<open>The copilot service as a state machine\<close>

text \<open>
  The requests of \<open>copilot/router.py\<close> that can change a table, each in a database session that ends
  with a commit or a rollback, and an invariant of the five tables over all their sequences. The locale
  \<open>tenant_table\<close> collects what the four managers share.
\<close>

subsection \<open>Tables with a tenant\<close>

definition ids_ok :: "'r table \<Rightarrow> copdb \<Rightarrow> bool" where
  "ids_ok T d \<longleftrightarrow> distinct (map (tb_rid T) (tb_rows T d))"

locale tenant_table =
  fixes T :: "'r table"
  assumes rows_put: "tb_rows T (tb_put T rs d) = rs"
begin

lemma insert_ids: "ids_ok T d \<Longrightarrow> ids_ok T (snd (tb_insert T r d))"
  by (auto simp: ids_ok_def tb_insert_def rows_put)

lemma change_ids: "(\<And>r. tb_rid T (f r) = tb_rid T r) \<Longrightarrow> ids_ok T d \<Longrightarrow> ids_ok T (tb_change T P f d)"
proof -
  assume f: "\<And>r. tb_rid T (f r) = tb_rid T r"
  have "tb_rid T \<circ> (\<lambda>r. if P r then f r else r) = tb_rid T"
    by (simp add: fun_eq_iff f)
  then show "ids_ok T d \<Longrightarrow> ids_ok T (tb_change T P f d)"
    by (simp add: ids_ok_def tb_change_def rows_put)
qed

lemma delete_ids: "ids_ok T d \<Longrightarrow> ids_ok T (tb_put T (filter P (tb_rows T d)) d)"
  by (simp add: ids_ok_def rows_put distinct_map_filter)

text \<open>A row that was written is found, and nothing is lost.\<close>

lemma find_unique:
  assumes "ids_ok T d" and "r \<in> set (tb_rows T d)"
  shows "tb_find T (tb_rid T r) (tb_tenant T r) d = Inr (Some r)"
proof -
  have "filter (is_row T (tb_rid T r) (tb_tenant T r)) rs = [r]"
    if "distinct (map (tb_rid T) rs)" "r \<in> set rs" for rs
    using that
  proof (induction rs)
    case (Cons q rs)
    show ?case
    proof (cases "q = r")
      case True
      then have "filter (is_row T (tb_rid T r) (tb_tenant T r)) rs = []"
        using Cons.prems(1) by (auto simp: filter_empty_conv is_row_def) (metis image_eqI)
      moreover have "is_row T (tb_rid T r) (tb_tenant T r) r" by (simp add: is_row_def)
      ultimately show ?thesis using True by (simp only: filter.simps if_True)
    next
      case False
      then have "\<not> is_row T (tb_rid T r) (tb_tenant T r) q" using Cons.prems by (auto simp: is_row_def)
      then show ?thesis using Cons False by simp
    qed
  qed simp
  then show ?thesis using assms by (simp add: tb_find_def one_or_none_def ids_ok_def)
qed

lemma find_inserted:
  assumes "ids_ok T d" and "tb_insert T r d = (Inr r', d')"
  shows "tb_find T (tb_rid T r) (tb_tenant T r) d' = Inr (Some r) \<and> tb_rows T d' = tb_rows T d @ [r]"
proof -
  have d': "d' = tb_put T (tb_rows T d @ [r]) d" "tb_rid T r \<notin> tb_rid T ` set (tb_rows T d)"
    using assms(2) by (auto simp: tb_insert_def split: if_splits)
  then have "ids_ok T d'" using assms(1) by (auto simp: ids_ok_def rows_put)
  then show ?thesis using find_unique [of d' r] d' by (simp add: rows_put)
qed

end

lemmas table_defs = models_table_def skills_table_def mcps_table_def agents_table_def

interpretation models: tenant_table models_table by unfold_locales (simp add: table_defs)
interpretation skills: tenant_table skills_table by unfold_locales (simp add: table_defs)
interpretation mcps: tenant_table mcps_table by unfold_locales (simp add: table_defs)
interpretation agents: tenant_table agents_table by unfold_locales (simp add: table_defs)

subsection \<open>The invariant\<close>

definition one_default :: "model_row list \<Rightarrow> bool" where
  "one_default ms \<longleftrightarrow>
     (\<forall>m \<in> set ms. \<forall>m' \<in> set ms. md_default m \<and> md_default m' \<and> md_tenant m = md_tenant m' \<longrightarrow> md_rid m = md_rid m')"

definition MCP_STATES :: "string list" where
  "MCP_STATES = [''disconnected'', ''connected'', ''error'']"

definition cop_ok :: "copdb \<Rightarrow> bool" where
  "cop_ok d \<longleftrightarrow>
     distinct (map cs_id (cd_sessions d)) \<and> ids_ok models_table d \<and> ids_ok skills_table d \<and> ids_ok mcps_table d \<and> ids_ok agents_table d \<and>
     one_default (cd_models d) \<and> (\<forall>m \<in> set (cd_mcps d). mc_status m \<in> set MCP_STATES) \<and>
     (\<forall>s \<in> set (cd_sessions d). cs_status s \<in> {''active'', ''deleted''})"

lemma apart_tables:
  "ids_ok models_table (tb_put skills_table x1 d) = ids_ok models_table d" "ids_ok models_table (tb_put mcps_table x2 d) = ids_ok models_table d"
  "ids_ok models_table (tb_put agents_table x3 d) = ids_ok models_table d" "ids_ok skills_table (tb_put models_table x4 d) = ids_ok skills_table d"
  "ids_ok skills_table (tb_put mcps_table x2 d) = ids_ok skills_table d" "ids_ok skills_table (tb_put agents_table x3 d) = ids_ok skills_table d"
  "ids_ok mcps_table (tb_put models_table x4 d) = ids_ok mcps_table d" "ids_ok mcps_table (tb_put skills_table x1 d) = ids_ok mcps_table d"
  "ids_ok mcps_table (tb_put agents_table x3 d) = ids_ok mcps_table d" "ids_ok agents_table (tb_put models_table x4 d) = ids_ok agents_table d"
  "ids_ok agents_table (tb_put skills_table x1 d) = ids_ok agents_table d" "ids_ok agents_table (tb_put mcps_table x2 d) = ids_ok agents_table d"
  by (simp_all add: ids_ok_def table_defs)

lemma other_columns [simp]:
  "cd_sessions (tb_put models_table x4 d) = cd_sessions d" "cd_sessions (tb_put skills_table x1 d) = cd_sessions d"
  "cd_sessions (tb_put mcps_table x2 d) = cd_sessions d" "cd_sessions (tb_put agents_table x3 d) = cd_sessions d"
  "cd_models (tb_put skills_table x1 d) = cd_models d" "cd_models (tb_put mcps_table x2 d) = cd_models d"
  "cd_models (tb_put agents_table x3 d) = cd_models d" "cd_mcps (tb_put models_table x4 d) = cd_mcps d"
  "cd_mcps (tb_put skills_table x1 d) = cd_mcps d" "cd_mcps (tb_put agents_table x3 d) = cd_mcps d"
  "cd_models (tb_put models_table x4 d) = x4" "cd_mcps (tb_put mcps_table x2 d) = x2"
  "tb_rows models_table d = cd_models d" "tb_rows mcps_table d = cd_mcps d"
  by (simp_all add: table_defs)

text \<open>Writing one table: its own part of the invariant is what remains to show.\<close>

lemma ok_put_skills: "cop_ok d \<Longrightarrow> ids_ok skills_table (tb_put skills_table rs d) \<Longrightarrow> cop_ok (tb_put skills_table rs d)"
  by (simp add: cop_ok_def apart_tables)

lemma ok_put_agents: "cop_ok d \<Longrightarrow> ids_ok agents_table (tb_put agents_table rs d) \<Longrightarrow> cop_ok (tb_put agents_table rs d)"
  by (simp add: cop_ok_def apart_tables)

lemma ok_put_mcps:
  "cop_ok d \<Longrightarrow> ids_ok mcps_table (tb_put mcps_table rs d) \<Longrightarrow> (\<forall>m \<in> set rs. mc_status m \<in> set MCP_STATES) \<Longrightarrow>
     cop_ok (tb_put mcps_table rs d)"
  by (simp add: cop_ok_def apart_tables)

lemma ok_put_models:
  "cop_ok d \<Longrightarrow> ids_ok models_table (tb_put models_table rs d) \<Longrightarrow> one_default rs \<Longrightarrow> cop_ok (tb_put models_table rs d)"
  by (simp add: cop_ok_def apart_tables)

subsection \<open>Statements keep it\<close>

definition on_tables :: "(copdb \<Rightarrow> bool) \<Rightarrow> 'x cworld \<Rightarrow> bool" where
  "on_tables I w \<longleftrightarrow> I (cw_tx w) \<and> I (cw_db w)"

lemma tables_on_c [spec_rules]: "steady (on_tables I) (on_c m)"
  by (auto simp: spec_def on_c_def on_tables_def split: prod.split sum.split)

lemma tables_commit [spec_rules]: "steady (on_tables I) ccommit"
  by (simp add: spec_def ccommit_def on_tables_def)

lemma tables_csql: "(\<And>now d. I d \<Longrightarrow> I (snd (f now d))) \<Longrightarrow> steady (on_tables I) (csql E f)"
  unfolding csql_def
proof (rule stable_bindC [OF tables_on_c])
  fix now
  assume "\<And>now d. I d \<Longrightarrow> I (snd (f now d))"
  then have "I (cw_tx w) \<Longrightarrow> f now (cw_tx w) = (r, d) \<Longrightarrow> I d" for w :: "'x cworld" and r d by (metis snd_conv)
  then show "steady (on_tables I) (\<lambda>w. case f now (cw_tx w) of (r, d) \<Rightarrow> (r, w\<lparr>cw_tx := d\<rparr>))"
    by (auto simp: spec_def on_tables_def split: prod.split sum.split)
qed

lemma tables_read [spec_rules]: "steady (on_tables I) (csql E (\<lambda>now d. (g now d, d)))"
  by (rule tables_csql) simp

lemma tables_new_rid [spec_rules]: "steady (on_tables I) (new_rid E ty)"
  unfolding new_rid_def by (intro spec_rules)

lemma tables_catchC: "steady P m \<Longrightarrow> (\<And>e. steady P (h e)) \<Longrightarrow> steady P (catchC m h)"
  by (rule calm_catchC)

lemma option_steady [spec_rules]:
  "steady P m \<Longrightarrow> (\<And>x. steady P (f x)) \<Longrightarrow> steady P (case v of None \<Rightarrow> m | Some x \<Rightarrow> f x)"
  by (simp split: option.split)

lemma pair_steady [spec_rules]: "(\<And>x y. steady P (f x y)) \<Longrightarrow> steady P (case p of (x, y) \<Rightarrow> f x y)"
  by (simp split: prod.split)

lemma tables_get [spec_rules]: "steady (on_tables I) (get_row_of E T what c rid)"
  unfolding get_row_of_def by (intro spec_rules)

lemma tables_query [spec_rules]: "steady (on_tables I) (query_rows_of E T c offset limit)"
  unfolding query_rows_of_def by (intro spec_rules)

text \<open>A manager keeps what its three ways of writing keep.\<close>

lemma tables_register:
  assumes "\<And>d rid t now. I d \<Longrightarrow> I (snd (tb_insert T (mk rid t now) d))"
  shows "steady (on_tables I) (register_row E T unprepared c ty mk)"
  unfolding register_row_def unprepared_def
  by (intro spec_rules tables_csql) (simp_all add: assms)

lemma tables_update:
  assumes "\<And>t now d. I d \<Longrightarrow> I (tb_change T (is_row T rid t) (change now) (prepare now t d))"
  shows "steady (on_tables I) (update_row_of E T prepare what c rid change)"
  unfolding update_row_of_def by (intro spec_rules tables_csql) (simp add: assms)

lemma tables_delete:
  assumes "\<And>d r. I d \<Longrightarrow> I (tb_put T (filter (\<lambda>r'. tb_rid T r' \<noteq> tb_rid T r) (tb_rows T d)) d)"
  shows "steady (on_tables I) (delete_row_of E T what c rid)"
  unfolding delete_row_of_def by (intro spec_rules tables_csql) (simp add: assms)

subsection \<open>The managers\<close>

lemma ids_parts: "cop_ok d \<Longrightarrow> ids_ok models_table d" "cop_ok d \<Longrightarrow> ids_ok skills_table d" "cop_ok d \<Longrightarrow> ids_ok mcps_table d"
  "cop_ok d \<Longrightarrow> ids_ok agents_table d" "cop_ok d \<Longrightarrow> one_default (cd_models d)"
  by (simp_all add: cop_ok_def)

lemma skills_ok [spec_rules]:
  "steady (on_tables cop_ok) (skill_register E c api nm descr prompt tools enabled)"
  "steady (on_tables cop_ok) (skill_update E c rid f)" "steady (on_tables cop_ok) (skill_delete E c rid)"
proof -
  show "steady (on_tables cop_ok) (skill_register E c api nm descr prompt tools enabled)"
    unfolding skill_register_def
    by (rule tables_register) (metis ok_put_skills ids_parts(2) skills.insert_ids tb_insert_def snd_conv)
  have "tb_rid skills_table (skill_assign f now r) = tb_rid skills_table r" for now r
    by (simp add: table_defs skill_assign_def)
  then show "steady (on_tables cop_ok) (skill_update E c rid f)" unfolding skill_update_def unprepared_def
    by (intro tables_update)
       (metis ok_put_skills ids_parts(2) skills.change_ids tb_change_def)
  show "steady (on_tables cop_ok) (skill_delete E c rid)" unfolding skill_delete_def
    by (rule tables_delete) (metis ok_put_skills ids_parts(2) skills.delete_ids)
qed

lemma agents_ok [spec_rules]:
  "steady (on_tables cop_ok) (agent_register E c api nm descr model prompt tools safety enabled)"
  "steady (on_tables cop_ok) (agent_update E c rid f)" "steady (on_tables cop_ok) (agent_delete E c rid)"
proof -
  show "steady (on_tables cop_ok) (agent_register E c api nm descr model prompt tools safety enabled)"
    unfolding agent_register_def
    by (rule tables_register) (metis ok_put_agents ids_parts(4) agents.insert_ids tb_insert_def snd_conv)
  have "tb_rid agents_table (agent_assign f now r) = tb_rid agents_table r" for now r
    by (simp add: table_defs agent_assign_def)
  then show "steady (on_tables cop_ok) (agent_update E c rid f)" unfolding agent_update_def unprepared_def
    by (intro tables_update)
       (metis ok_put_agents ids_parts(4) agents.change_ids tb_change_def)
  show "steady (on_tables cop_ok) (agent_delete E c rid)" unfolding agent_delete_def
    by (rule tables_delete) (metis ok_put_agents ids_parts(4) agents.delete_ids)
qed

text \<open>The state of a tool server is one of three, as long as an update names no other.\<close>

definition states_ok :: "mcp_fields \<Rightarrow> bool" where
  "states_ok f \<longleftrightarrow> (case xf_status f of None \<Rightarrow> True | Some s \<Rightarrow> s \<in> set MCP_STATES)"

lemma mcp_insert_ok: "cop_ok d \<Longrightarrow> mc_status m \<in> set MCP_STATES \<Longrightarrow> cop_ok (snd (tb_insert mcps_table m d))"
proof -
  assume d: "cop_ok d" and m: "mc_status m \<in> set MCP_STATES"
  have "ids_ok mcps_table (snd (tb_insert mcps_table m d))" using d ids_parts(3) mcps.insert_ids by blast
  then show ?thesis using d m unfolding tb_insert_def
    by (auto split: if_splits intro!: ok_put_mcps) (simp add: cop_ok_def)
qed

lemma mcp_change_ok:
  assumes "cop_ok d" and "states_ok f"
  shows "cop_ok (tb_change mcps_table P (mcp_assign f now) d)"
proof -
  have "tb_rid mcps_table (mcp_assign f now r) = tb_rid mcps_table r" for r
    by (simp add: table_defs mcp_assign_def)
  then have "ids_ok mcps_table (tb_change mcps_table P (mcp_assign f now) d)"
    using assms(1) ids_parts(3) mcps.change_ids by blast
  moreover have "mc_status (mcp_assign f now m) \<in> set MCP_STATES" if "m \<in> set (cd_mcps d)" for m
    using assms that by (auto simp: mcp_assign_def states_ok_def cop_ok_def set_if_def split: option.splits)
  ultimately show ?thesis using assms(1) unfolding tb_change_def
    by (auto intro!: ok_put_mcps) (simp add: cop_ok_def)
qed

lemma mcps_ok [spec_rules]:
  "steady (on_tables cop_ok) (mcp_connect E c api nm descr transport auth)"
  "states_ok f \<Longrightarrow> steady (on_tables cop_ok) (mcp_update E c rid f)"
  "steady (on_tables cop_ok) (mcp_get E c rid)" "steady (on_tables cop_ok) (mcp_delete E c rid)"
proof -
  show "steady (on_tables cop_ok) (mcp_connect E c api nm descr transport auth)"
    unfolding mcp_connect_def by (rule tables_register, rule mcp_insert_ok) (simp_all add: MCP_STATES_def)
  show "steady (on_tables cop_ok) (mcp_update E c rid f)" if "states_ok f"
    unfolding mcp_update_def unprepared_def using that by (intro tables_update mcp_change_ok)
  show "steady (on_tables cop_ok) (mcp_get E c rid)"
    unfolding mcp_get_def by (rule tables_get)
  show "steady (on_tables cop_ok) (mcp_delete E c rid)" unfolding mcp_delete_def
  proof (rule tables_delete)
    fix d and r :: mcp_row
    assume d: "cop_ok d"
    have "ids_ok mcps_table (tb_put mcps_table (filter (\<lambda>r'. tb_rid mcps_table r' \<noteq> tb_rid mcps_table r) (tb_rows mcps_table d)) d)"
      using d ids_parts(3) mcps.delete_ids by blast
    then show "cop_ok (tb_put mcps_table (filter (\<lambda>r'. tb_rid mcps_table r' \<noteq> tb_rid mcps_table r) (tb_rows mcps_table d)) d)"
      using d by (auto intro!: ok_put_mcps) (simp add: cop_ok_def)
  qed
qed

lemma one_defaultD:
  "one_default ms \<Longrightarrow> m \<in> set ms \<Longrightarrow> m' \<in> set ms \<Longrightarrow> md_default m \<Longrightarrow> md_default m' \<Longrightarrow> md_tenant m = md_tenant m' \<Longrightarrow>
     md_rid m = md_rid m'"
  unfolding one_default_def by blast

lemma one_default_map:
  assumes "one_default ms" and "\<And>m. md_rid (g m) = md_rid m \<and> md_tenant (g m) = md_tenant m"
    and "\<And>m. m \<in> set ms \<Longrightarrow> md_default (g m) \<Longrightarrow> (md_default m \<and> md_tenant m \<noteq> t) \<or> (md_tenant m = t \<and> md_rid m = rid)"
  shows "one_default (map g ms)"
  unfolding one_default_def
proof (intro ballI impI)
  fix a b
  assume a: "a \<in> set (map g ms)" and b: "b \<in> set (map g ms)" and ab: "md_default a \<and> md_default b \<and> md_tenant a = md_tenant b"
  obtain m where m: "a = g m" "m \<in> set ms" using a by auto
  obtain m' where m': "b = g m'" "m' \<in> set ms" using b by auto
  have "md_tenant m = md_tenant m'" using ab assms(2) m(1) m'(1) by metis
  then have "md_rid m = md_rid m'"
  proof (cases "md_tenant m = t")
    case True
    then show ?thesis using assms(3) [OF m(2)] assms(3) [OF m'(2)] ab m(1) m'(1) \<open>md_tenant m = md_tenant m'\<close> by (elim conjE) metis
  next
    case False
    then show ?thesis using assms(3) [OF m(2)] assms(3) [OF m'(2)] ab m(1) m'(1) \<open>md_tenant m = md_tenant m'\<close>
      by (intro one_defaultD [OF assms(1) m(2) m'(2)]) (elim conjE, metis)+
  qed
  then show "md_rid a = md_rid b" using assms(2) m(1) m'(1) by metis
qed

lemma one_default_fewer:
  assumes "one_default ms" and "\<And>m. md_rid (g m) = md_rid m \<and> md_tenant (g m) = md_tenant m \<and> (md_default (g m) \<longrightarrow> md_default m)"
  shows "one_default (map g ms)"
  unfolding one_default_def
proof (intro ballI impI)
  fix a b
  assume a: "a \<in> set (map g ms)" and b: "b \<in> set (map g ms)" and ab: "md_default a \<and> md_default b \<and> md_tenant a = md_tenant b"
  obtain m where m: "a = g m" "m \<in> set ms" using a by auto
  obtain m' where m': "b = g m'" "m' \<in> set ms" using b by auto
  have "md_tenant m = md_tenant m'" "md_default m" "md_default m'" using ab assms(2) m(1) m'(1) by metis+
  then have "md_rid m = md_rid m'" by (intro one_defaultD [OF assms(1) m(2) m'(2)])
  then show "md_rid a = md_rid b" using assms(2) m(1) m'(1) by metis
qed

text \<open>A default is set only after the others of the tenant were cleared.\<close>

definition no_default :: "string \<Rightarrow> copdb \<Rightarrow> bool" where
  "no_default tenant d \<longleftrightarrow> (\<forall>m \<in> set (cd_models d). md_tenant m = tenant \<longrightarrow> \<not> md_default m)"

lemma clear_default_ok: "cop_ok d \<Longrightarrow> cop_ok (clear_default now tenant d) \<and> no_default tenant (clear_default now tenant d)"
proof -
  assume d: "cop_ok d"
  let ?f = "\<lambda>m. m\<lparr>md_default := False, md_updated := now\<rparr>"
  let ?P = "\<lambda>m. md_tenant m = tenant \<and> md_default m"
  have "ids_ok models_table (tb_change models_table ?P ?f d)"
    using d ids_parts(1) by (intro models.change_ids) (simp_all add: table_defs)
  moreover have "one_default (map (\<lambda>m. if ?P m then ?f m else m) (cd_models d))"
    by (rule one_default_fewer [OF ids_parts(5) [OF d]]) simp
  ultimately have "cop_ok (clear_default now tenant d)"
    using ok_put_models [OF d, of "map (\<lambda>m. if ?P m then ?f m else m) (cd_models d)"]
    by (simp add: clear_default_def tb_change_def)
  moreover have "no_default tenant (clear_default now tenant d)"
    unfolding no_default_def
  proof (intro ballI impI)
    fix m
    assume m: "m \<in> set (cd_models (clear_default now tenant d))" and "md_tenant m = tenant"
    from m obtain m' where "m = (if ?P m' then ?f m' else m')"
      unfolding clear_default_def tb_change_def other_columns set_map by blast
    moreover have "\<not> (md_tenant (if ?P q then ?f q else q) = tenant \<and> md_default (if ?P q then ?f q else q))" for q
      by (cases "md_default q"; cases "md_tenant q = tenant") simp_all
    ultimately show "\<not> md_default m" using \<open>md_tenant m = tenant\<close> by blast
  qed
  ultimately show ?thesis ..
qed

lemma model_insert_ok:
  assumes "cop_ok d" and "md_default m \<longrightarrow> no_default (md_tenant m) d"
  shows "cop_ok (snd (tb_insert models_table m d))"
proof -
  have "ids_ok models_table (snd (tb_insert models_table m d))" using assms(1) ids_parts(1) models.insert_ids by blast
  moreover have "one_default (cd_models d @ [m])"
    unfolding one_default_def
  proof (intro ballI impI)
    fix a b
    assume a: "a \<in> set (cd_models d @ [m])" and b: "b \<in> set (cd_models d @ [m])"
      and ab: "md_default a \<and> md_default b \<and> md_tenant a = md_tenant b"
    have "a \<in> set (cd_models d) \<and> b \<in> set (cd_models d) \<or> a = b"
    proof (cases "a = m")
      case True
      then have "md_default m" using ab by blast
      then have "no_default (md_tenant m) d" using assms(2) by blast
      then have "b \<notin> set (cd_models d)" using ab True unfolding no_default_def by force
      then show ?thesis using b True by simp
    next
      case False
      have "b \<noteq> m" 
      proof
        assume "b = m"
        then have "no_default (md_tenant a) d" using assms(2) ab by simp
        then show False using a ab False unfolding no_default_def by auto
      qed
      then show ?thesis using a b False by simp
    qed
    then show "md_rid a = md_rid b"
      using ab one_defaultD [OF ids_parts(5) [OF assms(1)], of a b] by blast
  qed
  ultimately show ?thesis using assms(1) ok_put_models [OF assms(1), of "cd_models d @ [m]"]
    by (simp add: tb_insert_def split: if_splits)
qed

lemma model_change_ok:
  assumes "cop_ok d" and "mf_default f = Some True \<longrightarrow> no_default tenant d"
  shows "cop_ok (tb_change models_table (is_row models_table rid tenant) (model_assign f now) d)"
proof -
  let ?P = "is_row models_table rid tenant" and ?f = "model_assign f now"
  have P: "?P m \<longleftrightarrow> md_rid m = rid \<and> md_tenant m = tenant" for m by (simp add: is_row_def table_defs)
  have f: "md_rid (?f m) = md_rid m" "md_tenant (?f m) = md_tenant m" "md_default (?f m) = set_if (mf_default f) (md_default m)" for m
    by (simp_all add: model_assign_def)
  have "ids_ok models_table (tb_change models_table ?P ?f d)"
    using assms(1) ids_parts(1) by (intro models.change_ids) (simp_all add: table_defs model_assign_def)
  moreover have "one_default (map (\<lambda>m. if ?P m then ?f m else m) (cd_models d))"
  proof (cases "mf_default f = Some True")
    case True
    then have none: "no_default tenant d" using assms(2) by blast
    show ?thesis
      by (rule one_default_map [OF ids_parts(5) [OF assms(1)], where t = tenant and rid = rid])
         (use none in \<open>auto simp: no_default_def P f split: if_splits\<close>)
  next
    case False
    then have "set_if (mf_default f) b \<Longrightarrow> b" for b by (auto simp: set_if_def split: option.splits)
    then show ?thesis by (intro one_default_fewer [OF ids_parts(5) [OF assms(1)]]) (auto simp: f)
  qed
  ultimately show ?thesis using ok_put_models [OF assms(1), of "map (\<lambda>m. if ?P m then ?f m else m) (cd_models d)"]
    by (simp add: tb_change_def)
qed

lemma model_delete_ok: "cop_ok d \<Longrightarrow> cop_ok (tb_put models_table (filter P (tb_rows models_table d)) d)"
proof -
  assume d: "cop_ok d"
  have "ids_ok models_table (tb_put models_table (filter P (tb_rows models_table d)) d)"
    using d ids_parts(1) models.delete_ids by blast
  moreover have "one_default (filter P (cd_models d))"
    using ids_parts(5) [OF d] unfolding one_default_def set_filter by blast
  ultimately show ?thesis using ok_put_models [OF d] by simp
qed

lemma models_ok [spec_rules]:
  "steady (on_tables cop_ok) (model_register E c api nm provider connection parameters is_default)"
  "steady (on_tables cop_ok) (model_update E c rid f)" "steady (on_tables cop_ok) (model_delete E c rid)"
proof -
  let ?mk = "\<lambda>rid tenant now. \<lparr>md_rid = rid, md_tenant = tenant, md_api_name = api, md_name = nm, md_provider = provider,
         md_connection = connection, md_parameters = parameters, md_default = is_default, md_created = now, md_updated = now\<rparr>"
  let ?I = "\<lambda>tenant w. on_tables cop_ok w \<and> (is_default \<longrightarrow> no_default tenant (cw_tx w))"
  let ?prepare = "if is_default then clear_default else unprepared"
  have first: "spec (on_tables cop_ok) (csql E (\<lambda>now d. (Inr (), ?prepare now tenant d))) (\<lambda>_. ?I tenant) (on_tables cop_ok)" for tenant
    unfolding csql_def
    by (rule spec_bindC [OF tables_on_c]) (simp add: spec_def on_tables_def unprepared_def clear_default_ok)
  have rid: "spec (?I tenant) (new_rid E ''model'') (\<lambda>_. ?I tenant) (on_tables cop_ok)" for tenant
    by (auto simp: spec_def new_rid_def bindC_def on_c_def on_tables_def split: prod.split sum.split)
  have insert: "spec (?I tenant) (csql E (\<lambda>now d. tb_insert models_table (?mk rid tenant now) d)) (\<lambda>_. on_tables cop_ok) (on_tables cop_ok)"
    for tenant rid
    unfolding csql_def
  proof (rule spec_bindC)
    show "spec (?I tenant) (on_c (sql E (\<lambda>now d. (Inr now, d)))) (\<lambda>_. ?I tenant) (on_tables cop_ok)"
      by (auto simp: spec_def on_c_def on_tables_def split: prod.split sum.split)
    show "spec (?I tenant) (\<lambda>w. case tb_insert models_table (?mk rid tenant now) (cw_tx w) of (r, d) \<Rightarrow> (r, w\<lparr>cw_tx := d\<rparr>))
        (\<lambda>_. on_tables cop_ok) (on_tables cop_ok)" for now
      using model_insert_ok [of _ "?mk rid tenant now"]
      by (fastforce simp: spec_def on_tables_def split: prod.splits sum.splits)
  qed
  show "steady (on_tables cop_ok) (model_register E c api nm provider connection parameters is_default)"
    unfolding model_register_def register_row_def
    by (rule stable_bindC [OF stable_pure(3)], rule spec_bindC [OF first], rule spec_bindC [OF rid], rule spec_bindC [OF insert])
       (intro spec_rules)
  show "steady (on_tables cop_ok) (model_update E c rid f)" unfolding model_update_def
  proof (rule tables_update)
    fix t now d
    assume d: "cop_ok d"
    let ?d = "(if mf_default f = Some True then clear_default else unprepared) now t d"
    have "cop_ok ?d \<and> (mf_default f = Some True \<longrightarrow> no_default t ?d)"
      using clear_default_ok [OF d, of now t] d by (simp add: unprepared_def)
    then show "cop_ok (tb_change models_table (is_row models_table rid t) (model_assign f now) ?d)"
      by (intro model_change_ok) blast+
  qed
  show "steady (on_tables cop_ok) (model_delete E c rid)" unfolding model_delete_def
    by (intro tables_delete model_delete_ok)
qed

subsection \<open>Sessions\<close>

lemma session_change_ok:
  assumes "cop_ok d" and "\<And>s. cs_id (f s) = cs_id s" and "\<And>s. cs_status s \<in> {''active'', ''deleted''} \<Longrightarrow> cs_status (f s) \<in> {''active'', ''deleted''}"
  shows "cop_ok (d\<lparr>cd_sessions := map (\<lambda>s. if P s then f s else s) (cd_sessions d)\<rparr>)"
proof -
  have "cs_id \<circ> (\<lambda>s. if P s then f s else s) = cs_id" using assms(2) by (simp add: fun_eq_iff)
  moreover have "\<forall>s \<in> set (map (\<lambda>s. if P s then f s else s) (cd_sessions d)). cs_status s \<in> {''active'', ''deleted''}"
  proof
    fix s
    assume "s \<in> set (map (\<lambda>s. if P s then f s else s) (cd_sessions d))"
    then obtain q where q: "q \<in> set (cd_sessions d)" "s = (if P q then f q else q)" unfolding set_map by blast
    then have "cs_status q \<in> {''active'', ''deleted''}" using assms(1) unfolding cop_ok_def by blast
    then show "cs_status s \<in> {''active'', ''deleted''}" using assms(3) [of q] q(2) by presburger
  qed
  ultimately show ?thesis using assms(1)
    by (simp add: cop_ok_def ids_ok_def table_defs del: set_map)
qed

lemma sessions_ok [spec_rules]:
  "steady (on_tables cop_ok) (session_get_by_id V sid tenant)"
  "steady (on_tables cop_ok) (sm_create_session V c mode cx)" "steady (on_tables cop_ok) (sm_get_session V c sid)"
  "steady (on_tables cop_ok) (sm_update_context V c sid cx)" "steady (on_tables cop_ok) (sm_update_title V c sid title)"
  "steady (on_tables cop_ok) (sm_touch V c sid)" "steady (on_tables cop_ok) (sm_delete_session V c sid)"
proof -
  show get: "steady (on_tables cop_ok) (session_get_by_id V sid tenant)" for sid tenant
    unfolding session_get_by_id_def by (intro spec_rules)
  have update: "steady (on_tables cop_ok) (session_update_fields V sid tenant f)"
    if "\<And>s. cs_id (f s) = cs_id s" "\<And>s. cs_status (f s) = cs_status s" for f tenant
    unfolding session_update_fields_def
    by (intro spec_rules tables_csql get) (auto intro!: session_change_ok simp: that)
  have stamp: "steady (on_tables cop_ok) (stamp V)" unfolding stamp_def by (intro spec_rules)
  have create: "steady (on_tables cop_ok) (session_create V mk)" if "\<And>now. cs_status (mk now) = ''active''" for mk
    unfolding session_create_def
    by (rule tables_csql) (auto simp: cop_ok_def ids_ok_def table_defs that)
  have delete: "steady (on_tables cop_ok) (session_soft_delete V sid tenant)" for tenant
    unfolding session_soft_delete_def by (intro spec_rules tables_csql get) (auto intro!: session_change_ok)
  show "steady (on_tables cop_ok) (sm_create_session V c mode cx)"
    unfolding sm_create_session_def by (intro spec_rules create) simp
  show "steady (on_tables cop_ok) (sm_get_session V c sid)"
    unfolding sm_get_session_def by (intro spec_rules get)
  show "steady (on_tables cop_ok) (sm_update_context V c sid cx)"
    unfolding sm_update_context_def by (intro spec_rules stamp update) simp_all
  show "steady (on_tables cop_ok) (sm_update_title V c sid title)"
    unfolding sm_update_title_def by (intro spec_rules update) simp_all
  show "steady (on_tables cop_ok) (sm_touch V c sid)"
    unfolding sm_touch_def by (intro spec_rules stamp update) simp_all
  show "steady (on_tables cop_ok) (sm_delete_session V c sid)"
    unfolding sm_delete_session_def by (intro spec_rules delete)
qed

subsection \<open>Streams and discovery\<close>

lemma tables_load_subagents [spec_rules]: "steady (on_tables I) (load_subagents E c)"
proof -
  have "steady (on_tables I) (get_subagent_tools E c)"
    unfolding get_subagent_tools_def agent_query_def by (intro spec_rules)
  then show ?thesis unfolding load_subagents_def
    by (rule tables_catchC) (auto intro: stable_pure split: exn.split)
qed

lemma tables_process_message: "steady (on_tables I) (process_message E G c cx m)"
  unfolding process_message_def Let_def by (intro spec_rules)

text \<open>A stream is not a computation that may raise; the same rules for it, case by case.\<close>

definition kept :: "('x cworld \<Rightarrow> 'r \<times> 'x cworld) \<Rightarrow> bool" where
  "kept g \<longleftrightarrow> (\<forall>w. on_tables cop_ok w \<longrightarrow> on_tables cop_ok (snd (g w)))"

named_theorems kept_rules \<open>state transformers that keep the invariant of the tables\<close>

lemma kept_steady: "steady (on_tables cop_ok) m \<Longrightarrow> kept m"
  by (simp add: kept_def stable_snd)

lemma kept_same [kept_rules]: "kept (\<lambda>w. (f w, w))"
  by (simp add: kept_def)

lemma kept_prod [kept_rules]: "kept g \<Longrightarrow> (\<And>r. kept (h r)) \<Longrightarrow> kept (\<lambda>w. case g w of (r, w') \<Rightarrow> h r w')"
  by (simp add: kept_def case_prod_beta)

lemma kept_sum [kept_rules]:
  "(\<And>e. kept (f e)) \<Longrightarrow> (\<And>x. kept (g x)) \<Longrightarrow> kept (\<lambda>w. case r of Inl e \<Rightarrow> f e w | Inr x \<Rightarrow> g x w)"
  by (cases r) simp_all

lemma kept_list [kept_rules]:
  "kept m \<Longrightarrow> (\<And>y ys. kept (n y ys)) \<Longrightarrow> kept (\<lambda>w. case l of [] \<Rightarrow> m w | y # ys \<Rightarrow> n y ys w)"
  by (cases l) simp_all

lemma kept_end [kept_rules]:
  "kept m \<Longrightarrow> kept m' \<Longrightarrow> (\<And>e. kept (f e)) \<Longrightarrow>
     kept (\<lambda>w. case z of Completed \<Rightarrow> m w | Interrupted \<Rightarrow> m' w | Failed e \<Rightarrow> f e w)"
  by (cases z) simp_all

lemma kept_tuple [kept_rules]: "(\<And>y z. kept (k y z)) \<Longrightarrow> kept (\<lambda>w. case p of (y, z) \<Rightarrow> k y z w)"
  by (cases p) simp

lemma kept_bool [kept_rules]:
  "kept m \<Longrightarrow> kept m' \<Longrightarrow> kept (\<lambda>w. case b of True \<Rightarrow> m w | False \<Rightarrow> m' w)"
  "kept m \<Longrightarrow> kept m' \<Longrightarrow> kept (\<lambda>w. if b then m w else m' w)"
  by (cases b; simp)+

lemma kept_emit [kept_rules]: "kept (emit es)"
  by (simp add: kept_def emit_def on_tables_def)

lemma kept_render: "kept (render_events V c s events)"
proof -
  have "kept (sm_update_context V c sid cx)" for sid cx
    by (intro kept_steady sessions_ok)
  then show ?thesis unfolding render_events_def Let_def by (intro kept_rules)
qed

lemma kept_answer: "kept (answer V G c s content)"
proof -
  have "kept (process_message E G c cx m)" for E cx m
    by (intro kept_steady tables_process_message)
  then show ?thesis unfolding answer_def
    by (intro kept_rules kept_render)
qed

lemma kept_touched: "kept (touched V c sid out)"
proof -
  have "kept (sm_touch V c sid)" by (intro kept_steady sessions_ok)
  then show ?thesis unfolding touched_def by (intro kept_rules)
qed

lemma kept_send_message: "kept (send_message V G c sid content)"
proof -
  have "kept (bindC (sm_get_session V c sid) (\<lambda>s.
           bindC (if no_title s then sm_update_title V c sid (message_title content) else retC ()) (\<lambda>_. retC s)))"
    by (intro kept_steady spec_rules)
  then show ?thesis unfolding send_message_def
    by (intro kept_rules kept_answer kept_touched)
qed

lemma kept_resume: "kept (resume_execution V c sid approved)"
proof -
  have "kept (sm_get_session V c sid)" by (intro kept_steady sessions_ok)
  moreover have "kept (bindC (sm_update_context V c sid cx) (\<lambda>_. liftC p))" for cx p
    by (intro kept_steady spec_rules)
  moreover have "kept (decided E c approved eid)" for E eid
    by (auto simp: kept_def decided_def on_c_def on_tables_def split: prod.split sum.split)
  ultimately show ?thesis unfolding resume_execution_def Let_def
    by (intro kept_rules kept_touched)
qed

lemma tables_discover [spec_rules]: "steady (on_tables cop_ok) (discover_tools E I c rid)"
  unfolding discover_tools_def
proof (rule stable_bindC [OF mcps_ok(3)], rule tables_catchC)
  show "steady (on_tables cop_ok)
       (bindC (ask_server I conn ''tools/list'' DISCOVER_TIMEOUT) (\<lambda>res.
        bindC (liftC (as_dict res)) (\<lambda>d.
        let tools = as_tools (dget_or d ''tools'' (PList [])) in
        bindC (mcp_update E c rid (no_mcp_fields\<lparr>xf_tools := Some tools, xf_status := Some ''connected''\<rparr>)) (\<lambda>_.
        retC tools))))" for conn
    unfolding ask_server_def Let_def
    by (intro spec_rules) (simp add: states_ok_def MCP_STATES_def)
  have e: "steady (on_tables cop_ok) (mcp_update E c rid (no_mcp_fields\<lparr>xf_status := Some ''error''\<rparr>))"
    by (intro spec_rules) (simp add: states_ok_def MCP_STATES_def)
  show "steady (on_tables cop_ok)
      (\<lambda>w. (Inl (discovery_error rid x), snd (mcp_update E c rid (no_mcp_fields\<lparr>xf_status := Some ''error''\<rparr>) w)))" for x
    using stable_snd [OF e] by (simp add: spec_def)
qed

lemma tables_test [spec_rules]: "steady (on_tables cop_ok) (mcp_test_connection E I c rid)"
  unfolding mcp_test_connection_def
proof (rule stable_bindC [OF mcps_ok(3)], rule tables_catchC)
  show "steady (on_tables cop_ok) (bindC (ask_server I conn ''initialize'' TEST_TIMEOUT) (\<lambda>res. liftC (h res)))"
    for conn and h :: "pyval \<Rightarrow> pyval dict res"
    unfolding ask_server_def by (intro spec_rules)
qed (intro spec_rules)

subsection \<open>Requests\<close>

text \<open>The requests of the router that may write. An update of a tool server names none of its last two columns.\<close>

datatype cop_request =
    New_session string "pyval dict"
  | Put_context string "pyval dict"
  | Drop_session string
  | Send_message string string
  | Resume string bool
  | New_model string string string pyval pyval bool
  | Put_model string model_fields
  | Drop_model string
  | New_skill string string "string option" string pyval
  | Put_skill string skill_fields
  | Drop_skill string
  | Switch_skill string bool
  | New_mcp string string "string option" "pyval dict" "pyval dict option"
  | Put_mcp string mcp_fields
  | Drop_mcp string
  | Discover_tools string
  | Test_mcp string
  | New_agent string string "string option" "string option" "string option" pyval pyval bool
  | Put_agent string agent_fields
  | Drop_agent string

definition requested :: "mcp_fields \<Rightarrow> mcp_fields" where
  "requested f = f\<lparr>xf_tools := None, xf_status := None\<rparr>"

text \<open>Whether a request ended without an exception.\<close>

definition returned :: "('x, 'a) cop \<Rightarrow> 'x cworld \<Rightarrow> bool \<times> 'x cworld" where
  "returned m w = (case m w of (Inl _, w') \<Rightarrow> (False, w') | (Inr _, w') \<Rightarrow> (True, w'))"

definition drained :: "'x stream \<Rightarrow> 'x cworld \<Rightarrow> bool \<times> 'x cworld" where
  "drained g w = (case g w of ((_, e), w') \<Rightarrow> (e = None, w'))"

fun cserve :: "'x cenv \<Rightarrow> 'x mcp_io \<Rightarrow> 'x agent \<Rightarrow> ctx \<Rightarrow> cop_request \<Rightarrow> 'x cworld \<Rightarrow> bool \<times> 'x cworld" where
  "cserve V I G c (New_session mode cx) = returned (cop_create_session V c mode cx)"
| "cserve V I G c (Put_context sid cx) = returned (cop_update_context V c sid cx)"
| "cserve V I G c (Drop_session sid) = returned (cop_delete_session V c sid)"
| "cserve V I G c (Send_message sid content) = drained (send_message V G c sid content)"
| "cserve V I G c (Resume sid approved) = drained (resume_execution V c sid approved)"
| "cserve V I G c (New_model api nm provider conn params dflt) = returned (register_model (cv_f V) c api nm provider conn params dflt)"
| "cserve V I G c (Put_model rid f) = returned (update_model (cv_f V) c rid f)"
| "cserve V I G c (Drop_model rid) = returned (model_delete (cv_f V) c rid)"
| "cserve V I G c (New_skill api nm descr prompt tools) = returned (register_skill (cv_f V) c api nm descr prompt tools)"
| "cserve V I G c (Put_skill rid f) = returned (update_skill (cv_f V) c rid f)"
| "cserve V I G c (Drop_skill rid) = returned (skill_delete (cv_f V) c rid)"
| "cserve V I G c (Switch_skill rid on) = returned (set_skill_enabled (cv_f V) c rid on)"
| "cserve V I G c (New_mcp api nm descr transport auth) = returned (connect_mcp (cv_f V) c api nm descr transport auth)"
| "cserve V I G c (Put_mcp rid f) = returned (update_mcp (cv_f V) c rid (requested f))"
| "cserve V I G c (Drop_mcp rid) = returned (mcp_delete (cv_f V) c rid)"
| "cserve V I G c (Discover_tools rid) = returned (discover_tools (cv_f V) I c rid)"
| "cserve V I G c (Test_mcp rid) = returned (mcp_test_connection (cv_f V) I c rid)"
| "cserve V I G c (New_agent api nm descr model prompt tools safety on) =
     returned (create_sub_agent (cv_f V) c api nm descr model prompt tools safety on)"
| "cserve V I G c (Put_agent rid f) = returned (update_sub_agent (cv_f V) c rid f)"
| "cserve V I G c (Drop_agent rid) = returned (agent_delete (cv_f V) c rid)"

text \<open>The end of the session of a request.\<close>

definition cfinish :: "bool \<times> 'x cworld \<Rightarrow> 'x cworld" where
  "cfinish p = (case p of (ok, w) \<Rightarrow> if ok then snd (ccommit w) else crollback w)"

text \<open>Requests to this package, and anything the others do to the world they share.\<close>

inductive creachable :: "'x cenv \<Rightarrow> 'x mcp_io \<Rightarrow> 'x agent \<Rightarrow> 'x cworld \<Rightarrow> bool" for V I G where
  start: "cw_db w = empty_copdb \<Longrightarrow> cw_tx w = empty_copdb \<Longrightarrow> creachable V I G w"
| request: "creachable V I G w \<Longrightarrow> creachable V I G (cfinish (cserve V I G c q w))"
| elsewhere: "creachable V I G w \<Longrightarrow> creachable V I G (w\<lparr>cw_f := f\<rparr>)"

lemma kept_returned: "steady (on_tables cop_ok) m \<Longrightarrow> on_tables cop_ok w \<Longrightarrow> on_tables cop_ok (snd (returned m w))"
  by (fastforce simp: returned_def spec_def split: prod.split sum.split)

lemma kept_drained: "kept g \<Longrightarrow> on_tables cop_ok w \<Longrightarrow> on_tables cop_ok (snd (drained g w))"
  by (simp add: drained_def kept_def case_prod_beta)

lemma described_ok [spec_rules]: "steady P m \<Longrightarrow> steady P (described f m)"
  unfolding described_def by (intro spec_rules)

lemma operations_ok:
  "steady (on_tables cop_ok) (cop_create_session V c mode cx)" "steady (on_tables cop_ok) (cop_update_context V c sid cx)"
  "steady (on_tables cop_ok) (cop_delete_session V c sid)" "steady (on_tables cop_ok) (register_model E c api nm prov conn params dflt)"
  "steady (on_tables cop_ok) (update_model E c rid f)" "steady (on_tables cop_ok) (register_skill E c api nm descr prompt tools)"
  "steady (on_tables cop_ok) (update_skill E c rid f')" "steady (on_tables cop_ok) (set_skill_enabled E c rid on)"
  "steady (on_tables cop_ok) (connect_mcp E c api nm descr transport auth)"
  "steady (on_tables cop_ok) (update_mcp E c rid (requested x))"
  "steady (on_tables cop_ok) (create_sub_agent E c api nm descr model prompt' tools safety on)"
  "steady (on_tables cop_ok) (update_sub_agent E c rid f'')"
  unfolding cop_create_session_def cop_update_context_def cop_delete_session_def register_model_def update_model_def
    register_skill_def update_skill_def set_skill_enabled_def skill_set_enabled_def connect_mcp_def create_sub_agent_def
    update_sub_agent_def update_mcp_def
  by (rule described_ok, rule models_ok skills_ok mcps_ok agents_ok sessions_ok | rule sessions_ok
      | simp add: states_ok_def requested_def)+

lemma serve_keeps:
  assumes "on_tables cop_ok w"
  shows "on_tables cop_ok (snd (cserve V I G c q w))"
proof -
  note steady_request = kept_returned [OF _ assms] and stream = kept_drained [OF _ assms]
  show ?thesis
    by (cases q; simp only: cserve.simps)
       (rule steady_request, rule operations_ok models_ok skills_ok mcps_ok agents_ok tables_discover tables_test
        | rule stream, rule kept_send_message kept_resume)+
qed

lemma finish_keeps: "on_tables cop_ok (snd p) \<Longrightarrow> on_tables cop_ok (cfinish p) \<and> cw_tx (cfinish p) = cw_db (cfinish p)"
  by (cases p) (simp add: cfinish_def ccommit_def crollback_def on_tables_def)

lemma creachable_ok: "creachable V I G w \<Longrightarrow> on_tables cop_ok w \<and> cw_tx w = cw_db w"
proof (induction rule: creachable.induct)
  case (start w)
  then show ?case by (simp add: on_tables_def cop_ok_def empty_copdb_def ids_ok_def table_defs one_default_def)
next
  case (request w c q)
  then show ?case using finish_keeps [OF serve_keeps] by blast
qed (simp add: on_tables_def)

lemma one_default_length:
  assumes "one_default ms" and "distinct (map md_rid ms)"
  shows "length (filter (\<lambda>m. md_tenant m = t \<and> md_default m) ms) \<le> 1"
proof -
  let ?l = "filter (\<lambda>m. md_tenant m = t \<and> md_default m) ms"
  have "length ?l = card (set (map md_rid ?l))"
    by (simp only: distinct_card [OF distinct_map_filter [OF assms(2)]] length_map)
  moreover have "\<forall>x \<in> set (map md_rid ?l). \<forall>y \<in> set (map md_rid ?l). x = y"
  proof (intro ballI)
    fix x y
    assume "x \<in> set (map md_rid ?l)" "y \<in> set (map md_rid ?l)"
    then obtain m m' where m: "m \<in> set ?l" "x = md_rid m" and m': "m' \<in> set ?l" "y = md_rid m'" by auto
    have "m \<in> set ms" "m' \<in> set ms" "md_default m" "md_default m'" "md_tenant m = md_tenant m'" using m(1) m'(1) by simp_all
    then show "x = y" unfolding m(2) m'(2) by (rule one_defaultD [OF assms(1)])
  qed
  ultimately show ?thesis by (simp only: card_le_Suc0_iff_eq [OF finite_set] One_nat_def)
qed

text \<open>Two models registered as the default, one after the other.\<close>

definition model_request :: "string \<Rightarrow> cop_request" where
  "model_request api = New_model api ''m'' ''openai'' (PDict []) (PDict []) True"

definition counting_cenv :: "nat cenv" where
  "counting_cenv = \<lparr>cv_f = counting_env, cv_naive = Inr\<rparr>"

definition no_servers :: "nat mcp_io" where
  "no_servers = \<lparr>mi_spawn = (\<lambda>_ _ x. (Timed_out, x)), mi_post = (\<lambda>_ x. (Mcp_timeout, x))\<rparr>"

definition two_models :: "nat cworld" where
  "two_models =
     (let serve = \<lambda>q w. cfinish (cserve counting_cenv no_servers eager_agent chat_ctx q w)
      in serve (model_request ''b'') (serve (model_request ''a'') (chat_world\<lparr>cw_db := empty_copdb, cw_tx := empty_copdb\<rparr>)))"

text \<open>
C38. At rest in every reachable state of the copilot's tables nothing is uncommitted, identifiers are
unique, every tenant has at most one default model, a tool server is in one of its three states, and a
session is active or deleted.
\<close>

theorem copilot_tables_consistent:
  assumes "creachable V I G w"
  shows "cw_tx w = cw_db w \<and>
    distinct (map cs_id (cd_sessions (cw_db w))) \<and> distinct (map md_rid (cd_models (cw_db w))) \<and>
    distinct (map sk_rid (cd_skills (cw_db w))) \<and> distinct (map mc_rid (cd_mcps (cw_db w))) \<and>
    distinct (map ag_rid (cd_agents (cw_db w))) \<and>
    (\<forall>t. length (filter (\<lambda>m. md_tenant m = t \<and> md_default m) (cd_models (cw_db w))) \<le> 1) \<and>
    list_all (\<lambda>m. mc_status m \<in> {''disconnected'', ''connected'', ''error''}) (cd_mcps (cw_db w)) \<and>
    list_all (\<lambda>s. cs_status s \<in> {''active'', ''deleted''}) (cd_sessions (cw_db w))"
proof -
  have "cop_ok (cw_db w)" "cw_tx w = cw_db w" using creachable_ok [OF assms] by (simp_all add: on_tables_def)
  then show ?thesis using one_default_length [OF ids_parts(5)]
    by (simp add: cop_ok_def ids_ok_def table_defs MCP_STATES_def list_all_iff)
qed

lemma two_models_rows: "map md_default (cd_models (cw_db two_models)) = [False, True]"
  by code_simp

theorem copilot_tables_consistent_witness:
  "length (filter (\<lambda>m. md_tenant m = ''t'' \<and> md_default m) (cd_models (cw_db two_models))) \<le> 1 \<and>
   map md_default (cd_models (cw_db two_models)) = [False, True]"
proof -
  have "creachable counting_cenv no_servers eager_agent two_models"
    unfolding two_models_def Let_def by (intro creachable.request creachable.start) simp_all
  then show ?thesis using copilot_tables_consistent two_models_rows by blast
qed

end
