(* ===== verification/Copilot_Outcomes.thy ===== *)
theory Copilot_Outcomes
  imports Copilot_Machine
begin

section \<open>What a message and a discovery leave\<close>

text \<open>
  The shape of the stream of events that answers a message, and the row of a tool server after the
  discovery of its tools.
\<close>

subsection \<open>Numbers of events\<close>

definition at_event :: "nat \<Rightarrow> 'x cworld \<Rightarrow> bool" where
  "at_event n w \<longleftrightarrow> cw_events w = n"

lemma event_on_c [spec_rules]: "steady (at_event n) (on_c m)"
  by (auto simp: spec_def on_c_def at_event_def split: prod.split sum.split)

lemma event_csql [spec_rules]: "steady (at_event n) (csql E f)"
  unfolding csql_def
  by (rule stable_bindC [OF event_on_c]) (auto simp: spec_def at_event_def split: prod.split sum.split)

lemma event_commit [spec_rules]: "steady (at_event n) ccommit"
  by (simp add: spec_def ccommit_def at_event_def)

lemma event_sessions:
  "steady (at_event n) (sm_get_session V c sid)" "steady (at_event n) (sm_update_title V c sid title)"
  "steady (at_event n) (sm_update_context V c sid cx)" "steady (at_event n) (sm_touch V c sid)"
  unfolding sm_get_session_def sm_update_title_def sm_update_context_def sm_touch_def stamp_def
    session_update_fields_def session_get_by_id_def
  by (intro spec_rules)+

lemma event_process: "steady (at_event n) (process_message E G c cx m)"
proof -
  have "steady (at_event n) (get_subagent_tools E c)"
    unfolding get_subagent_tools_def agent_query_def query_rows_of_def by (intro spec_rules)
  then have "steady (at_event n) (load_subagents E c)"
    unfolding load_subagents_def by (rule tables_catchC) (auto intro: stable_pure split: exn.split)
  then show ?thesis unfolding process_message_def Let_def by (intro spec_rules)
qed

lemma event_same: "(\<And>n. steady (at_event n) m) \<Longrightarrow> m w = (r, w') \<Longrightarrow> cw_events w' = cw_events w"
  using stable_snd [of "at_event (cw_events w)" m w] by (simp add: at_event_def)

subsection \<open>Streams\<close>

definition chain :: "nat \<Rightarrow> a2ui_event list \<Rightarrow> nat \<Rightarrow> bool" where
  "chain n out k \<longleftrightarrow> k = n + length out \<and> map ev_id out = map Some [Suc n ..< Suc k]"

definition closing :: "a2ui_event \<Rightarrow> bool" where
  "closing e \<longleftrightarrow> ev_type e = ''done'' \<or> ev_type e = ''interrupt''"

definition closed_stream :: "a2ui_event list \<Rightarrow> bool" where
  "closed_stream out \<longleftrightarrow> out \<noteq> [] \<and> closing (last out) \<and> list_all (\<lambda>e. \<not> closing e) (butlast out)"

lemma numbered_shape: "length (numbered n es) = length es \<and> map ev_type (numbered n es) = map fst es \<and>
    map ev_id (numbered n es) = map Some [Suc n ..< Suc (n + length es)]"
  by (induction es arbitrary: n) (simp_all add: rendered_def upt_conv_Cons del: upt_Suc)

lemma chain_emit: "emit es w = (out, w') \<Longrightarrow> chain (cw_events w) out (cw_events w')"
  using numbered_shape [of "cw_events w" es] by (auto simp: emit_def chain_def simp del: upt_Suc)

lemma chain_append: "chain n a k \<Longrightarrow> chain k b j \<Longrightarrow> chain n (a @ b) j"
  unfolding chain_def using upt_add_eq_append [of "Suc n" "Suc n + length a" "length b"] by (auto simp del: upt_Suc)

lemma emit_types: "emit es w = (out, w') \<Longrightarrow> map ev_type out = map fst es"
  using numbered_shape [of "cw_events w" es] by (auto simp: emit_def)

lemma emit_open: "emit es w = (out, w') \<Longrightarrow> list_all (\<lambda>e. fst e \<noteq> ''done'' \<and> fst e \<noteq> ''interrupt'') es \<Longrightarrow> list_all (\<lambda>e. \<not> closing e) out"
proof -
  assume e: "emit es w = (out, w')" and "list_all (\<lambda>e. fst e \<noteq> ''done'' \<and> fst e \<noteq> ''interrupt'') es"
  then have "list_all (\<lambda>t. t \<noteq> ''done'' \<and> t \<noteq> ''interrupt'') (map ev_type out)"
    using emit_types [OF e] by (simp add: list.pred_map comp_def)
  then show ?thesis by (simp add: list.pred_map comp_def closing_def)
qed

lemma shown_open: "list_all (\<lambda>e. fst e \<noteq> ''done'' \<and> fst e \<noteq> ''interrupt'') (concat (map shown es))"
  by (induction es) (auto simp: shown_def Let_def)

lemma close_stream:
  assumes "list_all (\<lambda>e. \<not> closing e) out" and "emit (es @ [e]) w = (final, w')" and "closing (rendered e 0)"
    and "list_all (\<lambda>e. fst e \<noteq> ''done'' \<and> fst e \<noteq> ''interrupt'') es"
  shows "closed_stream (out @ final)"
proof -
  have "map ev_type final = map fst es @ [fst e]" using emit_types [OF assms(2)] by simp
  then obtain front l where f: "final = front @ [l]" "map ev_type front = map fst es" "ev_type l = fst e"
    by (auto simp: map_eq_append_conv)
  have "list_all (\<lambda>t. t \<noteq> ''done'' \<and> t \<noteq> ''interrupt'') (map ev_type front)"
    unfolding f(2) using assms(4) by (simp add: list.pred_map comp_def)
  then have "list_all (\<lambda>e. \<not> closing e) front" by (simp only: list.pred_map comp_def closing_def de_Morgan_disj)
  moreover have "closing l" using assms(3) f(3) by (simp add: closing_def rendered_def)
  ultimately show ?thesis using assms(1) f(1) by (simp add: closed_stream_def butlast_append)
qed

lemma render_shape:
  assumes "render_events V c s events w = ((out, z), w')"
  shows "chain (cw_events w) out (cw_events w') \<and>
    (if z = Interrupted then closed_stream out else list_all (\<lambda>e. \<not> closing e) out)"
proof -
  let ?before = "takeWhile (\<lambda>e. \<not> is_interrupt e) events"
  obtain out1 w1 where e1: "emit (concat (map shown ?before)) w = (out1, w1)" by fastforce
  note c1 = chain_emit [OF e1] and o1 = emit_open [OF e1 shown_open]
  show ?thesis
  proof (cases "dropWhile (\<lambda>e. \<not> is_interrupt e) events")
    case Nil
    then show ?thesis using assms c1 o1 unfolding render_events_def Let_def e1 prod.case Nil list.case by auto
  next
    case (Cons e es)
    let ?conf = "dget_or e ''confirmation'' (PDict [])"
    obtain r w2 where u: "sm_update_context V c (cs_id s) (dput pending_key ?conf (cs_context s)) w1 = (r, w2)" by fastforce
    note w2 = event_same [OF event_sessions(3) u]
    show ?thesis
    proof (cases r)
      case (Inl x)
      then show ?thesis using assms c1 o1 w2 unfolding render_events_def Let_def e1 prod.case Cons list.case u by auto
    next
      case (Inr y)
      obtain final w3 where e3: "emit [interrupt_event ?conf] w2 = (final, w3)" by fastforce
      have "closed_stream (out1 @ final)"
        using close_stream [OF o1, of "[]" "interrupt_event ?conf" w2 final w3] e3
        by (simp add: closing_def rendered_def interrupt_event_def)
      moreover have "chain (cw_events w) (out1 @ final) (cw_events w3)"
        using chain_append [OF c1] chain_emit [OF e3] w2 by simp
      ultimately show ?thesis
        using assms unfolding render_events_def Let_def e1 prod.case Cons list.case u Inr sum.case e3 by auto
    qed
  qed
qed

lemma failed_shape:
  assumes "list_all (\<lambda>e. \<not> closing e) out" and "chain n out (cw_events w)"
    and "emit [error_event m, done_event] w = (final, w')"
  shows "chain n (out @ final) (cw_events w') \<and> closed_stream (out @ final)"
proof -
  have "closed_stream (out @ final)"
    using close_stream [OF assms(1), of "[error_event m]" done_event w final w'] assms(3)
    by (simp add: closing_def rendered_def error_event_def done_event_def)
  then show ?thesis using chain_append [OF assms(2) chain_emit [OF assms(3)]] by simp
qed

lemma answer_shape:
  assumes "answer V G c s content w = ((out, b), w')"
  shows "chain (cw_events w) out (cw_events w') \<and> closed_stream out"
proof -
  obtain r w1 where p: "process_message (cv_f V) G c (build_context (cs_mode s) (cs_context s)) content w = (r, w1)" by fastforce
  note w1 = event_same [OF event_process p]
  show ?thesis
  proof (cases r)
    case (Inl e)
    obtain final w2 where f: "emit [error_event (exn_str e), done_event] w1 = (final, w2)" by fastforce
    show ?thesis using failed_shape [of "[]", OF _ _ f] assms p f w1 Inl by (auto simp: answer_def chain_def)
  next
    case (Inr events)
    obtain out1 z w2 where r: "render_events V c s events w1 = ((out1, z), w2)" by (cases "render_events V c s events w1") auto
    note shape = render_shape [OF r]
    show ?thesis
    proof (cases z)
      case Completed
      obtain final w3 where f: "emit [done_event] w2 = (final, w3)" by fastforce
      have "closed_stream (out1 @ final)"
        using close_stream [of out1 "[]" done_event w2 final w3] f shape Completed
        by (simp add: closing_def rendered_def done_event_def)
      then show ?thesis using chain_append [of _ out1 _ final] chain_emit [OF f] shape assms p r f w1 Inr Completed
        by (auto simp: answer_def)
    next
      case Interrupted
      then show ?thesis using shape assms p r w1 Inr by (auto simp: answer_def)
    next
      case (Failed e)
      obtain final w3 where f: "emit [error_event (exn_str e), done_event] w2 = (final, w3)" by fastforce
      show ?thesis using failed_shape [OF _ _ f] shape assms p r f w1 Inr Failed by (auto simp: answer_def)
    qed
  qed
qed

text \<open>
C39. The stream that answers a message is either empty, because the session was not found, or its
events carry consecutive numbers and exactly one of them, the last, closes it: the end of the answer
or a question for confirmation. So it is after errors of the model, of a tool and of the tables too.
\<close>

theorem message_stream:
  "case send_message V G c sid content w of ((out, err), w') \<Rightarrow>
     cw_events w' = cw_events w + length out \<and>
     map ev_id out = map Some [Suc (cw_events w) ..< Suc (cw_events w')] \<and>
     (if out = [] then err \<noteq> None
      else ev_type (last out) \<in> {''done'', ''interrupt''} \<and>
        list_all (\<lambda>e. ev_type e \<notin> {''done'', ''interrupt''}) (butlast out))"
proof -
  let ?start = "bindC (sm_get_session V c sid) (\<lambda>s.
      bindC (if no_title s then sm_update_title V c sid (message_title content) else retC ()) (\<lambda>_. retC s))"
  obtain r w1 where s: "?start w = (r, w1)" by fastforce
  have "steady (at_event n) ?start" for n by (intro spec_rules event_sessions)
  then have w1: "cw_events w1 = cw_events w" using event_same [of ?start w r w1] s by blast
  obtain out err w' where m: "send_message V G c sid content w = ((out, err), w')"
    by (cases "send_message V G c sid content w") auto
  show ?thesis
  proof (cases r)
    case (Inl e)
    then show ?thesis using m s w1 by (auto simp: send_message_def)
  next
    case (Inr sess)
    obtain out1 b w2 where a: "answer V G c sess content w1 = ((out1, b), w2)" by (cases "answer V G c sess content w1") auto
    obtain rt wt where t: "sm_touch V c sid w2 = (rt, wt)" by fastforce
    have "out = out1 \<and> cw_events w' = cw_events w2"
      using m s a Inr t event_same [OF event_sessions(4) t]
      by (cases b; cases rt) (auto simp: send_message_def touched_def)
    then show ?thesis using answer_shape [OF a] w1 m
      by (simp add: chain_def closed_stream_def closing_def del: upt_Suc)
  qed
qed

subsection \<open>Discovery\<close>

lemma csql_run:
  obtains now g where "csql E f w = (fst (f now (cw_tx w)), w\<lparr>cw_f := g, cw_tx := snd (f now (cw_tx w))\<rparr>)"
proof -
  obtain now x where "sql E (\<lambda>now d. (Inr now, d)) (cw_f w) = (Inr now, x :: 'a fworld)"
    by (rule sql_run [of E "\<lambda>now d. (Inr now, d)" "cw_f w"]) simp
  then have "csql E f w = (fst (f now (cw_tx w)), w\<lparr>cw_f := x, cw_tx := snd (f now (cw_tx w))\<rparr>)"
    by (simp add: csql_def bindC_run on_c_def case_prod_beta)
  then show thesis by (rule that)
qed

text \<open>The row a request is about.\<close>

definition server_row :: "ctx \<Rightarrow> string \<Rightarrow> mcp_row \<Rightarrow> copdb \<Rightarrow> bool" where
  "server_row c rid m d \<longleftrightarrow>
     m \<in> set (cd_mcps d) \<and> mc_rid m = rid \<and> get_tenant_id c = Inr (mc_tenant m) \<and> distinct (map mc_rid (cd_mcps d))"

lemma server_find: "server_row c rid m d \<Longrightarrow> tb_find mcps_table rid (mc_tenant m) d = Inr (Some m)"
  using mcps.find_unique [of d m] by (auto simp: server_row_def ids_ok_def table_defs)

lemma server_get:
  assumes "server_row c rid m (cw_tx w)"
  obtains g where "mcp_get E c rid w = (Inr m, w\<lparr>cw_f := g\<rparr>)"
proof -
  obtain now g where "csql E (\<lambda>now d. (tb_find mcps_table rid (mc_tenant m) d, d)) w = (Inr (Some m), w\<lparr>cw_f := g\<rparr>)"
    by (rule csql_run [of E "\<lambda>now d. (tb_find mcps_table rid (mc_tenant m) d, d)" w]) (use server_find [OF assms] in simp)
  then show thesis
    using assms that by (simp add: mcp_get_def get_row_of_def bindC_run server_row_def)
qed

text \<open>The table after an update, which writes this row only.\<close>

lemma server_update:
  assumes "server_row c rid m (cw_tx w)"
  obtains now w' where "mcp_update E c rid f w = (Inr (mcp_assign f now m), w')"
    and "cd_mcps (cw_db w') = map (\<lambda>q. if q = m then mcp_assign f now m else q) (cd_mcps (cw_tx w))"
proof -
  let ?P = "is_row mcps_table rid (mc_tenant m)"
  obtain now g where run: "csql E (\<lambda>now d. (Inr (), tb_change mcps_table ?P (mcp_assign f now) (unprepared now (mc_tenant m) d))) w =
      (Inr (), w\<lparr>cw_f := g, cw_tx := tb_change mcps_table ?P (mcp_assign f now) (cw_tx w)\<rparr>)"
    by (rule csql_run [of E "\<lambda>now d. (Inr (), tb_change mcps_table ?P (mcp_assign f now) (unprepared now (mc_tenant m) d))" w])
       (simp add: unprepared_def)
  let ?d = "tb_change mcps_table ?P (mcp_assign f now) (cw_tx w)"
  let ?w = "snd (ccommit (w\<lparr>cw_f := g, cw_tx := ?d\<rparr>))"
  have same: "?P q \<longleftrightarrow> q = m" if "q \<in> set (cd_mcps (cw_tx w))" for q
    using assms that by (auto simp: server_row_def is_row_def table_defs distinct_map inj_on_def)
  have rows: "cd_mcps ?d = map (\<lambda>q. if q = m then mcp_assign f now m else q) (cd_mcps (cw_tx w))"
    using same by (simp add: tb_change_def)
  have keys: "mc_rid (mcp_assign f now q) = mc_rid q" "mc_tenant (mcp_assign f now q) = mc_tenant q" for q
    by (simp_all add: mcp_assign_def)
  have "map mc_rid (cd_mcps ?d) = map mc_rid (cd_mcps (cw_tx w))"
    unfolding rows map_map by (rule map_cong) (simp_all add: keys)
  moreover have "mcp_assign f now m \<in> set (cd_mcps ?d)"
    using assms unfolding rows server_row_def by force
  ultimately have "server_row c rid (mcp_assign f now m) ?d"
    using assms by (simp add: server_row_def keys)
  then have "server_row c rid (mcp_assign f now m) (cw_tx ?w)" by (simp add: ccommit_def)
  then obtain g' where "mcp_get E c rid ?w = (Inr (mcp_assign f now m), ?w\<lparr>cw_f := g'\<rparr>)" by (rule server_get)
  then have u: "mcp_update E c rid f w = (Inr (mcp_assign f now m), ?w\<lparr>cw_f := g'\<rparr>)"
    using assms run by (simp add: mcp_update_def update_row_of_def mcp_get_def bindC_run server_row_def ccommit_def)
  have "cd_mcps (cw_db (?w\<lparr>cw_f := g'\<rparr>)) = cd_mcps ?d" by (simp add: ccommit_def)
  then show thesis by (intro that [OF u]) (simp only: rows)
qed

lemma ask_keeps: "ask_server I m rpc timeout w = (r, w') \<Longrightarrow> cw_tx w' = cw_tx w"
  by (auto simp: ask_server_def on_c_def bindC_def split: prod.splits sum.splits)

lemma discovery_error_app: "\<exists>code msg ds. discovery_error rid e = AppError code msg ds"
  by (cases e) (simp_all add: discovery_error_def)

text \<open>
C40. The discovery of the tools of a server commits its outcome whatever the server does: with an
answer the row is connected and holds the tools that are returned, with a failure it is in error,
keeps the tools it had, and the exception is one of the application's own. No other row changes.
\<close>

theorem discovery_recorded:
  assumes "discover_tools E I c rid w = (r, w')"
    and "m \<in> set (cd_mcps (cw_tx w))" and "mc_rid m = rid" and "get_tenant_id c = Inr (mc_tenant m)"
    and "distinct (map mc_rid (cd_mcps (cw_tx w)))"
  shows "\<exists>now. cd_mcps (cw_db w') =
      map (\<lambda>q. if q = m
        then (case r of
            Inr tools \<Rightarrow> m\<lparr>mc_tools := tools, mc_status := ''connected'', mc_updated := now\<rparr>
          | Inl _ \<Rightarrow> m\<lparr>mc_status := ''error'', mc_updated := now\<rparr>)
        else q) (cd_mcps (cw_tx w)) \<and>
    (case r of Inr _ \<Rightarrow> True | Inl e \<Rightarrow> \<exists>code msg ds. e = AppError code msg ds)"
proof -
  have row: "server_row c rid m (cw_tx w)" using assms(2-5) by (simp add: server_row_def)
  obtain g where get: "mcp_get E c rid w = (Inr m, w\<lparr>cw_f := g\<rparr>)" by (rule server_get [OF row])
  obtain ra wa where ask: "ask_server I m ''tools/list'' DISCOVER_TIMEOUT (w\<lparr>cw_f := g\<rparr>) = (ra, wa)" by fastforce
  have tx: "cw_tx wa = cw_tx w" using ask_keeps [OF ask] by simp
  then have rowa: "server_row c rid m (cw_tx wa)" using row by simp
  have failed: ?thesis if "r = Inl (discovery_error rid e)"
      "w' = snd (mcp_update E c rid (no_mcp_fields\<lparr>xf_status := Some ''error''\<rparr>) wa)" for e
  proof -
    obtain now w1 where "mcp_update E c rid (no_mcp_fields\<lparr>xf_status := Some ''error''\<rparr>) wa =
          (Inr (mcp_assign (no_mcp_fields\<lparr>xf_status := Some ''error''\<rparr>) now m), w1)"
        and "cd_mcps (cw_db w1) = map (\<lambda>q. if q = m then mcp_assign (no_mcp_fields\<lparr>xf_status := Some ''error''\<rparr>) now m else q) (cd_mcps (cw_tx wa))"
      by (rule server_update [OF rowa])
    then show ?thesis using that discovery_error_app [of rid e] tx
      by (intro exI [of _ now]) (simp add: mcp_assign_def no_mcp_fields_def set_if_def or_else_def)
  qed
  show ?thesis
  proof (cases "bindE ra as_dict")
    case (Inl e)
    then show ?thesis
      using assms(1) get ask
      by (intro failed [of e]) (auto simp: discover_tools_def bindC_run catchC_def bindE_def Let_def split: sum.splits)
  next
    case (Inr d)
    let ?tools = "as_tools (dget_or d ''tools'' (PList []))"
    let ?f = "no_mcp_fields\<lparr>xf_tools := Some ?tools, xf_status := Some ''connected''\<rparr>"
    obtain now w1 where "mcp_update E c rid ?f wa = (Inr (mcp_assign ?f now m), w1)"
        and "cd_mcps (cw_db w1) = map (\<lambda>q. if q = m then mcp_assign ?f now m else q) (cd_mcps (cw_tx wa))"
      by (rule server_update [OF rowa])
    moreover from this(1) have "r = Inr ?tools" "w' = w1"
      using assms(1) get ask Inr by (auto simp: discover_tools_def bindC_run catchC_def bindE_def Let_def split: sum.splits)
    ultimately show ?thesis using tx
      by (intro exI [of _ now]) (simp add: mcp_assign_def no_mcp_fields_def set_if_def or_else_def)
  qed
qed

text \<open>A server that cannot be reached.\<close>

definition silent_server :: mcp_row where
  "silent_server = \<lparr>mc_rid = ''r'', mc_tenant = ''t'', mc_api_name = ''s'', mc_name = ''S'', mc_descr = None,
     mc_transport = [(''type'', PStr ''http''), (''url'', PStr ''http://s'')], mc_auth = None, mc_tools = PList [PDict []],
     mc_status = ''connected'', mc_enabled = True, mc_created = 0, mc_updated = 0\<rparr>"

definition silent_world :: "nat cworld" where
  "silent_world = chat_world\<lparr>cw_tx := empty_copdb\<lparr>cd_mcps := [silent_server]\<rparr>\<rparr>"

theorem discovery_recorded_witness:
  "\<exists>now. cd_mcps (cw_db (snd (discover_tools counting_env no_servers chat_ctx ''r'' silent_world))) =
     [silent_server\<lparr>mc_status := ''error'', mc_updated := now\<rparr>]"
proof -
  obtain r w' where run: "discover_tools counting_env no_servers chat_ctx ''r'' silent_world = (r, w')" by fastforce
  have "case fst (discover_tools counting_env no_servers chat_ctx ''r'' silent_world) of Inl _ \<Rightarrow> True | Inr _ \<Rightarrow> False"
    by code_simp
  then obtain e where "r = Inl e" using run by (auto split: sum.splits)
  moreover have "cd_mcps (cw_tx silent_world) = [silent_server]" "mc_rid silent_server = ''r''"
      "get_tenant_id chat_ctx = Inr (mc_tenant silent_server)"
    by (simp_all add: silent_world_def silent_server_def chat_ctx_def get_tenant_id_def)
  ultimately show ?thesis using discovery_recorded [OF run, of silent_server] run by auto
qed

end
