(* ===== verification/Spec2Isabelle.thy ===== *)
theory Spec2Isabelle
  imports Lingshu_Prelude Py_Json Infra Redis_Store Ontology_Locks Graph_Publish Ontology_Validators Snapshot_Repo Ontology_Publish Ontology_Reach Ontology_Session Setting_Access Workflow_Run Function_Safety Data_Safety Copilot_Outcomes
begin

text \<open>
  A verification of the backend of Lingshu (\<open>src/backend/src/lingshu\<close>, Python). The backend is a set
  of packages that share a layer of infrastructure (\<open>infra/\<close>): \<open>ontology/\<close> keeps versioned type
  definitions in Neo4j, with snapshots in PostgreSQL and edit locks in Redis; \<open>setting/\<close> keeps users,
  tenants, memberships and roles, signs users in and asks a Casbin enforcer for permissions;
  \<open>function/\<close> executes actions, global functions and workflows, asks for confirmation of unsafe ones and
  writes changes back; \<open>data/\<close> queries the tables behind a type, masks columns and keeps the edit logs;
  \<open>copilot/\<close> answers messages with a language model that is offered the functions as tools.
  Names below \<open>src/\<close> are relative to that directory; definitions keep the names of the source, with a
  prefix where two packages share one.

  \<^bold>\<open>Conventions.\<close> Strings are lists of characters (code points below 256). Values of JSON are
  \<open>pyval\<close>, dicts are association lists in insertion order. An operation that may raise returns
  \<open>exn + 'a\<close>; one that also changes stores is a computation \<open>'w \<Rightarrow> (exn + 'a) \<times> 'w\<close> whose state stays
  changed when it raises, as the stores of the program do, except for what a session rolls back
  (\<open>end_session\<close>). Time is an integer of microseconds or seconds read from a clock that is an argument;
  clocks, UUIDs and everything outside \<open>src/\<close> are arguments collected in records (\<open>env\<close>, \<open>senv\<close>,
  \<open>fenv\<close>, \<open>denv\<close>, \<open>cenv\<close>).

  \<^bold>\<open>Shared layer.\<close> \<open>Lingshu_Prelude\<close>: dicts, results, computations, collections of simplification rules.
  \<open>Py_Json\<close>: values, equality of Python, \<open>json.dumps\<close> and \<open>json.loads\<close> with their round trip; the parser
  takes fuel, one unit per character and one more, which is enough for every text \<open>dumps\<close> writes, as the
  round trip proves. \<open>Py_Text\<close>: \<open>strip\<close>, \<open>split\<close>, \<open>str\<close>, literals. \<open>Infra\<close>: error codes and statuses, handlers,
  request context, resource identifiers, filters, pagination, database sessions. \<open>Redis_Store\<close>: the
  key-value server as the locale \<open>redis\<close>, leases as a step relation, and \<open>scan_delete\<close>, the loop over
  \<open>SCAN\<close>, as a partial function, since a server may hand out cursors forever.

  \<^bold>\<open>Ontology.\<close> \<open>Graph_Repo\<close> (\<open>ontology/repository/graph_repo.py\<close>: each Cypher text as an operation on a
  list of labelled nodes and relationships), \<open>Snapshot_Repo\<close>, \<open>Ontology_Validators\<close>
  (\<open>ontology/validators/\<close> and \<open>retry.py\<close>; the cycle check ends because it visits an interface once),
  \<open>Ontology_Locks\<close> (locks of the service and \<open>data/writeback/lock.py\<close>), \<open>Ontology_Entities\<close>,
  \<open>Ontology_Edit\<close>, \<open>Ontology_Publish\<close> (\<open>ontology/service.py\<close>). \<open>Graph_Publish\<close> shows that the three
  statements of a publication implement a one-pass specification and what a rollback undoes;
  \<open>Ontology_Commit\<close> that a publication survives faults and retries and that a commit frees its lock;
  \<open>Ontology_Moves\<close> states which changes of the graph a request may make, \<open>Ontology_Machine\<close> shows that
  every request makes such changes only, and \<open>Ontology_Reach\<close> and \<open>Ontology_Session\<close> draw the
  invariants and the guarantees editors have.

  \<^bold>\<open>Setting.\<close> \<open>Setting_Store\<close> (tables and repositories), \<open>Setting_Rbac\<close> (\<open>authz/enforcer.py\<close>; the
  engine is the locale \<open>casbin\<close>), \<open>Setting_Auth\<close> (passwords, tokens as the locale \<open>jwt\<close>, middleware),
  \<open>Setting_Service\<close> (every operation of \<open>setting/service.py\<close>, provisioning, seeding). \<open>Setting_Session\<close>
  follows tokens from login to logout; \<open>Setting_Access\<close> runs the requests as a state machine and shows
  which tables they can bring about and what permissions result.

  \<^bold>\<open>Function.\<close> \<open>Workflow_Engine\<close> (\<open>workflows/engine.py\<close>), \<open>Workflow_Layers\<close> (Kahn's algorithm gives the
  one layering, by an invariant of the loop), \<open>Workflow_Run\<close> (execution and conditions);
  \<open>Function_Engines\<close> and \<open>Function_External\<close> (loader, parameters, safety, the engines for data, SQL,
  webhooks and Python), \<open>Function_Store\<close> (tables and the session with its commits),
  \<open>Function_Workflows\<close>, \<open>Function_Actions\<close>, \<open>Function_Catalog\<close> (\<open>function/service.py\<close> and what it
  calls). \<open>Function_Frames\<close> is a small program logic for these computations, \<open>Function_Lifecycle\<close> the
  machine of requests and background tasks, \<open>Function_Safety\<close> the life of executions, confirmations and
  their window of ten minutes.

  \<^bold>\<open>Data.\<close> \<open>Data_Pipeline\<close> (masking, virtual fields, schemas, translation of names), \<open>Data_Connector\<close>
  (the SQL of \<open>connectors/postgresql.py\<close>), \<open>Data_Branches\<close> (\<open>branch/nessie_client.py\<close>), \<open>Data_Writeback\<close>
  (the two stores of edit logs as providers of the locale \<open>edit_log\<close>, and their replay), \<open>Data_Service\<close>
  (\<open>data/service.py\<close> with its cache of schemas, kept five minutes, and its connectors). \<open>Data_Safety\<close>
  shows what masking hides, that values never enter the text of a statement, and that the two stores
  give the same current rows.

  \<^bold>\<open>Copilot.\<close> \<open>Copilot_Store\<close> (the tables and \<open>sessions/\<close>, on the world of the function package),
  \<open>Copilot_Managers\<close> (\<open>infra/models.py\<close>, \<open>skills.py\<close>, \<open>mcp.py\<close>, \<open>subagents.py\<close>, whose common statements are
  written once), \<open>Copilot_Mcp\<close> (requests to tool servers), \<open>Copilot_Agent\<close> (\<open>agent/graph.py\<close> and
  \<open>tools.py\<close>: at most ten rounds between the model and its tools), \<open>Copilot_Providers\<close>
  (\<open>agent/providers.py\<close>, \<open>llm.py\<close>), \<open>Copilot_Service\<close> (\<open>service.py\<close> and the events of \<open>a2ui/\<close>).
  \<open>Copilot_Safety\<close> shows that the agent changes nothing, since the call of a tool leaves out the
  session, and that a turn is bounded; \<open>Copilot_Machine\<close> runs the requests as a state machine and shows
  what holds of the tables, with the locale \<open>tenant_table\<close> for what the managers share;
  \<open>Copilot_Outcomes\<close> describes the stream that answers a message and the discovery of tools.

  \<^bold>\<open>Parameters.\<close> Neo4j statements are modelled, with faults between them as an argument; Redis, Casbin and
  the coding of tokens are operations with the laws of their documentation as locales, interpreted by a
  table with expiry times, a list of policies and claims written as JSON. Password hashing, SHA-256,
  the HTTP client, processes of the operating system, \<open>asyncpg\<close>, the parser of Python expressions with
  the arithmetic of Python, the text of instants, the client libraries of the model vendors, and the
  texts of the system prompts are functions in the environment records; so is what the driver does with
  an instant that has a time zone where the column has none (\<open>cv_naive\<close>). A property that needs something
  of them says so in a hypothesis and has a witness.

  \<^bold>\<open>Not modelled.\<close> The routes (\<open>*/router.py\<close>), which forward to the services, except for their paging;
  start-up and configuration (\<open>main.py\<close>, \<open>config.py\<close>); in \<open>copilot/\<close> the checkpoints of LangGraph
  (\<open>checkpoint.py\<close>) and the builders of components (\<open>a2ui/components.py\<close>), which nothing calls; the connectors to Doris and Iceberg and the generators of configuration and
  DDL texts in \<open>data/pipeline\<close>, which no service calls; logging; the order in which concurrent requests
  interleave inside one operation, where the operation does not commit in between. The user interface
  and the deployment files are of other languages.
\<close>

end
